(* ===== verification/Prelude.thy ===== *)
theory Prelude
  imports Main "HOL-Library.Word"
begin

text \<open>
  Shared vocabulary of the development.

  \<^item> The machine integers of the Windows headers at their width (BYTE, WORD, DWORD, DWORD64,
    HANDLE), for the x86_64 build of the program.
  \<^item> Narrow strings are \<open>string\<close> (one \<open>char\<close> per byte); wide strings are lists of 16-bit code units.
    A C string is the list of its characters before the terminating NUL.
  \<^item> The C library routines every component uses: \<open>cstr\<close> (what a reader of a buffer sees up to the
    first NUL), \<open>strncpy\<close> (copy at most n characters and pad with NUL).
  \<^item> Collections: \<open>trace_simps\<close> for facts on traces of operating system calls.
\<close>

unbundle bit_operations_syntax

named_theorems trace_simps \<open>facts on traces of operating system calls\<close>

section \<open>Machine integers\<close>

type_synonym BYTE = "8 word"
type_synonym WORD = "16 word"
type_synonym DWORD = "32 word"
type_synonym DWORD64 = "64 word"
type_synonym HANDLE = "64 word"
type_synonym SIZE_T = "64 word"
type_synonym wchar = "16 word"
type_synonym wstr = "16 word list"

abbreviation NULL :: HANDLE where
  "NULL \<equiv> 0"

abbreviation INVALID_HANDLE_VALUE :: HANDLE where
  "INVALID_HANDLE_VALUE \<equiv> - 1"

abbreviation MAX_PATH :: nat where
  "MAX_PATH \<equiv> 260"

text \<open>Options of DbgHelp, shared by mgwhelp and its callers.\<close>

abbreviation SYMOPT_UNDNAME :: DWORD where "SYMOPT_UNDNAME \<equiv> 0x2"
abbreviation SYMOPT_DEFERRED_LOADS :: DWORD where "SYMOPT_DEFERRED_LOADS \<equiv> 0x4"
abbreviation UNDNAME_NAME_ONLY :: DWORD where "UNDNAME_NAME_ONLY \<equiv> 0x1000"

definition flag_set :: "'a::len word \<Rightarrow> 'a word \<Rightarrow> bool" where
  "flag_set w m \<longleftrightarrow> w AND m \<noteq> 0"

lemma unat_lt_max [simp]: "unat (w :: 'a::len word) < 2 ^ LENGTH('a)"
  by (rule unsigned_less)

lemma bit_DWORD_power: "k = 2 ^ m \<Longrightarrow> m < 32 \<Longrightarrow> bit (k :: DWORD) n \<longleftrightarrow> n = m"
  by (auto simp: bit_exp_iff)

lemma unat_minus_less:
  fixes a b :: "'a::len word"
  assumes "a < b"
  shows "2 ^ LENGTH('a) - unat b < 2 ^ LENGTH('a) - unat a"
  using assms unat_lt_max [of b] by (simp add: word_less_nat_alt diff_less_mono2)

lemma unat_ucast_up:
  fixes w :: "'a::len word"
  assumes "LENGTH('a) \<le> LENGTH('b::len)"
  shows "unat (ucast w :: 'b word) = unat w"
proof -
  have "unat w < 2 ^ LENGTH('b)"
    using unat_lt_max [of w] assms by (meson less_le_trans one_le_numeral power_increasing)
  then show ?thesis
    by (simp add: unsigned_ucast_eq take_bit_nat_eq_self_iff)
qed

lemma unat_down_up: "unat (ucast (ucast (w :: 64 word) :: 32 word) :: 64 word) = unat w mod 2 ^ 32"
  by (simp add: unat_ucast_up) (simp add: unsigned_ucast_eq take_bit_eq_mod)

lemma ucast_diff32: "(ucast (a - b :: 64 word) :: 32 word) = ucast a - ucast b"
  apply transfer
  subgoal for a b
    using take_bit_diff [of 32 "take_bit 64 a" "take_bit 64 b"] take_bit_diff [of 32 a b] by simp
  done

section \<open>Strings\<close>

text \<open>A narrow string as a wide one: byte by byte, as the conversions of the C locale do.\<close>

definition W :: "string \<Rightarrow> wstr" where
  "W s = map of_char s"

definition W_char :: "char \<Rightarrow> wchar" where
  "W_char c = of_char c"

lemma of_char_lt_256: "(of_char c :: nat) < 256"
  using range_nat_of_char by auto

lemma unat_of_char16: "unat (of_char c :: 16 word) = of_char c"
proof -
  have "(of_char c :: nat) < 2 ^ 16"
    using of_char_lt_256 by (rule less_trans) simp
  moreover have "(of_char c :: 16 word) = of_nat (of_char c)"
    by (simp only: of_nat_of_char)
  ultimately show ?thesis
    by (simp add: unat_of_nat)
qed

lemma of_char16_inject [simp]: "(of_char c :: 16 word) = of_char d \<longleftrightarrow> c = d"
proof
  assume "(of_char c :: 16 word) = of_char d"
  then have "(of_char c :: nat) = of_char d"
    by (metis unat_of_char16)
  then show "c = d"
    by (simp only: of_char_eq_iff)
qed simp

lemma W_char_inject [simp]: "W_char c = W_char d \<longleftrightarrow> c = d"
  by (simp add: W_char_def)

lemma W_Cons: "W (c # s) = W_char c # W s"
  by (simp add: W_def W_char_def)

lemma W_Nil [simp]: "W [] = []"
  by (simp add: W_def)

lemma W_append [simp]: "W (s @ t) = W s @ W t"
  by (simp add: W_def)

lemma length_W [simp]: "length (W s) = length s"
  by (simp add: W_def)

lemma W_inject [simp]: "W s = W t \<longleftrightarrow> s = t"
  by (simp add: W_def inj_map_eq_map inj_def)

lemma W_eq_Nil [simp]: "W s = [] \<longleftrightarrow> s = []"
  by (simp add: W_def)

section \<open>C strings and buffers\<close>

text \<open>
  \<open>cstr\<close> reads a buffer as the C library does: up to the first NUL. \<open>None\<close> means that the buffer
  holds no NUL, so that the reader runs past its end.
\<close>

fun cstr :: "'a::zero list \<Rightarrow> 'a list option" where
  "cstr [] = None"
| "cstr (c # cs) = (if c = 0 then Some [] else map_option (Cons c) (cstr cs))"

text \<open>\<open>strncpy\<close> and \<open>wcsncpy\<close>: the new contents of a destination of \<open>n\<close> characters.\<close>

definition strncpy :: "nat \<Rightarrow> 'a::zero list \<Rightarrow> 'a list" where
  "strncpy n s = take n s @ replicate (n - length s) 0"

lemma length_strncpy [simp]: "length (strncpy n s) = n"
  by (simp add: strncpy_def)

lemma cstr_append_NUL: "0 \<notin> set s \<Longrightarrow> cstr (s @ 0 # r) = Some s"
  by (induction s) auto

lemma cstr_None_iff: "cstr b = None \<longleftrightarrow> 0 \<notin> set b"
  by (induction b) auto

lemma cstr_Some_no_NUL: "cstr b = Some s \<Longrightarrow> 0 \<notin> set s"
  by (induction b arbitrary: s) (auto split: if_splits)

lemma cstr_Some_iff: "cstr b = Some s \<longleftrightarrow> 0 \<notin> set s \<and> (\<exists>r. b = s @ 0 # r)"
proof
  assume "cstr b = Some s"
  then show "0 \<notin> set s \<and> (\<exists>r. b = s @ 0 # r)"
  proof (induction b arbitrary: s)
    case (Cons c cs)
    then show ?case by (cases "c = 0") (auto simp: cstr_Some_no_NUL)
  qed simp
qed (auto intro: cstr_append_NUL)

lemma cstr_strncpy_fits:
  assumes "0 \<notin> set s" and "length s < n"
  shows "cstr (strncpy n s) = Some s"
proof -
  from assms(2) obtain k where "n - length s = Suc k"
    by (metis Suc_diff_Suc)
  with assms show ?thesis
    by (simp add: strncpy_def cstr_append_NUL)
qed

lemma cstr_strncpy_overrun:
  assumes "0 \<notin> set s" and "n \<le> length s"
  shows "cstr (strncpy n s) = None"
  using assms by (auto simp: strncpy_def cstr_None_iff dest: in_set_takeD)

text \<open>The two cases in one: the copy is a C string exactly when the source and its NUL fit.\<close>

lemma cstr_strncpy_iff:
  "0 \<notin> set s \<Longrightarrow> cstr (strncpy n s) = (if length s < n then Some s else None)"
  by (simp add: cstr_strncpy_fits cstr_strncpy_overrun)

section \<open>Faults\<close>

text \<open>
  What ends an operation abnormally: a read outside the mapped memory, or a failed \<open>assert\<close> of a
  build without NDEBUG. An operation that may fault returns a sum; \<open>bnd\<close> runs the next operation on
  the result of one that did not.
\<close>

datatype fault = AccessViolation | AssertionFailed

definition bnd :: "'e + 'a \<Rightarrow> ('a \<Rightarrow> 'e + 'b) \<Rightarrow> 'e + 'b" where
  "bnd m f = (case m of Inl e \<Rightarrow> Inl e | Inr a \<Rightarrow> f a)"

lemma bnd_Inl [simp]: "bnd (Inl e) f = Inl e"
  by (simp add: bnd_def)

lemma bnd_Inr [simp]: "bnd (Inr a) f = f a"
  by (simp add: bnd_def)

lemma bnd_eq_Inr: "bnd m f = Inr b \<longleftrightarrow> (\<exists>a. m = Inr a \<and> f a = Inr b)"
  by (cases m) simp_all

lemma bnd_eq_Inl: "bnd m f = Inl e \<longleftrightarrow> m = Inl e \<or> (\<exists>a. m = Inr a \<and> f a = Inl e)"
  by (cases m) simp_all

lemma bnd_assoc: "bnd m (\<lambda>a. bnd (f a) g) = bnd (bnd m f) g"
  by (cases m) simp_all

lemma bnd_cong [fundef_cong]:
  "m = m' \<Longrightarrow> (\<And>a. m' = Inr a \<Longrightarrow> f a = f' a) \<Longrightarrow> bnd m f = bnd m' f'"
  by (cases m) auto

text \<open>The same for operations that may also not return (\<open>None\<close>).\<close>

definition run :: "(fault + 'a) option \<Rightarrow> ('a \<Rightarrow> (fault + 'b) option) \<Rightarrow> (fault + 'b) option" where
  "run m f = (case m of None \<Rightarrow> None | Some (Inl e) \<Rightarrow> Some (Inl e) | Some (Inr a) \<Rightarrow> f a)"

abbreviation return :: "'a \<Rightarrow> (fault + 'a) option" where
  "return a \<equiv> Some (Inr a)"

lemma run_simps [simp]:
  "run None f = None"
  "run (Some (Inl e)) f = Some (Inl e)"
  "run (return a) f = f a"
  by (simp_all add: run_def)

lemma run_eq_return: "run m f = return b \<longleftrightarrow> (\<exists>a. m = return a \<and> f a = return b)"
  by (simp add: run_def split: option.split sum.split)

section \<open>Generic facts\<close>

lemma list_all_filter_id: "list_all P xs \<Longrightarrow> filter P xs = xs"
  by (induction xs) auto

end
