(* ===== verification/StdMap.thy ===== *)
theory StdMap
  imports Prelude
begin

text \<open>
  \<open>std::map\<close> as the program uses it (\<open>THREAD_INFO_LIST\<close> and \<open>PROCESS_INFO_LIST\<close> of
  common/debugger.cpp): an association list in strictly ascending key order, with \<open>find\<close>,
  \<open>operator[]\<close> (which inserts a value-initialised element for a missing key), \<open>erase\<close>, \<open>empty\<close>
  and iteration in key order. The locale \<open>ordered_map\<close> states what a client may rely on, and is
  interpreted on the association list.
\<close>

type_synonym ('k, 'v) stdmap = "('k \<times> 'v) list"

section \<open>The interface\<close>

locale ordered_map =
  fixes empty_map :: "'m"
    and lookup :: "'m \<Rightarrow> 'k::linorder \<Rightarrow> 'v option"
    and store :: "'k \<Rightarrow> 'v \<Rightarrow> 'm \<Rightarrow> 'm"
    and erase :: "'k \<Rightarrow> 'm \<Rightarrow> 'm"
    and keys :: "'m \<Rightarrow> 'k list"
    and invar :: "'m \<Rightarrow> bool"
  assumes lookup_empty: "lookup empty_map k = None"
    and lookup_store: "invar m \<Longrightarrow> lookup (store k v m) = (lookup m)(k \<mapsto> v)"
    and lookup_erase: "invar m \<Longrightarrow> lookup (erase k m) = (lookup m)(k := None)"
    and set_keys: "invar m \<Longrightarrow> set (keys m) = dom (lookup m)"
    and sorted_keys: "invar m \<Longrightarrow> sorted_wrt (<) (keys m)"
    and invar_empty: "invar empty_map"
    and invar_store: "invar m \<Longrightarrow> invar (store k v m)"
    and invar_erase: "invar m \<Longrightarrow> invar (erase k m)"
begin

lemmas laws = lookup_store lookup_erase set_keys invar_store invar_erase

lemma keys_store: "invar m \<Longrightarrow> set (keys (store k v m)) = insert k (set (keys m))"
  by (simp add: laws)

lemma keys_erase: "invar m \<Longrightarrow> set (keys (erase k m)) = set (keys m) - {k}"
  by (simp add: laws)

lemma distinct_keys: "invar m \<Longrightarrow> distinct (keys m)"
  using sorted_keys strict_sorted_iff by blast

lemma keys_Nil_iff: "invar m \<Longrightarrow> keys m = [] \<longleftrightarrow> (\<forall>k. lookup m k = None)"
  using set_keys [of m] by (auto simp: dom_def)

lemma keys_determined:
  assumes "invar m" and "invar m'" and "dom (lookup m) = dom (lookup m')"
  shows "keys m = keys m'"
  using assms by (metis set_keys sorted_keys strict_sorted_equal)

lemma keys_store_present:
  assumes "invar m" and "lookup m k \<noteq> None"
  shows "keys (store k v m) = keys m"
  using assms by (intro keys_determined) (auto simp: laws)

lemma keys_erase_only:
  assumes "invar m" and "keys (erase k m) = []" and "lookup m j \<noteq> None"
  shows "j = k"
  using assms by (auto simp: keys_Nil_iff laws split: if_splits)

end

section \<open>The association list\<close>

fun sm_put :: "'k::linorder \<Rightarrow> 'v \<Rightarrow> ('k, 'v) stdmap \<Rightarrow> ('k, 'v) stdmap" where
  "sm_put k v [] = [(k, v)]"
| "sm_put k v ((j, w) # m) =
     (if k < j then (k, v) # (j, w) # m
      else if k = j then (k, v) # m
      else (j, w) # sm_put k v m)"

definition sm_find :: "('k, 'v) stdmap \<Rightarrow> 'k \<Rightarrow> 'v option" where
  "sm_find m k = map_of m k"

definition sm_erase :: "'k \<Rightarrow> ('k, 'v) stdmap \<Rightarrow> ('k, 'v) stdmap" where
  "sm_erase k m = filter (\<lambda>p. fst p \<noteq> k) m"

definition sm_keys :: "('k, 'v) stdmap \<Rightarrow> 'k list" where
  "sm_keys m = map fst m"

definition sm_inv :: "('k::linorder, 'v) stdmap \<Rightarrow> bool" where
  "sm_inv m \<longleftrightarrow> sorted_wrt (<) (map fst m)"

text \<open>\<open>operator[]\<close>: the map afterwards and the element referred to; \<open>d\<close> is the value-initialised
  element it inserts for a missing key.\<close>

definition sm_at :: "'v \<Rightarrow> ('k, 'v) stdmap \<Rightarrow> 'k \<Rightarrow> 'v" where
  "sm_at d m k = (case sm_find m k of Some v \<Rightarrow> v | None \<Rightarrow> d)"

definition sm_touch :: "'v \<Rightarrow> 'k::linorder \<Rightarrow> ('k, 'v) stdmap \<Rightarrow> ('k, 'v) stdmap" where
  "sm_touch d k m = (case sm_find m k of Some v \<Rightarrow> m | None \<Rightarrow> sm_put k d m)"

lemma set_keys_put: "fst ` set (sm_put k v m) = insert k (fst ` set m)"
  by (induction k v m rule: sm_put.induct) auto

lemma sorted_put: "sm_inv m \<Longrightarrow> sm_inv (sm_put k v m)"
proof (induction k v m rule: sm_put.induct)
  case (2 k v j w m)
  then show ?case
    using set_keys_put [of k v m] by (auto simp: sm_inv_def)
qed (simp add: sm_inv_def)

lemma find_put: "sm_inv m \<Longrightarrow> sm_find (sm_put k v m) = (sm_find m)(k \<mapsto> v)"
  by (induction k v m rule: sm_put.induct) (auto simp: sm_inv_def sm_find_def fun_eq_iff)

lemma find_erase: "sm_find (sm_erase k m) = (sm_find m)(k := None)"
  by (induction m) (auto simp: sm_find_def sm_erase_def fun_eq_iff)

lemma sorted_erase: "sm_inv m \<Longrightarrow> sm_inv (sm_erase k m)"
  unfolding sm_inv_def sm_erase_def by (induction m) auto

lemma sm_find_map_of: "sm_find m = map_of m"
  by (rule ext) (simp add: sm_find_def)

interpretation pm: ordered_map "[]" sm_find sm_put sm_erase sm_keys sm_inv
proof
  show "set (sm_keys m) = dom (sm_find m)" if "sm_inv m" for m :: "('a, 'b) stdmap"
    by (simp add: sm_keys_def sm_find_map_of dom_map_of_conv_image_fst)
  show "sorted_wrt (<) (sm_keys m)" if "sm_inv m" for m :: "('a, 'b) stdmap"
    using that by (simp add: sm_inv_def sm_keys_def)
qed (simp_all add: find_put find_erase sorted_put sorted_erase, simp_all add: sm_find_def sm_inv_def)

section \<open>\<open>operator[]\<close>\<close>

lemma inv_touch [simp]: "sm_inv m \<Longrightarrow> sm_inv (sm_touch d k m)"
  by (simp add: sm_touch_def pm.invar_store split: option.split)

lemma find_touch:
  "sm_inv m \<Longrightarrow> sm_find (sm_touch d k m) = (sm_find m)(k \<mapsto> sm_at d m k)"
  by (auto simp: sm_touch_def sm_at_def pm.laws fun_eq_iff split: option.split)

lemma find_touch_other:
  "sm_inv m \<Longrightarrow> j \<noteq> k \<Longrightarrow> sm_find (sm_touch d k m) j = sm_find m j"
  by (simp add: find_touch)

lemma at_touch [simp]: "sm_inv m \<Longrightarrow> sm_at d (sm_touch d k m) j = sm_at d m j"
  by (auto simp: sm_at_def find_touch)

lemma at_put: "sm_inv m \<Longrightarrow> sm_at d (sm_put k v m) j = (if j = k then v else sm_at d m j)"
  by (simp add: sm_at_def pm.laws)

lemma touch_present: "sm_find m k = Some v \<Longrightarrow> sm_touch d k m = m"
  by (simp add: sm_touch_def)

lemma at_present: "sm_find m k = Some v \<Longrightarrow> sm_at d m k = v"
  by (simp add: sm_at_def)

lemma keys_Nil [simp]: "sm_keys m = [] \<longleftrightarrow> m = []"
  by (simp add: sm_keys_def)

end
