(* ===== verification/Paths.thy ===== *)
theory Paths
  imports Prelude
begin

text \<open>
  Path splitting (src/common/paths.h): \<open>getSeparator\<close>, \<open>getBaseName\<close>, \<open>getDirName\<close> and their wide
  variants. A pointer into the string is an index into its character list; a null pointer is
  \<open>None\<close>. The two character types share one scan loop and, through the locale \<open>path_splitter\<close>,
  one set of lemmas.
\<close>

section \<open>The scan loop\<close>

text \<open>
  \<open>q\<close> counts the characters consumed and \<open>p\<close> is the pointer just past the last separator seen. The
  loop ends after the terminating NUL, which is no separator.
\<close>

fun scan_separator :: "('c \<Rightarrow> bool) \<Rightarrow> 'c list \<Rightarrow> nat \<Rightarrow> nat option \<Rightarrow> nat option" where
  "scan_separator sep [] q p = p"
| "scan_separator sep (c # cs) q p =
     scan_separator sep cs (Suc q) (if sep c then Some (Suc q) else p)"

definition is_separator :: "char \<Rightarrow> bool" where
  "is_separator c \<longleftrightarrow> c = CHR 0x5C \<or> c = CHR ''/'' \<or> c = CHR '':''"

definition getSeparator :: "string \<Rightarrow> nat option" where
  "getSeparator szFilename = scan_separator is_separator szFilename 0 None"

definition getBaseName :: "string \<Rightarrow> string" where
  "getBaseName szFilename =
     (case getSeparator szFilename of
        None \<Rightarrow> szFilename
      | Some pSeparator \<Rightarrow> drop pSeparator szFilename)"

text \<open>\<open>getDirName\<close> writes a NUL at the pointer; the result is the string the buffer then holds.\<close>

definition getDirName :: "string \<Rightarrow> string" where
  "getDirName szFilename =
     (case getSeparator szFilename of
        Some pSeparator \<Rightarrow> take pSeparator szFilename
      | None \<Rightarrow> szFilename)"

definition is_separatorW :: "wchar \<Rightarrow> bool" where
  "is_separatorW c \<longleftrightarrow> c = W_char (CHR 0x5C) \<or> c = W_char (CHR ''/'') \<or> c = W_char (CHR '':'')"

definition getSeparatorW :: "wstr \<Rightarrow> nat option" where
  "getSeparatorW szFilename = scan_separator is_separatorW szFilename 0 None"

definition getBaseNameW :: "wstr \<Rightarrow> wstr" where
  "getBaseNameW szFilename =
     (case getSeparatorW szFilename of
        Some pSeparator \<Rightarrow> drop pSeparator szFilename
      | None \<Rightarrow> szFilename)"

definition getDirNameW :: "wstr \<Rightarrow> wstr" where
  "getDirNameW szFilename =
     (case getSeparatorW szFilename of
        Some pSeparator \<Rightarrow> take pSeparator szFilename
      | None \<Rightarrow> szFilename)"

section \<open>What a path splitter promises\<close>

locale path_splitter =
  fixes is_sep :: "'c \<Rightarrow> bool"
    and separator :: "'c list \<Rightarrow> nat option"
    and base_name :: "'c list \<Rightarrow> 'c list"
    and dir_name :: "'c list \<Rightarrow> 'c list"
  assumes separator_None: "separator s = None \<longleftrightarrow> list_all (\<lambda>c. \<not> is_sep c) s"
    and separator_Some: "separator s = Some p \<Longrightarrow>
      \<exists>d c b. s = d @ c # b \<and> p = Suc (length d) \<and> is_sep c \<and> list_all (\<lambda>c. \<not> is_sep c) b"
    and base_name: "base_name s = (case separator s of None \<Rightarrow> s | Some p \<Rightarrow> drop p s)"
    and dir_name: "dir_name s = (case separator s of None \<Rightarrow> s | Some p \<Rightarrow> take p s)"
begin

lemma split_cases:
  obtains (plain) "separator s = None" "list_all (\<lambda>c. \<not> is_sep c) s" "base_name s = s"
      "dir_name s = s"
    | (split) d c b where "s = d @ c # b" "is_sep c" "list_all (\<lambda>c. \<not> is_sep c) b"
      "separator s = Some (Suc (length d))" "base_name s = b" "dir_name s = d @ [c]"
proof (cases "separator s")
  case None
  then show ?thesis
    using plain by (simp add: separator_None [symmetric] base_name dir_name)
next
  case (Some p)
  from separator_Some [OF Some] show ?thesis
    using split Some by (auto simp: base_name dir_name)
qed

lemma base_name_plain: "list_all (\<lambda>c. \<not> is_sep c) (base_name s)"
  by (cases s rule: split_cases) auto

lemma base_name_suffix:
  "\<exists>d. s = d @ base_name s \<and> (d = [] \<or> is_sep (last d))"
proof (cases s rule: split_cases)
  case (split d c b)
  then have "s = (d @ [c]) @ base_name s \<and> is_sep (last (d @ [c]))"
    by simp
  then show ?thesis
    by blast
qed simp

lemma dir_base_append: "separator s \<noteq> None \<Longrightarrow> dir_name s @ base_name s = s"
  by (cases s rule: split_cases) auto

lemma plain_append_sep_unique:
  assumes "d @ c # b = d' @ c' # b'" and "is_sep c" and "is_sep c'"
    and "list_all (\<lambda>c. \<not> is_sep c) b" and "list_all (\<lambda>c. \<not> is_sep c) b'"
  shows "b = b'"
  using assms by (auto simp: append_eq_append_conv2 Cons_eq_append_conv append_eq_Cons_conv)

lemma base_name_join:
  assumes "is_sep c" and "list_all (\<lambda>c. \<not> is_sep c) f"
  shows "base_name (d @ c # f) = f"
proof (cases "d @ c # f" rule: split_cases)
  case plain
  with assms show ?thesis by simp
next
  case (split d' c' b')
  then show ?thesis
    using assms plain_append_sep_unique by metis
qed

lemma base_name_plain_id: "list_all (\<lambda>c. \<not> is_sep c) s \<Longrightarrow> base_name s = s"
  by (simp add: base_name separator_None [symmetric])

lemma base_name_idem: "base_name (base_name s) = base_name s"
  by (rule base_name_plain_id [OF base_name_plain])

lemma dir_name_idem: "dir_name (dir_name s) = dir_name s"
proof (cases s rule: split_cases)
  case (split d c b)
  show ?thesis
  proof (cases "dir_name s" rule: split_cases)
    case (split d' c' b')
    have "b' = []"
      by (rule plain_append_sep_unique [of d' c' b' d c "[]"])
        (use split \<open>dir_name s = d @ [c]\<close> \<open>is_sep c\<close> in auto)
    with split show ?thesis by simp
  qed simp
qed simp

end

section \<open>The scan loop finds the last separator\<close>

lemma scan_separator_plain:
  "list_all (\<lambda>c. \<not> sep c) s \<Longrightarrow> scan_separator sep s q p = p"
  by (induction s arbitrary: q p) auto

lemma scan_separator_append:
  "scan_separator sep (s @ t) q p = scan_separator sep t (q + length s) (scan_separator sep s q p)"
  by (induction s arbitrary: q p) auto

lemma scan_separator_last:
  "sep c \<Longrightarrow> list_all (\<lambda>c. \<not> sep c) b \<Longrightarrow>
   scan_separator sep (d @ c # b) q p = Some (Suc (q + length d))"
  by (simp add: scan_separator_append scan_separator_plain)

lemma last_separator_exists:
  "\<not> list_all (\<lambda>c. \<not> sep c) s \<Longrightarrow>
   \<exists>d c b. s = d @ c # b \<and> sep c \<and> list_all (\<lambda>c. \<not> sep c) b"
  using split_list_last_prop [of s sep] by (auto simp: list_all_iff)

lemma scan_separator_None:
  "scan_separator sep s 0 None = None \<longleftrightarrow> list_all (\<lambda>c. \<not> sep c) s"
proof
  assume none: "scan_separator sep s 0 None = None"
  show "list_all (\<lambda>c. \<not> sep c) s"
  proof (rule ccontr)
    assume "\<not> list_all (\<lambda>c. \<not> sep c) s"
    then obtain d c b where "s = d @ c # b" "sep c" "list_all (\<lambda>c. \<not> sep c) b"
      using last_separator_exists by blast
    with none show False
      by (simp add: scan_separator_last)
  qed
qed (rule scan_separator_plain)

lemma scan_separator_Some:
  assumes "scan_separator sep s 0 None = Some p"
  shows "\<exists>d c b. s = d @ c # b \<and> p = Suc (length d) \<and> sep c \<and> list_all (\<lambda>c. \<not> sep c) b"
proof -
  from assms have "\<not> list_all (\<lambda>c. \<not> sep c) s"
    using scan_separator_None [of sep s] by auto
  then obtain d c b where s: "s = d @ c # b" "sep c" "list_all (\<lambda>c. \<not> sep c) b"
    using last_separator_exists by blast
  with assms have "p = Suc (length d)"
    by (simp add: scan_separator_last)
  with s show ?thesis by blast
qed

interpretation narrow: path_splitter is_separator getSeparator getBaseName getDirName
  by unfold_locales
    (auto simp: getSeparator_def getBaseName_def getDirName_def scan_separator_None
      intro: scan_separator_Some split: option.split)

interpretation wide: path_splitter is_separatorW getSeparatorW getBaseNameW getDirNameW
  by unfold_locales
    (auto simp: getSeparatorW_def getBaseNameW_def getDirNameW_def scan_separator_None
      intro: scan_separator_Some split: option.split)

section \<open>Property\<close>

text \<open>The base name is what follows the last separator, and the directory name everything up to
  and including it, so that the two make up the path again; without a separator both are the path.\<close>

theorem path_split:
  "list_all (\<lambda>c. \<not> is_separatorW c) (getBaseNameW s) \<and>
   (if getSeparatorW s = None then getBaseNameW s = s \<and> getDirNameW s = s
    else getDirNameW s @ getBaseNameW s = s \<and> is_separatorW (last (getDirNameW s)))"
  by (cases s rule: wide.split_cases) simp_all

end
