(* ===== verification/Format.thy ===== *)
theory Format
  imports Prelude
begin

text \<open>
  The conversions of the C run-time library that the program prints with: hexadecimal and decimal
  numbers, zero and space padding (\<open>%08lx\<close>, \<open>%016I64X\<close>, \<open>%lu\<close>, \<open>%ld\<close>, \<open>%5i\<close>, \<open>%p\<close> of the x86_64
  Microsoft C run-time), and the number parser \<open>wcstoul\<close>/\<open>wcstoull\<close> it reads options with.
\<close>

section \<open>Positional notation\<close>

function to_digits :: "nat \<Rightarrow> nat \<Rightarrow> nat list" where
  "to_digits b n = (if b < 2 \<or> n < b then [n] else to_digits b (n div b) @ [n mod b])"
  by pat_completeness auto
termination
  by (relation "measure snd") auto

declare to_digits.simps [simp del]

definition of_digits :: "nat \<Rightarrow> nat list \<Rightarrow> nat" where
  "of_digits b ds = foldl (\<lambda>a d. a * b + d) 0 ds"

lemma of_digits_snoc: "of_digits b (ds @ [d]) = of_digits b ds * b + d"
  by (simp add: of_digits_def)

lemma of_to_digits [simp]: "of_digits b (to_digits b n) = n"
proof (induction b n rule: to_digits.induct)
  case (1 b n)
  show ?case
  proof (cases "b < 2 \<or> n < b")
    case True
    then show ?thesis
      by (simp add: to_digits.simps [of b n]) (simp add: of_digits_def)
  next
    case False
    with "1.IH" have "of_digits b (to_digits b (n div b)) = n div b"
      by simp
    with False show ?thesis
      by (simp add: to_digits.simps [of b n] of_digits_snoc div_mult_mod_eq)
  qed
qed

lemma to_digits_lt: "2 \<le> b \<Longrightarrow> d \<in> set (to_digits b n) \<Longrightarrow> d < b"
proof (induction b n rule: to_digits.induct)
  case (1 b n)
  show ?case
  proof (cases "n < b")
    case True
    with 1 show ?thesis
      by (simp add: to_digits.simps [of b n])
  next
    case False
    with 1 show ?thesis
      by (auto simp: to_digits.simps [of b n])
  qed
qed

lemma to_digits_not_Nil [simp]: "to_digits b n \<noteq> []"
  by (subst to_digits.simps) simp

lemma length_to_digits: "2 \<le> b \<Longrightarrow> n < b ^ k \<Longrightarrow> 0 < k \<Longrightarrow> length (to_digits b n) \<le> k"
proof (induction k arbitrary: n)
  case (Suc k)
  show ?case
  proof (cases "n < b")
    case True
    then show ?thesis
      by (simp add: to_digits.simps [of b n])
  next
    case False
    with Suc.prems have "0 < k"
      by (cases k) auto
    moreover have "n div b < b ^ k"
      using Suc.prems by (simp add: less_mult_imp_div_less mult.commute)
    ultimately have "length (to_digits b (n div b)) \<le> k"
      using Suc.IH Suc.prems(1) by blast
    with False Suc.prems(1) show ?thesis
      by (simp add: to_digits.simps [of b n])
  qed
qed simp

section \<open>Digits as characters\<close>

definition digit_char :: "bool \<Rightarrow> nat \<Rightarrow> char" where
  "digit_char upper d =
     char_of (if d < 10 then 48 + d else if upper then 55 + d else 87 + d)"

text \<open>The value of a digit character, in any base up to 36; \<open>None\<close> for any other character code.\<close>

definition digit_code :: "nat \<Rightarrow> nat option" where
  "digit_code c =
     (if 48 \<le> c \<and> c \<le> 57 then Some (c - 48)
      else if 65 \<le> c \<and> c \<le> 90 then Some (c - 55)
      else if 97 \<le> c \<and> c \<le> 122 then Some (c - 87)
      else None)"

lemma digit_code_char: "d < 36 \<Longrightarrow> digit_code (of_char (digit_char up d)) = Some d"
  by (auto simp: digit_char_def digit_code_def of_char_of)

definition zero_pad :: "nat \<Rightarrow> string \<Rightarrow> string" where
  "zero_pad n s = replicate (n - length s) (CHR ''0'') @ s"

definition space_pad :: "nat \<Rightarrow> string \<Rightarrow> string" where
  "space_pad n s = replicate (n - length s) (CHR '' '') @ s"

definition num_str :: "bool \<Rightarrow> nat \<Rightarrow> nat \<Rightarrow> string" where
  "num_str upper b n = map (digit_char upper) (to_digits b n)"

section \<open>printf conversions\<close>

text \<open>\<open>%0nlx\<close> and \<open>%0nlX\<close> (also \<open>%lx\<close>, with width 0).\<close>

definition fmt_x :: "nat \<Rightarrow> 'a::len word \<Rightarrow> string" where
  "fmt_x width w = zero_pad width (num_str False 16 (unat w))"

definition fmt_X :: "nat \<Rightarrow> 'a::len word \<Rightarrow> string" where
  "fmt_X width w = zero_pad width (num_str True 16 (unat w))"

text \<open>\<open>%lu\<close>, \<open>%u\<close>, \<open>%hu\<close>.\<close>

definition fmt_u :: "'a::len word \<Rightarrow> string" where
  "fmt_u w = num_str False 10 (unat w)"

text \<open>\<open>%ld\<close>, \<open>%d\<close>, and \<open>%ni\<close> with width \<open>n\<close>: the argument is read as signed.\<close>

definition int_str :: "int \<Rightarrow> string" where
  "int_str i = (if i < 0 then CHR ''-'' # num_str False 10 (nat (- i)) else num_str False 10 (nat i))"

definition fmt_d :: "'a::len word \<Rightarrow> string" where
  "fmt_d w = int_str (sint w)"

definition fmt_i :: "nat \<Rightarrow> 'a::len word \<Rightarrow> string" where
  "fmt_i width w = space_pad width (int_str (sint w))"

text \<open>\<open>%p\<close>: sixteen upper-case hexadecimal digits.\<close>

definition fmt_p :: "64 word \<Rightarrow> string" where
  "fmt_p w = fmt_X 16 w"

lemma length_zero_pad [simp]: "length (zero_pad n s) = max n (length s)"
  by (simp add: zero_pad_def)

lemma length_num_str: "2 \<le> b \<Longrightarrow> n < b ^ k \<Longrightarrow> 0 < k \<Longrightarrow> length (num_str up b n) \<le> k"
  by (simp add: num_str_def length_to_digits)

lemma length_fmt_hex8:
  fixes w :: "32 word"
  shows "length (fmt_x 8 w) = 8" and "length (fmt_X 8 w) = 8"
  using length_num_str [of 16 "unat w" 8] unat_lt_max [of w] by (simp_all add: fmt_x_def fmt_X_def)

lemma length_fmt_hex16:
  fixes w :: "64 word"
  shows "length (fmt_X 16 w) = 16"
  using length_num_str [of 16 "unat w" 16] unat_lt_max [of w] by (simp add: fmt_X_def)

section \<open>Reading numbers\<close>

text \<open>
  \<open>parse_digits b s n\<close> reads digits of base \<open>b\<close> from the front of \<open>s\<close> (character codes) into the
  accumulator \<open>n\<close>, and stops at the first character that is no digit of the base.
\<close>

fun parse_digits :: "nat \<Rightarrow> nat list \<Rightarrow> nat \<Rightarrow> nat" where
  "parse_digits b [] n = n"
| "parse_digits b (c # cs) n =
     (case digit_code c of
        None \<Rightarrow> n
      | Some d \<Rightarrow> if d < b then parse_digits b cs (n * b + d) else n)"

lemma parse_digits_map:
  assumes "b \<le> 36" and "list_all (\<lambda>d. d < b) ds"
  shows "parse_digits b (map (\<lambda>d. of_char (digit_char up d)) ds) n = foldl (\<lambda>a d. a * b + d) n ds"
  using assms by (induction ds arbitrary: n) (simp_all add: digit_code_char)

lemma parse_num_str:
  assumes "2 \<le> b" and "b \<le> 36"
  shows "parse_digits b (map of_char (num_str up b n)) 0 = n"
proof -
  have "list_all (\<lambda>d. d < b) (to_digits b n)"
    using to_digits_lt [OF assms(1)] by (simp add: list_all_iff)
  then have "parse_digits b (map of_char (num_str up b n)) 0 = of_digits b (to_digits b n)"
    using parse_digits_map [OF assms(2)] by (simp add: num_str_def of_digits_def comp_def)
  then show ?thesis by simp
qed

lemma parse_zeros: "2 \<le> b \<Longrightarrow> parse_digits b (replicate k 48 @ s) 0 = parse_digits b s 0"
  by (induction k) (simp_all add: digit_code_def)

lemma parse_zero_pad:
  assumes "2 \<le> b" and "b \<le> 36"
  shows "parse_digits b (map of_char (zero_pad k (num_str up b n))) 0 = n"
proof -
  have "map of_char (zero_pad k (num_str up b n)) =
      replicate (k - length (num_str up b n)) (48 :: nat) @ map of_char (num_str up b n)"
    by (simp add: zero_pad_def)
  then show ?thesis
    by (simp only: parse_zeros [OF assms(1)] parse_num_str [OF assms])
qed

end
