(* ===== verification/CmdLine.thy ===== *)
theory CmdLine
  imports Prelude
begin

text \<open>
  How catchsegv joins its remaining arguments into the command line it passes to
  \<open>CreateProcessW\<close> (\<open>needsQuote\<close>, \<open>quoteArg\<close> and the concatenation loop of
  src/catchsegv/catchsegv.cpp), against the documented rules by which the Microsoft C run-time
  of the started program splits a command line into arguments again (\<open>parse_prog\<close> for the name of the
  program, \<open>parse_arg\<close> and \<open>parse_args\<close> for the others, \<open>parse_command_line\<close> for all: a specification,
  not a model of code of this repository).
\<close>

section \<open>Quoting\<close>

abbreviation dquote :: wchar where "dquote \<equiv> W_char (CHR 0x22)"
abbreviation bslash :: wchar where "bslash \<equiv> W_char (CHR 0x5C)"
abbreviation space :: wchar where "space \<equiv> W_char (CHR 0x20)"
abbreviation tab :: wchar where "tab \<equiv> W_char (CHR 0x09)"

text \<open>The scan of \<open>needsQuote\<close>: the character after a backslash is only compared with the quote.\<close>

fun needsQuote :: "wstr \<Rightarrow> bool" where
  "needsQuote [] = False"
| "needsQuote (c # arg) =
     (if c = space \<or> c = tab \<or> c = dquote then True
      else if c = bslash then
        (case arg of
           [] \<Rightarrow> False
         | c' # arg' \<Rightarrow> if c' = dquote then True else needsQuote arg')
      else needsQuote arg)"

text \<open>The loop of \<open>quoteArg\<close>; the last argument counts the backslashes just copied.\<close>

fun quote_loop :: "wstr \<Rightarrow> wstr \<Rightarrow> nat \<Rightarrow> wstr" where
  "quote_loop s [] backslashes = s"
| "quote_loop s (c # arg) backslashes =
     (if c = dquote then
        quote_loop (s @ replicate backslashes bslash @ [bslash] @ [c]) arg 0
      else
        quote_loop (s @ [c]) arg (if c = bslash then Suc backslashes else 0))"

definition quoteArg :: "wstr \<Rightarrow> wstr \<Rightarrow> wstr" where
  "quoteArg s arg = quote_loop (s @ [dquote]) arg 0 @ [dquote]"

text \<open>The concatenation loop of \<open>wmain\<close>; \<open>sep\<close> says whether the separator has been set.\<close>

fun append_args :: "wstr \<Rightarrow> bool \<Rightarrow> wstr list \<Rightarrow> wstr" where
  "append_args commandLine sep [] = commandLine"
| "append_args commandLine sep (arg # argv) =
     (let commandLine = (if sep then commandLine @ [space] else commandLine);
          commandLine = (if needsQuote arg then quoteArg commandLine arg else commandLine @ arg)
      in append_args commandLine True argv)"

definition command_line :: "wstr list \<Rightarrow> wstr" where
  "command_line argv = append_args [] False argv"

section \<open>How the started program splits it\<close>

text \<open>
  The rules documented for the Microsoft C run-time: outside quotes, blanks end the argument;
  \<open>2n\<close> backslashes before a quote are \<open>n\<close> backslashes and a string delimiter, \<open>2n+1\<close> are \<open>n\<close>
  backslashes and a literal quote, all other backslashes are literal; inside quotes a doubled
  quote is a literal one. \<open>q\<close> says whether the parser is inside quotes, \<open>n\<close> counts the pending
  backslashes; the result is the argument and what follows the blank that ended it.
\<close>

definition prepend :: "wstr \<Rightarrow> wstr \<times> wstr \<Rightarrow> wstr \<times> wstr" where
  "prepend u r = (u @ fst r, snd r)"

fun parse_arg :: "bool \<Rightarrow> nat \<Rightarrow> wstr \<Rightarrow> wstr \<times> wstr" where
  "parse_arg q n [] = (replicate n bslash, [])"
| "parse_arg q n (c # cs) =
     (if c = bslash then parse_arg q (Suc n) cs
      else if c = dquote then
        (if odd n then prepend (replicate (n div 2) bslash @ [dquote]) (parse_arg q 0 cs)
         else case cs of
             [] \<Rightarrow> prepend (replicate (n div 2) bslash) (parse_arg (\<not> q) 0 cs)
           | d # ds \<Rightarrow>
               if q \<and> d = dquote
               then prepend (replicate (n div 2) bslash @ [dquote]) (parse_arg q 0 ds)
               else prepend (replicate (n div 2) bslash) (parse_arg (\<not> q) 0 cs))
      else if \<not> q \<and> (c = space \<or> c = tab) then (replicate n bslash, cs)
      else prepend (replicate n bslash @ [c]) (parse_arg q 0 cs))"

lemma snd_prepend [simp]: "snd (prepend u r) = snd r"
  by (simp add: prepend_def)

declare parse_arg.simps(2) [simp del]

lemma parse_arg_bslash [simp]: "parse_arg q n (bslash # cs) = parse_arg q (Suc n) cs"
  by (simp add: parse_arg.simps(2))

lemma parse_arg_literal_quote:
  "odd n \<Longrightarrow> parse_arg q n (dquote # cs) =
     prepend (replicate (n div 2) bslash @ [dquote]) (parse_arg q 0 cs)"
  by (simp add: parse_arg.simps(2))

lemma parse_arg_open [simp]: "parse_arg False 0 (dquote # cs) = parse_arg True 0 cs"
  by (cases cs) (simp_all add: parse_arg.simps(2) [of _ _ dquote] prepend_def)

lemma parse_arg_close:
  "cs = [] \<or> hd cs \<noteq> dquote \<Longrightarrow> parse_arg True 0 (dquote # cs) = parse_arg False 0 cs"
  by (cases cs) (simp_all add: parse_arg.simps(2) [of _ _ dquote] prepend_def)

lemma parse_arg_blank: "c = space \<or> c = tab \<Longrightarrow> parse_arg False n (c # cs) = (replicate n bslash, cs)"
  by (auto simp: parse_arg.simps(2))

lemma parse_arg_char:
  "c \<noteq> bslash \<Longrightarrow> c \<noteq> dquote \<Longrightarrow> q \<or> c \<noteq> space \<and> c \<noteq> tab \<Longrightarrow>
   parse_arg q n (c # cs) = prepend (replicate n bslash @ [c]) (parse_arg q 0 cs)"
  by (auto simp: parse_arg.simps(2))

lemma length_parse_arg: "length (snd (parse_arg q n cs)) \<le> length cs - 1"
proof (induction cs arbitrary: q n rule: length_induct)
  case (1 cs)
  show ?case
  proof (cases cs)
    case (Cons c ds)
    have IH: "length (snd (parse_arg q n es)) \<le> length es" if "length es < length cs" for q n es
      using 1 that by (meson diff_le_self le_trans)
    have A: "length (snd (parse_arg q n ds)) \<le> length ds" for q n
      using IH [of ds] Cons by simp
    have B: "length (snd (parse_arg q n es)) \<le> length ds" if "ds = e # es" for q n e es
      using IH [of es q n] Cons that by simp
    have "length (snd (parse_arg q n (c # ds))) \<le> length ds"
    proof (cases ds)
      case Nil
      then show ?thesis
        using A by (simp add: parse_arg.simps(2) [of q n c])
    next
      case (Cons e es)
      note ds = this
      have A': "length (snd (parse_arg q n (e # es))) \<le> Suc (length es)" for q n
        using A ds by simp
      have B': "length (snd (parse_arg q n es)) \<le> Suc (length es)" for q n
        using B ds by simp
      show ?thesis
        unfolding ds
        by (subst parse_arg.simps(2)) (use A' B' in \<open>auto simp del: parse_arg_open parse_arg_bslash\<close>)
    qed
    then show ?thesis
      using Cons by simp
  qed simp
qed

function parse_args :: "wstr \<Rightarrow> wstr list" where
  "parse_args [] = []"
| "parse_args (c # cs) =
     (if c = space \<or> c = tab then parse_args cs
      else fst (parse_arg False 0 (c # cs)) # parse_args (snd (parse_arg False 0 (c # cs))))"
  by pat_completeness auto
termination
proof (relation "measure length")
  fix c :: wchar and cs :: wstr
  show "(snd (parse_arg False 0 (c # cs)), c # cs) \<in> measure length"
    using length_parse_arg [of False 0 "c # cs"] by simp
qed auto

text \<open>
  The name of the program comes first and has rules of its own: quotes are left out and protect blanks, and
  a backslash is never special.
\<close>

fun parse_prog :: "bool \<Rightarrow> wstr \<Rightarrow> wstr \<times> wstr" where
  "parse_prog q [] = ([], [])"
| "parse_prog q (c # cs) =
     (if c = dquote then parse_prog (\<not> q) cs
      else if \<not> q \<and> (c = space \<or> c = tab) then ([], cs)
      else prepend [c] (parse_prog q cs))"

definition parse_command_line :: "wstr \<Rightarrow> wstr list" where
  "parse_command_line s = (let (prog, rest) = parse_prog False s in prog # parse_args rest)"

section \<open>What needs quotes\<close>

text \<open>
  A character that the scan notices: a quote, or a blank that an even number of backslashes precedes, for the
  scan takes the character after a backslash together with it.
\<close>

definition trailing :: "wstr \<Rightarrow> nat" where
  "trailing u = length (takeWhile (\<lambda>c. c = bslash) (rev u))"

definition exposed :: "wstr \<Rightarrow> bool" where
  "exposed arg \<longleftrightarrow> (\<exists>i < length arg. arg ! i = dquote \<or> (arg ! i = space \<or> arg ! i = tab) \<and> even (trailing (take i arg)))"

lemma trailing_simps [simp]: "trailing [] = 0"
  "trailing (c # u) = (if c = bslash \<and> trailing u = length u then Suc (length u) else trailing u)"
proof -
  have "length (takeWhile P (xs @ [c])) = (if P c \<and> length (takeWhile P xs) = length xs then Suc (length xs)
      else length (takeWhile P xs))" for P and xs :: wstr
    by (induction xs) auto
  from this [of "\<lambda>c. c = bslash" "rev u"]
  show "trailing (c # u) = (if c = bslash \<and> trailing u = length u then Suc (length u) else trailing u)"
    by (simp add: trailing_def)
qed (simp add: trailing_def)

lemma trailing_le: "trailing u \<le> length u"
  unfolding trailing_def by (metis length_rev length_takeWhile_le)

lemma ex_less_Suc_shift: "(\<exists>i < Suc n. P i) \<longleftrightarrow> P 0 \<or> (\<exists>i < n. P (Suc i))"
  using less_Suc_eq_0_disj by auto

lemma exposed_Nil [simp]: "\<not> exposed []"
  by (simp add: exposed_def)

lemma exposed_Cons:
  "c \<noteq> bslash \<Longrightarrow> exposed (c # arg) \<longleftrightarrow> c = space \<or> c = tab \<or> c = dquote \<or> exposed arg"
  by (auto simp: exposed_def ex_less_Suc_shift)

lemma exposed_bslash: "exposed (bslash # c # arg) \<longleftrightarrow> c = dquote \<or> exposed arg"
proof -
  have "even (trailing (bslash # c # u)) = even (trailing u)" for u
    using trailing_le [of u] by auto
  then have "exposed (bslash # c # arg) \<longleftrightarrow> c = dquote \<or> (c = space \<or> c = tab) \<and> even (trailing [bslash]) \<or> exposed arg"
    by (simp add: exposed_def ex_less_Suc_shift del: trailing_simps)
  then show ?thesis
    by simp
qed

lemma needsQuote_exposed: "needsQuote arg \<longleftrightarrow> exposed arg"
proof (induction arg rule: needsQuote.induct)
  case (2 c arg)
  show ?case
  proof (cases "c = bslash")
    case True
    then show ?thesis
      using 2 exposed_bslash by (cases arg) (simp_all add: exposed_def [of "[_]"])
  next
    case False
    then show ?thesis
      using 2 by (simp add: exposed_Cons)
  qed
qed simp

section \<open>Lemmas\<close>

text \<open>What the loop appends, without the accumulator.\<close>

fun quote_body :: "wstr \<Rightarrow> nat \<Rightarrow> wstr" where
  "quote_body [] n = []"
| "quote_body (c # cs) n =
     (if c = dquote then replicate (Suc n) bslash @ dquote # quote_body cs 0
      else c # quote_body cs (if c = bslash then Suc n else 0))"

lemma quote_loop_body: "quote_loop s arg n = s @ quote_body arg n"
  by (induction s arg n rule: quote_loop.induct) (auto simp: replicate_append_same)

lemma quoteArg_body: "quoteArg s arg = s @ dquote # quote_body arg 0 @ [dquote]"
  by (simp add: quoteArg_def quote_loop_body)

lemma append_args_acc: "append_args (u @ v) sep argv = u @ append_args v sep argv"
  by (induction argv arbitrary: v sep) (simp_all add: Let_def quoteArg_body)

definition arg_text :: "wstr \<Rightarrow> wstr" where
  "arg_text arg = (if needsQuote arg then quoteArg [] arg else arg)"

lemma append_args_Nil: "append_args u sep [] = u"
  by simp

lemma append_args_Cons:
  "append_args [] False (arg # argv) = arg_text arg @ append_args [] (True) argv"
  using append_args_acc [of "arg_text arg" "[]" True argv]
  by (cases "needsQuote arg") (simp_all add: Let_def arg_text_def)

lemma append_args_True:
  "append_args [] True argv = (if argv = [] then [] else space # append_args [] False argv)"
proof (cases argv)
  case (Cons arg argv')
  have "append_args [] True argv = append_args ([space] @ arg_text arg) True argv'"
    using Cons by (simp add: Let_def arg_text_def quoteArg_body)
  then show ?thesis
    using Cons append_args_acc [of "[space] @ arg_text arg" "[]" True argv'] append_args_Cons
    by simp
qed simp

lemma command_line_Nil [simp]: "command_line [] = []"
  by (simp add: command_line_def)

lemma command_line_single [simp]: "command_line [arg] = arg_text arg"
  by (simp add: command_line_def append_args_Cons del: append_args.simps(2))

lemma command_line_Cons:
  "argv \<noteq> [] \<Longrightarrow> command_line (arg # argv) = arg_text arg @ space # command_line argv"
  by (simp add: command_line_def append_args_Cons append_args_True del: append_args.simps(2))

text \<open>
  The arguments that survive: not empty; no backslash at the end of one with an exposed character; and no
  blank in one that has none. The name of the program survives without a quote in it, if it has
  an exposed blank or no blank at all.
\<close>

definition arg_ok :: "wstr \<Rightarrow> bool" where
  "arg_ok arg \<longleftrightarrow> arg \<noteq> [] \<and> (if exposed arg then last arg \<noteq> bslash else space \<notin> set arg \<and> tab \<notin> set arg)"

definition prog_ok :: "wstr \<Rightarrow> bool" where
  "prog_ok prog \<longleftrightarrow> dquote \<notin> set prog \<and> (exposed prog \<or> space \<notin> set prog \<and> tab \<notin> set prog)"

lemma needsQuote_finds_quote: "\<not> needsQuote arg \<Longrightarrow> dquote \<notin> set arg"
  by (induction arg rule: needsQuote.induct) (auto split: list.splits if_splits)

lemma parse_backslashes: "parse_arg q n (replicate k bslash @ cs) = parse_arg q (n + k) cs"
  by (induction k arbitrary: n) simp_all

lemma parse_end: "rest = [] \<or> hd rest = space \<Longrightarrow> parse_arg False 0 rest = ([], tl rest)"
  by (cases rest) (auto simp: parse_arg_blank)

lemma parse_quote_body:
  assumes "arg = [] \<longrightarrow> n = 0" and "arg \<noteq> [] \<longrightarrow> last arg \<noteq> bslash"
  shows "parse_arg True n (quote_body arg n @ cs) = prepend (replicate n bslash @ arg) (parse_arg True 0 cs)"
  using assms
proof (induction arg arbitrary: n)
  case Nil
  then show ?case
    by (simp add: prepend_def)
next
  case (Cons c arg)
  have IH0: "parse_arg True 0 (quote_body arg 0 @ cs) = prepend arg (parse_arg True 0 cs)"
    using Cons.IH [of 0] Cons.prems by (auto split: if_splits)
  consider "c = dquote" | "c = bslash" | "c \<noteq> dquote" "c \<noteq> bslash"
    by blast
  then show ?case
  proof cases
    case 1
    have "quote_body (c # arg) n @ cs = replicate (Suc n) bslash @ dquote # quote_body arg 0 @ cs"
      using 1 by simp
    then show ?thesis
      using 1 IH0 by (simp only: parse_backslashes) (simp add: parse_arg_literal_quote prepend_def)
  next
    case 2
    then have "arg \<noteq> []"
      using Cons.prems by auto
    with 2 Cons show ?thesis
      by (simp add: replicate_app_Cons_same)
  next
    case 3
    with IH0 show ?thesis
      by (simp add: parse_arg_char prepend_def)
  qed
qed

lemma parse_plain:
  assumes "dquote \<notin> set arg" and "space \<notin> set arg" and "tab \<notin> set arg"
    and "rest = [] \<or> hd rest = space"
  shows "parse_arg False n (arg @ rest) = (replicate n bslash @ arg, tl rest)"
  using assms(1-3)
proof (induction arg arbitrary: n)
  case Nil
  then show ?case
    using assms(4) by (cases rest) (auto simp: parse_arg_blank)
next
  case (Cons c arg)
  then have "c \<noteq> dquote" "c \<noteq> space" "c \<noteq> tab" and
    "parse_arg False m (arg @ rest) = (replicate m bslash @ arg, tl rest)" for m
    by auto
  then show ?case
    by (cases "c = bslash") (simp_all add: parse_arg_char prepend_def replicate_app_Cons_same)
qed

lemma parse_arg_text:
  assumes "arg_ok arg" and "rest = [] \<or> hd rest = space"
  shows "parse_arg False 0 (arg_text arg @ rest) = (arg, tl rest)"
proof (cases "needsQuote arg")
  case True
  then have "arg \<noteq> []"
    by auto
  have "parse_arg True 0 (quote_body arg 0 @ dquote # rest) = (arg, tl rest)"
    using parse_quote_body [of arg 0] True assms \<open>arg \<noteq> []\<close> parse_end [OF assms(2)]
    by (auto simp: arg_ok_def needsQuote_exposed parse_arg_close prepend_def)
  then show ?thesis
    using True by (simp add: arg_text_def quoteArg_body)
next
  case False
  then show ?thesis
    using parse_plain [of arg rest 0] needsQuote_finds_quote [of arg] assms
    by (simp add: arg_ok_def arg_text_def needsQuote_exposed)
qed

lemma arg_text_hd:
  assumes "arg_ok arg"
  shows "\<exists>c cs. arg_text arg = c # cs \<and> c \<noteq> space \<and> c \<noteq> tab"
proof (cases "needsQuote arg")
  case True
  then show ?thesis
    by (simp add: arg_text_def quoteArg_body)
next
  case False
  with assms show ?thesis
    by (cases arg) (auto simp: arg_text_def arg_ok_def needsQuote_exposed)
qed

lemma parse_args_arg_text:
  assumes "arg_ok arg" and "rest = [] \<or> hd rest = space"
  shows "parse_args (arg_text arg @ rest) = arg # parse_args (tl rest)"
proof -
  obtain c cs where "arg_text arg = c # cs" "c \<noteq> space" "c \<noteq> tab"
    using arg_text_hd [OF assms(1)] by blast
  with parse_arg_text [OF assms] show ?thesis
    by (simp del: parse_arg.simps)
qed

text \<open>The arguments that do not survive.\<close>

lemma quote_body_backslashes: "quote_body (u @ replicate k bslash) n = quote_body u n @ replicate k bslash"
proof (induction u arbitrary: n)
  case Nil
  show ?case
    by (induction k arbitrary: n) simp_all
qed simp

lemma split_trailing: "\<exists>u k. arg = u @ replicate k c \<and> (u \<noteq> [] \<longrightarrow> last u \<noteq> c)"
proof (induction arg rule: rev_induct)
  case (snoc d arg)
  show ?case
  proof (cases "d = c")
    case True
    obtain u k where u: "arg = u @ replicate k c" "u \<noteq> [] \<longrightarrow> last u \<noteq> c"
      using snoc.IH by blast
    with True have "arg @ [d] = u @ replicate (Suc k) c"
      by (simp add: replicate_append_same)
    with u show ?thesis
      by blast
  next
    case False
    then show ?thesis
      by (intro exI [of _ "arg @ [d]"] exI [of _ 0]) simp
  qed
qed simp

lemma parse_quoted_trailing:
  assumes "u \<noteq> [] \<longrightarrow> last u \<noteq> bslash" and "rest = [] \<or> hd rest = space"
  shows "\<exists>more. fst (parse_arg False 0 (quoteArg [] (u @ replicate k bslash) @ rest)) = u @ replicate (k div 2) bslash @ more \<and>
    (if odd k then \<exists>more'. more = dquote # more' else more = [])"
proof -
  have "parse_arg False 0 (quoteArg [] (u @ replicate k bslash) @ rest) = prepend u (parse_arg True k (dquote # rest))"
    using parse_quote_body [of u 0 "replicate k bslash @ dquote # rest"] assms(1)
    by (simp add: quoteArg_body quote_body_backslashes parse_backslashes prepend_def)
  moreover have "parse_arg True k (dquote # rest) = prepend (replicate (k div 2) bslash) (parse_arg False 0 rest)" if "even k"
    using that assms(2) by (cases rest) (simp_all add: parse_arg.simps(2) [of _ _ dquote])
  ultimately show ?thesis
    using parse_end [OF assms(2)] by (cases "odd k") (auto simp: parse_arg_literal_quote prepend_def)
qed

text \<open>Up to the first blank, an unquoted argument with one is taken for an argument.\<close>

lemma parse_plain_blank:
  "dquote \<notin> set cs \<Longrightarrow> space \<in> set cs \<or> tab \<in> set cs \<Longrightarrow>
   fst (parse_arg False n (cs @ rest)) = replicate n bslash @ takeWhile (\<lambda>c. c \<noteq> space \<and> c \<noteq> tab) cs"
proof (induction cs arbitrary: n)
  case (Cons c cs)
  then have "c \<noteq> dquote" "dquote \<notin> set cs"
    by auto
  with Cons show ?case
    by (cases "c = bslash"; cases "c = space \<or> c = tab")
      (auto simp: parse_arg_blank parse_arg_char prepend_def replicate_app_Cons_same)
qed simp

lemma takeWhile_blank: "space \<in> set s \<or> tab \<in> set s \<Longrightarrow> 
  takeWhile (\<lambda>c. c \<noteq> space \<and> c \<noteq> tab) s \<noteq> s \<and> s \<noteq> takeWhile (\<lambda>c. c \<noteq> space \<and> c \<noteq> tab) s"
  using takeWhile_eq_all_conv [of "\<lambda>c. c \<noteq> space \<and> c \<noteq> tab" s] eq_commute [of s] by auto

lemma quote_not_bslash: "dquote \<noteq> bslash"
  by simp

lemma lost_hd:
  assumes "\<not> arg_ok arg" and "arg \<noteq> []" and "rest = [] \<or> hd rest = space"
  shows "fst (parse_arg False 0 (arg_text arg @ rest)) \<noteq> arg"
proof (cases "needsQuote arg")
  case True
  obtain u k where arg: "arg = u @ replicate k bslash" and u: "u \<noteq> [] \<longrightarrow> last u \<noteq> bslash"
    using split_trailing [of arg bslash] by blast
  then have "k \<noteq> 0"
    using True assms(1,2) by (cases "k = 0") (auto simp: arg_ok_def needsQuote_exposed)
  obtain more where parsed: "fst (parse_arg False 0 (arg_text arg @ rest)) = u @ replicate (k div 2) bslash @ more"
    and more: "if odd k then \<exists>more'. more = dquote # more' else more = []"
    using parse_quoted_trailing [OF u assms(3), of k] True arg by (auto simp: arg_text_def)
  have "replicate (k div 2) bslash @ more \<noteq> replicate k bslash"
  proof (cases "odd k")
    case True
    then have "dquote \<in> set (replicate (k div 2) bslash @ more)"
      using more by auto
    then show ?thesis
      by (metis in_set_replicate quote_not_bslash)
  next
    case False
    then show ?thesis
      using more \<open>k \<noteq> 0\<close> by (auto dest: arg_cong [of _ _ length])
  qed
  then show ?thesis
    using parsed arg by simp
next
  case False
  then have "dquote \<notin> set arg" "space \<in> set arg \<or> tab \<in> set arg"
    using needsQuote_finds_quote assms(1,2) by (auto simp: arg_ok_def needsQuote_exposed)
  then show ?thesis
    using parse_plain_blank [of arg 0 rest] takeWhile_blank [of arg] False by (simp add: arg_text_def)
qed

lemma arg_text_starts:
  assumes "arg \<noteq> []"
  shows "\<exists>c cs. arg_text arg = c # cs \<and> c \<noteq> space \<and> c \<noteq> tab"
proof (cases "needsQuote arg")
  case False
  then show ?thesis
    using assms by (cases arg) (auto simp: arg_text_def split: if_splits)
qed (simp add: arg_text_def quoteArg_body)

lemma not_exposed_backslashes: "\<not> exposed (replicate k bslash)"
  by (auto simp: exposed_def)

lemma parsed_nonempty:
  assumes "arg \<noteq> []" and "rest = [] \<or> hd rest = space"
  shows "fst (parse_arg False 0 (arg_text arg @ rest)) \<noteq> []"
proof (cases "arg_ok arg")
  case True
  then show ?thesis
    using parse_arg_text [OF _ assms(2)] assms(1) by simp
next
  case lost: False
  show ?thesis
  proof (cases "needsQuote arg")
    case True
    obtain u k where arg: "arg = u @ replicate k bslash" and u: "u \<noteq> [] \<longrightarrow> last u \<noteq> bslash"
      using split_trailing [of arg bslash] by blast
    then have "u \<noteq> []"
      using True not_exposed_backslashes [of k] by (auto simp: needsQuote_exposed)
    then show ?thesis
      using parse_quoted_trailing [OF u assms(2), of k] True arg by (auto simp: arg_text_def)
  next
    case False
    then have "dquote \<notin> set arg" "space \<in> set arg \<or> tab \<in> set arg"
      using needsQuote_finds_quote lost assms(1) by (auto simp: arg_ok_def needsQuote_exposed)
    moreover have "takeWhile (\<lambda>c. c \<noteq> space \<and> c \<noteq> tab) arg \<noteq> []"
      using False assms(1) by (cases arg) (auto split: if_splits)
    ultimately show ?thesis
      using parse_plain_blank [of arg 0 rest] False by (auto simp: arg_text_def)
  qed
qed

text \<open>The command line as its first text and the rest, and how the rest is split.\<close>

definition tail_text :: "wstr list \<Rightarrow> wstr" where
  "tail_text argv = (if argv = [] then [] else space # command_line argv)"

lemma tail_text_start: "tail_text argv = [] \<or> hd (tail_text argv) = space"
  by (simp add: tail_text_def)

lemma command_line_split: "command_line (arg # argv) = arg_text arg @ tail_text argv"
  by (simp add: tail_text_def command_line_Cons)

lemma tl_tail_text: "tl (tail_text argv) = command_line argv" "parse_args (tail_text argv) = parse_args (command_line argv)"
  by (simp_all add: tail_text_def)

lemma parse_args_first:
  assumes "arg \<noteq> []"
  shows "\<exists>more. parse_args (command_line (arg # argv)) = fst (parse_arg False 0 (arg_text arg @ tail_text argv)) # more"
proof -
  obtain c cs where "arg_text arg = c # cs" "c \<noteq> space" "c \<noteq> tab"
    using arg_text_starts [OF assms] by blast
  then show ?thesis
    by (simp add: command_line_split del: parse_arg.simps)
qed

lemma no_empty_first: "parse_args (command_line argv) \<noteq> [] # more"
proof (induction argv)
  case (Cons arg argv)
  show ?case
  proof (cases "arg = []")
    case True
    then show ?thesis
      using Cons by (simp add: command_line_split tl_tail_text arg_text_def)
  next
    case False
    then show ?thesis
      using parse_args_first [OF False, of argv] parsed_nonempty [OF False tail_text_start, of argv] by auto
  qed
qed simp

lemma parse_args_exact: "parse_args (command_line argv) = argv \<longleftrightarrow> list_all arg_ok argv"
proof (induction argv)
  case (Cons arg argv)
  show ?case
  proof (cases "arg_ok arg")
    case True
    then show ?thesis
      using Cons parse_args_arg_text [OF True tail_text_start, of argv] by (simp add: command_line_split tl_tail_text)
  next
    case lost: False
    have "parse_args (command_line (arg # argv)) \<noteq> arg # argv"
    proof (cases "arg = []")
      case True
      then show ?thesis
        using no_empty_first [of argv] by (simp add: command_line_split tl_tail_text arg_text_def)
    next
      case False
      then show ?thesis
        using parse_args_first [OF False, of argv] lost_hd [OF lost False tail_text_start, of argv] by auto
    qed
    with lost show ?thesis
      by simp
  qed
qed simp

section \<open>The name of the program\<close>

lemma parse_prog_no_quote: "dquote \<notin> set (fst (parse_prog q s))"
  by (induction q s rule: parse_prog.induct) (auto simp: prepend_def)

lemma parse_prog_plain:
  "dquote \<notin> set s \<Longrightarrow> q \<or> space \<notin> set s \<and> tab \<notin> set s \<Longrightarrow> parse_prog q (s @ rest) = prepend s (parse_prog q rest)"
  by (induction s) (auto simp: prepend_def)

lemma parse_prog_blank:
  "dquote \<notin> set s \<Longrightarrow> space \<in> set s \<or> tab \<in> set s \<Longrightarrow>
   fst (parse_prog False (s @ rest)) = takeWhile (\<lambda>c. c \<noteq> space \<and> c \<noteq> tab) s"
  by (induction s) (auto simp: prepend_def)

lemma quote_body_plain: "dquote \<notin> set s \<Longrightarrow> quote_body s n = s"
  by (induction s arbitrary: n) auto

lemma parse_prog_tail: "parse_prog False (tail_text argv) = ([], command_line argv)"
  by (simp add: tail_text_def)

lemma parse_prog_quoted:
  "dquote \<notin> set prog \<Longrightarrow> parse_prog False (dquote # prog @ dquote # tail_text argv) = (prog, command_line argv)"
  using parse_prog_plain [of prog True "dquote # tail_text argv"] by (simp add: parse_prog_tail prepend_def)

lemma parse_prog_text:
  assumes "prog_ok prog"
  shows "parse_prog False (arg_text prog @ tail_text argv) = (prog, command_line argv)"
  using assms parse_prog_quoted [of prog argv] parse_prog_plain [of prog False "tail_text argv"]
  by (auto simp: prog_ok_def arg_text_def needsQuote_exposed quoteArg_body quote_body_plain parse_prog_tail prepend_def)

lemma prog_lost: "\<not> prog_ok prog \<Longrightarrow> fst (parse_prog False (arg_text prog @ rest)) \<noteq> prog"
  using parse_prog_no_quote [of False "arg_text prog @ rest"] parse_prog_blank [of prog rest] takeWhile_blank [of prog]
  by (auto simp: prog_ok_def arg_text_def needsQuote_exposed)

lemma command_line_survives:
  "parse_command_line (command_line (prog # argv)) = prog # argv \<longleftrightarrow> prog_ok prog \<and> list_all arg_ok argv"
proof (cases "prog_ok prog")
  case True
  then show ?thesis
    using parse_args_exact [of argv] by (simp add: parse_command_line_def command_line_split parse_prog_text)
next
  case False
  then show ?thesis
    using prog_lost [of prog "tail_text argv"]
    by (auto simp: parse_command_line_def command_line_split split: prod.split)
qed

section \<open>Properties\<close>

text \<open>C39: which commands survive: the program that is started gets back exactly the command that catchsegv was given,
  its name by the rules for the name and every argument by the rules for arguments, if and only if the name holds no
  quote and no blanks other than with an exposed one, no argument is empty, none with an exposed character
  ends in a backslash, and none without one holds a blank. So an empty argument disappears, a
  quoted one that ends in a backslash comes back changed, and one whose only blanks follow a
  backslash is split.\<close>

theorem command_line_exact:
  "parse_command_line (command_line (prog # argv)) = prog # argv \<longleftrightarrow> prog_ok prog \<and> list_all arg_ok argv"
  by (rule command_line_survives)

theorem command_line_exact_witness:
  "parse_command_line (command_line [W ''C:/a b.exe'', W ''x y'', W ''say '' @ [dquote] @ W ''hi'' @ [bslash, dquote]]) =
     [W ''C:/a b.exe'', W ''x y'', W ''say '' @ [dquote] @ W ''hi'' @ [bslash, dquote]] \<and>
   parse_command_line (command_line [W ''a.exe'', W ''x y'' @ [bslash]]) \<noteq> [W ''a.exe'', W ''x y'' @ [bslash]]"
proof -
  have "prog_ok (W ''C:/a b.exe'')" "prog_ok (W ''a.exe'')" "\<not> arg_ok (W ''x y'' @ [bslash])"
    "list_all arg_ok [W ''x y'', W ''say '' @ [dquote] @ W ''hi'' @ [bslash, dquote]]"
    by (simp_all add: prog_ok_def arg_ok_def needsQuote_exposed [symmetric] W_Cons)
  then show ?thesis
    by (simp only: command_line_exact list.pred_inject simp_thms)
qed

end
