(* ===== verification/Symbols.thy ===== *)
theory Symbols
  imports Prelude
begin

text \<open>
  The symbol helper (src/common/symbols.cpp): the options of DbgHelp, the default symbol search path,
  and the two queries that the log uses. The DbgHelp functions it calls, which at run time are those of
  mgwhelp, are parameters (\<open>sym_os\<close>).
\<close>

abbreviation SYMOPT_LOAD_LINES :: DWORD where "SYMOPT_LOAD_LINES \<equiv> 0x10"
abbreviation SYMOPT_OMAP_FIND_NEAREST :: DWORD where "SYMOPT_OMAP_FIND_NEAREST \<equiv> 0x20"
abbreviation SYMOPT_INCLUDE_32BIT_MODULES :: DWORD where "SYMOPT_INCLUDE_32BIT_MODULES \<equiv> 0x2000"
abbreviation SYMOPT_DEBUG :: DWORD where "SYMOPT_DEBUG \<equiv> 0x80000000"

record sym_os =
  so_ndebug :: bool
  so_getenv :: "wstr \<Rightarrow> wstr option"
  so_local_appdata :: "wstr option"    \<comment> \<open>\<open>SHGetFolderPathW\<close>, when it succeeds\<close>
  so_SymInitializeW :: "HANDLE \<Rightarrow> wstr option \<Rightarrow> bool \<Rightarrow> bool"
  so_SymGetOptions :: DWORD
  so_SymFromAddr :: "HANDLE \<Rightarrow> DWORD64 \<Rightarrow> (BYTE list \<times> DWORD64) option"
  so_UnDecorateSymbolName :: "BYTE list \<Rightarrow> nat \<Rightarrow> DWORD \<Rightarrow> DWORD \<times> BYTE list"
  so_SymGetLineFromAddrW64 :: "HANDLE \<Rightarrow> DWORD64 \<Rightarrow> (wstr \<times> DWORD) option"

text \<open>The options that \<open>SetSymOptions\<close> sets, from the ones in force (the x86_64 build).\<close>

definition SetSymOptions :: "bool \<Rightarrow> DWORD \<Rightarrow> DWORD" where
  "SetSymOptions fDebug dwSymOptions =
     (let dwSymOptions = dwSymOptions AND NOT SYMOPT_UNDNAME;
          dwSymOptions = dwSymOptions OR (SYMOPT_LOAD_LINES OR SYMOPT_OMAP_FIND_NEAREST);
          dwSymOptions = dwSymOptions OR SYMOPT_DEFERRED_LOADS;
          dwSymOptions = (if fDebug then dwSymOptions OR SYMOPT_DEBUG else dwSymOptions)
      in dwSymOptions OR SYMOPT_INCLUDE_32BIT_MODULES)"

text \<open>The answers of DbgHelp once the options have been set.\<close>

definition set_sym_options :: "bool \<Rightarrow> 'a sym_os_scheme \<Rightarrow> 'a sym_os_scheme" where
  "set_sym_options fDebug os = os\<lparr>so_SymGetOptions := SetSymOptions fDebug (so_SymGetOptions os)\<rparr>"

text \<open>The search path passed on: none when the environment has one, otherwise Microsoft's server.\<close>

definition symbol_search_path :: "'a sym_os_scheme \<Rightarrow> fault + wstr option" where
  "symbol_search_path os =
     (if so_getenv os (W ''_NT_SYMBOL_PATH'') = None \<and> so_getenv os (W ''_NT_ALT_SYMBOL_PATH'') = None then
        (case so_local_appdata os of
           Some szLocalAppData \<Rightarrow>
             Inr (Some (W ''srv*'' @ szLocalAppData @
                        [W_char (CHR 0x5C)] @ W ''drmingw*http://msdl.microsoft.com/download/symbols''))
         | None \<Rightarrow>
             if so_ndebug os then Inr (Some (W ''srv*http://msdl.microsoft.com/download/symbols''))
             else Inl AssertionFailed)
      else Inr None)"

definition InitializeSym :: "'a sym_os_scheme \<Rightarrow> HANDLE \<Rightarrow> bool \<Rightarrow> fault + bool" where
  "InitializeSym os hProcess fInvadeProcess =
     bnd (symbol_search_path os) (\<lambda>path. Inr (so_SymInitializeW os hProcess path fInvadeProcess))"

text \<open>
  The name as it is left in the caller's buffer of \<open>nSize\<close> characters, and the displacement, which is
  cut to a DWORD; \<open>None\<close> when there is no symbol.
\<close>

definition GetSymFromAddr :: "'a sym_os_scheme \<Rightarrow> HANDLE \<Rightarrow> DWORD64 \<Rightarrow> nat \<Rightarrow> (BYTE list \<times> DWORD) option" where
  "GetSymFromAddr os hProcess dwAddress nSize =
     (case so_SymFromAddr os hProcess dwAddress of
        None \<Rightarrow> None
      | Some (name, dwDisplacement) \<Rightarrow>
          (let und = so_UnDecorateSymbolName os name nSize UNDNAME_NAME_ONLY in
           Some (if flag_set (so_SymGetOptions os) SYMOPT_UNDNAME \<or> fst und = 0
                 then strncpy nSize name else snd und,
                 ucast dwDisplacement)))"

definition GetLineFromAddr :: "'a sym_os_scheme \<Rightarrow> HANDLE \<Rightarrow> DWORD64 \<Rightarrow> nat \<Rightarrow> (wstr \<times> DWORD) option" where
  "GetLineFromAddr os hProcess dwAddress nSize =
     (case so_SymGetLineFromAddrW64 os hProcess dwAddress of
        None \<Rightarrow> None
      | Some (FileName, LineNumber) \<Rightarrow> Some (strncpy nSize FileName, LineNumber))"

section \<open>Properties\<close>

text \<open>The options keep every bit that was set but name undecoration, which is switched off; lines,
  nearest matches, deferred loads and 32-bit modules are switched on, and debugging when asked for.\<close>

theorem sym_options_bits:
  "bit (SetSymOptions fDebug opts) n \<longleftrightarrow>
     n \<noteq> 1 \<and> (bit opts n \<or> n \<in> {2, 4, 5, 13} \<or> fDebug \<and> n = 31)"
proof -
  have "bit (2 :: DWORD) n \<longleftrightarrow> n = 1" "bit (4 :: DWORD) n \<longleftrightarrow> n = 2" "bit (16 :: DWORD) n \<longleftrightarrow> n = 4"
    "bit (32 :: DWORD) n \<longleftrightarrow> n = 5" "bit (0x2000 :: DWORD) n \<longleftrightarrow> n = 13"
    "bit (0x80000000 :: DWORD) n \<longleftrightarrow> n = 31"
    by (rule bit_DWORD_power; simp)+
  note bits = this
  have len: "bit opts n \<Longrightarrow> n < 32"
    using bit_imp_le_length [of opts n] by simp
  have bit_not: "bit (NOT w :: DWORD) n \<longleftrightarrow> n < 32 \<and> \<not> bit w n" for w
    by (auto simp: bit_not_iff)
  show ?thesis
    unfolding SetSymOptions_def Let_def using len
    by (cases fDebug; simp only: if_True if_False bit_or_iff bit_and_iff bit_not bits;
        cases "n = 1"; simp only: simp_thms insert_iff empty_iff; auto)
qed

text \<open>The name that a successful query leaves in the buffer ends with a NUL whenever the
  undecorated or the plain name fits; a plain name that fills the buffer is left without one.\<close>

theorem symbol_name_terminated:
  assumes "so_SymFromAddr os h a = Some (name, d)" and "0 \<notin> set name"
    and "fst (so_UnDecorateSymbolName os name n UNDNAME_NAME_ONLY) = 0"
  shows "\<exists>buf. GetSymFromAddr os h a n = Some (buf, ucast d) \<and>
    cstr buf = (if length name < n then Some name else None)"
  using assms by (simp add: GetSymFromAddr_def Let_def cstr_strncpy_iff)

definition sample_sym :: sym_os where
  "sample_sym =
     \<lparr>so_ndebug = True, so_getenv = (\<lambda>_. None), so_local_appdata = None,
      so_SymInitializeW = (\<lambda>_ _ _. True), so_SymGetOptions = 0,
      so_SymFromAddr = (\<lambda>_ a. Some ([102, 111, 111], a - 0x1000)),
      so_UnDecorateSymbolName = (\<lambda>_ _ _. (0, [])), so_SymGetLineFromAddrW64 = (\<lambda>_ _. None)\<rparr>"

theorem symbol_name_terminated_witness:
  "\<exists>buf. GetSymFromAddr sample_sym 1 0x1004 512 = Some (buf, 4) \<and> cstr buf = Some [102, 111, 111]"
  using symbol_name_terminated [where os = sample_sym and h = 1 and a = "0x1004" and n = 512 and
      name = "[102, 111, 111]" and d = 4]
  by (simp add: sample_sym_def)

end
