(* ===== verification/Log.thy ===== *)
theory Log
  imports Format Paths Symbols
begin

text \<open>
  The crash log (src/common/log.cpp, with wine.h): registers, stack, exception, source lines and
  modules, for the x86_64 build. A routine yields the list of the texts it passes to \<open>lprintf\<close>, fully
  formatted; \<open>lprintf\<close> then says what the registered callback receives. Windows and DbgHelp are the
  parameter \<open>log_os\<close>. The routines do not change the debuggee, so that its answers are functions.
\<close>

abbreviation NL :: wchar where "NL \<equiv> W_char (CHR 0x0A)"

abbreviation TAB :: wchar where "TAB \<equiv> W_char (CHR 0x09)"

section \<open>The buffer\<close>

text \<open>
  \<open>_vsnwprintf\<close>, and \<open>_vsnprintf\<close> for bytes, of the Microsoft run-time: at most \<open>n\<close> characters, a NUL only when there is room for
  it, and -1 when the text did not fit.
\<close>

definition vsnwprintf :: "nat \<Rightarrow> 'a::zero list \<Rightarrow> 'a list \<times> int" where
  "vsnwprintf n txt =
     (if length txt < n then (txt @ [0], int (length txt))
      else if length txt = n then (txt, int n)
      else (take n txt, - 1))"

text \<open>The callback reads the buffer as a C string; without a NUL it runs past its end.\<close>

definition lprintf :: "wstr \<Rightarrow> fault + wstr \<times> int" where
  "lprintf txt =
     (let (szBuffer, retValue) = vsnwprintf 1024 txt in
      case cstr szBuffer of None \<Rightarrow> Inl AccessViolation | Some s \<Rightarrow> Inr (s, retValue))"

text \<open>What the callback receives from a sequence of calls.\<close>

fun log_output :: "wstr list \<Rightarrow> fault + wstr" where
  "log_output [] = Inr []"
| "log_output (t # ts) = bnd (lprintf t) (\<lambda>(s, _). bnd (log_output ts) (\<lambda>r. Inr (s @ r)))"

section \<open>Contexts\<close>

record WOW64_CONTEXT =
  w_ContextFlags :: DWORD
  w_Eax :: DWORD
  w_Ebx :: DWORD
  w_Ecx :: DWORD
  w_Edx :: DWORD
  w_Esi :: DWORD
  w_Edi :: DWORD
  w_Eip :: DWORD
  w_Esp :: DWORD
  w_Ebp :: DWORD
  w_EFlags :: DWORD
  w_SegCs :: DWORD
  w_SegSs :: DWORD
  w_SegDs :: DWORD
  w_SegEs :: DWORD
  w_SegFs :: DWORD
  w_SegGs :: DWORD

record CONTEXT =
  c_ContextFlags :: DWORD
  c_Rax :: DWORD64
  c_Rbx :: DWORD64
  c_Rcx :: DWORD64
  c_Rdx :: DWORD64
  c_Rsi :: DWORD64
  c_Rdi :: DWORD64
  c_R8 :: DWORD64
  c_R9 :: DWORD64
  c_R10 :: DWORD64
  c_R11 :: DWORD64
  c_R12 :: DWORD64
  c_R13 :: DWORD64
  c_R14 :: DWORD64
  c_R15 :: DWORD64
  c_Rip :: DWORD64
  c_Rsp :: DWORD64
  c_Rbp :: DWORD64
  c_EFlags :: DWORD
  c_SegCs :: WORD
  c_SegSs :: WORD
  c_SegDs :: WORD
  c_SegEs :: WORD
  c_SegFs :: WORD
  c_SegGs :: WORD
  c_Xmm :: "nat \<Rightarrow> DWORD64 \<times> DWORD64"     \<comment> \<open>High and Low\<close>
  c_X :: "nat \<Rightarrow> DWORD64"                   \<comment> \<open>this and the rest: in the ARM64 build only\<close>
  c_Sp :: DWORD64
  c_Pc :: DWORD64

abbreviation WOW64_CONTEXT_CONTROL :: DWORD where "WOW64_CONTEXT_CONTROL \<equiv> 0x10001"
abbreviation WOW64_CONTEXT_INTEGER :: DWORD where "WOW64_CONTEXT_INTEGER \<equiv> 0x10002"
abbreviation WOW64_CONTEXT_SEGMENTS :: DWORD where "WOW64_CONTEXT_SEGMENTS \<equiv> 0x10004"
abbreviation WOW64_CONTEXT_FULL :: DWORD where "WOW64_CONTEXT_FULL \<equiv> 0x10007"
abbreviation CONTEXT_CONTROL :: DWORD where "CONTEXT_CONTROL \<equiv> 0x100001"
abbreviation CONTEXT_INTEGER :: DWORD where "CONTEXT_INTEGER \<equiv> 0x100002"
abbreviation CONTEXT_SEGMENTS :: DWORD where "CONTEXT_SEGMENTS \<equiv> 0x100004"
abbreviation CONTEXT_FLOATING_POINT :: DWORD where "CONTEXT_FLOATING_POINT \<equiv> 0x100008"
abbreviation CONTEXT_FULL :: DWORD where "CONTEXT_FULL \<equiv> 0x10000B"

text \<open>The processor flags, in the order of the format string.\<close>

definition flag_text :: "DWORD \<Rightarrow> string" where
  "flag_text EFlags =
     (let f = (\<lambda>mask s c. '' '' @ (if flag_set EFlags mask then s else c)) in
      f 0x00100000 ''vip'' ''   '' @ f 0x00080000 ''vif'' ''   '' @ f 0x00000800 ''ov'' ''nv'' @
      f 0x00000400 ''dn'' ''up'' @ f 0x00000200 ''ei'' ''di'' @ f 0x00000080 ''ng'' ''pl'' @
      f 0x00000040 ''zr'' ''nz'' @ f 0x00000010 ''ac'' ''na'' @ f 0x00000004 ''po'' ''pe'' @
      f 0x00000001 ''cy'' ''nc'')"

definition iopl_text :: "DWORD \<Rightarrow> string" where
  "iopl_text EFlags = '' iopl='' @ fmt_x 1 (drop_bit 12 EFlags AND 3)"

definition blanks :: "nat \<Rightarrow> string" where
  "blanks n = replicate n (CHR '' '')"

text \<open>\<open>dumpContext\<close> of a 32-bit context.\<close>

definition dumpContext_WOW64 :: "WOW64_CONTEXT \<Rightarrow> wstr list" where
  "dumpContext_WOW64 c =
     [W ''Registers:'' @ [NL]] @
     (if flag_set (w_ContextFlags c) WOW64_CONTEXT_INTEGER then
        [W (''eax='' @ fmt_x 8 (w_Eax c) @ '' ebx='' @ fmt_x 8 (w_Ebx c) @ '' ecx='' @ fmt_x 8 (w_Ecx c) @
            '' edx='' @ fmt_x 8 (w_Edx c) @ '' esi='' @ fmt_x 8 (w_Esi c) @ '' edi='' @ fmt_x 8 (w_Edi c)) @ [NL]]
      else []) @
     (if flag_set (w_ContextFlags c) CONTEXT_CONTROL then
        [W (''eip='' @ fmt_x 8 (w_Eip c) @ '' esp='' @ fmt_x 8 (w_Esp c) @ '' ebp='' @ fmt_x 8 (w_Ebp c) @
            iopl_text (w_EFlags c) @ flag_text (w_EFlags c)) @ [NL]]
      else []) @
     (if flag_set (w_ContextFlags c) WOW64_CONTEXT_SEGMENTS then
        [W (''cs='' @ fmt_x 4 (w_SegCs c) @ ''  ss='' @ fmt_x 4 (w_SegSs c) @ ''  ds='' @ fmt_x 4 (w_SegDs c) @
            ''  es='' @ fmt_x 4 (w_SegEs c) @ ''  fs='' @ fmt_x 4 (w_SegFs c) @ ''  gs='' @ fmt_x 4 (w_SegGs c))] @
        (if flag_set (w_ContextFlags c) WOW64_CONTEXT_CONTROL
         then [W (blanks 13 @ ''efl='' @ fmt_x 8 (w_EFlags c))] else [])
      else
        (if flag_set (w_ContextFlags c) WOW64_CONTEXT_CONTROL
         then [W (blanks 71 @ ''efl='' @ fmt_x 8 (w_EFlags c))] else [])) @
     [[NL, NL]]"

definition xmm_reg :: "CONTEXT \<Rightarrow> nat \<Rightarrow> string" where
  "xmm_reg c i =
     ''xmm'' @ num_str False 10 i @ ''='' @ fmt_X 16 (fst (c_Xmm c i)) @ '':'' @ fmt_X 16 (snd (c_Xmm c i))"

definition XMM_LINE :: "CONTEXT \<Rightarrow> nat \<Rightarrow> wstr" where
  "XMM_LINE c i =
     W (xmm_reg c i @ '' '' @ xmm_reg c (i + 1) @ '' '' @ xmm_reg c (i + 2) @ '' '' @ xmm_reg c (i + 3)) @ [NL]"

text \<open>\<open>dumpContext\<close> of a 64-bit context.\<close>

definition dumpContext :: "CONTEXT \<Rightarrow> wstr list" where
  "dumpContext c =
     [W ''Registers:'' @ [NL]] @
     (if flag_set (c_ContextFlags c) CONTEXT_INTEGER then
        [W (''rax='' @ fmt_X 16 (c_Rax c) @ '' rbx='' @ fmt_X 16 (c_Rbx c) @ '' rcx='' @ fmt_X 16 (c_Rcx c)) @ [NL] @
         W (''rdx='' @ fmt_X 16 (c_Rdx c) @ '' rsi='' @ fmt_X 16 (c_Rsi c) @ '' rdi='' @ fmt_X 16 (c_Rdi c)) @ [NL] @
         W (''r8 ='' @ fmt_X 16 (c_R8 c) @ '' r9 ='' @ fmt_X 16 (c_R9 c) @ '' r10='' @ fmt_X 16 (c_R10 c) @
            '' r11='' @ fmt_X 16 (c_R11 c)) @ [NL] @
         W (''r12='' @ fmt_X 16 (c_R12 c) @ '' r13='' @ fmt_X 16 (c_R13 c) @ '' r14='' @ fmt_X 16 (c_R14 c) @
            '' r15='' @ fmt_X 16 (c_R15 c)) @ [NL]]
      else []) @
     (if flag_set (c_ContextFlags c) CONTEXT_CONTROL then
        [W (''rip='' @ fmt_X 16 (c_Rip c) @ '' rsp='' @ fmt_X 16 (c_Rsp c) @ '' rbp='' @ fmt_X 16 (c_Rbp c) @
            iopl_text (c_EFlags c) @ flag_text (c_EFlags c)) @ [NL]]
      else []) @
     (if flag_set (c_ContextFlags c) CONTEXT_SEGMENTS then
        [W (''cs='' @ fmt_x 4 (c_SegCs c) @ ''  ss='' @ fmt_x 4 (c_SegSs c) @ ''  ds='' @ fmt_x 4 (c_SegDs c) @
            ''  es='' @ fmt_x 4 (c_SegEs c) @ ''  fs='' @ fmt_x 4 (c_SegFs c) @ ''  gs='' @ fmt_x 4 (c_SegGs c)),
         (if flag_set (c_ContextFlags c) CONTEXT_CONTROL
          then W (blanks 13 @ ''efl='' @ fmt_x 8 (c_EFlags c)) @ [NL] else [NL])]
      else
        (if flag_set (c_ContextFlags c) CONTEXT_CONTROL
         then [W (blanks 71 @ ''efl='' @ fmt_x 8 (c_EFlags c)) @ [NL]] else [])) @
     (if flag_set (c_ContextFlags c) CONTEXT_FLOATING_POINT
      then [XMM_LINE c 0, XMM_LINE c 4, XMM_LINE c 8, XMM_LINE c 12] else []) @
     [[NL, NL]]"

section \<open>Windows\<close>

text \<open>The memory of a context, read as either structure: the code casts the one pointer to the other.\<close>

type_synonym context_memory = "WOW64_CONTEXT \<times> CONTEXT"

datatype machine_type = IMAGE_FILE_MACHINE_I386 | IMAGE_FILE_MACHINE_AMD64 | IMAGE_FILE_MACHINE_ARM64

record STACKFRAME64 =
  AddrPC :: DWORD64
  AddrStack :: DWORD64
  AddrFrame :: DWORD64
  Param0 :: DWORD64
  Param1 :: DWORD64
  Param2 :: DWORD64

record EXCEPTION_RECORD =
  ExceptionCode :: DWORD
  ExceptionAddress :: DWORD64
  NumberParameters :: DWORD
  ExceptionInformation0 :: DWORD64
  ExceptionInformation1 :: DWORD64

record MODULEENTRY32W =
  modBaseAddr :: DWORD64
  modBaseSize :: DWORD
  szExePath :: wstr

record log_os = sym_os +
  lo_IsWow64Process :: "HANDLE \<Rightarrow> bool"
  lo_StackWalk64 :: "machine_type \<Rightarrow> HANDLE \<Rightarrow> HANDLE \<Rightarrow> STACKFRAME64 \<times> context_memory \<Rightarrow>
    (STACKFRAME64 \<times> context_memory) option"
  lo_SymGetModuleBase64 :: "HANDLE \<Rightarrow> DWORD64 \<Rightarrow> DWORD64"
  lo_GetModuleFileNameExW :: "HANDLE \<Rightarrow> DWORD64 \<Rightarrow> wstr option"
  lo_GetModuleHandleA_ntdll :: bool
  lo_GetProcAddress_wine :: bool
  lo_wfopen :: "wstr \<Rightarrow> BYTE list option"
  lo_GetFileVersionInfoSizeW :: "wstr \<Rightarrow> DWORD"
  lo_GetFileVersionInfoW :: "wstr \<Rightarrow> bool"
  lo_VerQueryValueW :: "wstr \<Rightarrow> (DWORD \<times> DWORD) option"
  lo_Toolhelp32Modules :: "HANDLE \<Rightarrow> MODULEENTRY32W list option"

definition isInsideWine :: "'a log_os_scheme \<Rightarrow> bool" where
  "isInsideWine os = (lo_GetModuleHandleA_ntdll os \<and> lo_GetProcAddress_wine os)"

section \<open>Source lines\<close>

definition isprint :: "BYTE \<Rightarrow> bool" where
  "isprint c \<longleftrightarrow> 0x20 \<le> c \<and> c \<le> 0x7e"

text \<open>
  The inner loops read up to the next line feed; without one they read up to the end of the file,
  which sets the end-of-file flag, so that the outer loop ends.
\<close>

definition read_line :: "BYTE list \<Rightarrow> BYTE list \<times> BYTE list option" where
  "read_line bs =
     (takeWhile (\<lambda>b. b \<noteq> 10) bs,
      case dropWhile (\<lambda>b. b \<noteq> 10) bs of [] \<Rightarrow> None | b # rest \<Rightarrow> Some rest)"

lemma read_line_shorter: "snd (read_line bs) = Some rest \<Longrightarrow> length rest < length bs"
  using length_dropWhile_le [of "\<lambda>b. b \<noteq> 10" bs]
  by (auto simp: read_line_def split: list.splits)

definition source_line :: "BYTE list \<Rightarrow> DWORD \<Rightarrow> DWORD \<Rightarrow> wstr list" where
  "source_line line i dwLineNumber =
     (if sint i \<ge> sint (dwLineNumber - 2) then
        [W ((if i = dwLineNumber then ''>'' @ fmt_i 5 i else fmt_i 6 i) @ '': '')] @
        map (\<lambda>c. [ucast c]) (filter isprint line) @ [[NL]]
      else [])"

function source_loop :: "BYTE list \<Rightarrow> DWORD \<Rightarrow> DWORD \<Rightarrow> wstr list" where
  "source_loop bs i dwLineNumber =
     (if i + 1 \<le> dwLineNumber + 2 then
        source_line (fst (read_line bs)) (i + 1) dwLineNumber @
        (case snd (read_line bs) of
           None \<Rightarrow> []
         | Some rest \<Rightarrow> source_loop rest (i + 1) dwLineNumber)
      else [])"
  by pat_completeness auto
termination
  by (relation "measure (\<lambda>(bs, _, _). length bs)") (auto intro: read_line_shorter)

declare source_loop.simps [simp del]

text \<open>\<open>FALSE\<close>, with nothing logged, when the file cannot be opened; a file just opened is not at its end.\<close>

definition dumpSourceCode :: "'a log_os_scheme \<Rightarrow> wstr \<Rightarrow> DWORD \<Rightarrow> bool \<times> wstr list" where
  "dumpSourceCode os lpFileName dwLineNumber =
     (case lo_wfopen os lpFileName of
        None \<Rightarrow> (False, [])
      | Some bs \<Rightarrow> (True, source_loop bs 0 dwLineNumber))"

section \<open>The stack\<close>

definition frame_params :: "machine_type \<Rightarrow> STACKFRAME64 \<Rightarrow> wstr" where
  "frame_params MachineType sf =
     (if MachineType = IMAGE_FILE_MACHINE_I386 then
        (let f = (\<lambda>a. fmt_X 8 (ucast a :: DWORD)) in
         W (f (AddrPC sf) @ '' '' @ f (Param0 sf) @ '' '' @ f (Param1 sf) @ '' '' @ f (Param2 sf)))
      else
        W (fmt_X 16 (AddrPC sf) @ '' '' @ fmt_X 16 (Param0 sf) @ '' '' @ fmt_X 16 (Param1 sf) @ '' '' @
           fmt_X 16 (Param2 sf)))"

text \<open>
  Module, symbol and line of a frame: what is logged, and the line found. \<open>nudge\<close> is 0 for the
  innermost frame and -1 for its callers. \<open>%S\<close> and \<open>%ls\<close> run past buffers without a NUL.
\<close>

definition frame_line :: "'a log_os_scheme \<Rightarrow> HANDLE \<Rightarrow> DWORD64 \<Rightarrow> fault + wstr list \<times> (wstr \<times> DWORD) option" where
  "frame_line os hProcess a =
     (case GetLineFromAddr os hProcess a MAX_PATH of
        None \<Rightarrow> Inr ([], None)
      | Some (szFileName, n) \<Rightarrow>
          (case cstr szFileName of
             None \<Rightarrow> Inl AccessViolation
           | Some f \<Rightarrow> Inr ([W ''  ['' @ f @ W ('':'' @ fmt_d n @ '']'')], Some (f, n))))"

definition frame_symbol :: "'a log_os_scheme \<Rightarrow> HANDLE \<Rightarrow> DWORD64 \<Rightarrow> DWORD64 \<Rightarrow> DWORD64 \<Rightarrow>
    fault + wstr list \<times> (wstr \<times> DWORD) option" where
  "frame_symbol os hProcess hModule pc nudge =
     (case GetSymFromAddr os hProcess (pc + nudge) 512 of
        None \<Rightarrow> Inr ([W (''!0x'' @ fmt_x 0 (pc - hModule))], None)
      | Some (szSymName, dwOffsetFromSymbol) \<Rightarrow>
          (case cstr szSymName of
             None \<Rightarrow> Inl AccessViolation
           | Some s \<Rightarrow>
               bnd (frame_line os hProcess (pc + nudge)) (\<lambda>(texts, line).
                 Inr ((W ''!'' @ map ucast s @ W (''+0x'' @ fmt_x 0 (dwOffsetFromSymbol - ucast nudge))) # texts,
                      line))))"

definition frame_location :: "'a log_os_scheme \<Rightarrow> HANDLE \<Rightarrow> DWORD64 \<Rightarrow> DWORD64 \<Rightarrow>
    fault + wstr list \<times> (wstr \<times> DWORD) option" where
  "frame_location os hProcess pc nudge =
     (let hModule = lo_SymGetModuleBase64 os hProcess pc in
      case (if hModule = 0 then None else lo_GetModuleFileNameExW os hProcess hModule) of
        None \<Rightarrow> Inr ([], None)
      | Some szModule \<Rightarrow>
          bnd (frame_symbol os hProcess hModule pc nudge) (\<lambda>(texts, line).
            Inr ((W ''  '' @ getBaseNameW szModule) # texts, line)))"

text \<open>Everything logged for one frame.\<close>

definition frame_texts :: "'a log_os_scheme \<Rightarrow> machine_type \<Rightarrow> HANDLE \<Rightarrow> STACKFRAME64 \<Rightarrow> DWORD64 \<Rightarrow>
    fault + wstr list" where
  "frame_texts os MachineType hProcess sf nudge =
     bnd (frame_location os hProcess (AddrPC sf) nudge) (\<lambda>(texts, line).
       Inr (frame_params MachineType sf # texts @ [[NL]] @
            (case line of None \<Rightarrow> [] | Some (f, n) \<Rightarrow> snd (dumpSourceCode os f n))))"

text \<open>
  The walk. It goes on only while the stack address grows, so that it takes fewer than 2^64 steps:
  the recursion is by that address.
\<close>

definition walk_ends :: "'a log_os_scheme \<Rightarrow> STACKFRAME64 \<Rightarrow> DWORD64 \<Rightarrow> bool" where
  "walk_ends os sf PrevFrameStackOffset \<longleftrightarrow>
     AddrStack sf \<le> PrevFrameStackOffset \<or> AddrPC sf = 0xBAADF00D \<or>
     isInsideWine os \<and> AddrFrame sf = 0"

function stack_loop :: "'a log_os_scheme \<Rightarrow> machine_type \<Rightarrow> HANDLE \<Rightarrow> HANDLE \<Rightarrow> STACKFRAME64 \<times> context_memory \<Rightarrow>
    DWORD64 \<Rightarrow> DWORD64 \<Rightarrow> fault + wstr list" where
  "stack_loop os MachineType hProcess hThread sfc PrevFrameStackOffset nudge =
     (case lo_StackWalk64 os MachineType hProcess hThread sfc of
        None \<Rightarrow> Inr []
      | Some sfc' \<Rightarrow>
          bnd (frame_texts os MachineType hProcess (fst sfc') nudge) (\<lambda>texts.
            if walk_ends os (fst sfc') PrevFrameStackOffset then Inr texts
            else bnd (stack_loop os MachineType hProcess hThread sfc' (AddrStack (fst sfc')) (- 1))
                   (\<lambda>rest. Inr (texts @ rest))))"
  by pat_completeness auto
termination
  by (relation "measure (\<lambda>(_, _, _, _, _, prev, _). 2 ^ 64 - unat (prev :: DWORD64))")
    (auto simp: walk_ends_def not_le intro: unat_minus_less [where 'a = 64, simplified])

declare stack_loop.simps [simp del]

definition start_frame :: "DWORD64 \<Rightarrow> DWORD64 \<Rightarrow> DWORD64 \<Rightarrow> STACKFRAME64" where
  "start_frame pc sp fp = \<lparr>AddrPC = pc, AddrStack = sp, AddrFrame = fp, Param0 = 0, Param1 = 0, Param2 = 0\<rparr>"

text \<open>The machine type and the frame to start from: registers of the 32-bit or the 64-bit context.\<close>

definition stack_start :: "bool \<Rightarrow> context_memory \<Rightarrow> machine_type \<times> STACKFRAME64" where
  "stack_start bWow64 Context =
     (let wc = fst Context; nc = snd Context in
      if bWow64
      then (IMAGE_FILE_MACHINE_I386, start_frame (ucast (w_Eip wc)) (ucast (w_Esp wc)) (ucast (w_Ebp wc)))
      else (IMAGE_FILE_MACHINE_AMD64, start_frame (c_Rip nc) (c_Rsp nc) (c_Rbp nc)))"

definition context_is_full :: "bool \<Rightarrow> context_memory \<Rightarrow> bool" where
  "context_is_full bWow64 Context =
     (if bWow64 then w_ContextFlags (fst Context) AND WOW64_CONTEXT_FULL = WOW64_CONTEXT_FULL
      else c_ContextFlags (snd Context) AND CONTEXT_FULL = CONTEXT_FULL)"

definition stack_header :: "bool \<Rightarrow> context_memory \<Rightarrow> wstr list" where
  "stack_header bWow64 Context =
     (if bWow64 then dumpContext_WOW64 (fst Context) else dumpContext (snd Context)) @
     [W (if bWow64 then ''AddrPC   Params'' else ''AddrPC           Params'') @ [NL]]"

definition dumpStack :: "'a log_os_scheme \<Rightarrow> HANDLE \<Rightarrow> HANDLE \<Rightarrow> context_memory \<Rightarrow> fault + wstr list" where
  "dumpStack os hProcess hThread Context =
     (let bWow64 = lo_IsWow64Process os hProcess; (MachineType, sf) = stack_start bWow64 Context in
      if \<not> context_is_full bWow64 Context \<and> \<not> so_ndebug os then Inl AssertionFailed
      else
        bnd (stack_loop os MachineType hProcess hThread (sf, Context) (AddrStack sf - 1) 0) (\<lambda>frames.
          Inr (stack_header bWow64 Context @ frames @ [[NL]])))"

section \<open>The exception\<close>

definition exception_strings :: "(DWORD \<times> string) list" where
  "exception_strings =
     [(0xC0000005, ''Access Violation''), (0xC0000006, ''In Page Error''), (0xC0000008, ''Invalid Handle''),
      (0xC000001D, ''Illegal Instruction''), (0xC0000025, ''Cannot Continue''),
      (0xC0000026, ''Invalid Disposition''), (0xC000008C, ''Array bounds exceeded''),
      (0xC000008D, ''Floating-point denormal operand''), (0xC000008E, ''Floating-point division by zero''),
      (0xC000008F, ''Floating-point inexact result''), (0xC0000090, ''Floating-point invalid operation''),
      (0xC0000091, ''Floating-point overflow''), (0xC0000092, ''Floating-point stack check''),
      (0xC0000093, ''Floating-point underflow''), (0xC0000094, ''Integer division by zero''),
      (0xC0000095, ''Integer overflow''), (0xC0000096, ''Privileged instruction''),
      (0xC00000FD, ''Stack Overflow''), (0xC0000194, ''Possible deadlock condition''),
      (0xC0000409, ''Fast Fail''), (0xC000041D, ''Fatal User Callback Exception''),
      (0xC0000420, ''Assertion failure''), (0xE0434f4D, ''CLR exception''),
      (0xE06D7363, ''C++ exception handling exception''), (0x80000001, ''Guard Page Exception''),
      (0x80000002, ''Alignment Fault''), (0x80000003, ''Breakpoint''), (0x80000004, ''Single Step''),
      (0x4000001F, ''Breakpoint''), (0x40000015, ''Fast Application Exit''),
      (0x40010003, ''Terminate Thread''), (0x40010004, ''Terminate Process''), (0x40010005, ''Control+C''),
      (0x40010008, ''Control+Break''), (0x406D1388, ''Thread Name Exception''),
      (1717, ''Unknown Interface''), (1722, ''Server Unavailable'')]"

definition getExceptionString :: "DWORD \<Rightarrow> string option" where
  "getExceptionString code = map_of exception_strings code"

definition article :: "string \<Rightarrow> string" where
  "article s =
     (if s \<noteq> [] \<and> hd s \<in> {CHR ''A'', CHR ''E'', CHR ''I'', CHR ''O'', CHR ''U''} then ''an'' else ''a'')"

definition fast_fail_codes :: "string list" where
  "fast_fail_codes =
     [''LEGACY_GS_VIOLATION'', ''VTGUARD_CHECK_FAILURE'', ''STACK_COOKIE_CHECK_FAILURE'', ''CORRUPT_LIST_ENTRY'',
      ''INCORRECT_STACK'', ''INVALID_ARG'', ''GS_COOKIE_INIT'', ''FATAL_APP_EXIT'', ''RANGE_CHECK_FAILURE'',
      ''UNSAFE_REGISTRY_ACCESS'']"

definition access_verb :: "DWORD64 \<Rightarrow> string" where
  "access_verb kind =
     (if kind = 0 then ''Reading from'' else if kind = 1 then ''Writing to''
      else if kind = 8 then ''DEP violation at'' else ''Accessing'')"

abbreviation EXCEPTION_ACCESS_VIOLATION :: DWORD where "EXCEPTION_ACCESS_VIOLATION \<equiv> 0xC0000005"
abbreviation EXCEPTION_IN_PAGE_ERROR :: DWORD where "EXCEPTION_IN_PAGE_ERROR \<equiv> 0xC0000006"
abbreviation STATUS_STACK_BUFFER_OVERRUN :: DWORD where "STATUS_STACK_BUFFER_OVERRUN \<equiv> 0xC0000409"

definition exception_kind :: "DWORD \<Rightarrow> wstr" where
  "exception_kind code =
     (case getExceptionString code of
        Some s \<Rightarrow> W ('' '' @ article s @ '' '' @ s)
      | None \<Rightarrow> W ('' an Unknown [0x'' @ fmt_X 0 code @ ''] Exception''))"

definition exception_access :: "EXCEPTION_RECORD \<Rightarrow> wstr list" where
  "exception_access r =
     (if (ExceptionCode r = EXCEPTION_ACCESS_VIOLATION \<or> ExceptionCode r = EXCEPTION_IN_PAGE_ERROR) \<and>
         NumberParameters r \<ge> 2
      then [W ('' '' @ access_verb (ExceptionInformation0 r) @ '' location '' @ fmt_p (ExceptionInformation1 r))]
      else [])"

definition fast_fail :: "EXCEPTION_RECORD \<Rightarrow> wstr list" where
  "fast_fail r =
     (if ExceptionCode r = STATUS_STACK_BUFFER_OVERRUN \<and> NumberParameters r \<ge> 1 then
        (let uCode = (ucast (ExceptionInformation0 r) :: DWORD);
             szCode = (if unat uCode < length fast_fail_codes then fast_fail_codes ! unat uCode
                       else ''INVALID_FAST_FAIL_CODE'')
         in [W ('' with code '' @ fmt_u uCode @ '' ('' @ szCode @ '')'')])
      else [])"

definition dumpException :: "'a log_os_scheme \<Rightarrow> HANDLE \<Rightarrow> EXCEPTION_RECORD \<Rightarrow> wstr list" where
  "dumpException os hProcess r =
     [(case lo_GetModuleFileNameExW os hProcess 0 of
         Some szModule \<Rightarrow> getBaseNameW szModule | None \<Rightarrow> W ''Application'') @ W '' caused'',
      exception_kind (ExceptionCode r),
      W ('' at location '' @ fmt_p (ExceptionAddress r))] @
     (let hModule = lo_SymGetModuleBase64 os hProcess (ExceptionAddress r) in
      case (if hModule = 0 then None else lo_GetModuleFileNameExW os hProcess hModule) of
        Some szModule \<Rightarrow> [W '' in module '' @ getBaseNameW szModule]
      | None \<Rightarrow> []) @
     exception_access r @ fast_fail r @ [W ''.'' @ [NL, NL]]"

section \<open>Modules\<close>

definition LOWORD :: "DWORD \<Rightarrow> WORD" where "LOWORD w = ucast w"

definition HIWORD :: "DWORD \<Rightarrow> WORD" where "HIWORD w = ucast (drop_bit 16 w)"

definition getModuleVersionInfo :: "'a log_os_scheme \<Rightarrow> wstr \<Rightarrow> WORD list option" where
  "getModuleVersionInfo os szModule =
     (if lo_GetFileVersionInfoSizeW os szModule > 0 \<and> lo_GetFileVersionInfoW os szModule then
        map_option (\<lambda>(ms, ls). [HIWORD ms, LOWORD ms, HIWORD ls, LOWORD ls]) (lo_VerQueryValueW os szModule)
      else None)"

definition pad_right :: "nat \<Rightarrow> wstr \<Rightarrow> wstr" where
  "pad_right n s = s @ replicate (n - length s) (W_char (CHR '' ''))"

definition module_range :: "machine_type \<Rightarrow> MODULEENTRY32W \<Rightarrow> wstr" where
  "module_range MachineType me =
     (if MachineType = IMAGE_FILE_MACHINE_I386 then
        W (fmt_X 8 (ucast (modBaseAddr me) :: DWORD) @ ''-'' @
           fmt_X 8 (ucast (modBaseAddr me) + modBaseSize me) @ '' '')
      else
        W (fmt_X 16 (modBaseAddr me) @ ''-'' @ fmt_X 16 (modBaseAddr me + ucast (modBaseSize me)) @ '' ''))"

definition module_name_version :: "'a log_os_scheme \<Rightarrow> MODULEENTRY32W \<Rightarrow> wstr" where
  "module_name_version os me =
     (let szBaseName = getBaseNameW (szExePath me) in
      case getModuleVersionInfo os (szExePath me) of
        Some [a, b, c, d] \<Rightarrow>
          pad_right 12 szBaseName @ [TAB] @
          W (fmt_u a @ ''.'' @ fmt_u b @ ''.'' @ fmt_u c @ ''.'' @ fmt_u d) @ [NL]
      | _ \<Rightarrow> szBaseName @ [NL])"

text \<open>No snapshot, no output; a snapshot without a module, no final blank line.\<close>

definition dumpModules :: "'a log_os_scheme \<Rightarrow> HANDLE \<Rightarrow> wstr list" where
  "dumpModules os hProcess =
     (case lo_Toolhelp32Modules os hProcess of
        None \<Rightarrow> []
      | Some [] \<Rightarrow> []
      | Some ms \<Rightarrow>
          (let MachineType = (if lo_IsWow64Process os hProcess then IMAGE_FILE_MACHINE_I386
                              else IMAGE_FILE_MACHINE_AMD64)
           in concat (map (\<lambda>me. [module_range MachineType me, module_name_version os me]) ms) @ [[NL]]))"

end
