(* ===== verification/Log_Facts.thy ===== *)
theory Log_Facts
  imports Log
begin

text \<open>
  What makes the log correct: that what is formatted fits the buffer of \<open>lprintf\<close>, that the stack walk
  logs one frame after the other up the stack, that offsets and source lines are the right ones.
\<close>

section \<open>Texts that fit\<close>

definition fits :: "wstr \<Rightarrow> bool" where
  "fits t \<longleftrightarrow> length t < 1024 \<and> 0 \<notin> set t"

lemma lprintf_fits: "fits t \<Longrightarrow> lprintf t = Inr (t, int (length t))"
  by (simp add: fits_def lprintf_def vsnwprintf_def cstr_append_NUL)

lemma log_output_fits: "list_all fits ts \<Longrightarrow> log_output ts = Inr (concat ts)"
  by (induction ts) (simp_all add: lprintf_fits)

lemma lprintf_overrun:
  assumes "0 \<notin> set t" and "1024 \<le> length t"
  shows "lprintf t = Inl AccessViolation"
proof -
  have "0 \<notin> set (take 1024 t)"
    using assms(1) by (auto dest: in_set_takeD)
  then have "cstr (take 1024 t) = None" and "cstr t = None"
    using assms(1) by (simp_all add: cstr_None_iff)
  with assms(2) show ?thesis
    by (auto simp: lprintf_def vsnwprintf_def Let_def)
qed

text \<open>No conversion yields a NUL.\<close>

definition no_NUL :: "string \<Rightarrow> bool" where
  "no_NUL s \<longleftrightarrow> CHR 0x00 \<notin> set s"

lemma no_NUL_simps [simp]:
  "no_NUL []" "no_NUL (c # s) \<longleftrightarrow> c \<noteq> CHR 0x00 \<and> no_NUL s" "no_NUL (s @ t) \<longleftrightarrow> no_NUL s \<and> no_NUL t"
  "no_NUL (replicate n c) \<longleftrightarrow> n = 0 \<or> c \<noteq> CHR 0x00"
  by (auto simp: no_NUL_def)

lemma of_char16_eq_0: "(of_char c :: 16 word) = 0 \<longleftrightarrow> c = CHR 0x00"
  using of_char16_inject [of c "CHR 0x00"] by simp

lemma zero_in_W: "0 \<in> set (W s) \<longleftrightarrow> \<not> no_NUL s"
  by (auto simp: W_def no_NUL_def of_char16_eq_0 image_iff)

lemma W_char_not_0 [simp]: "c \<noteq> CHR 0x00 \<Longrightarrow> W_char c \<noteq> 0"
  by (simp add: W_char_def of_char16_eq_0)

lemma digit_char_not_0: "d < 36 \<Longrightarrow> digit_char up d \<noteq> CHR 0x00"
  using digit_code_char [of d up] by (auto simp: digit_code_def)

lemma no_NUL_num [simp]:
  assumes "2 \<le> b" and "b \<le> 36"
  shows "no_NUL (num_str up b n)"
proof -
  have "digit_char up d \<noteq> CHR 0x00" if "d \<in> set (to_digits b n)" for d
    using digit_char_not_0 [of d up] to_digits_lt [OF assms(1) that] assms(2) by simp
  then show ?thesis
    by (force simp: no_NUL_def num_str_def)
qed

lemma no_NUL_fmt [simp]:
  "no_NUL (fmt_x k w)" "no_NUL (fmt_X k w)" "no_NUL (fmt_u w)" "no_NUL (fmt_p p)" "no_NUL (int_str i)"
  by (simp_all add: fmt_x_def fmt_X_def fmt_u_def fmt_p_def int_str_def zero_pad_def)

text \<open>Lengths.\<close>

lemma length_hex_le: "length (num_str up 16 (unat (w :: 'a::len word))) \<le> LENGTH('a)"
proof -
  have "unat w < 16 ^ LENGTH('a)"
    using unat_lt_max [of w] power_mono [of "2 :: nat" 16 "LENGTH('a)"] by linarith
  then show ?thesis
    by (intro length_num_str) simp_all
qed

lemma length_fmt_le:
  "length (fmt_x k (w :: 'a::len word)) \<le> max k LENGTH('a)"
  "length (fmt_X k (w :: 'a::len word)) \<le> max k LENGTH('a)"
  using max.mono [OF order.refl length_hex_le, of k _ w] by (simp_all add: fmt_x_def fmt_X_def)

lemma fmt_bounds:
  fixes d :: "32 word" and q :: "64 word" and w :: "16 word"
  shows "k \<le> 32 \<Longrightarrow> length (fmt_x k d) \<le> 32" and "k \<le> 32 \<Longrightarrow> length (fmt_X k d) \<le> 32"
    and "length (fmt_X 16 q) \<le> 16" and "length (fmt_p q) \<le> 16"
    and "k \<le> 16 \<Longrightarrow> length (fmt_x k w) \<le> 16"
  using length_fmt_le [of k d] length_fmt_le [of k w] by (simp_all add: fmt_p_def length_fmt_hex16)

lemma length_flag_text: "length (flag_text f) \<le> 40"
  by (simp add: flag_text_def Let_def)

lemma no_NUL_flag_text [simp]: "no_NUL (flag_text f)"
  by (simp add: flag_text_def Let_def)

lemma length_iopl: "length (iopl_text f) \<le> 38"
  using fmt_bounds(1) [of 1 "drop_bit 12 f AND 3"] by (simp add: iopl_text_def)

lemma no_NUL_iopl [simp]: "no_NUL (iopl_text f)"
  by (simp add: iopl_text_def)

section \<open>The stack walk\<close>

text \<open>The frames a walk logs: \<open>StackWalk64\<close> is called until it fails or the walk ends.\<close>

inductive walk :: "'a log_os_scheme \<Rightarrow> machine_type \<Rightarrow> HANDLE \<Rightarrow> HANDLE \<Rightarrow> STACKFRAME64 \<times> context_memory \<Rightarrow>
    DWORD64 \<Rightarrow> STACKFRAME64 list \<Rightarrow> bool" for os mt hP hT where
  no_frame: "lo_StackWalk64 os mt hP hT sfc = None \<Longrightarrow> walk os mt hP hT sfc prev []"
| last_frame: "lo_StackWalk64 os mt hP hT sfc = Some sfc' \<Longrightarrow> walk_ends os (fst sfc') prev \<Longrightarrow>
    walk os mt hP hT sfc prev [fst sfc']"
| caller: "lo_StackWalk64 os mt hP hT sfc = Some sfc' \<Longrightarrow> \<not> walk_ends os (fst sfc') prev \<Longrightarrow>
    walk os mt hP hT sfc' (AddrStack (fst sfc')) fs \<Longrightarrow> walk os mt hP hT sfc prev (fst sfc' # fs)"

lemma walk_ascending:
  "walk os mt hP hT sfc prev fs \<Longrightarrow> sorted_wrt (<) (prev # map AddrStack (butlast fs))"
proof (induction rule: walk.induct)
  case (caller sfc sfc' prev fs)
  then have "prev < AddrStack (fst sfc')"
    by (simp add: walk_ends_def not_le)
  moreover from this caller.IH have "\<forall>x\<in>set (butlast fs). prev < AddrStack x"
    by (auto intro: order.strict_trans)
  ultimately show ?case
    using caller.IH by auto
qed simp_all

text \<open>Every frame is logged, in order: the innermost one at its address, the others one byte below.\<close>

definition logged :: "'a log_os_scheme \<Rightarrow> machine_type \<Rightarrow> HANDLE \<Rightarrow> DWORD64 \<Rightarrow> STACKFRAME64 list \<Rightarrow> wstr list list \<Rightarrow> bool" where
  "logged os mt hP nudge fs tss \<longleftrightarrow>
     list_all2 (\<lambda>(sf, n) ts. frame_texts os mt hP sf n = Inr ts)
       (zip fs (nudge # replicate (length fs) (- 1))) tss"

lemma logged_Nil: "logged os mt hP n [] []"
  by (simp add: logged_def)

lemma logged_Cons:
  "frame_texts os mt hP sf n = Inr ts \<Longrightarrow> logged os mt hP (- 1) fs tss \<Longrightarrow> logged os mt hP n (sf # fs) (ts # tss)"
  by (simp add: logged_def)

lemma stack_loop_walk:
  "stack_loop os mt hP hT sfc prev nudge = Inr out \<Longrightarrow>
   \<exists>fs tss. walk os mt hP hT sfc prev fs \<and> logged os mt hP nudge fs tss \<and> out = concat tss"
proof (induction os mt hP hT sfc prev nudge arbitrary: out rule: stack_loop.induct)
  case (1 os mt hP hT sfc prev nudge)
  show ?case
  proof (cases "lo_StackWalk64 os mt hP hT sfc")
    case None
    then show ?thesis
      using 1(2) walk.no_frame [OF None] logged_Nil
      by (intro exI [of _ "[]"]) (simp add: stack_loop.simps [of os mt])
  next
    case (Some sfc')
    then obtain ts where ts: "frame_texts os mt hP (fst sfc') nudge = Inr ts"
      using 1(2) by (auto simp: stack_loop.simps [of os mt] bnd_eq_Inr)
    show ?thesis
    proof (cases "walk_ends os (fst sfc') prev")
      case True
      then have "out = ts"
        using 1(2) Some ts by (simp add: stack_loop.simps [of os mt])
      then show ?thesis
        using walk.last_frame [OF Some True] logged_Cons [OF ts logged_Nil]
        by (intro exI [of _ "[fst sfc']"] exI [of _ "[ts]"]) simp
    next
      case False
      then obtain rest where rest: "stack_loop os mt hP hT sfc' (AddrStack (fst sfc')) (- 1) = Inr rest"
        and out: "out = ts @ rest"
        using 1(2) Some ts by (auto simp: stack_loop.simps [of os mt _ _ sfc] bnd_eq_Inr)
      obtain fs tss where "walk os mt hP hT sfc' (AddrStack (fst sfc')) fs" "logged os mt hP (- 1) fs tss"
        "rest = concat tss"
        using 1(1) [OF Some ts False rest] by blast
      then show ?thesis
        using walk.caller [OF Some False] logged_Cons [OF ts] out
        by (intro exI [of _ "fst sfc' # fs"] exI [of _ "ts # tss"]) simp
    qed
  qed
qed

lemma stack_loop_total:
  "\<forall>sf n. \<exists>ts. frame_texts os mt hP sf n = Inr ts \<Longrightarrow> \<exists>out. stack_loop os mt hP hT sfc prev nudge = Inr out"
proof (induction os mt hP hT sfc prev nudge rule: stack_loop.induct)
  case (1 os mt hP hT sfc prev nudge)
  show ?case
  proof (cases "lo_StackWalk64 os mt hP hT sfc")
    case None
    then show ?thesis
      by (simp add: stack_loop.simps [of os mt])
  next
    case (Some sfc')
    obtain ts where ts: "frame_texts os mt hP (fst sfc') nudge = Inr ts"
      using 1(2) by blast
    show ?thesis
      using 1(1) [OF Some ts] 1(2) Some ts
      by (cases "walk_ends os (fst sfc') prev") (auto simp: stack_loop.simps [of os mt _ _ sfc])
  qed
qed

section \<open>Source lines\<close>

text \<open>The lines of a file: the pieces between line feeds, the one after the last included.\<close>

fun file_lines :: "BYTE list \<Rightarrow> BYTE list list" where
  "file_lines [] = [[]]"
| "file_lines (b # bs) =
     (if b = 10 then [] # file_lines bs
      else (case file_lines bs of [] \<Rightarrow> [[b]] | l # ls \<Rightarrow> (b # l) # ls))"

lemma file_lines_read:
  "file_lines bs = fst (read_line bs) # (case snd (read_line bs) of None \<Rightarrow> [] | Some rest \<Rightarrow> file_lines rest)"
  by (induction bs) (auto simp: read_line_def split: list.splits option.splits)

text \<open>A line of the excerpt, with its number: the line asked for is marked.\<close>

definition numbered_line :: "nat \<Rightarrow> nat \<times> BYTE list \<Rightarrow> wstr list" where
  "numbered_line n = (\<lambda>(i, line).
     [W ((if i = n then ''>'' @ fmt_i 5 (of_nat i :: DWORD) else fmt_i 6 (of_nat i :: DWORD)) @ '': '')] @
     map (\<lambda>c. [ucast c]) (filter isprint line) @ [[NL]])"

definition near :: "nat \<Rightarrow> nat \<Rightarrow> bool" where
  "near n i \<longleftrightarrow> n \<le> i + 2 \<and> i \<le> n + 2"

lemma of_nat_DWORD:
  assumes "a < 2 ^ 32" and "b < 2 ^ 32"
  shows "(of_nat a :: DWORD) \<le> of_nat b \<longleftrightarrow> a \<le> b" and "(of_nat a :: DWORD) = of_nat b \<longleftrightarrow> a = b"
proof -
  have "unat (of_nat a :: DWORD) = a" and "unat (of_nat b :: DWORD) = b"
    using assms by (simp_all add: unat_of_nat)
  then show "(of_nat a :: DWORD) \<le> of_nat b \<longleftrightarrow> a \<le> b" and "(of_nat a :: DWORD) = of_nat b \<longleftrightarrow> a = b"
    by (simp only: word_le_nat_alt, metis)
qed

lemma sint_DWORD: "- (2 ^ 31) \<le> k \<Longrightarrow> k < 2 ^ 31 \<Longrightarrow> sint (of_int k :: DWORD) = k"
  by (simp add: signed_of_int signed_take_bit_int_eq_self)

lemma source_line_numbered:
  assumes "n + 2 < 2 ^ 31" and "i < n + 2"
  shows "source_line l (of_nat i + 1) (of_nat n) = (if near n (Suc i) then numbered_line n (Suc i, l) else [])"
proof -
  have "sint (of_int (int i + 1) :: DWORD) = int i + 1" and "sint (of_int (int n - 2) :: DWORD) = int n - 2"
    using assms by (intro sint_DWORD; simp)+
  then have "sint (of_nat i + 1 :: DWORD) = int i + 1" and "sint (of_nat n - 2 :: DWORD) = int n - 2"
    by simp_all
  then have window: "sint (of_nat n - 2 :: DWORD) \<le> sint (of_nat i + 1 :: DWORD) \<longleftrightarrow> near n (Suc i)"
    using assms(2) by (simp only: near_def) linarith
  have marked: "(of_nat i + 1 :: DWORD) = of_nat n \<longleftrightarrow> Suc i = n"
    using of_nat_DWORD(2) [of "Suc i" n] assms by (simp add: add.commute)
  show ?thesis
    by (simp only: source_line_def window marked numbered_line_def prod.case of_nat_Suc add.commute [of 1])
qed

lemma not_near_later: "n + 2 < m \<Longrightarrow> filter (\<lambda>(j, l). near n j) (enumerate m ls) = []"
  by (induction ls arbitrary: m) (simp_all add: near_def)

lemma source_loop_lines:
  assumes "n + 2 < 2 ^ 31"
  shows "i \<le> n + 2 \<Longrightarrow> source_loop bs (of_nat i) (of_nat n) =
    concat (map (numbered_line n) (filter (\<lambda>(j, l). near n j) (enumerate (Suc i) (file_lines bs))))"
proof (induction "length bs" arbitrary: bs i rule: less_induct)
  case less
  have test: "(of_nat i + 1 :: DWORD) \<le> of_nat n + 2 \<longleftrightarrow> i < n + 2"
    using of_nat_DWORD(1) [of "Suc i" "n + 2"] assms less.prems by (simp add: add.commute Suc_le_eq)
  show ?case
  proof (cases "i < n + 2")
    case False
    then show ?thesis
      using test by (simp add: source_loop.simps [of bs] not_near_later)
  next
    case True
    have rest: "source_loop rest (of_nat i + 1) (of_nat n) =
        concat (map (numbered_line n) (filter (\<lambda>(j, l). near n j) (enumerate (Suc (Suc i)) (file_lines rest))))"
      if "snd (read_line bs) = Some rest" for rest
      using less.hyps [OF read_line_shorter [OF that], of "Suc i"] True by (simp add: add.commute)
    show ?thesis
      using True test source_line_numbered [OF assms True] rest
      by (subst file_lines_read) (auto simp: source_loop.simps [of bs] split: option.splits)
  qed
qed

section \<open>The register dump\<close>

lemmas hex_lengths = length_fmt_hex8 length_fmt_hex16

lemma length_hex4:
  fixes d :: "32 word" and w :: "16 word"
  shows "length (fmt_x 4 d) \<le> 32" and "length (fmt_x 4 w) \<le> 16"
  using fmt_bounds(1) [of 4 d] fmt_bounds(5) [of 4 w] by simp_all

lemma fits_W: "fits (W s) \<longleftrightarrow> length s < 1024 \<and> no_NUL s"
  "fits (W s @ NL # t) \<longleftrightarrow> length s + length t < 1023 \<and> no_NUL s \<and> 0 \<notin> set t"
  by (auto simp: fits_def zero_in_W)

lemma control_line: "length (iopl_text f) + length (flag_text f) \<le> 78"
  using length_iopl [of f] length_flag_text [of f] by simp

lemma segment_line_fits:
  "fits (W (''cs='' @ fmt_x 4 (a :: WORD) @ ''  ss='' @ fmt_x 4 (b :: WORD) @ ''  ds='' @ fmt_x 4 (c :: WORD) @
    ''  es='' @ fmt_x 4 (d :: WORD) @ ''  fs='' @ fmt_x 4 (e :: WORD) @ ''  gs='' @ fmt_x 4 (f :: WORD)))"
  using length_hex4(2) [of a] length_hex4(2) [of b] length_hex4(2) [of c] length_hex4(2) [of d]
    length_hex4(2) [of e] length_hex4(2) [of f]
  by (simp add: fits_W del: W_append)

lemma segment_line_fits32:
  "fits (W (''cs='' @ fmt_x 4 (a :: DWORD) @ ''  ss='' @ fmt_x 4 (b :: DWORD) @ ''  ds='' @ fmt_x 4 (c :: DWORD) @
    ''  es='' @ fmt_x 4 (d :: DWORD) @ ''  fs='' @ fmt_x 4 (e :: DWORD) @ ''  gs='' @ fmt_x 4 (f :: DWORD)))"
  using length_hex4(1) [of a] length_hex4(1) [of b] length_hex4(1) [of c] length_hex4(1) [of d]
    length_hex4(1) [of e] length_hex4(1) [of f]
  by (simp add: fits_W del: W_append)

lemma dec_2: "i < 100 \<Longrightarrow> length (num_str False 10 i) \<le> 2"
  by (rule length_num_str) simp_all

lemma xmm_line_fits: "i + 3 < 100 \<Longrightarrow> fits (XMM_LINE c i)"
  using dec_2 [of i] dec_2 [of "i + 1"] dec_2 [of "i + 2"] dec_2 [of "i + 3"]
  by (simp add: XMM_LINE_def xmm_reg_def fits_W hex_lengths del: W_append)

lemma fits_NL: "fits [NL]" "fits [NL, NL]"
  by (simp_all add: fits_def)

lemma dumpContext_fits: "list_all fits (dumpContext c)"
  using segment_line_fits [of "c_SegCs c" "c_SegSs c" "c_SegDs c" "c_SegEs c" "c_SegFs c" "c_SegGs c"]
    control_line [of "c_EFlags c"]
  by (simp add: dumpContext_def fits_NL xmm_line_fits fits_W blanks_def hex_lengths zero_in_W del: W_append)

lemma dumpContext_WOW64_fits: "list_all fits (dumpContext_WOW64 c)"
  using segment_line_fits32 [of "w_SegCs c" "w_SegSs c" "w_SegDs c" "w_SegEs c" "w_SegFs c" "w_SegGs c"]
    control_line [of "w_EFlags c"]
  by (simp add: dumpContext_WOW64_def fits_NL fits_W blanks_def hex_lengths del: W_append)

section \<open>The exception message\<close>

lemma base_name_sub: "set (getBaseNameW s) \<subseteq> set s" "length (getBaseNameW s) \<le> length s"
proof -
  obtain d where "s = d @ getBaseNameW s"
    using wide.base_name_suffix by blast
  then show "set (getBaseNameW s) \<subseteq> set s" "length (getBaseNameW s) \<le> length s"
    by (metis Un_upper2 set_append, metis le_add2 length_append)
qed

lemma known_string_fits: "list_all (\<lambda>(c, s). length s < 100 \<and> no_NUL s) exception_strings"
  by (simp add: exception_strings_def)

lemma exception_kind_fits: "fits (exception_kind code)"
proof (cases "getExceptionString code")
  case None
  then show ?thesis
    using fmt_bounds(2) [of 0 code] by (simp add: exception_kind_def fits_W del: W_append)
next
  case (Some s)
  then have "(code, s) \<in> set exception_strings"
    by (auto simp: getExceptionString_def dest: map_of_SomeD)
  then have "length s < 100 \<and> no_NUL s"
    using known_string_fits by (auto simp: list_all_iff)
  then show ?thesis
    using Some by (simp add: exception_kind_def fits_W article_def del: W_append)
qed

lemma exception_access_fits: "list_all fits (exception_access r)"
  using fmt_bounds(4) [of "ExceptionInformation1 r"]
  by (simp add: exception_access_def access_verb_def fits_W del: W_append)

lemma fast_fail_string: "i < length fast_fail_codes \<Longrightarrow> length (fast_fail_codes ! i) < 100 \<and> no_NUL (fast_fail_codes ! i)"
proof -
  have "list_all (\<lambda>s. length s < 100 \<and> no_NUL s) fast_fail_codes"
    by (simp add: fast_fail_codes_def)
  then show "i < length fast_fail_codes \<Longrightarrow> ?thesis"
    by (simp add: list_all_length)
qed

lemma length_fmt_u: "length (fmt_u (w :: DWORD)) \<le> 32"
proof -
  have "unat w < 10 ^ 32"
    using unat_lt_max [of w] by simp
  then show ?thesis
    by (simp add: fmt_u_def length_num_str)
qed

lemma fast_fail_fits: "list_all fits (fast_fail r)"
  using length_fmt_u [of "ucast (ExceptionInformation0 r)"] fast_fail_string
  by (auto simp: fast_fail_def Let_def fits_W simp del: W_append) fastforce+

definition names_fit :: "'a log_os_scheme \<Rightarrow> bool" where
  "names_fit os \<longleftrightarrow>
     (\<forall>h b name. lo_GetModuleFileNameExW os h b = Some name \<longrightarrow> length name < MAX_PATH \<and> 0 \<notin> set name)"

lemma base_name_fits:
  assumes "names_fit os" and "lo_GetModuleFileNameExW os h b = Some name" and "length s < 100" and "no_NUL s"
  shows "fits (getBaseNameW name @ W s)" and "fits (W s @ getBaseNameW name)"
proof -
  have "length name < MAX_PATH" "0 \<notin> set name"
    using assms(1,2) by (simp_all add: names_fit_def)
  then have "length (getBaseNameW name) < MAX_PATH" "0 \<notin> set (getBaseNameW name)"
    using base_name_sub [of name] by auto
  then show "fits (getBaseNameW name @ W s)" and "fits (W s @ getBaseNameW name)"
    using assms(3,4) by (simp_all add: fits_def zero_in_W)
qed

lemma dumpException_fits:
  assumes "names_fit os"
  shows "list_all fits (dumpException os h r)"
proof -
  have "fits (W (''Application'') @ W '' caused'')" "fits (W (''.'') @ [NL, NL])"
    "fits (W ('' at location '' @ fmt_p (ExceptionAddress r)))"
    using fmt_bounds(4) [of "ExceptionAddress r"] by (simp_all add: fits_def zero_in_W)
  then show ?thesis
    using base_name_fits [OF assms] exception_kind_fits exception_access_fits fast_fail_fits
    by (simp add: dumpException_def Let_def split: option.split)
qed

section \<open>Properties\<close>

text \<open>C31: \<open>lprintf\<close> passes a text on unchanged exactly when it has fewer than 1024 characters; a longer
  one fills the buffer, \<open>_vsnwprintf\<close> writes no NUL, and the callback reads past the buffer's end.\<close>

theorem lprintf_exact:
  assumes "0 \<notin> set t"
  shows "lprintf t = (if length t < 1024 then Inr (t, int (length t)) else Inl AccessViolation)"
  using assms lprintf_fits [of t] lprintf_overrun [of t] by (simp add: fits_def)

theorem lprintf_exact_witness: "lprintf (replicate 1024 NL) = Inl AccessViolation"
  using lprintf_exact [of "replicate 1024 NL"] by simp

text \<open>The report of an exception, for every exception code and every number and value of its
  parameters, as long as the names of modules are Windows paths of fewer than MAX_PATH characters.\<close>

theorem exception_report_complete:
  assumes "\<And>h b name. lo_GetModuleFileNameExW os h b = Some name \<Longrightarrow> length name < MAX_PATH \<and> 0 \<notin> set name"
  shows "log_output (dumpException os h r) = Inr (concat (dumpException os h r))"
proof -
  have "names_fit os"
    using assms by (simp add: names_fit_def)
  then show ?thesis
    by (simp add: log_output_fits dumpException_fits)
qed

definition sample_log :: log_os where
  "sample_log = sym_os.extend sample_sym
     (log_os.fields (\<lambda>_. False)
        (\<lambda>_ _ _ (sf, c). if AddrStack sf < 0x8030
            then Some (sf\<lparr>AddrStack := AddrStack sf + 16, AddrPC := AddrPC sf + 1\<rparr>, c) else None)
        (\<lambda>_ _. 0x400000) (\<lambda>_ _. Some (W ''a.exe'')) True False
        (\<lambda>_. Some [97, 10, 98, 10, 99, 10, 100, 10, 101]) (\<lambda>_. 0) (\<lambda>_. False) (\<lambda>_. None) (\<lambda>_. None))"

definition sample_exception :: EXCEPTION_RECORD where
  "sample_exception = \<lparr>ExceptionCode = 0xC0000005, ExceptionAddress = 0, NumberParameters = 2,
     ExceptionInformation0 = 1, ExceptionInformation1 = 0\<rparr>"

lemma sample_names: "lo_GetModuleFileNameExW sample_log h b = Some (W ''a.exe'')"
  by (simp add: sample_log_def sym_os.defs log_os.defs)

lemma sample_report:
  "concat (dumpException sample_log 1 sample_exception) =
   W ''a.exe caused an Access Violation at location 0000000000000000 in module a.exe'' @
   W '' Writing to location 0000000000000000.'' @ [NL, NL]"
  by code_simp

theorem exception_report_complete_witness:
  "log_output (dumpException sample_log 1 sample_exception) =
   Inr (W ''a.exe caused an Access Violation at location 0000000000000000 in module a.exe'' @
        W '' Writing to location 0000000000000000.'' @ [NL, NL])"
proof -
  have "log_output (dumpException sample_log 1 sample_exception) =
      Inr (concat (dumpException sample_log 1 sample_exception))"
    by (rule exception_report_complete) (auto simp: sample_names zero_in_W simp del: W_append)
  then show ?thesis
    by (simp only: sample_report)
qed

lemma frames_logged:
  assumes "stack_loop os mt hP hT (sf, Context) prev n = Inr frames"
  shows "\<exists>fs tss. frames = concat tss \<and> walk os mt hP hT (sf, Context) prev fs \<and> logged os mt hP n fs tss \<and>
    sorted_wrt (<) (map AddrStack (butlast fs))"
proof -
  obtain fs tss where "walk os mt hP hT (sf, Context) prev fs" "logged os mt hP n fs tss" "frames = concat tss"
    using stack_loop_walk [OF assms] by blast
  moreover from this walk_ascending [of os mt hP hT] have "sorted_wrt (<) (map AddrStack (butlast fs))"
    by fastforce
  ultimately show ?thesis
    by blast
qed

text \<open>C14: the stack trace is faithful to the walk: after the registers and the header it logs the frames
  that \<open>StackWalk64\<close> yields, each once and in order, the innermost at its own address and the callers
  at the byte before their return address; and the stack addresses of all frames but the last
  increase strictly, so that the walk ends.\<close>

theorem stack_trace_frames:
  assumes "dumpStack os hP hT Context = Inr out"
    and "stack_start (lo_IsWow64Process os hP) Context = (mt, sf)"
  shows "\<exists>fs tss. out = stack_header (lo_IsWow64Process os hP) Context @ concat tss @ [[NL]] \<and>
    walk os mt hP hT (sf, Context) (AddrStack sf - 1) fs \<and> logged os mt hP 0 fs tss \<and>
    sorted_wrt (<) (map AddrStack (butlast fs))"
proof -
  obtain frames where "stack_loop os mt hP hT (sf, Context) (AddrStack sf - 1) 0 = Inr frames"
    and out: "out = stack_header (lo_IsWow64Process os hP) Context @ frames @ [[NL]]"
    using assms by (auto simp: dumpStack_def Let_def bnd_eq_Inr split: if_splits)
  from frames_logged [OF this(1)] out show ?thesis
    by blast
qed

lemma sample_frame: "\<exists>ts. frame_texts sample_log mt hP sf n = Inr ts"
proof -
  have "GetSymFromAddr sample_log hP a 512 = Some (strncpy 512 [102, 111, 111], ucast (a - 0x1000))"
    and "GetLineFromAddr sample_log hP a MAX_PATH = None" for a
    by (simp_all add: sample_log_def sample_sym_def sym_os.defs log_os.defs GetSymFromAddr_def
        GetLineFromAddr_def flag_set_def)
  then show ?thesis
    by (simp add: frame_texts_def frame_location_def frame_symbol_def frame_line_def sample_names
        cstr_strncpy_fits Let_def)
qed

definition sample_context :: context_memory where
  "sample_context =
     (\<lparr>w_ContextFlags = 0, w_Eax = 0, w_Ebx = 0, w_Ecx = 0, w_Edx = 0, w_Esi = 0, w_Edi = 0, w_Eip = 0,
       w_Esp = 0, w_Ebp = 0, w_EFlags = 0, w_SegCs = 0, w_SegSs = 0, w_SegDs = 0, w_SegEs = 0, w_SegFs = 0,
       w_SegGs = 0\<rparr>,
      \<lparr>c_ContextFlags = CONTEXT_FULL, c_Rax = 0, c_Rbx = 0, c_Rcx = 0, c_Rdx = 0, c_Rsi = 0, c_Rdi = 0,
       c_R8 = 0, c_R9 = 0, c_R10 = 0, c_R11 = 0, c_R12 = 0, c_R13 = 0, c_R14 = 0, c_R15 = 0,
       c_Rip = 0x401000, c_Rsp = 0x8000, c_Rbp = 0x8100, c_EFlags = 0, c_SegCs = 0, c_SegSs = 0, c_SegDs = 0,
       c_SegEs = 0, c_SegFs = 0, c_SegGs = 0, c_Xmm = (\<lambda>_. (0, 0)),
       c_X = (\<lambda>_. 0), c_Sp = 0, c_Pc = 0\<rparr>)"

lemma sample_start:
  "stack_start (lo_IsWow64Process sample_log 1) sample_context =
     (IMAGE_FILE_MACHINE_AMD64, start_frame 0x401000 0x8000 0x8100)"
  by (simp add: stack_start_def sample_context_def sample_log_def sym_os.defs log_os.defs)

lemma sample_stack: "\<exists>out. dumpStack sample_log 1 2 sample_context = Inr out"
proof -
  obtain frames where "stack_loop sample_log IMAGE_FILE_MACHINE_AMD64 1 2
      (start_frame 0x401000 0x8000 0x8100, sample_context) (0x8000 - 1) 0 = Inr frames"
    using stack_loop_total sample_frame by blast
  moreover have "so_ndebug sample_log"
    by (simp add: sample_log_def sample_sym_def sym_os.defs log_os.defs)
  moreover have "AddrStack (start_frame 0x401000 0x8000 0x8100) = 0x8000"
    by (simp add: start_frame_def)
  ultimately show ?thesis
    by (simp add: dumpStack_def sample_start)
qed

theorem stack_trace_frames_witness:
  "\<exists>fs. walk sample_log IMAGE_FILE_MACHINE_AMD64 1 2 (start_frame 0x401000 0x8000 0x8100, sample_context) 0x7FFF fs \<and>
     sorted_wrt (<) (map AddrStack (butlast fs))"
proof -
  obtain out where out: "dumpStack sample_log 1 2 sample_context = Inr out"
    using sample_stack by blast
  show ?thesis
    using stack_trace_frames [OF out sample_start] by (auto simp: start_frame_def)
qed

lemma frame_location_symbol:
  assumes "lo_SymGetModuleBase64 os hP pc = hModule" and "hModule \<noteq> 0"
    and "lo_GetModuleFileNameExW os hP hModule = Some szModule"
    and "so_SymFromAddr os hP (pc + nudge) = Some (name, pc + nudge - start)"
    and "fst (so_UnDecorateSymbolName os name 512 UNDNAME_NAME_ONLY) = 0"
    and "0 \<notin> set name" and "length name < 512"
    and "so_SymGetLineFromAddrW64 os hP (pc + nudge) = None"
  shows "frame_location os hP pc nudge =
    Inr ([W ''  '' @ getBaseNameW szModule, W ''!'' @ map ucast name @ W (''+0x'' @ fmt_x 0 (ucast (pc - start) :: DWORD))],
         None)"
proof -
  have "(ucast (pc + nudge - start) :: DWORD) - ucast nudge = ucast (pc + nudge - start - nudge)"
    by (simp only: ucast_diff32)
  then have "(ucast (pc + nudge - start) :: DWORD) - ucast nudge = ucast (pc - start)"
    by simp
  then show ?thesis
    using assms
    by (simp add: frame_location_def frame_symbol_def frame_line_def GetSymFromAddr_def GetLineFromAddr_def
        cstr_strncpy_fits)
qed

text \<open>C25: the offset logged with a symbol is that of the frame's program counter, although the symbol of a
  caller is looked up one byte below: the nudge is taken back.\<close>

theorem symbol_offset_of_pc:
  assumes "lo_SymGetModuleBase64 os hP pc = hModule" and "hModule \<noteq> 0"
    and "lo_GetModuleFileNameExW os hP hModule = Some szModule"
    and "so_SymFromAddr os hP (pc + nudge) = Some (name, pc + nudge - start)"
    and "fst (so_UnDecorateSymbolName os name 512 UNDNAME_NAME_ONLY) = 0"
    and "0 \<notin> set name" and "length name < 512"
    and "so_SymGetLineFromAddrW64 os hP (pc + nudge) = None"
  shows "frame_location os hP pc nudge =
    Inr ([W ''  '' @ getBaseNameW szModule, W ''!'' @ map ucast name @ W (''+0x'' @ fmt_x 0 (ucast (pc - start) :: DWORD))],
         None)"
  by (rule frame_location_symbol [OF assms])

theorem symbol_offset_of_pc_witness:
  "frame_location sample_log 1 0x1005 (- 1) =
     Inr ([W ''  '' @ getBaseNameW (W ''a.exe''), W ''!'' @ map ucast [102 :: BYTE, 111, 111] @ W (''+0x'' @ fmt_x 0 (5 :: DWORD))],
          None)"
  using symbol_offset_of_pc [of sample_log 1 "0x1005" "0x400000" "W ''a.exe''" "- 1" "[102, 111, 111]" "0x1000"]
  by (simp add: sample_names sample_log_def sample_sym_def sym_os.defs log_os.defs del: W_append)

text \<open>C36: the source excerpt is the lines from two before to two after the one asked for, as far as the
  file has them, each with its number and with its printable characters only, the line itself marked.\<close>

theorem source_excerpt:
  assumes "lo_wfopen os f = Some bs" and "n + 2 < 2 ^ 31"
  shows "dumpSourceCode os f (of_nat n) =
    (True, concat (map (numbered_line n) (filter (\<lambda>(i, line). near n i) (enumerate 1 (file_lines bs)))))"
  using source_loop_lines [OF assms(2), of 0 bs] assms(1) by (simp add: dumpSourceCode_def)

theorem source_excerpt_witness:
  "dumpSourceCode sample_log (W ''a.c'') 2 =
     (True, concat (map (numbered_line 2) (filter (\<lambda>(i, line). near 2 i) (enumerate 1 [[97], [98], [99], [100], [101]]))))"
  using source_excerpt [of sample_log "W ''a.c''" "[97, 10, 98, 10, 99, 10, 100, 10, 101]" 2]
  by (simp add: sample_log_def sym_os.defs log_os.defs)

text \<open>C38: a frame is logged with its source position only if the path is shorter than MAX_PATH. A longer
  path fills \<open>szFileName\<close> without a NUL, and logging it reads past the end.\<close>

theorem long_source_path_faults:
  assumes "so_SymGetLineFromAddrW64 os hP a = Some (f, n)" and "0 \<notin> set f"
  shows "frame_line os hP a =
    (if length f < MAX_PATH then Inr ([W ''  ['' @ f @ W ('':'' @ fmt_d n @ '']'')], Some (f, n))
     else Inl AccessViolation)"
  using assms by (simp add: frame_line_def GetLineFromAddr_def cstr_strncpy_iff)

theorem long_source_path_faults_witness:
  "frame_line (sample_log\<lparr>so_SymGetLineFromAddrW64 := (\<lambda>_ _. Some (replicate 260 97, 7))\<rparr>) 1 0 =
   Inl AccessViolation"
  using long_source_path_faults [of "sample_log\<lparr>so_SymGetLineFromAddrW64 := (\<lambda>_ _. Some (replicate 260 97, 7))\<rparr>"
      1 0 "replicate 260 97" 7]
  by simp

end
