(* ===== verification/PE_Image.thy ===== *)
theory PE_Image
  imports Prelude
begin

text \<open>
  The PE/COFF file image as mgwhelp reads it through a file mapping: header access and
  \<open>PEGetImageBase\<close> and \<open>pe_find_symbol\<close> of src/mgwhelp/mgwhelp.cpp.

  The image is the list of the file's bytes; a pointer into it is an offset. A read that is not
  wholly inside the file is an access violation (the zero bytes that fill the last page of a view
  are not counted as part of it). The structure layouts are those of the Windows headers.
\<close>

section \<open>Little-endian reads\<close>

fun le_val :: "BYTE list \<Rightarrow> int" where
  "le_val [] = 0"
| "le_val (b # bs) = uint b + 256 * le_val bs"

definition rd :: "nat \<Rightarrow> BYTE list \<Rightarrow> nat \<Rightarrow> fault + BYTE list" where
  "rd n img off = (if off + n \<le> length img then Inr (take n (drop off img)) else Inl AccessViolation)"

definition rd8 :: "BYTE list \<Rightarrow> nat \<Rightarrow> fault + BYTE" where
  "rd8 img off = bnd (rd 1 img off) (\<lambda>bs. Inr (of_int (le_val bs)))"

definition rd16 :: "BYTE list \<Rightarrow> nat \<Rightarrow> fault + WORD" where
  "rd16 img off = bnd (rd 2 img off) (\<lambda>bs. Inr (of_int (le_val bs)))"

definition rd32 :: "BYTE list \<Rightarrow> nat \<Rightarrow> fault + DWORD" where
  "rd32 img off = bnd (rd 4 img off) (\<lambda>bs. Inr (of_int (le_val bs)))"

definition rd64 :: "BYTE list \<Rightarrow> nat \<Rightarrow> fault + DWORD64" where
  "rd64 img off = bnd (rd 8 img off) (\<lambda>bs. Inr (of_int (le_val bs)))"

definition rd_cstr :: "BYTE list \<Rightarrow> nat \<Rightarrow> fault + BYTE list" where
  "rd_cstr img off =
     (case cstr (drop off img) of None \<Rightarrow> Inl AccessViolation | Some s \<Rightarrow> Inr s)"

lemma rd_ok: "off + n \<le> length img \<Longrightarrow> rd n img off = Inr (take n (drop off img))"
  by (simp add: rd_def)

lemma rd16_ok: "off + 2 \<le> length img \<Longrightarrow> \<exists>v. rd16 img off = Inr v"
  and rd32_ok: "off + 4 \<le> length img \<Longrightarrow> \<exists>v. rd32 img off = Inr v"
  and rd64_ok: "off + 8 \<le> length img \<Longrightarrow> \<exists>v. rd64 img off = Inr v"
  and rd8_ok: "off + 1 \<le> length img \<Longrightarrow> \<exists>v. rd8 img off = Inr v"
  by (simp_all add: rd16_def rd32_def rd64_def rd8_def rd_ok)

section \<open>Headers\<close>

text \<open>\<open>e_lfanew\<close> is a signed 32-bit field; a negative one points before the view.\<close>

definition nt_headers :: "BYTE list \<Rightarrow> fault + nat" where
  "nt_headers img =
     bnd (rd32 img 60) (\<lambda>e_lfanew.
       if sint e_lfanew < 0 then Inl AccessViolation else Inr (unat e_lfanew))"

text \<open>Offsets from the NT headers: the signature has 4 bytes, the file header 20.\<close>

definition fh_NumberOfSections :: "BYTE list \<Rightarrow> nat \<Rightarrow> fault + WORD" where
  "fh_NumberOfSections img nt = rd16 img (nt + 6)"

definition fh_PointerToSymbolTable :: "BYTE list \<Rightarrow> nat \<Rightarrow> fault + DWORD" where
  "fh_PointerToSymbolTable img nt = rd32 img (nt + 12)"

definition fh_NumberOfSymbols :: "BYTE list \<Rightarrow> nat \<Rightarrow> fault + DWORD" where
  "fh_NumberOfSymbols img nt = rd32 img (nt + 16)"

definition fh_SizeOfOptionalHeader :: "BYTE list \<Rightarrow> nat \<Rightarrow> fault + WORD" where
  "fh_SizeOfOptionalHeader img nt = rd16 img (nt + 20)"

definition oh_Magic :: "BYTE list \<Rightarrow> nat \<Rightarrow> fault + WORD" where
  "oh_Magic img nt = rd16 img (nt + 24)"

definition oh_ImageBase32 :: "BYTE list \<Rightarrow> nat \<Rightarrow> fault + DWORD" where
  "oh_ImageBase32 img nt = rd32 img (nt + 52)"

definition oh_ImageBase64 :: "BYTE list \<Rightarrow> nat \<Rightarrow> fault + DWORD64" where
  "oh_ImageBase64 img nt = rd64 img (nt + 48)"

abbreviation IMAGE_NT_OPTIONAL_HDR32_MAGIC :: WORD where
  "IMAGE_NT_OPTIONAL_HDR32_MAGIC \<equiv> 0x10b"

abbreviation IMAGE_NT_OPTIONAL_HDR64_MAGIC :: WORD where
  "IMAGE_NT_OPTIONAL_HDR64_MAGIC \<equiv> 0x20b"

text \<open>The section header table follows the optional header.\<close>

definition section_table :: "BYTE list \<Rightarrow> nat \<Rightarrow> fault + nat" where
  "section_table img nt =
     bnd (fh_SizeOfOptionalHeader img nt) (\<lambda>n. Inr (nt + 4 + 20 + unat n))"

definition PEGetImageBase :: "bool \<Rightarrow> BYTE list \<Rightarrow> fault + DWORD64" where
  "PEGetImageBase ndebug img =
     bnd (nt_headers img) (\<lambda>nt.
     bnd (oh_Magic img nt) (\<lambda>magic.
       if magic = IMAGE_NT_OPTIONAL_HDR32_MAGIC then
         bnd (oh_ImageBase32 img nt) (\<lambda>b. Inr (ucast b))
       else if magic = IMAGE_NT_OPTIONAL_HDR64_MAGIC then
         oh_ImageBase64 img nt
       else if ndebug then Inr 0
       else Inl AssertionFailed))"

text \<open>
  The end of the symbol table as the bounds check computes it: a \<open>DWORD\<close> plus a \<open>DWORD\<close> times a
  \<open>size_t\<close>, so at the width of \<open>size_t\<close> (64 bits on x86_64, 32 bits on x86).
\<close>

definition symtab_end :: "DWORD \<Rightarrow> DWORD \<Rightarrow> 'p::len word" where
  "symtab_end PointerToSymbolTable NumberOfSymbols =
     ucast PointerToSymbolTable + ucast NumberOfSymbols * 18"

lemma unat_symtab_end64: "unat (symtab_end p n :: 64 word) = unat p + 18 * unat n"
proof -
  have "unat p < 2 ^ 32" and "unat n < 2 ^ 32"
    using unat_lt_max [of p] unat_lt_max [of n] by simp_all
  then show ?thesis
    by (simp add: symtab_end_def unat_word_ariths unat_ucast_up mult.commute)
qed

section \<open>The symbol table\<close>

record IMAGE_SYMBOL =
  N_ShortName :: "BYTE list"
  sym_Value :: DWORD
  sym_SectionNumber :: WORD
  sym_Type :: WORD
  sym_NumberOfAuxSymbols :: BYTE

definition read_symbol :: "BYTE list \<Rightarrow> nat \<Rightarrow> DWORD \<Rightarrow> fault + IMAGE_SYMBOL" where
  "read_symbol img pSymbolTable i =
     (let off = pSymbolTable + 18 * unat i in
      bnd (rd 8 img off) (\<lambda>name.
      bnd (rd32 img (off + 8)) (\<lambda>value.
      bnd (rd16 img (off + 12)) (\<lambda>sec.
      bnd (rd16 img (off + 14)) (\<lambda>type.
      bnd (rd8 img (off + 17)) (\<lambda>aux.
        Inr \<lparr>N_ShortName = name, sym_Value = value, sym_SectionNumber = sec, sym_Type = type,
             sym_NumberOfAuxSymbols = aux\<rparr>))))))"

text \<open>\<open>ISFCN\<close>: the derived type, bits 4 and 5, is \<open>IMAGE_SYM_DTYPE_FUNCTION\<close>.\<close>

definition ISFCN :: "WORD \<Rightarrow> bool" where
  "ISFCN type \<longleftrightarrow> type AND 0x30 = push_bit 4 2"

definition byte_of :: "char \<Rightarrow> BYTE" where
  "byte_of c = of_char c"

record find_ctx =
  ctx_img :: "BYTE list"
  ctx_ImageBase :: DWORD64
  ctx_bUnderscore :: bool
  ctx_Sections :: nat
  ctx_pSymbolTable :: nat
  ctx_pStringTable :: nat
  ctx_NumberOfSymbols :: DWORD

text \<open>The address of a symbol: relative to its section when it has one.\<close>

definition symbol_addr :: "find_ctx \<Rightarrow> IMAGE_SYMBOL \<Rightarrow> fault + DWORD64" where
  "symbol_addr c s =
     (let a = ucast (sym_Value s); n = sint (sym_SectionNumber s) in
      if n > 0 then
        bnd (rd32 (ctx_img c) (ctx_Sections c + 40 * (nat n - 1) + 12)) (\<lambda>va.
          Inr (a + (ctx_ImageBase c + ucast va)))
      else Inr a)"

text \<open>The name: in the record, or in the string table; 32-bit images decorate it with an underscore.\<close>

definition symbol_name :: "find_ctx \<Rightarrow> IMAGE_SYMBOL \<Rightarrow> fault + BYTE list" where
  "symbol_name c s =
     bnd (if le_val (take 4 (N_ShortName s)) \<noteq> 0
          then Inr (takeWhile (\<lambda>b. b \<noteq> 0) (N_ShortName s))
          else rd_cstr (ctx_img c) (ctx_pStringTable c + nat (le_val (drop 4 (N_ShortName s)))))
       (\<lambda>name.
          Inr (if ctx_bUnderscore c \<and> name \<noteq> [] \<and> hd name = byte_of (CHR ''_'')
               then tl name else name))"

record find_state =
  fs_bRet :: bool
  fs_Displacement :: DWORD64
  fs_Name :: "BYTE list"

text \<open>
  The body of the loop for one symbol: the new state, and whether the loop is left (an exact match).
  \<open>fs_Name\<close> is the whole buffer \<open>pSymbolName\<close> as \<open>strncpy\<close> leaves it.
\<close>

definition find_body ::
  "find_ctx \<Rightarrow> DWORD64 \<Rightarrow> nat \<Rightarrow> IMAGE_SYMBOL \<Rightarrow> find_state \<Rightarrow> fault + find_state \<times> bool" where
  "find_body c Addr MaxSymbolNameLen s st =
     (if ISFCN (sym_Type s) then
        bnd (symbol_addr c s) (\<lambda>SymbolAddr.
        bnd (symbol_name c s) (\<lambda>SymbolName.
          if SymbolAddr \<le> Addr \<and> (SymbolName = [] \<or> hd SymbolName \<noteq> byte_of (CHR ''.'')) then
            (let SymbolDisp = Addr - SymbolAddr in
             if SymbolDisp < fs_Displacement st then
               Inr (\<lparr>fs_bRet = True, fs_Displacement = SymbolDisp,
                     fs_Name = strncpy MaxSymbolNameLen SymbolName\<rparr>, SymbolDisp = 0)
             else Inr (st, False))
          else Inr (st, False)))
      else Inr (st, False))"

text \<open>
  The loop. Its counter is a DWORD: \<open>i += NumberOfAuxSymbols\<close> and \<open>++i\<close> wrap around, so that the
  loop need not end for counts near the top of the range; \<open>None\<close> is a loop that does not end.
\<close>

partial_function (option) find_loop ::
  "find_ctx \<Rightarrow> DWORD64 \<Rightarrow> nat \<Rightarrow> DWORD \<Rightarrow> find_state \<Rightarrow> (fault + find_state) option" where
  "find_loop c Addr MaxSymbolNameLen i st =
     (if i < ctx_NumberOfSymbols c then
        (case read_symbol (ctx_img c) (ctx_pSymbolTable c) i of
           Inl e \<Rightarrow> Some (Inl e)
         | Inr s \<Rightarrow>
             (case find_body c Addr MaxSymbolNameLen s st of
                Inl e \<Rightarrow> Some (Inl e)
              | Inr r \<Rightarrow>
                  if snd r then Some (Inr (fst r))
                  else find_loop c Addr MaxSymbolNameLen
                         (i + ucast (sym_NumberOfAuxSymbols s) + 1) (fst r)))
      else Some (Inr st))"

declare find_loop.simps [code]

definition find_start :: "BYTE list \<Rightarrow> find_state" where
  "find_start buf = \<lparr>fs_bRet = False, fs_Displacement = NOT 0, fs_Name = buf\<rparr>"

text \<open>What precedes the loop: the table addresses, the bounds check and the image base. \<open>None\<close> is
  the early \<open>return FALSE\<close>.\<close>

definition find_prologue :: "bool \<Rightarrow> BYTE list \<Rightarrow> SIZE_T \<Rightarrow> fault + find_ctx option" where
  "find_prologue ndebug img nFileSize =
     bnd (nt_headers img) (\<lambda>nt.
     bnd (section_table img nt) (\<lambda>Sections.
     bnd (fh_PointerToSymbolTable img nt) (\<lambda>ptr.
     bnd (fh_NumberOfSymbols img nt) (\<lambda>num.
       if symtab_end ptr num > nFileSize then Inr None
       else
         bnd (oh_Magic img nt) (\<lambda>magic.
           let ctx = (\<lambda>base underscore.
                 \<lparr>ctx_img = img, ctx_ImageBase = base, ctx_bUnderscore = underscore,
                  ctx_Sections = Sections, ctx_pSymbolTable = unat ptr,
                  ctx_pStringTable = unat ptr + 18 * unat num, ctx_NumberOfSymbols = num\<rparr>) in
           if magic = IMAGE_NT_OPTIONAL_HDR32_MAGIC then
             bnd (oh_ImageBase32 img nt) (\<lambda>b. Inr (Some (ctx (ucast b) True)))
           else if magic = IMAGE_NT_OPTIONAL_HDR64_MAGIC then
             bnd (oh_ImageBase64 img nt) (\<lambda>b. Inr (Some (ctx b False)))
           else if ndebug then Inr None
           else Inl AssertionFailed)))))"

text \<open>
  \<open>pe_find_symbol\<close>: \<open>bRet\<close> and the buffer and \<open>*pDisplacement\<close> afterwards. An early return leaves
  both untouched (\<open>disp\<close>, \<open>buf\<close> are the values before the call).
\<close>

definition pe_find_symbol ::
  "bool \<Rightarrow> BYTE list \<Rightarrow> SIZE_T \<Rightarrow> DWORD64 \<Rightarrow> nat \<Rightarrow> BYTE list \<Rightarrow> DWORD64 \<Rightarrow> (fault + find_state) option" where
  "pe_find_symbol ndebug img nFileSize Addr MaxSymbolNameLen buf disp =
     (case find_prologue ndebug img nFileSize of
        Inl e \<Rightarrow> Some (Inl e)
      | Inr None \<Rightarrow> Some (Inr \<lparr>fs_bRet = False, fs_Displacement = disp, fs_Name = buf\<rparr>)
      | Inr (Some c) \<Rightarrow> find_loop c Addr MaxSymbolNameLen 0 (find_start buf))"


section \<open>Lemmas on the loop\<close>

definition next_index :: "DWORD \<Rightarrow> IMAGE_SYMBOL \<Rightarrow> DWORD" where
  "next_index i s = i + ucast (sym_NumberOfAuxSymbols s) + 1"

text \<open>The primary symbol records a walk from index \<open>i\<close> meets: each, and the one after its auxiliary
  records.\<close>

inductive meets :: "find_ctx \<Rightarrow> DWORD \<Rightarrow> IMAGE_SYMBOL \<Rightarrow> bool" for c where
  here: "i < ctx_NumberOfSymbols c \<Longrightarrow> read_symbol (ctx_img c) (ctx_pSymbolTable c) i = Inr s \<Longrightarrow>
    meets c i s"
| further: "i < ctx_NumberOfSymbols c \<Longrightarrow> read_symbol (ctx_img c) (ctx_pSymbolTable c) i = Inr s \<Longrightarrow>
    meets c (next_index i s) t \<Longrightarrow> meets c i t"

inductive_cases meetsE: "meets c i t"

text \<open>A candidate: a function symbol at or below the address whose name does not begin with a dot.\<close>

definition candidate :: "find_ctx \<Rightarrow> DWORD64 \<Rightarrow> IMAGE_SYMBOL \<Rightarrow> DWORD64 \<Rightarrow> BYTE list \<Rightarrow> bool" where
  "candidate c Addr s a name \<longleftrightarrow>
     ISFCN (sym_Type s) \<and> symbol_addr c s = Inr a \<and> symbol_name c s = Inr name \<and>
     a \<le> Addr \<and> (name = [] \<or> hd name \<noteq> byte_of (CHR ''.''))"

lemma find_body_cases:
  assumes "find_body c Addr n s st = Inr (st', stop)"
  obtains (keep) "st' = st" "\<not> stop" "\<And>a name. candidate c Addr s a name \<Longrightarrow> fs_Displacement st \<le> Addr - a"
    | (improve) a name where "candidate c Addr s a name" "Addr - a < fs_Displacement st"
      "st' = \<lparr>fs_bRet = True, fs_Displacement = Addr - a, fs_Name = strncpy n name\<rparr>"
      "stop \<longleftrightarrow> Addr - a = 0"
  using assms
  by (fastforce simp: find_body_def candidate_def bnd_eq_Inr Let_def not_less split: if_splits)

text \<open>What the loop achieves from index \<open>i\<close> and state \<open>st\<close>: it keeps the state or replaces it by a
  candidate it met, and no candidate it could meet is closer.\<close>

definition picked :: "find_ctx \<Rightarrow> DWORD64 \<Rightarrow> nat \<Rightarrow> DWORD \<Rightarrow> find_state \<Rightarrow> bool" where
  "picked c Addr n i st \<longleftrightarrow>
     (\<exists>s a name. meets c i s \<and> candidate c Addr s a name \<and>
        st = \<lparr>fs_bRet = True, fs_Displacement = Addr - a, fs_Name = strncpy n name\<rparr>)"

definition loop_post :: "find_ctx \<Rightarrow> DWORD64 \<Rightarrow> nat \<Rightarrow> DWORD \<Rightarrow> find_state \<Rightarrow> find_state \<Rightarrow> bool" where
  "loop_post c Addr n i st st' \<longleftrightarrow>
     (st' = st \<or> picked c Addr n i st') \<and>
     fs_Displacement st' \<le> fs_Displacement st \<and>
     (\<forall>s a name. meets c i s \<longrightarrow> candidate c Addr s a name \<longrightarrow> fs_Displacement st' \<le> Addr - a)"

lemma loop_post_end: "\<not> i < ctx_NumberOfSymbols c \<Longrightarrow> loop_post c Addr n i st st"
  by (auto simp: loop_post_def elim: meetsE)

lemma loop_post_body:
  assumes i: "i < ctx_NumberOfSymbols c" "read_symbol (ctx_img c) (ctx_pSymbolTable c) i = Inr s"
    and body: "find_body c Addr n s st = Inr (st1, stop)"
    and rest: "if stop then st' = st1 else loop_post c Addr n (next_index i s) st1 st'"
  shows "loop_post c Addr n i st st'"
proof -
  have le: "fs_Displacement st' \<le> fs_Displacement st1"
    using rest by (auto simp: loop_post_def split: if_splits)
  have stop0: "fs_Displacement st1 = 0" if stop
    using find_body_cases [OF body] that by (metis select_convs)
  have later: "fs_Displacement st' \<le> Addr - a" if "meets c (next_index i s) t" "candidate c Addr t a nm" for t a nm
    using rest that stop0 by (cases stop) (auto simp: loop_post_def)
  have meets: "meets c i t \<longleftrightarrow> t = s \<or> meets c (next_index i s) t" for t
    using i by (auto intro: meets.intros elim: meetsE)
  have picked_next: "picked c Addr n i st'" if "picked c Addr n (next_index i s) st'"
    using that meets by (auto simp: picked_def)
  show ?thesis
    using body
  proof (cases rule: find_body_cases)
    case keep
    with picked_next show ?thesis
      using rest le later by (auto simp: loop_post_def meets intro: order_trans)
  next
    case (improve a nm)
    have "fs_Displacement st1 = Addr - a" "fs_Displacement st1 < fs_Displacement st"
      using improve by simp_all
    moreover have "picked c Addr n i st1"
      using improve meets by (auto simp: picked_def)
    moreover have "a' = a" if "candidate c Addr s a' nm'" for a' nm'
      using improve(1) that by (auto simp: candidate_def)
    ultimately show ?thesis
      using rest le later picked_next by (auto simp: loop_post_def meets split: if_splits)
  qed
qed

lemma find_loop_post:
  assumes "find_loop c Addr n i st = Some r"
  shows "\<forall>st'. r = Inr st' \<longrightarrow> loop_post c Addr n i st st'"
proof (rule find_loop.raw_induct
    [where P = "\<lambda>c Addr n i st r. \<forall>st'. r = Inr st' \<longrightarrow> loop_post c Addr n i st st'", OF _ assms])
  fix f c Addr n i st r
  assume IH: "\<And>c Addr n i st r. f c Addr n i st = Some r \<Longrightarrow>
      \<forall>st'. r = Inr st' \<longrightarrow> loop_post c Addr n i st st'"
    and eq: "(if i < ctx_NumberOfSymbols c then
        (case read_symbol (ctx_img c) (ctx_pSymbolTable c) i of
           Inl e \<Rightarrow> Some (Inl e)
         | Inr s \<Rightarrow>
             (case find_body c Addr n s st of
                Inl e \<Rightarrow> Some (Inl e)
              | Inr r \<Rightarrow>
                  if snd r then Some (Inr (fst r))
                  else f c Addr n (i + ucast (sym_NumberOfAuxSymbols s) + 1) (fst r)))
      else Some (Inr st)) = Some r"
  show "\<forall>st'. r = Inr st' \<longrightarrow> loop_post c Addr n i st st'"
  proof (intro allI impI)
    fix st'
    assume r: "r = Inr st'"
    show "loop_post c Addr n i st st'"
    proof (cases "i < ctx_NumberOfSymbols c")
      case False
      with eq r show ?thesis by (simp add: loop_post_end)
    next
      case True
      with eq r obtain s st1 stop where
        s: "read_symbol (ctx_img c) (ctx_pSymbolTable c) i = Inr s"
        and b: "find_body c Addr n s st = Inr (st1, stop)"
        by (auto split: sum.splits)
      with eq r True have "if stop then st' = st1 else f c Addr n (next_index i s) st1 = Some (Inr st')"
        by (auto simp: next_index_def)
      then show ?thesis
        using loop_post_body [OF True s b] IH by (auto split: if_splits)
    qed
  qed
qed


lemma find_loop_terminates:
  assumes "unat (ctx_NumberOfSymbols c) + 256 < 2 ^ 32"
  shows "\<exists>r. find_loop c Addr n i st = Some r"
proof (induction "2 ^ 32 - unat i" arbitrary: i st rule: less_induct)
  case less
  show ?case
  proof (cases "i < ctx_NumberOfSymbols c")
    case False
    then show ?thesis
      by (simp add: find_loop.simps)
  next
    case True
    have step: "\<exists>r. find_loop c Addr n (i + ucast (sym_NumberOfAuxSymbols s) + 1) st1 = Some r" for s st1
    proof -
      let ?aux = "sym_NumberOfAuxSymbols s"
      have aux: "unat (ucast ?aux :: DWORD) < 256"
        using unat_lt_max [of ?aux] by (simp add: unat_ucast_up)
      moreover have "unat i < unat (ctx_NumberOfSymbols c)"
        using True by (simp add: word_less_nat_alt)
      ultimately have "unat (i + ucast ?aux + 1) = unat i + unat (ucast ?aux :: DWORD) + 1"
        using assms by (simp add: unat_word_ariths)
      then have "2 ^ 32 - unat (i + ucast ?aux + 1) < 2 ^ 32 - unat i"
        using unat_lt_max [of i] by simp
      then show ?thesis
        by (rule less)
    qed
    show ?thesis
      using True step by (subst find_loop.simps) (auto split: sum.split)
  qed
qed

lemma prologue_symtab:
  assumes "find_prologue ndebug img nFileSize = Inr (Some c)"
  shows "ctx_img c = img"
    and "ctx_pSymbolTable c + 18 * unat (ctx_NumberOfSymbols c) \<le> unat nFileSize"
proof -
  obtain ptr num where "\<not> symtab_end ptr num > nFileSize" and
    "ctx_img c = img" "ctx_pSymbolTable c = unat ptr" "ctx_NumberOfSymbols c = num"
    using assms by (auto simp: find_prologue_def bnd_eq_Inr Let_def split: if_splits)
  then show "ctx_img c = img" "ctx_pSymbolTable c + 18 * unat (ctx_NumberOfSymbols c) \<le> unat nFileSize"
    by (simp_all add: not_less word_le_nat_alt unat_symtab_end64)
qed

lemma read_symbol_ok:
  assumes "pSymbolTable + 18 * unat n \<le> length img" and "i < n"
  shows "\<exists>s. read_symbol img pSymbolTable i = Inr s"
proof -
  have "unat i < unat n"
    using assms(2) by (simp add: word_less_nat_alt)
  with assms(1) have "pSymbolTable + 18 * unat i + 18 \<le> length img"
    by linarith
  then show ?thesis
    using rd32_ok [of "pSymbolTable + 18 * unat i + 8" img] rd16_ok [of "pSymbolTable + 18 * unat i + 12" img]
      rd16_ok [of "pSymbolTable + 18 * unat i + 14" img] rd8_ok [of "pSymbolTable + 18 * unat i + 17" img]
    by (auto simp: read_symbol_def Let_def rd_ok)
qed

lemma symbol_name_no_NUL: "symbol_name c s = Inr name \<Longrightarrow> 0 \<notin> set name"
  by (auto simp: symbol_name_def rd_cstr_def bnd_eq_Inr dest: set_takeWhileD cstr_Some_no_NUL
      list.set_sel(2) split: if_splits option.splits)

section \<open>Properties\<close>

text \<open>A small 64-bit image: headers, one section at RVA 0x1000 and two function symbols in it,
  \<open>f\<close> at 0x10 and \<open>.g\<close> at 0x20, and a file symbol with an auxiliary record between them.\<close>

definition sample_symbols :: "BYTE list" where
  "sample_symbols =
     [byte_of (CHR ''f''), 0, 0, 0, 0, 0, 0, 0, 0x10, 0, 0, 0, 1, 0, 0x20, 0, 2, 0] @
     [byte_of (CHR ''x''), 0, 0, 0, 0, 0, 0, 0, 0, 0, 0, 0, 0, 0, 0, 0, 2, 1] @ replicate 18 0xFF @
     [byte_of (CHR ''.''), byte_of (CHR ''g''), 0, 0, 0, 0, 0, 0, 0x20, 0, 0, 0, 1, 0, 0x20, 0, 2, 0]"

definition sample_image :: "BYTE list" where
  "sample_image =
     replicate 60 0 @ [64, 0, 0, 0] @
     [0x50, 0x45, 0, 0] @ [0x64, 0x86, 1, 0, 0, 0, 0, 0, 160, 0, 0, 0, 4, 0, 0, 0, 32, 0, 0, 0] @
     [0x0b, 0x02] @ replicate 22 0 @ [0, 0, 0x40, 0, 0, 0, 0, 0] @
     replicate 12 0 @ [0, 0x10, 0, 0] @ replicate 24 0 @
     sample_symbols @ [4, 0, 0, 0]"

definition sample_ctx :: find_ctx where
  "sample_ctx =
     \<lparr>ctx_img = sample_image, ctx_ImageBase = 0x400000, ctx_bUnderscore = False, ctx_Sections = 120,
      ctx_pSymbolTable = 160, ctx_pStringTable = 232, ctx_NumberOfSymbols = 4\<rparr>"

lemma sample_prologue: "find_prologue True sample_image 236 = Inr (Some sample_ctx)"
  by code_simp

lemma length_sample_image: "length sample_image = 236"
  by (simp add: sample_image_def sample_symbols_def)

lemma sample_eval:
  "pe_find_symbol True sample_image 236 0x401015 32 [] 0 =
     Some (Inr \<lparr>fs_bRet = True, fs_Displacement = 5, fs_Name = strncpy 32 [byte_of (CHR ''f'')]\<rparr>)"
  by code_simp

text \<open>C12: a successful search returns the nearest symbol. If \<open>pe_find_symbol\<close> finds one, it is a
  function symbol of the table at or below the address whose name does not begin with a dot, the
  displacement is its distance and the buffer is \<open>strncpy\<close> of its name; no such symbol of the
  table is nearer; and if it finds none the buffer is as before and the displacement is all ones.\<close>

theorem pe_find_symbol_nearest:
  assumes "find_prologue ndebug img nFileSize = Inr (Some c)"
    and "pe_find_symbol ndebug img nFileSize Addr n buf disp = Some (Inr st)"
  shows "if fs_bRet st
     then \<exists>s a name. meets c 0 s \<and> candidate c Addr s a name \<and> fs_Displacement st = Addr - a \<and>
            fs_Name st = strncpy n name \<and>
            \<not> (\<exists>t a' name'. meets c 0 t \<and> candidate c Addr t a' name' \<and> Addr - a' < Addr - a)
     else fs_Displacement st = NOT 0 \<and> fs_Name st = buf \<and>
            \<not> (\<exists>t a' name'. meets c 0 t \<and> candidate c Addr t a' name' \<and> Addr - a' < NOT 0)"
proof -
  have "find_loop c Addr n 0 (find_start buf) = Some (Inr st)"
    using assms by (simp add: pe_find_symbol_def)
  then have "loop_post c Addr n 0 (find_start buf) st"
    using find_loop_post by blast
  then show ?thesis
    by (fastforce simp: loop_post_def picked_def find_start_def not_less)
qed

theorem pe_find_symbol_nearest_witness:
  "\<exists>s a name. meets sample_ctx 0 s \<and> candidate sample_ctx 0x401015 s a name \<and> 5 = 0x401015 - a \<and>
     strncpy 32 [byte_of (CHR ''f'')] = strncpy 32 name \<and>
     \<not> (\<exists>t a' name'. meets sample_ctx 0 t \<and> candidate sample_ctx 0x401015 t a' name' \<and>
          0x401015 - a' < 0x401015 - a)"
  using pe_find_symbol_nearest [OF sample_prologue sample_eval] by simp

text \<open>C32: for any file below 72 GB the search ends, although its counter is a wrapping DWORD: the
  bounds check on the symbol table keeps the count away from the top of the range.\<close>

theorem pe_find_symbol_terminates:
  assumes "unat nFileSize < 18 * (2 ^ 32 - 256)"
  shows "\<exists>r. pe_find_symbol ndebug img nFileSize Addr n buf disp = Some r"
proof (cases "find_prologue ndebug img nFileSize")
  case (Inr oc)
  show ?thesis
  proof (cases oc)
    case (Some c)
    with Inr prologue_symtab(2) [of ndebug img nFileSize c] assms
    have "unat (ctx_NumberOfSymbols c) + 256 < 2 ^ 32"
      by simp
    then show ?thesis
      using find_loop_terminates Inr Some by (simp add: pe_find_symbol_def)
  qed (simp add: pe_find_symbol_def Inr)
qed (simp add: pe_find_symbol_def)

theorem pe_find_symbol_terminates_witness:
  "\<exists>r. pe_find_symbol True sample_image 236 0x401015 32 [] 0 = Some r"
  by (rule pe_find_symbol_terminates) simp

text \<open>C33: the bounds check suffices for the symbol records: once it has passed, no record of the
  table is read outside the file.\<close>

theorem symbol_records_in_bounds:
  assumes "find_prologue ndebug img (of_nat (length img)) = Inr (Some c)"
    and "length img < 2 ^ 64" and "i < ctx_NumberOfSymbols c"
  shows "\<exists>s. read_symbol (ctx_img c) (ctx_pSymbolTable c) i = Inr s"
proof -
  have "unat (of_nat (length img) :: SIZE_T) = length img"
    using assms(2) by (simp add: unat_of_nat)
  then have "ctx_pSymbolTable c + 18 * unat (ctx_NumberOfSymbols c) \<le> length img"
    using prologue_symtab(2) [OF assms(1)] by simp
  then show ?thesis
    using read_symbol_ok assms(3) prologue_symtab(1) [OF assms(1)] by blast
qed

theorem symbol_records_in_bounds_witness:
  "\<exists>s. read_symbol (ctx_img sample_ctx) (ctx_pSymbolTable sample_ctx) 3 = Inr s"
  by (rule symbol_records_in_bounds [of True sample_image sample_ctx 3])
    (simp_all add: length_sample_image sample_prologue sample_ctx_def)

text \<open>The check is exact on x86_64, where the end of the table is computed without overflow; on
  x86 the product wraps around, so that tables larger than the file pass.\<close>

theorem symtab_end_width:
  "unat (symtab_end p n :: 64 word) = unat p + 18 * unat n \<and>
   (symtab_end 0 0x0E38E38F :: 32 word) = 14"
  by (rule conjI [OF unat_symtab_end64]) (simp add: symtab_end_def)

end
