(* ===== verification/Resources.thy ===== *)
theory Resources
  imports Prelude "HOL-Library.Multiset"
begin

text \<open>
  The resources the program takes from the operating system and the C library, as a trace of
  acquisitions and releases, and \<open>held\<close>: what a trace leaves unreleased. Used for the claims that a
  function releases on every path what it acquired.
\<close>

datatype resource =
    RHeap DWORD64        \<comment> \<open>malloc, calloc\<close>
  | RFile HANDLE         \<comment> \<open>CreateFile\<close>
  | RMapping HANDLE      \<comment> \<open>CreateFileMapping\<close>
  | RView DWORD64        \<comment> \<open>MapViewOfFile\<close>
  | RDwarf DWORD64       \<comment> \<open>dwarf_object_init_b\<close>
  | RCUs DWORD64         \<comment> \<open>dwstReadCUs\<close>
  | RSession HANDLE      \<comment> \<open>SymInitialize\<close>
  | RToken HANDLE        \<comment> \<open>OpenProcessToken\<close>
  | RLocal DWORD64       \<comment> \<open>LocalAlloc\<close>

datatype call =
    Acquire resource
  | Release resource
  | OutputDebug wstr

type_synonym trace = "call list"

fun apply_call :: "resource multiset \<Rightarrow> call \<Rightarrow> resource multiset" where
  "apply_call M (Acquire r) = add_mset r M"
| "apply_call M (Release r) = M - {#r#}"
| "apply_call M (OutputDebug s) = M"

definition held :: "trace \<Rightarrow> resource multiset" where
  "held tr = foldl apply_call {#} tr"

lemma held_Nil [trace_simps]: "held [] = {#}"
  by (simp add: held_def)

lemma held_append [trace_simps]: "held (tr @ cs) = foldl apply_call (held tr) cs"
  by (simp add: held_def)

definition number_of_releases :: "resource \<Rightarrow> trace \<Rightarrow> nat" where
  "number_of_releases r tr = length (filter (\<lambda>c. c = Release r) tr)"

end
