(* ===== verification/Dwarf_PE.thy ===== *)
theory Dwarf_PE
  imports PE_Image Paths Resources
begin

text \<open>
  The object access interface through which libdwarf reads a PE image, and its set-up and
  tear-down (src/mgwhelp/dwarf_pe.cpp). libdwarf, the memory allocator and the file functions of
  Windows are parameters (\<open>pe_os\<close>); their answers may depend on the whole trace of calls so far.
\<close>

section \<open>The access object\<close>

record pe_access_object =
  pe_self :: DWORD64            \<comment> \<open>the calloc'ed block itself\<close>
  hFileMapping :: HANDLE
  lpFileBase :: DWORD64
  nFileSize :: SIZE_T
  pe_img :: "BYTE list"         \<comment> \<open>the bytes seen through the view\<close>
  pNtHeaders :: nat
  Sections :: nat
  pSymbolTable :: nat
  pStringTable :: nat

datatype dw_res = DW_DLV_OK | DW_DLV_NO_ENTRY | DW_DLV_ERROR

record section_info =
  as_size :: DWORD64
  as_name :: "int option"       \<comment> \<open>offset of the name in the image; \<open>None\<close> is the literal empty string\<close>

text \<open>\<open>strcmp\<close> against a literal and \<open>atoi\<close>, reading memory only as far as they need to.\<close>

fun strcmp_eq :: "BYTE list \<Rightarrow> BYTE list \<Rightarrow> fault + bool" where
  "strcmp_eq [] lit = Inl AccessViolation"
| "strcmp_eq (b # bs) [] = Inr (b = 0)"
| "strcmp_eq (b # bs) (c # cs) = (if b = c then strcmp_eq bs cs else Inr False)"

definition is_digit :: "BYTE \<Rightarrow> bool" where
  "is_digit b \<longleftrightarrow> 48 \<le> b \<and> b \<le> 57"

fun atoi_digits :: "BYTE list \<Rightarrow> int \<Rightarrow> fault + int" where
  "atoi_digits [] n = Inl AccessViolation"
| "atoi_digits (b # bs) n =
     (if is_digit b then atoi_digits bs (n * 10 + (uint b - 48)) else Inr n)"

fun atoi :: "BYTE list \<Rightarrow> fault + int" where
  "atoi [] = Inl AccessViolation"
| "atoi (b # bs) =
     (if b = 32 \<or> 9 \<le> b \<and> b \<le> 13 then atoi bs
      else if b = 45 then bnd (atoi_digits bs 0) (\<lambda>n. Inr (- n))
      else if b = 43 then atoi_digits bs 0
      else atoi_digits (b # bs) 0)"

text \<open>The memory from a pointer on; a pointer before or past the view faults on the first read.\<close>

definition mem_from :: "BYTE list \<Rightarrow> int \<Rightarrow> BYTE list" where
  "mem_from img off = (if off < 0 then [] else drop (nat off) img)"

definition section_header :: "pe_access_object \<Rightarrow> nat \<Rightarrow> nat" where
  "section_header obj section_index = Sections obj + 40 * (section_index - 1)"

definition pe_get_section_info :: "pe_access_object \<Rightarrow> nat \<Rightarrow> fault + section_info" where
  "pe_get_section_info obj section_index =
     (if section_index = 0 then Inr \<lparr>as_size = 0, as_name = None\<rparr>
      else
        let pSection = section_header obj section_index in
        bnd (rd32 (pe_img obj) (pSection + 8)) (\<lambda>VirtualSize.
        bnd (rd32 (pe_img obj) (pSection + 16)) (\<lambda>SizeOfRawData.
        let sz = (if VirtualSize < SizeOfRawData then ucast VirtualSize else ucast SizeOfRawData) in
        bnd (rd8 (pe_img obj) pSection) (\<lambda>c.
          if c = byte_of (CHR ''/'') then
            bnd (atoi (mem_from (pe_img obj) (int pSection + 1))) (\<lambda>n.
              Inr \<lparr>as_size = sz, as_name = Some (int (pStringTable obj) + n)\<rparr>)
          else Inr \<lparr>as_size = sz, as_name = Some (int pSection)\<rparr>))))"

abbreviation DW_END_little :: BYTE where "DW_END_little \<equiv> 1"

definition pe_get_byte_order :: "pe_access_object \<Rightarrow> BYTE" where
  "pe_get_byte_order obj = DW_END_little"

definition pe_get_length_pointer_size :: "pe_access_object \<Rightarrow> fault + BYTE" where
  "pe_get_length_pointer_size obj =
     bnd (oh_Magic (pe_img obj) (pNtHeaders obj)) (\<lambda>magic.
       if magic = IMAGE_NT_OPTIONAL_HDR32_MAGIC then Inr 4
       else if magic = IMAGE_NT_OPTIONAL_HDR64_MAGIC then Inr 8
       else Inr 0)"

definition pe_get_filesize :: "pe_access_object \<Rightarrow> DWORD64" where
  "pe_get_filesize obj = nFileSize obj"

definition pe_get_section_count :: "pe_access_object \<Rightarrow> fault + nat" where
  "pe_get_section_count obj =
     bnd (fh_NumberOfSections (pe_img obj) (pNtHeaders obj)) (\<lambda>n. Inr (unat n + 1))"

text \<open>The data pointer (an offset into the image), or that there is no entry.\<close>

definition pe_load_section :: "pe_access_object \<Rightarrow> nat \<Rightarrow> fault + nat option" where
  "pe_load_section obj section_index =
     (if section_index = 0 then Inr None
      else bnd (rd32 (pe_img obj) (section_header obj section_index + 20)) (\<lambda>p. Inr (Some (unat p))))"

text \<open>The interface that libdwarf is given: the object and the methods by which it reads it.\<close>

record access_methods =
  om_get_section_info :: "pe_access_object \<Rightarrow> nat \<Rightarrow> fault + section_info"
  om_get_byte_order :: "pe_access_object \<Rightarrow> BYTE"
  om_get_length_size :: "pe_access_object \<Rightarrow> fault + BYTE"
  om_get_pointer_size :: "pe_access_object \<Rightarrow> fault + BYTE"
  om_get_filesize :: "pe_access_object \<Rightarrow> DWORD64"
  om_get_section_count :: "pe_access_object \<Rightarrow> fault + nat"
  om_load_section :: "pe_access_object \<Rightarrow> nat \<Rightarrow> fault + nat option"
  om_relocate_a_section :: "(pe_access_object \<Rightarrow> nat \<Rightarrow> fault + dw_res) option"

definition pe_methods :: access_methods where
  "pe_methods = \<lparr>om_get_section_info = pe_get_section_info, om_get_byte_order = pe_get_byte_order,
     om_get_length_size = pe_get_length_pointer_size, om_get_pointer_size = pe_get_length_pointer_size,
     om_get_filesize = pe_get_filesize, om_get_section_count = pe_get_section_count,
     om_load_section = pe_load_section, om_relocate_a_section = None\<rparr>"

record access_interface =
  ai_object :: pe_access_object
  ai_methods :: access_methods

section \<open>Set-up\<close>

record pe_os =
  os_calloc :: "trace \<Rightarrow> DWORD64"
  os_CreateFileMapping :: "trace \<Rightarrow> HANDLE \<Rightarrow> HANDLE"
  os_MapViewOfFile :: "trace \<Rightarrow> HANDLE \<Rightarrow> DWORD64"
  os_GetFileSize :: "HANDLE \<Rightarrow> DWORD \<times> DWORD"
  os_contents :: "HANDLE \<Rightarrow> BYTE list"
  os_CreateFileW :: "trace \<Rightarrow> wstr \<Rightarrow> HANDLE"
  os_utf8 :: "BYTE list \<Rightarrow> wstr option"
  os_dwarf_object_init_b :: "trace \<Rightarrow> access_interface \<Rightarrow> dw_res \<times> DWORD64"

text \<open>What a Dwarf_Debug refers to: itself, the interface block and the access object.\<close>

record dwarf_debug =
  de_dbg :: DWORD64
  de_intfc :: DWORD64
  de_obj :: pe_access_object

definition gnu_debuglink :: "BYTE list" where
  "gnu_debuglink = map byte_of ''.gnu_debuglink''"

definition fill_access_object :: "DWORD64 \<Rightarrow> HANDLE \<Rightarrow> DWORD64 \<Rightarrow> BYTE list \<Rightarrow> DWORD \<times> DWORD \<Rightarrow>
    fault + pe_access_object" where
  "fill_access_object self m v img filesize =
     bnd (nt_headers img) (\<lambda>nt.
     bnd (section_table img nt) (\<lambda>secs.
     bnd (fh_PointerToSymbolTable img nt) (\<lambda>ptr.
     bnd (fh_NumberOfSymbols img nt) (\<lambda>num.
       Inr \<lparr>pe_self = self, hFileMapping = m, lpFileBase = v,
            nFileSize = ucast (fst filesize) OR push_bit 32 (ucast (snd filesize)),
            pe_img = img, pNtHeaders = nt, Sections = secs, pSymbolTable = unat ptr,
            pStringTable = unat ptr + 18 * unat num\<rparr>))))"

definition symtab_too_long :: "pe_access_object \<Rightarrow> fault + bool" where
  "symtab_too_long obj =
     bnd (fh_PointerToSymbolTable (pe_img obj) (pNtHeaders obj)) (\<lambda>ptr.
     bnd (fh_NumberOfSymbols (pe_img obj) (pNtHeaders obj)) (\<lambda>num.
       Inr (symtab_end ptr num > nFileSize obj)))"

text \<open>
  The loop over the sections: the name in the first \<open>.gnu_debuglink\<close> section that converts to a
  wide string, or \<open>None\<close> when there is none.
\<close>

fun find_debuglink :: "pe_os \<Rightarrow> pe_access_object \<Rightarrow> nat list \<Rightarrow> fault + wstr option" where
  "find_debuglink os obj [] = Inr None"
| "find_debuglink os obj (i # is) =
     bnd (pe_get_section_info obj i) (\<lambda>doas.
       if as_size doas = 0 then find_debuglink os obj is
       else
         bnd (case as_name doas of
                None \<Rightarrow> Inr False
              | Some p \<Rightarrow> strcmp_eq (mem_from (pe_img obj) p) gnu_debuglink)
           (\<lambda>eq.
              if eq then
                bnd (pe_load_section obj i) (\<lambda>data.
                  case data of
                    None \<Rightarrow> find_debuglink os obj is
                  | Some d \<Rightarrow>
                      bnd (rd_cstr (pe_img obj) d) (\<lambda>debuglink.
                        case os_utf8 os debuglink of
                          None \<Rightarrow> find_debuglink os obj is
                        | Some wDebuglink \<Rightarrow> Inr (Some wDebuglink)))
              else find_debuglink os obj is))"

definition debuglink_of :: "pe_os \<Rightarrow> pe_access_object \<Rightarrow> fault + wstr option" where
  "debuglink_of os obj =
     bnd (pe_get_section_count obj) (\<lambda>n. find_debuglink os obj [0..<n])"

text \<open>The image directory, then its \<open>.debug\<close> subdirectory.\<close>

definition debugSearchDirs :: "wstr \<Rightarrow> wstr list" where
  "debugSearchDirs imagePath =
     (let imageDir = (case getSeparatorW imagePath of None \<Rightarrow> [] | Some p \<Rightarrow> take p imagePath)
      in [imageDir, imageDir @ W ''.debug'' @ [W_char (CHR 0x5C)]])"

text \<open>The first search directory that has the file: its handle and full name.\<close>

fun open_debug_image :: "pe_os \<Rightarrow> wstr \<Rightarrow> wstr list \<Rightarrow> trace \<Rightarrow> (HANDLE \<times> wstr) option \<times> trace" where
  "open_debug_image os link [] tr = (None, tr)"
| "open_debug_image os link (dir # dirs) tr =
     (let name = dir @ link; h = os_CreateFileW os tr name in
      if h = INVALID_HANDLE_VALUE
      then open_debug_image os link dirs
             (tr @ [OutputDebug (W ''MGWHELP: '' @ name @ W '' - not found'' @ [W_char (CHR 0x0A)])])
      else (Some (h, name), tr @ [Acquire (RFile h)]))"

text \<open>The linker version test of the warning that an image made by MinGW has no symbols.\<close>

definition looks_like_mingw :: "pe_access_object \<Rightarrow> fault + bool" where
  "looks_like_mingw obj =
     bnd (rd8 (pe_img obj) (pNtHeaders obj + 26)) (\<lambda>major.
       if major = 2 then bnd (rd8 (pe_img obj) (pNtHeaders obj + 27)) (\<lambda>minor. Inr (21 \<le> minor))
       else Inr False)"

text \<open>The labels \<open>no_intfc\<close> to \<open>no_internals\<close>: the calls of the clean-up.\<close>

definition close_access_object :: "pe_access_object \<Rightarrow> trace" where
  "close_access_object obj =
     [Release (RView (lpFileBase obj)), Release (RMapping (hFileMapping obj)),
      Release (RHeap (pe_self obj))]"

text \<open>The part after the debug link search: libdwarf is tried on the image itself unless the search
  has succeeded.\<close>

definition init_own_image :: "pe_os \<Rightarrow> pe_access_object \<Rightarrow> wstr \<Rightarrow> dw_res \<Rightarrow> dwarf_debug option \<Rightarrow> trace \<Rightarrow>
    fault + dw_res \<times> dwarf_debug option \<times> trace" where
  "init_own_image os obj imagePath res dbg tr =
     (if res = DW_DLV_OK then Inr (res, dbg, tr @ close_access_object obj)
      else
        let intfc = os_calloc os tr in
        if intfc = 0 then Inr (res, dbg, tr @ close_access_object obj)
        else
          let tr = tr @ [Acquire (RHeap intfc)] in
          (case os_dwarf_object_init_b os tr \<lparr>ai_object = obj, ai_methods = pe_methods\<rparr> of
             (DW_DLV_OK, d) \<Rightarrow>
               Inr (DW_DLV_OK, Some \<lparr>de_dbg = d, de_intfc = intfc, de_obj = obj\<rparr>,
                    tr @ [Acquire (RDwarf d)])
           | (err, _) \<Rightarrow>
               bnd (looks_like_mingw obj) (\<lambda>warn.
                 Inr (err, dbg,
                      tr @ (if warn then [OutputDebug (W ''MGWHELP: '' @ imagePath @ W '' - no dwarf symbols'' @ [W_char (CHR 0x0A)])]
                            else [])
                         @ [Release (RHeap intfc)] @ close_access_object obj))))"

text \<open>The first part: the block, the file mapping and the view; what was acquired is given back
  when a later step fails.\<close>

definition map_image :: "pe_os \<Rightarrow> HANDLE \<Rightarrow> trace \<Rightarrow> (DWORD64 \<times> HANDLE \<times> DWORD64) option \<times> trace" where
  "map_image os hFile tr =
     (let self = os_calloc os tr in
      if self = 0 then (None, tr)
      else
        let tr = tr @ [Acquire (RHeap self)]; m = os_CreateFileMapping os tr hFile in
        if m = NULL then (None, tr @ [Release (RHeap self)])
        else
          let tr = tr @ [Acquire (RMapping m)]; v = os_MapViewOfFile os tr m in
          if v = 0 then (None, tr @ [Release (RMapping m), Release (RHeap self)])
          else (Some (self, m, v), tr @ [Acquire (RView v)]))"

text \<open>The second part reads the image: the access object, and the debug link, or \<open>None\<close> when the
  symbol table extends beyond the image.\<close>

definition inspect_image :: "pe_os \<Rightarrow> HANDLE \<Rightarrow> DWORD64 \<times> HANDLE \<times> DWORD64 \<Rightarrow>
    fault + pe_access_object \<times> wstr option option" where
  "inspect_image os hFile mapped =
     (case mapped of (self, m, v) \<Rightarrow>
        bnd (fill_access_object self m v (os_contents os hFile) (os_GetFileSize os hFile)) (\<lambda>obj.
        bnd (symtab_too_long obj) (\<lambda>too_long.
          if too_long then Inr (obj, None)
          else bnd (debuglink_of os obj) (\<lambda>link. Inr (obj, Some link)))))"

definition find_debug_image :: "pe_os \<Rightarrow> wstr \<Rightarrow> wstr option \<Rightarrow> trace \<Rightarrow> (HANDLE \<times> wstr) option \<times> trace" where
  "find_debug_image os imagePath link tr =
     (case link of
        None \<Rightarrow> (None, tr)
      | Some wDebuglink \<Rightarrow> open_debug_image os wDebuglink (debugSearchDirs imagePath) tr)"

text \<open>
  \<open>mgwhelp_dwarf_pe_init\<close>. The first argument bounds the depth of the recursion through debug
  links; \<open>None\<close> means that it was not enough.
\<close>

fun mgwhelp_dwarf_pe_init ::
  "nat \<Rightarrow> pe_os \<Rightarrow> HANDLE \<Rightarrow> wstr \<Rightarrow> trace \<Rightarrow>
   (fault + dw_res \<times> dwarf_debug option \<times> trace) option" where
  "mgwhelp_dwarf_pe_init 0 os hFile imagePath tr = None"
| "mgwhelp_dwarf_pe_init (Suc fuel) os hFile imagePath tr =
     (case map_image os hFile tr of
        (None, tr) \<Rightarrow> Some (Inr (DW_DLV_ERROR, None, tr))
      | (Some mapped, tr) \<Rightarrow>
          (case inspect_image os hFile mapped of
             Inl e \<Rightarrow> Some (Inl e)
           | Inr (obj, None) \<Rightarrow>
               Some (Inr (DW_DLV_ERROR, None,
                 tr @ OutputDebug (W ''MGWHELP: '' @ imagePath @
                         W '' - symbol table extends beyond image size'' @ [W_char (CHR 0x0A)])
                    # close_access_object obj))
           | Inr (obj, Some link) \<Rightarrow>
               (case find_debug_image os imagePath link tr of
                  (None, tr) \<Rightarrow> Some (init_own_image os obj imagePath DW_DLV_ERROR None tr)
                | (Some (h, name), tr) \<Rightarrow>
                    (case mgwhelp_dwarf_pe_init fuel os h name tr of
                       None \<Rightarrow> None
                     | Some (Inl e) \<Rightarrow> Some (Inl e)
                     | Some (Inr (res, dbg, tr)) \<Rightarrow>
                         Some (init_own_image os obj imagePath res dbg
                                (tr @ [Release (RFile h)]))))))"

text \<open>\<open>mgwhelp_dwarf_pe_finish\<close>.\<close>

definition mgwhelp_dwarf_pe_finish :: "dwarf_debug \<Rightarrow> trace \<Rightarrow> trace" where
  "mgwhelp_dwarf_pe_finish dbg tr =
     tr @ [Release (RHeap (de_intfc dbg)), Release (RView (lpFileBase (de_obj dbg))),
           Release (RMapping (hFileMapping (de_obj dbg))), Release (RHeap (pe_self (de_obj dbg))),
           Release (RDwarf (de_dbg dbg))]"


section \<open>Lemmas\<close>

definition object_resources :: "pe_access_object \<Rightarrow> resource multiset" where
  "object_resources obj =
     {#RHeap (pe_self obj), RMapping (hFileMapping obj), RView (lpFileBase obj)#}"

definition dwarf_resources :: "dwarf_debug \<Rightarrow> resource multiset" where
  "dwarf_resources d = object_resources (de_obj d) + {#RHeap (de_intfc d), RDwarf (de_dbg d)#}"

definition result_resources :: "dw_res \<Rightarrow> dwarf_debug option \<Rightarrow> resource multiset" where
  "result_resources res dbg =
     (if res = DW_DLV_OK then (case dbg of Some d \<Rightarrow> dwarf_resources d | None \<Rightarrow> {#}) else {#})"

lemma result_resources_simps [simp]:
  "result_resources DW_DLV_OK (Some d) = dwarf_resources d"
  "res \<noteq> DW_DLV_OK \<Longrightarrow> result_resources res dbg = {#}"
  by (simp_all add: result_resources_def)

lemma foldl_close [trace_simps]: "foldl apply_call M (close_access_object obj) = M - object_resources obj"
  by (simp add: close_access_object_def object_resources_def add_mset_commute)

lemma open_debug_image_held:
  "open_debug_image os link dirs tr = (r, tr') \<Longrightarrow>
   held tr' = held tr + (case r of None \<Rightarrow> {#} | Some (h, name) \<Rightarrow> {#RFile h#})"
  by (induction os link dirs tr rule: open_debug_image.induct)
    (auto simp: Let_def trace_simps split: if_splits)

lemma init_own_image_held:
  assumes "init_own_image os obj imagePath res dbg tr = Inr (res', dbg', tr')"
    and "held tr = M + object_resources obj + result_resources res dbg"
    and "res = DW_DLV_OK \<longrightarrow> dbg \<noteq> None"
  shows "held tr' = M + result_resources res' dbg' \<and> (res' = DW_DLV_OK \<longrightarrow> dbg' \<noteq> None)"
  using assms
  by (auto simp: init_own_image_def Let_def trace_simps bnd_eq_Inr dwarf_resources_def
      split: if_splits prod.splits dw_res.splits)

lemma fill_access_object_fields:
  "fill_access_object self m v img fs = Inr obj \<Longrightarrow>
   pe_self obj = self \<and> hFileMapping obj = m \<and> lpFileBase obj = v \<and> pe_img obj = img"
  by (auto simp: fill_access_object_def bnd_eq_Inr)

lemma map_image_held:
  "map_image os h tr = (r, tr') \<Longrightarrow>
   held tr' = held tr + (case r of None \<Rightarrow> {#} | Some (s, m, v) \<Rightarrow> {#RHeap s, RMapping m, RView v#})"
  by (auto simp: map_image_def Let_def trace_simps add_mset_commute split: if_splits)

lemma inspect_image_resources:
  "inspect_image os h (s, m, v) = Inr (obj, l) \<Longrightarrow>
   object_resources obj = {#RHeap s, RMapping m, RView v#}"
  by (auto simp: inspect_image_def bnd_eq_Inr object_resources_def add_mset_commute
      dest!: fill_access_object_fields split: if_splits)

lemma find_debug_image_held:
  "find_debug_image os imagePath link tr = (r, tr') \<Longrightarrow>
   held tr' = held tr + (case r of None \<Rightarrow> {#} | Some (h, name) \<Rightarrow> {#RFile h#})"
  by (cases link) (auto simp: find_debug_image_def dest: open_debug_image_held)

text \<open>The balance of one level, given the balance of the nested one.\<close>

lemma pe_init_step:
  assumes nested: "\<And>h name tr res dbg tr'.
      mgwhelp_dwarf_pe_init fuel os h name tr = Some (Inr (res, dbg, tr')) \<Longrightarrow>
      held tr' = held tr + result_resources res dbg \<and> (res = DW_DLV_OK \<longrightarrow> dbg \<noteq> None)"
    and init: "mgwhelp_dwarf_pe_init (Suc fuel) os h imagePath tr = Some (Inr (res, dbg, tr'))"
  shows "held tr' = held tr + result_resources res dbg \<and> (res = DW_DLV_OK \<longrightarrow> dbg \<noteq> None)"
proof -
  obtain r tr1 where map: "map_image os h tr = (r, tr1)"
    by (cases "map_image os h tr")
  show ?thesis
  proof (cases r)
    case None
    with init map map_image_held [OF map] show ?thesis by auto
  next
    case (Some mapped)
    obtain s m v where mapped: "mapped = (s, m, v)"
      by (cases mapped)
    obtain obj l where insp: "inspect_image os h (s, m, v) = Inr (obj, l)"
      using init map Some mapped by (auto split: sum.splits)
    have held1: "held tr1 = held tr + object_resources obj"
      using map_image_held [OF map] inspect_image_resources [OF insp] Some mapped by simp
    show ?thesis
    proof (cases l)
      case None
      with init map Some mapped insp held1 show ?thesis
        by (auto simp: trace_simps)
    next
      case link: (Some link)
      obtain r2 tr2 where dbgi: "find_debug_image os imagePath link tr1 = (r2, tr2)"
        by (cases "find_debug_image os imagePath link tr1")
      show ?thesis
      proof (cases r2)
        case None
        then have "init_own_image os obj imagePath DW_DLV_ERROR None tr2 = Inr (res, dbg, tr')"
          using init map Some mapped insp link dbgi by simp
        then show ?thesis
          using init_own_image_held [where M = "held tr"] find_debug_image_held [OF dbgi] held1 None
          by simp
      next
        case r2: (Some hn)
        obtain h' name where hn: "hn = (h', name)"
          by (cases hn)
        obtain res1 dbg1 tr3 where
          sub: "mgwhelp_dwarf_pe_init fuel os h' name tr2 = Some (Inr (res1, dbg1, tr3))"
          and own: "init_own_image os obj imagePath res1 dbg1 (tr3 @ [Release (RFile h')]) = Inr (res, dbg, tr')"
          using init map Some mapped insp link dbgi r2 hn
          by (auto split: option.splits sum.splits)
        have "held (tr3 @ [Release (RFile h')]) = held tr + object_resources obj + result_resources res1 dbg1"
          using nested [OF sub] find_debug_image_held [OF dbgi] held1 r2 hn by (simp add: trace_simps)
        then show ?thesis
          using init_own_image_held [OF own] nested [OF sub] by simp
      qed
    qed
  qed
qed

lemma pe_init_held:
  "mgwhelp_dwarf_pe_init fuel os h imagePath tr = Some (Inr (res, dbg, tr')) \<Longrightarrow>
   held tr' = held tr + result_resources res dbg \<and> (res = DW_DLV_OK \<longrightarrow> dbg \<noteq> None)"
proof (induction fuel arbitrary: h imagePath tr res dbg tr')
  case (Suc fuel)
  show ?case
    using Suc.IH Suc.prems by (rule pe_init_step)
qed simp

lemma finish_held: "held (mgwhelp_dwarf_pe_finish d tr) = held tr - dwarf_resources d"
  by (simp add: mgwhelp_dwarf_pe_finish_def dwarf_resources_def object_resources_def trace_simps
      add_mset_commute)

section \<open>The chain of debug links\<close>

text \<open>The debug link in a file of these bytes and this size, wherever it is mapped.\<close>

definition debug_link :: "pe_os \<Rightarrow> BYTE list \<Rightarrow> DWORD \<times> DWORD \<Rightarrow> wstr option" where
  "debug_link os img filesize =
     (case bnd (fill_access_object 0 0 0 img filesize) (\<lambda>obj.
             bnd (symtab_too_long obj) (\<lambda>too_long. if too_long then Inr None else debuglink_of os obj)) of
        Inr link \<Rightarrow> link
      | Inl e \<Rightarrow> None)"

text \<open>
  The files on the disk, by name: their bytes and sizes. Windows opens them under handles of its choice,
  through which their contents are read.
\<close>

type_synonym disk = "wstr \<Rightarrow> (BYTE list \<times> DWORD \<times> DWORD) option"

definition serves :: "pe_os \<Rightarrow> disk \<Rightarrow> bool" where
  "serves os fs \<longleftrightarrow> (\<forall>tr name. let h = os_CreateFileW os tr name in
     (h = INVALID_HANDLE_VALUE \<longleftrightarrow> fs name = None) \<and>
     (fs name \<noteq> None \<longrightarrow> fs name = Some (os_contents os h, os_GetFileSize os h)))"

definition maps_files :: "pe_os \<Rightarrow> bool" where
  "maps_files os \<longleftrightarrow> (\<forall>tr h. os_calloc os tr \<noteq> 0 \<and> os_CreateFileMapping os tr h \<noteq> 0 \<and> os_MapViewOfFile os tr h \<noteq> 0)"

text \<open>The file that the debug link of a file leads to, and the first \<open>n\<close> files of the chain from a file on.\<close>

definition next_file :: "pe_os \<Rightarrow> disk \<Rightarrow> wstr \<Rightarrow> wstr option" where
  "next_file os fs p =
     (case fs p of
        None \<Rightarrow> None
      | Some (img, filesize) \<Rightarrow>
          (case debug_link os img filesize of
             None \<Rightarrow> None
           | Some link \<Rightarrow> find (\<lambda>name. fs name \<noteq> None) (map (\<lambda>dir. dir @ link) (debugSearchDirs p))))"

fun link_chain :: "pe_os \<Rightarrow> disk \<Rightarrow> nat \<Rightarrow> wstr \<Rightarrow> wstr list" where
  "link_chain os fs 0 p = []"
| "link_chain os fs (Suc n) p = p # (case next_file os fs p of None \<Rightarrow> [] | Some q \<Rightarrow> link_chain os fs n q)"

lemma chain_length: "length (link_chain os fs n p) \<le> n"
  by (induction n arbitrary: p) (auto split: option.split)

lemma chain_stable: "length (link_chain os fs n p) < n \<Longrightarrow> link_chain os fs (n + d) p = link_chain os fs n p"
  by (induction n arbitrary: p) (auto split: option.splits)

lemma chain_on_disk: "fs p \<noteq> None \<Longrightarrow> set (link_chain os fs n p) \<subseteq> dom fs"
proof (induction n arbitrary: p)
  case (Suc n)
  have "fs q \<noteq> None" if "next_file os fs p = Some q" for q
    using that by (auto simp: next_file_def find_Some_iff split: option.splits)
  with Suc show ?case
    by (cases "next_file os fs p") (auto simp: domIff)
qed simp

text \<open>The chain of a file on the chain is the rest of it; so a chain that ends repeats no file.\<close>

lemma chain_rest:
  "q \<in> set (link_chain os fs n p) \<Longrightarrow> \<exists>j. \<forall>k. length (link_chain os fs (j + k) p) = j + length (link_chain os fs k q)"
proof (induction n arbitrary: p)
  case (Suc n)
  show ?case
  proof (cases "q = p")
    case True
    then show ?thesis
      by (intro exI [of _ 0]) simp
  next
    case False
    then obtain p' where p': "next_file os fs p = Some p'" "q \<in> set (link_chain os fs n p')"
      using Suc.prems by (cases "next_file os fs p") auto
    then obtain j where "\<forall>k. length (link_chain os fs (j + k) p') = j + length (link_chain os fs k q)"
      using Suc.IH by blast
    with p'(1) show ?thesis
      by (intro exI [of _ "Suc j"]) simp
  qed
qed simp

lemma ended_chain_distinct: "length (link_chain os fs k p) < k \<Longrightarrow> distinct (link_chain os fs n p)"
proof (induction k arbitrary: p n)
  case (Suc k)
  show ?case
  proof (cases "n = 0 \<or> next_file os fs p = None")
    case True
    then show ?thesis
      by (cases n) auto
  next
    case False
    then obtain m q where n: "n = Suc m" and q: "next_file os fs p = Some q"
      by (cases n) auto
    have "p \<notin> set (link_chain os fs m q)"
    proof
      assume "p \<in> set (link_chain os fs m q)"
      then obtain j where j: "\<forall>i. length (link_chain os fs (j + i) q) = j + length (link_chain os fs i p)"
        using chain_rest by blast
      have "length (link_chain os fs (Suc k + Suc j) p) = Suc j + length (link_chain os fs (Suc k) p)"
        using spec [OF j, of "Suc k"] q by (simp add: add.commute)
      then show False
        using chain_stable [OF Suc.prems, of "Suc j"] by simp
    qed
    moreover have "distinct (link_chain os fs m q)"
      using Suc q by simp
    ultimately show ?thesis
      using n q by simp
  qed
qed simp

text \<open>The recursion follows the chain.\<close>

lemma section_info_mapped [simp]:
  "pe_get_section_info (obj\<lparr>pe_self := s, hFileMapping := m, lpFileBase := v\<rparr>) i = pe_get_section_info obj i"
  "pe_load_section (obj\<lparr>pe_self := s, hFileMapping := m, lpFileBase := v\<rparr>) i = pe_load_section obj i"
  "pe_get_section_count (obj\<lparr>pe_self := s, hFileMapping := m, lpFileBase := v\<rparr>) = pe_get_section_count obj"
  by (simp_all add: pe_get_section_info_def pe_load_section_def pe_get_section_count_def section_header_def Let_def cong: if_cong)

lemma debuglink_mapped:
  "debuglink_of os (obj\<lparr>pe_self := s, hFileMapping := m, lpFileBase := v\<rparr>) = debuglink_of os obj"
proof -
  have "find_debuglink os (obj\<lparr>pe_self := s, hFileMapping := m, lpFileBase := v\<rparr>) is = find_debuglink os obj is" for "is"
    by (induction "is") (simp_all cong: if_cong option.case_cong)
  then show ?thesis
    by (simp add: debuglink_of_def)
qed

lemma fill_mapped:
  "fill_access_object s m v img filesize =
   bnd (fill_access_object 0 0 0 img filesize) (\<lambda>obj. Inr (obj\<lparr>pe_self := s, hFileMapping := m, lpFileBase := v\<rparr>))"
  by (simp add: fill_access_object_def flip: bnd_assoc)

lemma too_long_mapped [simp]:
  "symtab_too_long (obj\<lparr>pe_self := s, hFileMapping := m, lpFileBase := v\<rparr>) = symtab_too_long obj"
  by (simp add: symtab_too_long_def)

lemma inspect_debug_link:
  "(\<exists>obj. inspect_image os h mapped = Inr (obj, Some (Some link))) \<longleftrightarrow>
   debug_link os (os_contents os h) (os_GetFileSize os h) = Some link"
proof -
  obtain s m v where "mapped = (s, m, v)"
    by (cases mapped)
  then show ?thesis
    by (cases "fill_access_object 0 0 0 (os_contents os h) (os_GetFileSize os h)")
      (auto simp: inspect_image_def debug_link_def fill_mapped [of s m v] debuglink_mapped bnd_eq_Inr
        split: sum.splits if_splits)
qed

lemma open_debug_image_finds:
  "serves os fs \<Longrightarrow> open_debug_image os link dirs tr = (r, tr') \<Longrightarrow>
   (case r of
      None \<Rightarrow> find (\<lambda>name. fs name \<noteq> None) (map (\<lambda>dir. dir @ link) dirs) = None
    | Some (h, name) \<Rightarrow> find (\<lambda>name. fs name \<noteq> None) (map (\<lambda>dir. dir @ link) dirs) = Some name \<and>
        fs name = Some (os_contents os h, os_GetFileSize os h))"
proof (induction dirs arbitrary: tr)
  case (Cons dir dirs)
  have opened: "os_CreateFileW os tr (dir @ link) = INVALID_HANDLE_VALUE \<longleftrightarrow> fs (dir @ link) = None"
    "fs (dir @ link) \<noteq> None \<Longrightarrow> fs (dir @ link) = Some (os_contents os (os_CreateFileW os tr (dir @ link)),
       os_GetFileSize os (os_CreateFileW os tr (dir @ link)))"
    using Cons.prems(1) unfolding serves_def Let_def by blast+
  show ?case
  proof (cases "fs (dir @ link) = None")
    case True
    then obtain tr1 where "open_debug_image os link dirs tr1 = (r, tr')"
      using Cons.prems(2) opened(1) by (auto simp: Let_def)
    then show ?thesis
      using Cons.IH [OF Cons.prems(1)] True by (cases r) auto
  next
    case False
    then show ?thesis
      using Cons.prems(2) opened by (auto simp: Let_def)
  qed
qed auto

text \<open>A level of the recursion: the file \<open>p\<close>, open under the handle \<open>h\<close>, and the one its link leads to.\<close>

lemma level_returns:
  assumes "\<And>mapped obj l tr1. inspect_image os h mapped = Inr (obj, Some l) \<Longrightarrow>
      (\<exists>tr2. find_debug_image os p l tr1 = (None, tr2)) \<or>
      (\<exists>h' q tr2 r. find_debug_image os p l tr1 = (Some (h', q), tr2) \<and> mgwhelp_dwarf_pe_init n os h' q tr2 = Some r)"
  shows "\<exists>r. mgwhelp_dwarf_pe_init (Suc n) os h p tr = Some r"
proof -
  obtain m tr1 where map: "map_image os h tr = (m, tr1)"
    by fastforce
  show ?thesis
  proof (cases m)
    case (Some mapped)
    show ?thesis
    proof (cases "inspect_image os h mapped")
      case (Inr ol)
      obtain obj l where ol: "ol = (obj, l)"
        by (cases ol)
      show ?thesis
      proof (cases l)
        case l: (Some link)
        have "inspect_image os h mapped = Inr (obj, Some link)"
          using Inr ol l by simp
        from assms [OF this, of tr1] map Some Inr ol l show ?thesis
          by (auto split: sum.split)
      qed (use map Some Inr ol in simp)
    qed (use map Some in simp)
  qed (use map in simp)
qed

lemma last_level:
  assumes "serves os fs" and "fs p = Some (os_contents os h, os_GetFileSize os h)" and "next_file os fs p = None"
  shows "\<exists>r. mgwhelp_dwarf_pe_init (Suc n) os h p tr = Some r"
proof -
  have "fst (find_debug_image os p l tr1) = None" if "inspect_image os h mapped = Inr (obj, Some l)" for mapped obj l tr1
  proof (cases l)
    case (Some link)
    then have "debug_link os (os_contents os h) (os_GetFileSize os h) = Some link"
      using that inspect_debug_link by blast
    then show ?thesis
      using open_debug_image_finds [OF assms(1), of link "debugSearchDirs p" tr1] Some assms(2,3)
      by (cases "open_debug_image os link (debugSearchDirs p) tr1")
        (auto simp: find_debug_image_def next_file_def split: option.splits)
  qed (simp add: find_debug_image_def)
  then have "\<exists>tr2. find_debug_image os p l tr1 = (None, tr2)" if "inspect_image os h mapped = Inr (obj, Some l)"
    for mapped obj l tr1
    using that by (metis prod.collapse)
  then show ?thesis
    by (intro level_returns) blast
qed

lemma nested_level:
  assumes "serves os fs" and "fs p = Some (os_contents os h, os_GetFileSize os h)" and "next_file os fs p = Some q"
    and "inspect_image os h mapped = Inr (obj, Some l)"
  shows "\<exists>h' tr2. find_debug_image os p l tr1 = (Some (h', q), tr2) \<and> fs q = Some (os_contents os h', os_GetFileSize os h')"
proof -
  obtain link where link: "debug_link os (os_contents os h) (os_GetFileSize os h) = Some link"
    "find (\<lambda>name. fs name \<noteq> None) (map (\<lambda>dir. dir @ link) (debugSearchDirs p)) = Some q"
    using assms(2,3) by (auto simp: next_file_def split: option.splits)
  then have "l = Some link"
    using assms(4) inspect_debug_link [of os h mapped link] by auto
  then show ?thesis
    using open_debug_image_finds [OF assms(1), of link "debugSearchDirs p" tr1] link(2)
    by (cases "open_debug_image os link (debugSearchDirs p) tr1")
      (auto simp: find_debug_image_def split: option.splits)
qed

lemma pe_init_returns:
  assumes "serves os fs"
  shows "length (link_chain os fs (Suc n) p) \<le> n \<Longrightarrow> fs p = Some (os_contents os h, os_GetFileSize os h) \<Longrightarrow>
    \<exists>r. mgwhelp_dwarf_pe_init n os h p tr = Some r"
proof (induction n arbitrary: h p tr)
  case (Suc n)
  show ?case
  proof (cases "next_file os fs p")
    case None
    then show ?thesis
      using last_level [OF assms Suc.prems(2)] by simp
  next
    case (Some q)
    have "\<exists>r. mgwhelp_dwarf_pe_init n os h' q tr' = Some r" if "fs q = Some (os_contents os h', os_GetFileSize os h')" for h' tr'
      using Suc.IH [OF _ that] Suc.prems(1) Some by simp
    then have "\<exists>h' tr2 r. find_debug_image os p l tr1 = (Some (h', q), tr2) \<and> mgwhelp_dwarf_pe_init n os h' q tr2 = Some r"
      if "inspect_image os h mapped = Inr (obj, Some l)" for mapped obj l tr1
      using nested_level [OF assms Suc.prems(2) Some that] by blast
    then show ?thesis
      by (intro level_returns) blast
  qed
qed simp

lemma endless_chain_next:
  assumes "\<And>k. length (link_chain os fs k p) = k"
  shows "\<exists>q. next_file os fs p = Some q \<and> (\<forall>k. length (link_chain os fs k q) = k)"
proof -
  obtain q where q: "next_file os fs p = Some q"
    using assms [of 2] by (cases "next_file os fs p") (simp_all add: numeral_2_eq_2)
  then have "length (link_chain os fs k q) = k" for k
    using assms [of "Suc k"] by simp
  with q show ?thesis
    by blast
qed

lemma pe_init_never_returns:
  assumes "serves os fs" and "maps_files os"
  shows "(\<And>k. length (link_chain os fs k p) = k) \<Longrightarrow> fs p = Some (os_contents os h, os_GetFileSize os h) \<Longrightarrow>
    mgwhelp_dwarf_pe_init fuel os h p tr = None"
proof (induction fuel arbitrary: h p tr)
  case (Suc fuel)
  obtain q where q: "next_file os fs p = Some q" "\<And>k. length (link_chain os fs k q) = k"
    using endless_chain_next [OF Suc.prems(1)] by blast
  obtain mapped tr1 where map: "map_image os h tr = (Some mapped, tr1)"
    using assms(2) by (fastforce simp: map_image_def maps_files_def Let_def)
  obtain obj link where insp: "inspect_image os h mapped = Inr (obj, Some (Some link))"
    using q(1) Suc.prems(2) inspect_debug_link [of os h mapped] by (auto simp: next_file_def split: option.splits)
  obtain h' tr2 where "find_debug_image os p (Some link) tr1 = (Some (h', q), tr2)"
    and "fs q = Some (os_contents os h', os_GetFileSize os h')"
    using nested_level [OF assms(1) Suc.prems(2) q(1) insp] by blast
  with map insp show ?case
    using Suc.IH [OF q(2)] by simp
qed simp

section \<open>Properties\<close>

definition sample_os :: pe_os where
  "sample_os =
     \<lparr>os_calloc = (\<lambda>_. 7), os_CreateFileMapping = (\<lambda>_ _. 8), os_MapViewOfFile = (\<lambda>_ _. 9),
      os_GetFileSize = (\<lambda>_. (236, 0)), os_contents = (\<lambda>_. sample_image),
      os_CreateFileW = (\<lambda>_ _. INVALID_HANDLE_VALUE), os_utf8 = (\<lambda>b. Some (map ucast b)),
      os_dwarf_object_init_b = (\<lambda>_ _. (DW_DLV_OK, 5))\<rparr>"

lemma sample_inspect:
  "inspect_image sample_os 3 (7, 8, 9) =
     Inr (\<lparr>pe_self = 7, hFileMapping = 8, lpFileBase = 9, nFileSize = 236, pe_img = sample_image,
           pNtHeaders = 64, Sections = 120, pSymbolTable = 160, pStringTable = 232\<rparr>, Some None)"
  by code_simp

text \<open>C24: setting up libdwarf on an image leaks nothing. Whatever fails, what \<open>mgwhelp_dwarf_pe_init\<close>
  acquired (blocks, mappings, views, debug files and, through debug links, those of other images) is
  released when it reports failure; and after a success, \<open>mgwhelp_dwarf_pe_finish\<close> releases
  exactly the rest.\<close>

theorem pe_init_finish_balanced:
  assumes "mgwhelp_dwarf_pe_init fuel os h imagePath tr = Some (Inr (res, dbg, tr'))"
  shows "if res = DW_DLV_OK
     then \<exists>d. dbg = Some d \<and> held (mgwhelp_dwarf_pe_finish d tr') = held tr
     else held tr' = held tr"
  using pe_init_held [OF assms] by (auto simp: finish_held)

lemma sample_init:
  "\<exists>d tr'. mgwhelp_dwarf_pe_init 1 sample_os 3 (W ''C:/a.exe'') [] = Some (Inr (DW_DLV_OK, Some d, tr'))"
proof -
  have "map_image sample_os 3 [] = (Some (7, 8, 9), [Acquire (RHeap 7), Acquire (RMapping 8), Acquire (RView 9)])"
    by (simp add: map_image_def sample_os_def)
  moreover have "\<exists>d tr'. init_own_image sample_os obj p DW_DLV_ERROR None tr = Inr (DW_DLV_OK, Some d, tr')" for obj p tr
    by (simp add: init_own_image_def sample_os_def)
  ultimately show ?thesis
    by (simp add: sample_inspect find_debug_image_def)
qed

theorem pe_init_finish_balanced_witness:
  "\<exists>d tr'. mgwhelp_dwarf_pe_init 1 sample_os 3 (W ''C:/a.exe'') [] = Some (Inr (DW_DLV_OK, Some d, tr')) \<and>
     held (mgwhelp_dwarf_pe_finish d tr') = held ([] :: trace)"
proof -
  obtain d tr' where
    init: "mgwhelp_dwarf_pe_init 1 sample_os 3 (W ''C:/a.exe'') [] = Some (Inr (DW_DLV_OK, Some d, tr'))"
    using sample_init by blast
  with pe_init_finish_balanced [OF init] show ?thesis
    by (intro exI [of _ d] exI [of _ tr']) simp
qed

text \<open>C37: the recursion through debug links ends exactly when the chain of links does: when no file comes
  twice among the files that the links lead through, a depth of the number of files on the disk is
  enough, whatever else fails; and when one does come again, no depth is enough, that is, the recursion does not
  end, since the code never compares a file with those it came from. What is opened under a name is the
  file of that name on a finite disk.\<close>

theorem pe_init_terminates:
  assumes "serves os fs" and "finite (dom fs)" and "fs p = Some (os_contents os h, os_GetFileSize os h)"
  shows "(distinct (link_chain os fs (Suc (card (dom fs))) p) \<longrightarrow>
      (\<exists>r. mgwhelp_dwarf_pe_init (card (dom fs)) os h p tr = Some r)) \<and>
    (\<not> distinct (link_chain os fs (Suc (card (dom fs))) p) \<longrightarrow> maps_files os \<longrightarrow>
      (\<forall>fuel. mgwhelp_dwarf_pe_init fuel os h p tr = None))"
proof (intro conjI impI allI)
  assume "distinct (link_chain os fs (Suc (card (dom fs))) p)"
  then have "length (link_chain os fs (Suc (card (dom fs))) p) = card (set (link_chain os fs (Suc (card (dom fs))) p))"
    by (simp only: distinct_card)
  also have "\<dots> \<le> card (dom fs)"
    using assms(2,3) by (intro card_mono chain_on_disk) simp_all
  finally show "\<exists>r. mgwhelp_dwarf_pe_init (card (dom fs)) os h p tr = Some r"
    using pe_init_returns [OF assms(1)] assms(3) by blast
next
  fix fuel
  assume again: "\<not> distinct (link_chain os fs (Suc (card (dom fs))) p)" and maps: "maps_files os"
  have "length (link_chain os fs k p) = k" for k
    using again ended_chain_distinct [of os fs k p] chain_length [of os fs k p] by fastforce
  then show "mgwhelp_dwarf_pe_init fuel os h p tr = None"
    using pe_init_never_returns [OF assms(1) maps] assms(3) by blast
qed

text \<open>An image whose single section is a debug link to the file \<open>a\<close>.\<close>

definition link_image :: "BYTE list" where
  "link_image =
     replicate 60 0 @ [64, 0, 0, 0] @
     [0x50, 0x45, 0, 0] @ [0x64, 0x86, 1, 0, 0, 0, 0, 0, 160, 0, 0, 0, 0, 0, 0, 0, 32, 0, 0, 0] @
     [0x0b, 0x02] @ replicate 22 0 @ [0, 0, 0x40, 0, 0, 0, 0, 0] @
     [47, 52, 0, 0, 0, 0, 0, 0, 8, 0, 0, 0, 0, 0x10, 0, 0, 8, 0, 0, 0, 179, 0, 0, 0] @ replicate 16 0 @
     [19, 0, 0, 0] @ gnu_debuglink @ [0] @ [97, 0]"

text \<open>Two disks: the program \<open>b.exe\<close> with a debug link to \<open>a\<close>, which has none or links to itself.\<close>

definition link_disk :: "BYTE list \<times> DWORD \<times> DWORD \<Rightarrow> disk" where
  "link_disk a = [W ''C:/b.exe'' \<mapsto> (link_image, 181, 0), W ''C:/a'' \<mapsto> a]"

definition link_os :: "BYTE list \<times> DWORD \<times> DWORD \<Rightarrow> pe_os" where
  "link_os a =
     \<lparr>os_calloc = (\<lambda>_. 7), os_CreateFileMapping = (\<lambda>_ _. 8), os_MapViewOfFile = (\<lambda>_ _. 9),
      os_GetFileSize = (\<lambda>h. if h = 4 then snd a else (181, 0)),
      os_contents = (\<lambda>h. if h = 4 then fst a else link_image),
      os_CreateFileW = (\<lambda>_ name. if name = W ''C:/b.exe'' then 3 else if name = W ''C:/a'' then 4 else INVALID_HANDLE_VALUE),
      os_utf8 = (\<lambda>b. Some (map ucast b)),
      os_dwarf_object_init_b = (\<lambda>_ _. (DW_DLV_OK, 5))\<rparr>"

lemma link_os_serves: "serves (link_os a) (link_disk a)" "maps_files (link_os a)" "finite (dom (link_disk a))"
  "card (dom (link_disk a)) = 2" "link_disk a (W ''C:/b.exe'') = Some (os_contents (link_os a) 3, os_GetFileSize (link_os a) 3)"
  by (auto simp: serves_def maps_files_def link_os_def link_disk_def W_Cons Let_def)

lemma link_os_links:
  "debug_link (link_os a) link_image (181, 0) = Some [97]" "debug_link (link_os a) sample_image (236, 0) = None"
proof -
  have "debug_link (link_os (sample_image, 236, 0)) link_image (181, 0) = Some [97]"
    "debug_link (link_os (sample_image, 236, 0)) sample_image (236, 0) = None"
    by code_simp+
  moreover have "debug_link (link_os a) img s = debug_link (link_os b) img s" for b img s
  proof -
    have "find_debuglink (link_os a) obj is = find_debuglink (link_os b) obj is" for obj "is"
      by (induction "is") (simp_all add: link_os_def cong: if_cong option.case_cong)
    then have "debuglink_of (link_os a) = debuglink_of (link_os b)"
      by (simp add: debuglink_of_def fun_eq_iff)
    then show ?thesis
      by (simp add: debug_link_def cong: if_cong)
  qed
  ultimately show "debug_link (link_os a) link_image (181, 0) = Some [97]" "debug_link (link_os a) sample_image (236, 0) = None"
    by metis+
qed

lemma link_os_next:
  "next_file (link_os a) (link_disk a) (W ''C:/b.exe'') = Some (W ''C:/a'')"
  "next_file (link_os (sample_image, 236, 0)) (link_disk (sample_image, 236, 0)) (W ''C:/a'') = None"
  "next_file (link_os (link_image, 181, 0)) (link_disk (link_image, 181, 0)) (W ''C:/a'') = Some (W ''C:/a'')"
proof -
  have dirs: "map (\<lambda>dir. dir @ [97]) (debugSearchDirs (W ''C:/b.exe'')) = [W ''C:/a'', W ''C:/.debug'' @ [92, 97]]"
    "map (\<lambda>dir. dir @ [97]) (debugSearchDirs (W ''C:/a'')) = [W ''C:/a'', W ''C:/.debug'' @ [92, 97]]"
    by code_simp+
  have names: "W ''C:/b.exe'' \<noteq> W ''C:/a''" "W ''C:/a'' \<noteq> W ''C:/b.exe''"
    by (simp_all add: W_Cons)
  show "next_file (link_os a) (link_disk a) (W ''C:/b.exe'') = Some (W ''C:/a'')"
    "next_file (link_os (sample_image, 236, 0)) (link_disk (sample_image, 236, 0)) (W ''C:/a'') = None"
    "next_file (link_os (link_image, 181, 0)) (link_disk (link_image, 181, 0)) (W ''C:/a'') = Some (W ''C:/a'')"
    by (cases a; simp add: next_file_def link_disk_def link_os_links dirs names)+
qed

lemma link_chains:
  "link_chain (link_os (sample_image, 236, 0)) (link_disk (sample_image, 236, 0)) (Suc 2) (W ''C:/b.exe'') =
   [W ''C:/b.exe'', W ''C:/a'']"
  "link_chain (link_os (link_image, 181, 0)) (link_disk (link_image, 181, 0)) (Suc 2) (W ''C:/b.exe'') =
   [W ''C:/b.exe'', W ''C:/a'', W ''C:/a'']"
  by (simp_all only: numeral_2_eq_2 link_chain.simps link_os_next option.case)

theorem pe_init_terminates_witness:
  "(\<exists>r. mgwhelp_dwarf_pe_init 2 (link_os (sample_image, 236, 0)) 3 (W ''C:/b.exe'') [] = Some r) \<and>
   (\<forall>fuel. mgwhelp_dwarf_pe_init fuel (link_os (link_image, 181, 0)) 3 (W ''C:/b.exe'') [] = None)"
proof -
  have "W ''C:/b.exe'' \<noteq> W ''C:/a''"
    by (simp add: W_Cons)
  then have "distinct [W ''C:/b.exe'', W ''C:/a'']" "\<not> distinct [W ''C:/b.exe'', W ''C:/a'', W ''C:/a'']"
    by simp_all
  then show ?thesis
    using pe_init_terminates [OF link_os_serves(1,3,5), of "(sample_image, 236, 0)" "[]", unfolded link_os_serves(4) link_chains]
      pe_init_terminates [OF link_os_serves(1,3,5), of "(link_image, 181, 0)" "[]", unfolded link_os_serves(4) link_chains]
      link_os_serves(2) by blast
qed

end
