(* ===== verification/OutDbg.thy ===== *)
theory OutDbg
  imports Log_Facts Dwarf_PE
begin

text \<open>
  The debugging texts (src/common/outdbg.h): \<open>OutputDebug\<close> formats into a buffer of 512 bytes, converting
  wide strings to the code page, and hands it to \<open>OutputDebugStringA\<close>. The traces of the other theories
  hold the texts before the conversion, which is a parameter here; \<open>debug_output\<close> is what a debugger of
  the process receives.
\<close>

definition OutputDebug_text :: "(wchar \<Rightarrow> BYTE list) \<Rightarrow> wstr \<Rightarrow> fault + BYTE list" where
  "OutputDebug_text conv msg =
     (let (buf, retValue) = vsnwprintf 512 (concat (map conv msg)) in
      case cstr buf of None \<Rightarrow> Inl AccessViolation | Some s \<Rightarrow> Inr s)"

fun debug_output :: "(wchar \<Rightarrow> BYTE list) \<Rightarrow> trace \<Rightarrow> fault + BYTE list list" where
  "debug_output conv [] = Inr []"
| "debug_output conv (OutputDebug msg # tr) =
     bnd (OutputDebug_text conv msg) (\<lambda>s. bnd (debug_output conv tr) (\<lambda>r. Inr (s # r)))"
| "debug_output conv (c # tr) = debug_output conv tr"

lemma OutputDebug_exact:
  assumes "0 \<notin> set (concat (map conv msg))"
  shows "OutputDebug_text conv msg =
    (if length (concat (map conv msg)) < 512 then Inr (concat (map conv msg)) else Inl AccessViolation)"
proof (cases "length (concat (map conv msg)) < 512")
  case True
  then show ?thesis
    using assms by (simp add: OutputDebug_text_def vsnwprintf_def cstr_append_NUL)
next
  case False
  have "0 \<notin> set (take 512 (concat (map conv msg)))"
    using assms by (meson in_set_takeD)
  then have none: "cstr (take 512 (concat (map conv msg))) = None"
    by (simp only: cstr_None_iff not_False_eq_True)
  have "fst (vsnwprintf 512 (concat (map conv msg))) = take 512 (concat (map conv msg))"
    using False by (simp add: vsnwprintf_def del: length_concat)
  then show ?thesis
    using False none by (simp only: OutputDebug_text_def case_prod_beta Let_def if_False option.case)
qed

lemma debug_output_append:
  "debug_output conv (tr @ tr') = bnd (debug_output conv tr) (\<lambda>r. bnd (debug_output conv tr') (\<lambda>r'. Inr (r @ r')))"
  by (induction conv tr rule: debug_output.induct) (auto simp: bnd_def split: sum.splits)

text \<open>A code page that takes at most two bytes for a character, and never a NUL.\<close>

definition code_page :: "(wchar \<Rightarrow> BYTE list) \<Rightarrow> bool" where
  "code_page conv \<longleftrightarrow> (\<forall>c. c \<noteq> 0 \<longrightarrow> 0 \<notin> set (conv c) \<and> conv c \<noteq> [] \<and> length (conv c) \<le> 2)"

lemma converted_bounds:
  assumes "code_page conv" and "0 \<notin> set msg"
  shows "0 \<notin> set (concat (map conv msg))" and "length msg \<le> length (concat (map conv msg))"
    and "length (concat (map conv msg)) \<le> 2 * length msg"
proof -
  have conv: "0 \<notin> set (conv c)" "1 \<le> length (conv c)" "length (conv c) \<le> 2" if "c \<noteq> 0" for c
    using assms(1) that by (simp_all add: code_page_def Suc_le_eq)
  show "0 \<notin> set (concat (map conv msg))"
    using assms(2)
  proof (induction msg)
    case (Cons c msg)
    with conv(1) [of c] show ?case
      by simp
  qed simp
  show "length msg \<le> length (concat (map conv msg))"
    using assms(2)
  proof (induction msg)
    case (Cons c msg)
    with conv(2) [of c] show ?case
      by simp
  qed simp
  show "length (concat (map conv msg)) \<le> 2 * length msg"
    using assms(2)
  proof (induction msg)
    case (Cons c msg)
    with conv(3) [of c] show ?case
      by simp
  qed simp
qed

lemma OutputDebug_fits:
  "code_page conv \<Longrightarrow> 0 \<notin> set msg \<Longrightarrow> 2 * length msg < 512 \<Longrightarrow>
   OutputDebug_text conv msg = Inr (concat (map conv msg))"
  using converted_bounds [of conv msg] by (simp add: OutputDebug_exact)

lemma OutputDebug_overruns:
  "code_page conv \<Longrightarrow> 0 \<notin> set msg \<Longrightarrow> 512 \<le> length msg \<Longrightarrow> OutputDebug_text conv msg = Inl AccessViolation"
  using converted_bounds [of conv msg] by (simp add: OutputDebug_exact)

text \<open>
  The search of a debug link: the name comes from the image and is not bounded. When neither directory has
  the file both names are reported, and whether a debugger of the process survives the report depends on the
  length of the name: the text of a long one has no NUL in its buffer.
\<close>

definition not_found_text :: "wstr \<Rightarrow> wstr" where
  "not_found_text name = W ''MGWHELP: '' @ name @ W '' - not found'' @ [W_char (CHR 0x0A)]"

lemma not_found_length: "length (not_found_text name) = length name + 22"
  by (simp add: not_found_text_def)

lemma not_found_no_NUL: "0 \<notin> set name \<Longrightarrow> 0 \<notin> set (not_found_text name)"
  by (simp add: not_found_text_def zero_in_W W_char_def of_char16_eq_0)

lemma not_found_reported:
  assumes "\<And>tr name. os_CreateFileW os tr name = INVALID_HANDLE_VALUE"
  shows "find_debug_image os imagePath (Some link) tr =
    (None, tr @ map (\<lambda>dir. OutputDebug (not_found_text (dir @ link))) (debugSearchDirs imagePath))"
proof -
  have "open_debug_image os link dirs tr =
      (None, tr @ map (\<lambda>dir. OutputDebug (not_found_text (dir @ link))) dirs)" for dirs
    using assms by (induction dirs arbitrary: tr) (simp_all add: not_found_text_def)
  then show ?thesis
    by (simp add: find_debug_image_def)
qed

lemma debug_output_texts:
  "(\<And>x. x \<in> set xs \<Longrightarrow> OutputDebug_text conv (f x) = Inr (g x)) \<Longrightarrow>
   debug_output conv (map (\<lambda>x. OutputDebug (f x)) xs) = Inr (map g xs)"
  by (induction xs) simp_all

lemma search_dirs:
  assumes "0 \<notin> set imagePath" and "dir \<in> set (debugSearchDirs imagePath)"
  shows "0 \<notin> set dir" and "length dir \<le> length imagePath + 7"
proof -
  obtain n where "dir = take n imagePath \<or> dir = take n imagePath @ W ''.debug'' @ [W_char (CHR 0x5C)]"
    using assms(2) by (cases "getSeparatorW imagePath") (auto simp: debugSearchDirs_def Let_def intro: that [of 0])
  moreover have "0 \<notin> set (take n imagePath)"
    using assms(1) by (meson in_set_takeD)
  moreover have "0 \<notin> set (W ''.debug'' @ [W_char (CHR 0x5C)])"
    by (simp add: zero_in_W W_char_def of_char16_eq_0)
  ultimately show "0 \<notin> set dir" and "length dir \<le> length imagePath + 7"
    by auto
qed

lemma short_link_arrives:
  assumes "code_page conv" and "\<And>tr name. os_CreateFileW os tr name = INVALID_HANDLE_VALUE"
    and "0 \<notin> set imagePath" and "0 \<notin> set link" and "length imagePath + length link < 227"
  shows "debug_output conv (snd (find_debug_image os imagePath (Some link) [])) =
    Inr (map (\<lambda>dir. concat (map conv (not_found_text (dir @ link)))) (debugSearchDirs imagePath))"
proof -
  have "OutputDebug_text conv (not_found_text (dir @ link)) = Inr (concat (map conv (not_found_text (dir @ link))))"
    if "dir \<in> set (debugSearchDirs imagePath)" for dir
    using search_dirs [OF assms(3) that] assms(4,5)
    by (intro OutputDebug_fits [OF assms(1)] not_found_no_NUL) (simp_all add: not_found_length)
  then show ?thesis
    by (simp only: not_found_reported [OF assms(2)] snd_conv append_Nil debug_output_texts)
qed

lemma long_link_overruns:
  assumes "code_page conv" and "\<And>tr name. os_CreateFileW os tr name = INVALID_HANDLE_VALUE"
    and "0 \<notin> set imagePath" and "0 \<notin> set link" and "490 \<le> length link"
  shows "debug_output conv (snd (find_debug_image os imagePath (Some link) [])) = Inl AccessViolation"
proof -
  obtain dir dirs where dirs: "debugSearchDirs imagePath = dir # dirs"
    by (simp add: debugSearchDirs_def Let_def)
  then have "OutputDebug_text conv (not_found_text (dir @ link)) = Inl AccessViolation"
    using search_dirs(1) [OF assms(3), of dir] assms(4,5)
    by (intro OutputDebug_overruns [OF assms(1)] not_found_no_NUL) (simp_all add: not_found_length)
  then show ?thesis
    by (simp add: not_found_reported [OF assms(2)] dirs)
qed

end
