(* ===== verification/Dwarf_Find.thy ===== *)
theory Dwarf_Find
  imports Dwarf_PE
begin

text \<open>
  Symbol and line look-up through dwarfstack (src/mgwhelp/dwarf_find.cpp). \<open>dwstOfDwarfDebugW\<close>,
  which is not part of the repository, reports an address as a sequence of calls of the callback;
  the model takes that sequence and folds the callback over it.
\<close>

text \<open>The \<open>lineno\<close> argument of the callback: one of the negative codes of dwarfstack.h, or a line.\<close>

datatype dwst_line = DWST_BASE_ADDR | DWST_NOT_FOUND | DWST_NO_DBG_SYM | DWST_NO_SRC_FILE | Line DWORD

record dwst_call =
  cb_addr :: DWORD64
  cb_filename :: "wstr option"
  cb_lineno :: dwst_line
  cb_funcname :: "BYTE list option"

record dwarf_symbol_info =
  dsi_functionname :: "BYTE list"
  dsi_offset_addr :: DWORD

record dwarf_line_info =
  dli_filename :: wstr
  dli_line :: DWORD
  dli_offset_addr :: DWORD

text \<open>
  Assigning the name to a \<open>std::string\<close> reads it, so that a NULL name is an access violation; a NULL
  file name is replaced by the empty string.
\<close>

definition find_symbol_cbW :: "dwst_call \<Rightarrow> dwarf_symbol_info \<Rightarrow> fault + dwarf_symbol_info" where
  "find_symbol_cbW cb info =
     (case cb_lineno cb of
        Line n \<Rightarrow>
          (case cb_funcname cb of
             Some f \<Rightarrow> Inr (info\<lparr>dsi_functionname := f, dsi_offset_addr := ucast (cb_addr cb)\<rparr>)
           | None \<Rightarrow> Inl AccessViolation)
      | _ \<Rightarrow> Inr info)"

fun report_symbols :: "dwst_call list \<Rightarrow> dwarf_symbol_info \<Rightarrow> fault + dwarf_symbol_info" where
  "report_symbols [] info = Inr info"
| "report_symbols (cb # cbs) info = bnd (find_symbol_cbW cb info) (report_symbols cbs)"

definition dwarf_find_symbol :: "dwst_call list \<Rightarrow> dwarf_symbol_info \<Rightarrow> fault + bool \<times> dwarf_symbol_info" where
  "dwarf_find_symbol cbs info =
     bnd (report_symbols cbs info) (\<lambda>info. Inr (dsi_functionname info \<noteq> [], info))"

definition find_line_cbW :: "dwst_call \<Rightarrow> dwarf_line_info \<Rightarrow> dwarf_line_info" where
  "find_line_cbW cb info =
     (case cb_lineno cb of
        Line n \<Rightarrow>
          info\<lparr>dli_filename := (case cb_filename cb of Some f \<Rightarrow> f | None \<Rightarrow> []),
               dli_offset_addr := ucast (cb_addr cb), dli_line := n\<rparr>
      | _ \<Rightarrow> info)"

definition dwarf_find_line :: "dwst_call list \<Rightarrow> dwarf_line_info \<Rightarrow> bool \<times> dwarf_line_info" where
  "dwarf_find_line cbs info =
     (let info = fold find_line_cbW cbs info in (dli_filename info \<noteq> [], info))"

section \<open>Lemmas\<close>

definition has_line :: "dwst_call \<Rightarrow> bool" where
  "has_line cb \<longleftrightarrow> (\<exists>n. cb_lineno cb = Line n)"

lemma report_symbols_none: "filter has_line cbs = [] \<Longrightarrow> report_symbols cbs info = Inr info"
  by (induction cbs) (auto simp: find_symbol_cbW_def has_line_def split: dwst_line.splits if_splits)

lemma fold_line_none: "filter has_line cbs = [] \<Longrightarrow> fold find_line_cbW cbs info = info"
  by (induction cbs) (auto simp: find_line_cbW_def has_line_def split: dwst_line.splits if_splits)

lemma report_symbols_append:
  "report_symbols (xs @ ys) info = bnd (report_symbols xs info) (report_symbols ys)"
proof (induction xs arbitrary: info)
  case (Cons x xs)
  then show ?case by (cases "find_symbol_cbW x info") simp_all
qed simp

text \<open>With several reports, as for inlined calls, the last one with a line counts.\<close>

lemma fold_line_last:
  assumes "cb_lineno cb = Line n" and "filter has_line later = []"
  shows "fold find_line_cbW (before @ cb # later) info =
    \<lparr>dli_filename = (case cb_filename cb of Some f \<Rightarrow> f | None \<Rightarrow> []), dli_line = n,
     dli_offset_addr = ucast (cb_addr cb)\<rparr>"
  using assms by (simp add: fold_line_none) (simp add: find_line_cbW_def)

lemma report_symbols_last:
  assumes "cb_lineno cb = Line n" and "filter has_line later = []"
    and "report_symbols (before @ cb # later) info = Inr info'"
  shows "cb_funcname cb = Some (dsi_functionname info') \<and> dsi_offset_addr info' = ucast (cb_addr cb)"
  using assms
  by (auto simp: report_symbols_append report_symbols_none bnd_eq_Inr find_symbol_cbW_def
      split: option.splits)

end
