(* ===== verification/Mgwhelp.thy ===== *)
theory Mgwhelp
  imports Dwarf_Find
begin

text \<open>
  The mgwhelp library (src/mgwhelp/mgwhelp.cpp): the lists of processes and of their modules, and the
  DbgHelp entry points on top of them. DbgHelp, the Windows file and process functions, libdwarf,
  dwarfstack and the demangler are parameters (\<open>mg_os\<close>). Operations that load an image may fault or,
  through debug links, not return; \<open>fuel\<close> bounds the depth of debug links (see \<open>pe_init_terminates\<close>).
\<close>

section \<open>State\<close>

record mgwhelp_module =
  mod_self :: DWORD64
  mod_Base :: DWORD64
  mod_LoadedImageName :: wstr
  mod_hFileMapping :: HANDLE
  mod_lpFileBase :: DWORD64
  mod_img :: "BYTE list"
  mod_nFileSize :: SIZE_T
  mod_image_base_vma :: DWORD64
  mod_dwarf :: "(dwarf_debug \<times> DWORD64) option"   \<comment> \<open>\<open>dbg\<close> and \<open>cuArr\<close>\<close>

record mgwhelp_process =
  proc_self :: DWORD64
  proc_hProcess :: HANDLE
  proc_modules :: "mgwhelp_module list"

record mgwhelp_state =
  processes :: "mgwhelp_process list"
  line_info :: dwarf_line_info      \<comment> \<open>the static \<open>info\<close> of \<open>MgwSymGetLineFromAddrW64\<close>\<close>
  calls :: trace

text \<open>What a symbol or line query gives its caller (the buffers whole, as they are after the call).\<close>

record sym_info =
  si_Name :: wstr
  si_NameLen :: DWORD
  si_Displacement :: DWORD64

record line_info64 =
  li_FileName :: wstr
  li_LineNumber :: DWORD
  li_Displacement :: DWORD

record mg_os = pe_os +
  os_ndebug :: bool
  os_GetModuleFileNameExW :: "HANDLE \<Rightarrow> DWORD64 \<Rightarrow> wstr option"
  os_dwstReadCUs :: "trace \<Rightarrow> dwarf_debug \<Rightarrow> DWORD64"
  os_GetCurrentProcess :: HANDLE
  os_GetModuleHandleExW :: "DWORD64 \<Rightarrow> DWORD64 option"
  os_VirtualQueryEx :: "HANDLE \<Rightarrow> DWORD64 \<Rightarrow> DWORD64 option"   \<comment> \<open>the allocation base\<close>
  os_SymGetModuleBase64 :: "HANDLE \<Rightarrow> DWORD64 \<Rightarrow> DWORD64"
  os_dwstOfDwarfDebugW :: "dwarf_debug \<Rightarrow> DWORD64 \<Rightarrow> DWORD64 \<Rightarrow> wstr \<Rightarrow> DWORD64 \<Rightarrow> DWORD64 \<Rightarrow> dwst_call list"
  os_SymInitialize :: "trace \<Rightarrow> HANDLE \<Rightarrow> bool"
  os_SymCleanup :: "trace \<Rightarrow> HANDLE \<Rightarrow> bool"
  os_SymLoadModuleEx :: "HANDLE \<Rightarrow> DWORD64 \<Rightarrow> DWORD64"
  os_cplus_demangle_v3 :: "BYTE list \<Rightarrow> DWORD \<Rightarrow> BYTE list option"
  os_SymGetOptions :: DWORD
  os_MultiByteToWideChar :: "DWORD \<Rightarrow> BYTE list \<Rightarrow> nat \<Rightarrow> DWORD \<times> wstr"
  os_WideCharToMultiByte :: "DWORD \<Rightarrow> wstr \<Rightarrow> nat \<Rightarrow> DWORD \<times> BYTE list"
  os_SymFromAddrW :: "HANDLE \<Rightarrow> DWORD64 \<Rightarrow> nat \<Rightarrow> sym_info option"
  os_SymGetLineFromAddrW64 :: "HANDLE \<Rightarrow> DWORD64 \<Rightarrow> line_info64 option"
  os_UnDecorateSymbolNameW :: "wstr \<Rightarrow> nat \<Rightarrow> DWORD \<Rightarrow> DWORD \<times> wstr"

section \<open>Modules\<close>

text \<open>\<open>wcsncpy\<close> into the array of MAX_PATH characters, whose last one is then set to NUL.\<close>

definition copy_image_name :: "wstr \<Rightarrow> wstr" where
  "copy_image_name name = take (MAX_PATH - 1) name"

definition get_module_name :: "mg_os \<Rightarrow> HANDLE \<Rightarrow> wstr option \<Rightarrow> DWORD64 \<Rightarrow> wstr option" where
  "get_module_name os hProcess ImageName Base =
     (case ImageName of
        Some name \<Rightarrow> Some (copy_image_name name)
      | None \<Rightarrow> os_GetModuleFileNameExW os hProcess Base)"

text \<open>The file: the caller's handle, or one of its own (\<open>bOwnFile\<close>).\<close>

definition module_file :: "mg_os \<Rightarrow> HANDLE \<Rightarrow> wstr \<Rightarrow> trace \<Rightarrow> (HANDLE \<times> bool) option \<times> trace" where
  "module_file os hFile name tr =
     (if hFile = NULL then
        let h = os_CreateFileW os tr name in
        if h = INVALID_HANDLE_VALUE
        then (None, tr @ [OutputDebug (W ''MGWHELP: '' @ name @ W '' - file not found'' @ [W_char (CHR 0x0A)])])
        else (Some (h, True), tr @ [Acquire (RFile h)])
      else (Some (hFile, False), tr))"

definition close_own :: "HANDLE \<Rightarrow> bool \<Rightarrow> trace" where
  "close_own h bOwnFile = (if bOwnFile then [Release (RFile h)] else [])"

definition map_module :: "mg_os \<Rightarrow> HANDLE \<Rightarrow> bool \<Rightarrow> trace \<Rightarrow> (HANDLE \<times> DWORD64) option \<times> trace" where
  "map_module os h bOwnFile tr =
     (let m = os_CreateFileMapping os tr h in
      if m = NULL then (None, tr @ close_own h bOwnFile)
      else
        let tr = tr @ [Acquire (RMapping m)]; v = os_MapViewOfFile os tr m in
        if v = 0 then (None, tr @ Release (RMapping m) # close_own h bOwnFile)
        else (Some (m, v), tr @ [Acquire (RView v)]))"

definition load_dwarf :: "nat \<Rightarrow> mg_os \<Rightarrow> HANDLE \<Rightarrow> wstr \<Rightarrow> trace \<Rightarrow>
    (fault + (dwarf_debug \<times> DWORD64) option \<times> trace) option" where
  "load_dwarf fuel os h name tr =
     run (mgwhelp_dwarf_pe_init fuel (pe_os.truncate os) h name tr) (\<lambda>(res, dbg, tr).
       case (res, dbg) of
         (DW_DLV_OK, Some d) \<Rightarrow>
           let cus = os_dwstReadCUs os tr d in return (Some (d, cus), tr @ [Acquire (RCUs cus)])
       | _ \<Rightarrow> return (None, tr))"

definition file_size64 :: "DWORD \<times> DWORD \<Rightarrow> SIZE_T" where
  "file_size64 lohi = ucast (fst lohi) OR push_bit 32 (ucast (snd lohi))"

text \<open>The part of \<open>mgwhelp_module_create\<close> after the view is mapped.\<close>

definition module_load :: "nat \<Rightarrow> mg_os \<Rightarrow> DWORD64 \<Rightarrow> wstr \<Rightarrow> DWORD64 \<Rightarrow> HANDLE \<times> bool \<Rightarrow> HANDLE \<times> DWORD64 \<Rightarrow>
    trace \<Rightarrow> (fault + mgwhelp_module \<times> trace) option" where
  "module_load fuel os self name Base file mapped tr =
     (case PEGetImageBase (os_ndebug os) (os_contents os (fst file)) of
        Inl e \<Rightarrow> Some (Inl e)
      | Inr vma \<Rightarrow>
          run (load_dwarf fuel os (fst file) name tr) (\<lambda>(dwarf, tr).
            return
              (\<lparr>mod_self = self, mod_Base = Base, mod_LoadedImageName = name,
                mod_hFileMapping = fst mapped, mod_lpFileBase = snd mapped,
                mod_img = os_contents os (fst file), mod_nFileSize = file_size64 (os_GetFileSize os (fst file)),
                mod_image_base_vma = vma, mod_dwarf = dwarf\<rparr>,
               tr @ close_own (fst file) (snd file))))"

definition mgwhelp_module_create :: "nat \<Rightarrow> mg_os \<Rightarrow> HANDLE \<Rightarrow> HANDLE \<Rightarrow> wstr option \<Rightarrow> DWORD64 \<Rightarrow> trace \<Rightarrow>
    (fault + mgwhelp_module option \<times> trace) option" where
  "mgwhelp_module_create fuel os hProcess hFile ImageName Base tr =
     (let self = os_calloc os tr in
      if self = 0 then return (None, tr)
      else
        let tr = tr @ [Acquire (RHeap self)] in
        (case get_module_name os hProcess ImageName Base of
           None \<Rightarrow>
             return (None, tr @ [OutputDebug (W ''MGWHELP: could not determine module name'' @ [W_char (CHR 0x0A)]),
                                 Release (RHeap self)])
         | Some name \<Rightarrow>
             (case module_file os hFile name tr of
                (None, tr) \<Rightarrow> return (None, tr @ [Release (RHeap self)])
              | (Some file, tr) \<Rightarrow>
                  (case map_module os (fst file) (snd file) tr of
                     (None, tr) \<Rightarrow> return (None, tr @ [Release (RHeap self)])
                   | (Some mapped, tr) \<Rightarrow>
                       run (module_load fuel os self name Base file mapped tr)
                         (\<lambda>(m, tr). return (Some m, tr))))))"

definition mgwhelp_module_destroy :: "mgwhelp_module \<Rightarrow> trace \<Rightarrow> trace" where
  "mgwhelp_module_destroy m tr =
     (case mod_dwarf m of
        Some (dbg, cus) \<Rightarrow> mgwhelp_dwarf_pe_finish dbg (tr @ [Release (RCUs cus)])
      | None \<Rightarrow> tr)
     @ [Release (RView (mod_lpFileBase m)), Release (RHeap (mod_self m))]"

section \<open>Processes\<close>

definition mgwhelp_process_lookup :: "HANDLE \<Rightarrow> mgwhelp_state \<Rightarrow> mgwhelp_process option" where
  "mgwhelp_process_lookup hProcess st = find (\<lambda>p. proc_hProcess p = hProcess) (processes st)"

text \<open>Writing through the pointer that the look-up returns: the first process with the handle.\<close>

fun push_module :: "HANDLE \<Rightarrow> mgwhelp_module \<Rightarrow> mgwhelp_process list \<Rightarrow> mgwhelp_process list" where
  "push_module hProcess m [] = []"
| "push_module hProcess m (p # ps) =
     (if proc_hProcess p = hProcess then p\<lparr>proc_modules := m # proc_modules p\<rparr> # ps
      else p # push_module hProcess m ps)"

definition mgwhelp_module_lookup :: "nat \<Rightarrow> mg_os \<Rightarrow> HANDLE \<Rightarrow> HANDLE \<Rightarrow> wstr option \<Rightarrow> DWORD64 \<Rightarrow>
    mgwhelp_state \<Rightarrow> (fault + mgwhelp_module option \<times> mgwhelp_state) option" where
  "mgwhelp_module_lookup fuel os hProcess hFile ImageName Base st =
     (case mgwhelp_process_lookup hProcess st of
        None \<Rightarrow> return (None, st)
      | Some process \<Rightarrow>
          (case find (\<lambda>m. mod_Base m = Base) (proc_modules process) of
             Some m \<Rightarrow> return (Some m, st)
           | None \<Rightarrow>
               run (mgwhelp_module_create fuel os hProcess hFile ImageName Base (calls st)) (\<lambda>(r, tr).
                 case r of
                   None \<Rightarrow> return (None, st\<lparr>calls := tr\<rparr>)
                 | Some m \<Rightarrow>
                     return (Some m, st\<lparr>processes := push_module hProcess m (processes st), calls := tr\<rparr>))))"

definition GetModuleBase :: "mg_os \<Rightarrow> HANDLE \<Rightarrow> DWORD64 \<Rightarrow> DWORD64" where
  "GetModuleBase os hProcess dwAddress =
     (case (if hProcess = os_GetCurrentProcess os then os_GetModuleHandleExW os dwAddress else None) of
        Some hModule \<Rightarrow> hModule
      | None \<Rightarrow>
          (case os_VirtualQueryEx os hProcess dwAddress of
             Some AllocationBase \<Rightarrow> AllocationBase
           | None \<Rightarrow> os_SymGetModuleBase64 os hProcess dwAddress))"

text \<open>The module, and the address relative to the preferred image base (\<open>*pOffset\<close>).\<close>

definition mgwhelp_find_module :: "nat \<Rightarrow> mg_os \<Rightarrow> HANDLE \<Rightarrow> DWORD64 \<Rightarrow> mgwhelp_state \<Rightarrow>
    (fault + (mgwhelp_module \<times> DWORD64) option \<times> mgwhelp_state) option" where
  "mgwhelp_find_module fuel os hProcess Address st =
     (let Base = GetModuleBase os hProcess Address in
      if Base = 0 then return (None, st)
      else
        run (mgwhelp_module_lookup fuel os hProcess NULL None Base st) (\<lambda>(r, st).
          return (map_option (\<lambda>m. (m, mod_image_base_vma m + Address - mod_Base m)) r, st)))"

definition mgwhelp_initialize :: "mg_os \<Rightarrow> HANDLE \<Rightarrow> mgwhelp_state \<Rightarrow> mgwhelp_state" where
  "mgwhelp_initialize os hProcess st =
     (let self = os_calloc os (calls st) in
      if self = 0 then st
      else st\<lparr>processes := \<lparr>proc_self = self, proc_hProcess = hProcess, proc_modules = []\<rparr> # processes st,
              calls := calls st @ [Acquire (RHeap self)]\<rparr>)"

text \<open>\<open>MgwSymInitialize\<close> and \<open>MgwSymInitializeW\<close>, which differ in the DbgHelp function they call.\<close>

definition MgwSymInitialize :: "mg_os \<Rightarrow> HANDLE \<Rightarrow> mgwhelp_state \<Rightarrow> bool \<times> mgwhelp_state" where
  "MgwSymInitialize os hProcess st =
     (let ret = os_SymInitialize os (calls st) hProcess in
      if ret then (ret, mgwhelp_initialize os hProcess st) else (ret, st))"

text \<open>The options are those of DbgHelp, which answers with the options that are then in force.\<close>

definition MgwSymSetOptions :: "DWORD \<Rightarrow> mg_os \<Rightarrow> DWORD \<times> mg_os" where
  "MgwSymSetOptions SymOptions os = (SymOptions, os\<lparr>os_SymGetOptions := SymOptions\<rparr>)"

text \<open>
  \<open>MgwSymLoadModuleExW\<close>: the 64-bit result of DbgHelp goes through the
  32-bit variable \<open>dwRet\<close>.
\<close>

definition MgwSymLoadModuleExW :: "nat \<Rightarrow> mg_os \<Rightarrow> HANDLE \<Rightarrow> HANDLE \<Rightarrow> wstr option \<Rightarrow> DWORD64 \<Rightarrow> mgwhelp_state \<Rightarrow>
    (fault + DWORD64 \<times> mgwhelp_state) option" where
  "MgwSymLoadModuleExW fuel os hProcess hFile ImageName BaseOfDll st =
     (let dwRet = (ucast (os_SymLoadModuleEx os hProcess BaseOfDll) :: DWORD) in
      if BaseOfDll \<noteq> 0 then
        run (mgwhelp_module_lookup fuel os hProcess hFile ImageName BaseOfDll st) (\<lambda>(r, st).
          return (ucast dwRet, st))
      else return (ucast dwRet, st))"

abbreviation CP_ACP :: DWORD where "CP_ACP \<equiv> 0"
abbreviation CP_UTF8 :: DWORD where "CP_UTF8 \<equiv> 65001"

text \<open>
  The narrow variant converts the name into a buffer of \<open>MAX_PATH\<close> characters first, without a look at
  the result; a buffer without a NUL is taken as a fault even when the module is already known.
\<close>

definition MgwSymLoadModuleEx :: "nat \<Rightarrow> mg_os \<Rightarrow> HANDLE \<Rightarrow> HANDLE \<Rightarrow> BYTE list option \<Rightarrow> DWORD64 \<Rightarrow> mgwhelp_state \<Rightarrow>
    (fault + DWORD64 \<times> mgwhelp_state) option" where
  "MgwSymLoadModuleEx fuel os hProcess hFile ImageName BaseOfDll st =
     (let dwRet = (ucast (os_SymLoadModuleEx os hProcess BaseOfDll) :: DWORD);
          ImageNameBuf = map_option (\<lambda>s. cstr (snd (os_MultiByteToWideChar os CP_ACP s MAX_PATH))) ImageName in
      if BaseOfDll \<noteq> 0 then
        if ImageNameBuf = Some None then Some (Inl AccessViolation)
        else
          run (mgwhelp_module_lookup fuel os hProcess hFile (Option.bind ImageNameBuf id) BaseOfDll st) (\<lambda>(r, st).
            return (ucast dwRet, st))
      else return (ucast dwRet, st))"

lemma MgwSymLoadModuleEx_wide:
  assumes "cstr (snd (os_MultiByteToWideChar os CP_ACP s MAX_PATH)) = Some w"
  shows "MgwSymLoadModuleEx fuel os hProcess hFile (Some s) BaseOfDll st =
    MgwSymLoadModuleExW fuel os hProcess hFile (Some w) BaseOfDll st"
  using assms by (simp add: MgwSymLoadModuleEx_def MgwSymLoadModuleExW_def Let_def)

fun destroy_modules :: "mgwhelp_module list \<Rightarrow> trace \<Rightarrow> trace" where
  "destroy_modules [] tr = tr"
| "destroy_modules (m # ms) tr = destroy_modules ms (mgwhelp_module_destroy m tr)"

text \<open>The loop of \<open>MgwSymCleanup\<close>, which unlinks and frees the first process with the handle.\<close>

fun remove_process :: "HANDLE \<Rightarrow> mgwhelp_process list \<Rightarrow> trace \<Rightarrow> mgwhelp_process list \<times> trace" where
  "remove_process hProcess [] tr = ([], tr)"
| "remove_process hProcess (p # ps) tr =
     (if proc_hProcess p = hProcess
      then (ps, destroy_modules (proc_modules p) tr @ [Release (RHeap (proc_self p))])
      else let (ps', tr') = remove_process hProcess ps tr in (p # ps', tr'))"

definition MgwSymCleanup :: "mg_os \<Rightarrow> HANDLE \<Rightarrow> mgwhelp_state \<Rightarrow> bool \<times> mgwhelp_state" where
  "MgwSymCleanup os hProcess st =
     (let (ps, tr) = remove_process hProcess (processes st) (calls st) in
      (os_SymCleanup os tr hProcess, st\<lparr>processes := ps, calls := tr\<rparr>))"

section \<open>Symbols and lines\<close>

abbreviation DMGL_NO_OPTS :: DWORD where "DMGL_NO_OPTS \<equiv> 0"
abbreviation DMGL_PARAMS :: DWORD where "DMGL_PARAMS \<equiv> 1"
abbreviation DMGL_TYPES :: DWORD where "DMGL_TYPES \<equiv> 16"
abbreviation UNDNAME_NO_ARGUMENTS :: DWORD where "UNDNAME_NO_ARGUMENTS \<equiv> 0x2000"

text \<open>The name is a C string; reading its first two characters stops at the NUL.\<close>

definition demangle_options :: "DWORD \<Rightarrow> DWORD" where
  "demangle_options Flags =
     (let options = (if flag_set Flags UNDNAME_NAME_ONLY then DMGL_NO_OPTS else DMGL_PARAMS OR DMGL_TYPES)
      in if flag_set Flags UNDNAME_NO_ARGUMENTS then options AND NOT DMGL_PARAMS else options)"

definition demangle :: "mg_os \<Rightarrow> BYTE list \<Rightarrow> DWORD \<Rightarrow> BYTE list option" where
  "demangle os mangled Flags =
     (if take 2 mangled = map byte_of ''_Z'' then os_cplus_demangle_v3 os mangled (demangle_options Flags)
      else None)"

definition undecorate :: "mg_os \<Rightarrow> BYTE list \<Rightarrow> BYTE list" where
  "undecorate os name =
     (if flag_set (os_SymGetOptions os) SYMOPT_UNDNAME then
        (case demangle os name UNDNAME_NAME_ONLY of Some output_buffer \<Rightarrow> output_buffer | None \<Rightarrow> name)
      else name)"

definition dwarf_reports :: "mg_os \<Rightarrow> mgwhelp_module \<Rightarrow> dwarf_debug \<times> DWORD64 \<Rightarrow> DWORD64 \<Rightarrow> dwst_call list" where
  "dwarf_reports os m dwarf Address =
     os_dwstOfDwarfDebugW os (fst dwarf) (snd dwarf) (mod_image_base_vma m) (mod_LoadedImageName m)
       (mod_Base m) Address"

definition symbol_from_dwarf :: "mg_os \<Rightarrow> mgwhelp_module \<Rightarrow> DWORD64 \<Rightarrow> nat \<Rightarrow> fault + sym_info option" where
  "symbol_from_dwarf os m Address MaxNameLen =
     (case mod_dwarf m of
        None \<Rightarrow> Inr None
      | Some dwarf \<Rightarrow>
          bnd (dwarf_find_symbol (dwarf_reports os m dwarf Address)
                 \<lparr>dsi_functionname = [], dsi_offset_addr = 0\<rparr>) (\<lambda>(found, info).
            if found then
              (let r = os_MultiByteToWideChar os CP_UTF8 (undecorate os (dsi_functionname info)) MaxNameLen in
               Inr (Some \<lparr>si_Name = snd r, si_NameLen = fst r, si_Displacement = ucast (dsi_offset_addr info)\<rparr>))
            else Inr None))"

text \<open>
  The local buffer \<open>symbol_name\<close> has 1024 characters; \<open>strncpy\<close> leaves it without a NUL when the
  name does not fit, and what reads it then runs past its end.
\<close>

definition symbol_from_pe :: "mg_os \<Rightarrow> mgwhelp_module \<Rightarrow> DWORD64 \<Rightarrow> nat \<Rightarrow> (fault + sym_info option) option" where
  "symbol_from_pe os m Offset MaxNameLen =
     run (pe_find_symbol (os_ndebug os) (mod_img m) (mod_nFileSize m) Offset 1024 [] 0) (\<lambda>st.
       if fs_bRet st then
         (case cstr (fs_Name st) of
            None \<Rightarrow> Some (Inl AccessViolation)
          | Some nm \<Rightarrow>
              (let r = os_MultiByteToWideChar os CP_ACP (undecorate os nm) MaxNameLen in
               return (Some \<lparr>si_Name = snd r, si_NameLen = fst r, si_Displacement = fs_Displacement st\<rparr>)))
       else return None)"

text \<open>DWARF symbols first, then the COFF symbol table, then DbgHelp.\<close>

definition symbol_in_module :: "mg_os \<Rightarrow> mgwhelp_module \<Rightarrow> DWORD64 \<Rightarrow> DWORD64 \<Rightarrow> nat \<Rightarrow> (fault + sym_info option) option" where
  "symbol_in_module os m Address Offset MaxNameLen =
     run (Some (symbol_from_dwarf os m Address MaxNameLen)) (\<lambda>r.
       case r of
         Some s \<Rightarrow> return (Some s)
       | None \<Rightarrow>
           if mod_lpFileBase m \<noteq> 0 then symbol_from_pe os m Offset MaxNameLen else return None)"

definition MgwSymFromAddrW :: "nat \<Rightarrow> mg_os \<Rightarrow> HANDLE \<Rightarrow> DWORD64 \<Rightarrow> nat \<Rightarrow> mgwhelp_state \<Rightarrow>
    (fault + sym_info option \<times> mgwhelp_state) option" where
  "MgwSymFromAddrW fuel os hProcess Address MaxNameLen st =
     run (mgwhelp_find_module fuel os hProcess Address st) (\<lambda>(found, st).
       run (case found of
              None \<Rightarrow> return None
            | Some (m, Offset) \<Rightarrow> symbol_in_module os m Address Offset MaxNameLen) (\<lambda>r.
         return (case r of
                   Some s \<Rightarrow> (Some s, st)
                 | None \<Rightarrow> (os_SymFromAddrW os hProcess Address MaxNameLen, st))))"

text \<open>
  \<open>info\<close> is static: what an earlier query stored is still there when the callback stores nothing.
\<close>

definition line_in_module :: "mg_os \<Rightarrow> mgwhelp_module \<Rightarrow> DWORD64 \<Rightarrow> dwarf_line_info \<Rightarrow>
    line_info64 option \<times> dwarf_line_info" where
  "line_in_module os m dwAddr info =
     (case mod_dwarf m of
        None \<Rightarrow> (None, info)
      | Some dwarf \<Rightarrow>
          (let (found, info) = dwarf_find_line (dwarf_reports os m dwarf dwAddr) info in
           (if found
            then Some \<lparr>li_FileName = strncpy 1024 (dli_filename info), li_LineNumber = dli_line info,
                       li_Displacement = dli_offset_addr info\<rparr>
            else None, info)))"

definition MgwSymGetLineFromAddrW64 :: "nat \<Rightarrow> mg_os \<Rightarrow> HANDLE \<Rightarrow> DWORD64 \<Rightarrow> mgwhelp_state \<Rightarrow>
    (fault + line_info64 option \<times> mgwhelp_state) option" where
  "MgwSymGetLineFromAddrW64 fuel os hProcess dwAddr st =
     run (mgwhelp_find_module fuel os hProcess dwAddr st) (\<lambda>(found, st).
       let r = (case found of
                  None \<Rightarrow> (None, line_info st)
                | Some (m, Offset) \<Rightarrow> line_in_module os m dwAddr (line_info st)) in
       return (case fst r of
                 Some l \<Rightarrow> Some l
               | None \<Rightarrow> os_SymGetLineFromAddrW64 os hProcess dwAddr,
               st\<lparr>line_info := snd r\<rparr>))"

text \<open>The length returned and the buffer; a conversion that does not fit may leave no NUL.\<close>

definition MgwUnDecorateSymbolNameW :: "mg_os \<Rightarrow> wstr \<Rightarrow> nat \<Rightarrow> DWORD \<Rightarrow> fault + DWORD \<times> wstr" where
  "MgwUnDecorateSymbolNameW os DecoratedName UndecoratedLength Flags =
     (case cstr (snd (os_WideCharToMultiByte os CP_UTF8 DecoratedName 1024)) of
        None \<Rightarrow> Inl AccessViolation
      | Some DecoratedNameA \<Rightarrow>
          (case demangle os DecoratedNameA Flags of
             Some output_buffer \<Rightarrow> Inr (os_MultiByteToWideChar os CP_UTF8 output_buffer UndecoratedLength)
           | None \<Rightarrow> Inr (os_UnDecorateSymbolNameW os DecoratedName UndecoratedLength Flags)))"

text \<open>
  The ANSI entry points. \<open>buffer\<close> has 1024 bytes and \<open>SYMBOL_INFOW\<close> 88 of which the name begins
  the last; \<open>MaxNameLen\<close> is what remains, in characters, less one. The result is the name and the
  displacement, or the name and the line.
\<close>

definition MgwSymFromAddr :: "nat \<Rightarrow> mg_os \<Rightarrow> HANDLE \<Rightarrow> DWORD64 \<Rightarrow> nat \<Rightarrow> mgwhelp_state \<Rightarrow>
    (fault + (BYTE list \<times> DWORD64) option \<times> mgwhelp_state) option" where
  "MgwSymFromAddr fuel os hProcess Address MaxNameLen st =
     run (MgwSymFromAddrW fuel os hProcess Address ((1024 - 88) div 2 - 1) st) (\<lambda>(r, st).
       return (case r of
                 Some s \<Rightarrow> (Some (snd (os_WideCharToMultiByte os CP_ACP (si_Name s) MaxNameLen),
                                  si_Displacement s), st)
               | None \<Rightarrow> (None, st)))"

definition MgwSymGetLineFromAddr64 :: "nat \<Rightarrow> mg_os \<Rightarrow> HANDLE \<Rightarrow> DWORD64 \<Rightarrow> mgwhelp_state \<Rightarrow>
    (fault + (BYTE list \<times> DWORD) option \<times> mgwhelp_state) option" where
  "MgwSymGetLineFromAddr64 fuel os hProcess dwAddr st =
     run (MgwSymGetLineFromAddrW64 fuel os hProcess dwAddr st) (\<lambda>(r, st).
       return (case r of
                 Some l \<Rightarrow> (Some (snd (os_WideCharToMultiByte os CP_ACP (li_FileName l) 1024),
                                  li_LineNumber l), st)
               | None \<Rightarrow> (None, st)))"

definition MgwUnDecorateSymbolName :: "mg_os \<Rightarrow> BYTE list \<Rightarrow> nat \<Rightarrow> DWORD \<Rightarrow> fault + DWORD \<times> BYTE list" where
  "MgwUnDecorateSymbolName os DecoratedName UndecoratedLength Flags =
     bnd (MgwUnDecorateSymbolNameW os (snd (os_MultiByteToWideChar os CP_ACP DecoratedName 1024)) 1024 Flags)
       (\<lambda>(len, UnDecoratedNameW).
          Inr (os_WideCharToMultiByte os CP_ACP (take (unat len) UnDecoratedNameW) UndecoratedLength))"

end
