(* ===== verification/Mgwhelp_Facts.thy ===== *)
theory Mgwhelp_Facts
  imports Mgwhelp
begin

text \<open>
  What makes the mgwhelp library correct: who owns which resource (\<open>module_resources\<close>,
  \<open>session_resources\<close>), the invariants of the process and module lists over all sequences of library
  calls (\<open>mg_reachable\<close>), the module cache, and the order in which symbols and lines are looked for.
\<close>

section \<open>Ownership\<close>

definition dwarf_part :: "(dwarf_debug \<times> DWORD64) option \<Rightarrow> resource multiset" where
  "dwarf_part dwarf =
     (case dwarf of None \<Rightarrow> {#} | Some (d, cus) \<Rightarrow> dwarf_resources d + {#RCUs cus#})"

text \<open>What destroying a module gives back, and what it owns: the handle of its mapping in addition.\<close>

definition freed_resources :: "mgwhelp_module \<Rightarrow> resource multiset" where
  "freed_resources m = dwarf_part (mod_dwarf m) + {#RView (mod_lpFileBase m), RHeap (mod_self m)#}"

definition module_resources :: "mgwhelp_module \<Rightarrow> resource multiset" where
  "module_resources m = add_mset (RMapping (mod_hFileMapping m)) (freed_resources m)"

definition process_resources :: "mgwhelp_process \<Rightarrow> resource multiset" where
  "process_resources p = add_mset (RHeap (proc_self p)) (\<Sum>m\<leftarrow>proc_modules p. module_resources m)"

definition session_resources :: "mgwhelp_process list \<Rightarrow> resource multiset" where
  "session_resources ps = (\<Sum>p\<leftarrow>ps. process_resources p)"

lemma dwarf_part_simps [simp]:
  "dwarf_part None = {#}"
  "dwarf_part (Some (d, cus)) = dwarf_resources d + {#RCUs cus#}"
  by (simp_all add: dwarf_part_def)

lemma session_resources_simps [simp]:
  "session_resources [] = {#}"
  "session_resources (p # ps) = process_resources p + session_resources ps"
  by (simp_all add: session_resources_def)

lemma load_dwarf_held:
  assumes "load_dwarf fuel os h name tr = return (dwarf, tr')"
  shows "held tr' = held tr + dwarf_part dwarf"
proof -
  obtain res dbg tr1 where init: "mgwhelp_dwarf_pe_init fuel (pe_os.truncate os) h name tr = return (res, dbg, tr1)"
    using assms by (auto simp: load_dwarf_def run_eq_return)
  with assms pe_init_held [OF init] show ?thesis
    by (cases res; cases dbg) (auto simp: load_dwarf_def Let_def trace_simps)
qed

lemma close_own_held [trace_simps]:
  "foldl apply_call M (close_own h bOwnFile) = M - (if bOwnFile then {#RFile h#} else {#})"
  by (simp add: close_own_def)

lemma module_file_held:
  "module_file os hFile name tr = (r, tr') \<Longrightarrow>
   held tr' = held tr + (case r of None \<Rightarrow> {#} | Some (h, own) \<Rightarrow> if own then {#RFile h#} else {#})"
  by (auto simp: module_file_def Let_def trace_simps split: if_splits)

lemma map_module_held:
  assumes "map_module os h own tr = (r, tr')"
    and "held tr = M + (if own then {#RFile h#} else {#})"
  shows "held tr' = M + (case r of None \<Rightarrow> {#}
      | Some (m, v) \<Rightarrow> {#RMapping m, RView v#} + (if own then {#RFile h#} else {#}))"
  using assms by (auto simp: map_module_def Let_def trace_simps split: if_splits)

lemma module_load_held:
  assumes "module_load fuel os self name Base (h, own) (mp, v) tr = return (m, tr')"
    and "held tr = M + {#RHeap self, RMapping mp, RView v#} + (if own then {#RFile h#} else {#})"
  shows "held tr' = M + module_resources m \<and> mod_Base m = Base"
  using assms
  by (auto simp: module_load_def run_eq_return trace_simps module_resources_def freed_resources_def
      add_mset_commute dest!: load_dwarf_held split: sum.splits)

lemma create_held:
  assumes "mgwhelp_module_create fuel os hProcess hFile ImageName Base tr = return (r, tr')"
  shows "held tr' = held tr + (case r of None \<Rightarrow> {#} | Some m \<Rightarrow> module_resources m) \<and>
    (\<forall>m. r = Some m \<longrightarrow> mod_Base m = Base)"
proof (cases "os_calloc os tr = 0 \<or> get_module_name os hProcess ImageName Base = None")
  case True
  with assms show ?thesis
    by (cases "os_calloc os tr = 0") (auto simp: mgwhelp_module_create_def Let_def trace_simps)
next
  case False
  then obtain name where name: "get_module_name os hProcess ImageName Base = Some name" and self: "os_calloc os tr \<noteq> 0"
    by blast
  let ?tr = "tr @ [Acquire (RHeap (os_calloc os tr))]"
  obtain fr tr1 where mfile: "module_file os hFile name ?tr = (fr, tr1)"
    by fastforce
  show ?thesis
  proof (cases fr)
    case None
    with assms self name mfile module_file_held [OF mfile] show ?thesis
      by (auto simp: mgwhelp_module_create_def trace_simps)
  next
    case (Some ho)
    obtain h own where ho: "ho = (h, own)" by fastforce
    obtain mr tr2 where mapped: "map_module os h own tr1 = (mr, tr2)"
      by fastforce
    have held1: "held tr1 = held ?tr + (if own then {#RFile h#} else {#})"
      using module_file_held [OF mfile] Some ho by simp
    show ?thesis
    proof (cases mr)
      case None
      with assms self name mfile Some ho mapped map_module_held [OF mapped held1] show ?thesis
        by (auto simp: mgwhelp_module_create_def trace_simps)
    next
      case mr: (Some mv)
      obtain mp v where mv: "mv = (mp, v)" by fastforce
      obtain m where m: "module_load fuel os (os_calloc os tr) name Base (h, own) (mp, v) tr2 = return (m, tr')"
        "r = Some m"
        using assms self name mfile Some ho mapped mr mv
        by (auto simp: mgwhelp_module_create_def run_eq_return)
      have "held tr2 = held tr + {#RHeap (os_calloc os tr), RMapping mp, RView v#}
          + (if own then {#RFile h#} else {#})"
        using map_module_held [OF mapped held1] mr mv by (simp add: trace_simps add_mset_commute)
      then show ?thesis
        using module_load_held [OF m(1)] m(2) by simp
    qed
  qed
qed

lemma destroy_held: "held (mgwhelp_module_destroy m tr) = held tr - freed_resources m"
proof (cases "mod_dwarf m")
  case None
  then show ?thesis
    by (simp add: mgwhelp_module_destroy_def freed_resources_def trace_simps add_mset_commute)
next
  case (Some dc)
  then show ?thesis
    by (cases dc) (simp add: mgwhelp_module_destroy_def freed_resources_def trace_simps finish_held
        add_mset_commute diff_diff_add)
qed

section \<open>What a call does to the session\<close>

text \<open>
  The abstract view: a call leaves the lists and what is held alone, opens a process, adds a module
  to a process, or removes a process.
\<close>

inductive session_change :: "mgwhelp_state \<Rightarrow> mgwhelp_state \<Rightarrow> bool" where
  quiet: "processes st' = processes st \<Longrightarrow> held (calls st') = held (calls st) \<Longrightarrow> session_change st st'"
| opened: "processes st' = p # processes st \<Longrightarrow> proc_modules p = [] \<Longrightarrow>
    held (calls st') = held (calls st) + {#RHeap (proc_self p)#} \<Longrightarrow> session_change st st'"
| added: "mgwhelp_process_lookup h st = Some p \<Longrightarrow> mod_Base m \<notin> mod_Base ` set (proc_modules p) \<Longrightarrow>
    processes st' = push_module h m (processes st) \<Longrightarrow>
    held (calls st') = held (calls st) + module_resources m \<Longrightarrow> session_change st st'"
| closed: "remove_process h (processes st) (calls st) = (processes st', calls st') \<Longrightarrow> session_change st st'"

lemma session_change_refl: "session_change st st"
  by (rule quiet) simp_all

lemma lookup_change:
  assumes "mgwhelp_module_lookup fuel os h hFile ImageName Base st = return (r, st')"
  shows "session_change st st' \<and> line_info st' = line_info st"
proof (cases "mgwhelp_process_lookup h st")
  case None
  with assms show ?thesis
    by (simp add: mgwhelp_module_lookup_def session_change_refl)
next
  case (Some p)
  show ?thesis
  proof (cases "find (\<lambda>m. mod_Base m = Base) (proc_modules p)")
    case (Some m)
    with assms \<open>mgwhelp_process_lookup h st = Some p\<close> show ?thesis
      by (simp add: mgwhelp_module_lookup_def session_change_refl)
  next
    case None
    then have new: "Base \<notin> mod_Base ` set (proc_modules p)"
      by (auto simp: find_None_iff)
    obtain q tr where create: "mgwhelp_module_create fuel os h hFile ImageName Base (calls st) = return (q, tr)"
      and st': "st' = (case q of None \<Rightarrow> st\<lparr>calls := tr\<rparr>
         | Some m \<Rightarrow> st\<lparr>processes := push_module h m (processes st), calls := tr\<rparr>)"
      using assms Some None by (auto simp: mgwhelp_module_lookup_def run_eq_return split: option.splits)
    show ?thesis
      using create_held [OF create] st' new
      by (cases q) (auto intro: quiet added [OF Some])
  qed
qed

lemma find_module_change:
  assumes "mgwhelp_find_module fuel os h Address st = return (r, st')"
  shows "session_change st st' \<and> line_info st' = line_info st"
  using assms
  by (auto simp: mgwhelp_find_module_def Let_def run_eq_return session_change_refl dest: lookup_change
      split: if_splits)

lemma session_change_line_info: "session_change st st' \<Longrightarrow> session_change st (st'\<lparr>line_info := i\<rparr>)"
  by (induction rule: session_change.induct) (auto intro: session_change.intros)

section \<open>All sequences of calls\<close>

text \<open>What a call asks of the session: a process to be opened or closed, or the module at a base.\<close>

datatype mg_event = Idle | Opened HANDLE | Asked HANDLE DWORD64 | Closed HANDLE

definition asked :: "HANDLE \<Rightarrow> DWORD64 \<Rightarrow> mg_event" where
  "asked h Base = (if Base = 0 then Idle else Asked h Base)"

inductive mg_step :: "nat \<Rightarrow> mg_os \<Rightarrow> mgwhelp_state \<Rightarrow> mg_event \<Rightarrow> mgwhelp_state \<Rightarrow> bool" for fuel os where
  sym_init: "MgwSymInitialize os h st = (b, st') \<Longrightarrow>
    mg_step fuel os st (if b \<and> os_calloc os (calls st) \<noteq> 0 then Opened h else Idle) st'"
| sym_load: "MgwSymLoadModuleExW fuel os h hFile name Base st = return (r, st') \<Longrightarrow> mg_step fuel os st (asked h Base) st'"
| sym_load_ansi: "MgwSymLoadModuleEx fuel os h hFile s Base st = return (r, st') \<Longrightarrow> mg_step fuel os st (asked h Base) st'"
| sym_addr: "MgwSymFromAddrW fuel os h Address n st = return (s, st') \<Longrightarrow>
    mg_step fuel os st (asked h (GetModuleBase os h Address)) st'"
| sym_addr_ansi: "MgwSymFromAddr fuel os h Address n st = return (a, st') \<Longrightarrow>
    mg_step fuel os st (asked h (GetModuleBase os h Address)) st'"
| sym_line: "MgwSymGetLineFromAddrW64 fuel os h Address st = return (l, st') \<Longrightarrow>
    mg_step fuel os st (asked h (GetModuleBase os h Address)) st'"
| sym_line_ansi: "MgwSymGetLineFromAddr64 fuel os h Address st = return (la, st') \<Longrightarrow>
    mg_step fuel os st (asked h (GetModuleBase os h Address)) st'"
| sym_cleanup: "MgwSymCleanup os h st = (b, st') \<Longrightarrow> mg_step fuel os st (Closed h) st'"

text \<open>The narrow entry points are the wide ones behind a conversion.\<close>

lemma ansi_wide:
  "MgwSymLoadModuleEx fuel os h hFile s Base st = return (r, st') \<Longrightarrow>
    \<exists>name. MgwSymLoadModuleExW fuel os h hFile name Base st = return (r, st')"
  "MgwSymFromAddr fuel os h Address n st = return (a, st') \<Longrightarrow>
    \<exists>k s. MgwSymFromAddrW fuel os h Address k st = return (s, st')"
  "MgwSymGetLineFromAddr64 fuel os h Address st = return (la, st') \<Longrightarrow>
    \<exists>l. MgwSymGetLineFromAddrW64 fuel os h Address st = return (l, st')"
  by (auto simp: MgwSymLoadModuleEx_def MgwSymLoadModuleExW_def MgwSymFromAddr_def MgwSymGetLineFromAddr64_def
      run_eq_return Let_def split: if_splits option.splits)

text \<open>So a step is one of four.\<close>

lemma mg_step_cases:
  assumes "mg_step fuel os st e st'"
  obtains (init) h b where "MgwSymInitialize os h st = (b, st')"
      "e = (if b \<and> os_calloc os (calls st) \<noteq> 0 then Opened h else Idle)"
  | (load) h hFile name Base r where "MgwSymLoadModuleExW fuel os h hFile name Base st = return (r, st')" "e = asked h Base"
  | (addr) h Address n s where "MgwSymFromAddrW fuel os h Address n st = return (s, st')"
      "e = asked h (GetModuleBase os h Address)"
  | (line) h Address l where "MgwSymGetLineFromAddrW64 fuel os h Address st = return (l, st')"
      "e = asked h (GetModuleBase os h Address)"
  | (cleanup) h b where "MgwSymCleanup os h st = (b, st')" "e = Closed h"
  using assms
proof cases
  case sym_load_ansi
  then show ?thesis
    using load ansi_wide(1) by blast
next
  case sym_addr_ansi
  then show ?thesis
    using addr ansi_wide(2) by blast
next
  case sym_line_ansi
  then show ?thesis
    using line ansi_wide(3) by blast
qed (use init load addr line cleanup in \<open>blast+\<close>)

definition mg_start :: mgwhelp_state where
  "mg_start = \<lparr>processes = [], line_info = \<lparr>dli_filename = [], dli_line = 0, dli_offset_addr = 0\<rparr>, calls = []\<rparr>"

inductive mg_reachable :: "nat \<Rightarrow> mg_os \<Rightarrow> mgwhelp_state \<Rightarrow> bool" for fuel os where
  start: "mg_reachable fuel os mg_start"
| step: "mg_reachable fuel os st \<Longrightarrow> mg_step fuel os st e st' \<Longrightarrow> mg_reachable fuel os st'"

lemma step_change:
  assumes "mg_step fuel os st e st'"
  shows "session_change st st'"
  using assms
proof (cases rule: mg_step_cases)
  case init
  then show ?thesis
    by (auto simp: MgwSymInitialize_def mgwhelp_initialize_def Let_def trace_simps session_change_refl
        intro!: opened split: if_splits)
next
  case load
  then show ?thesis
    by (auto simp: MgwSymLoadModuleExW_def Let_def run_eq_return session_change_refl
        dest: lookup_change split: if_splits)
next
  case addr
  then show ?thesis
    by (auto simp: MgwSymFromAddrW_def run_eq_return dest!: find_module_change split: option.splits)
next
  case line
  then show ?thesis
    by (auto simp: MgwSymGetLineFromAddrW64_def Let_def run_eq_return dest!: find_module_change
        intro: session_change_line_info)
next
  case cleanup
  then show ?thesis
    by (auto simp: MgwSymCleanup_def intro!: closed split: prod.splits)
qed

lemma push_module_owned:
  assumes "find (\<lambda>p. proc_hProcess p = h) ps = Some p"
  shows "session_resources (push_module h m ps) = session_resources ps + module_resources m"
  using assms
  by (induction ps) (auto simp: process_resources_def ac_simps split: if_splits)

lemma destroy_modules_held:
  "held (destroy_modules ms tr) = held tr - (\<Sum>m\<leftarrow>ms. freed_resources m)"
  by (induction ms tr rule: destroy_modules.induct) (simp_all add: destroy_held diff_diff_add)

lemma owned_modules:
  "(\<Sum>m\<leftarrow>ms. module_resources m) = (\<Sum>m\<leftarrow>ms. freed_resources m) + mset (map (RMapping \<circ> mod_hFileMapping) ms)"
  by (induction ms) (simp_all add: module_resources_def ac_simps)

text \<open>Removing a process gives back what it owns but the mapping handles of its modules.\<close>

lemma remove_process_held:
  assumes "remove_process h ps tr = (ps', tr')" and "session_resources ps \<subseteq># held tr"
  shows "\<exists>leak. session_resources ps + held tr' = session_resources ps' + held tr + mset (map RMapping leak) \<and>
    session_resources ps' + mset (map RMapping leak) \<subseteq># held tr'"
  using assms
proof (induction h ps tr arbitrary: ps' tr' rule: remove_process.induct)
  case (1 h tr)
  then show ?case by (auto intro: exI [of _ "[]"])
next
  case (2 h p ps tr)
  show ?case
  proof (cases "proc_hProcess p = h")
    case True
    let ?leak = "map mod_hFileMapping (proc_modules p)"
    let ?freed = "add_mset (RHeap (proc_self p)) (\<Sum>m\<leftarrow>proc_modules p. freed_resources m)"
    have own: "process_resources p = ?freed + mset (map RMapping ?leak)"
      by (simp add: process_resources_def owned_modules ac_simps)
    have tr': "ps' = ps" "held tr' = held tr - ?freed"
      using 2(2) True by (auto simp: trace_simps destroy_modules_held)
    obtain rest where "held tr = process_resources p + session_resources ps + rest"
      using 2(3) by (auto simp: subset_mset.le_iff_add)
    then show ?thesis
      using tr' own by (intro exI [of _ ?leak]) (simp add: ac_simps)
  next
    case False
    obtain ps1 where r: "remove_process h ps tr = (ps1, tr')" "ps' = p # ps1"
      using 2(2) False by (auto split: prod.splits)
    have "session_resources ps \<subseteq># held tr"
      using 2(3) by (simp add: subset_mset.add_increasing2 subset_mset.le_iff_add) (metis add.assoc add.left_commute)
    then obtain leak where
      leak: "session_resources ps + held tr' = session_resources ps1 + held tr + mset (map RMapping leak)"
      using 2(1) False r(1) by blast
    obtain rest where "held tr = process_resources p + session_resources ps + rest"
      using 2(3) by (auto simp: subset_mset.le_iff_add)
    with leak have "session_resources ps + held tr' =
        session_resources ps + (process_resources p + session_resources ps1 + rest + mset (map RMapping leak))"
      by (simp add: ac_simps)
    then have "held tr' = process_resources p + session_resources ps1 + rest + mset (map RMapping leak)"
      by (rule add_left_imp_eq)
    then show ?thesis
      using leak r(2) by (intro exI [of _ leak]) (simp add: ac_simps)
  qed
qed

section \<open>Invariants\<close>

definition mg_inv :: "mgwhelp_state \<Rightarrow> bool" where
  "mg_inv st \<longleftrightarrow>
     (\<forall>p\<in>set (processes st). distinct (map mod_Base (proc_modules p))) \<and>
     (\<exists>leak. held (calls st) = session_resources (processes st) + mset (map RMapping leak))"

lemma push_module_bases:
  assumes "find (\<lambda>p. proc_hProcess p = h) ps = Some p"
    and "mod_Base m \<notin> mod_Base ` set (proc_modules p)"
    and "\<forall>p\<in>set ps. distinct (map mod_Base (proc_modules p))"
  shows "\<forall>p\<in>set (push_module h m ps). distinct (map mod_Base (proc_modules p))"
  using assms by (induction ps) (auto split: if_splits)

lemma remove_process_subset: "remove_process h ps tr = (ps', tr') \<Longrightarrow> set ps' \<subseteq> set ps"
  by (induction h ps tr arbitrary: ps' tr' rule: remove_process.induct)
    (auto split: if_splits prod.splits)

lemma change_inv: "session_change st st' \<Longrightarrow> mg_inv st \<Longrightarrow> mg_inv st'"
proof (induction rule: session_change.induct)
  case (added h st p m st')
  have "find (\<lambda>p. proc_hProcess p = h) (processes st) = Some p"
    using added(1) by (simp add: mgwhelp_process_lookup_def)
  then show ?case
    using added push_module_bases [of h "processes st" p m] push_module_owned
    by (auto simp: mg_inv_def)
next
  case (closed h st st')
  obtain leak where leak: "held (calls st) = session_resources (processes st) + mset (map RMapping leak)"
    using closed by (auto simp: mg_inv_def)
  then obtain more where "session_resources (processes st) + held (calls st') =
      session_resources (processes st') + held (calls st) + mset (map RMapping more)"
    using remove_process_held [OF closed(1)] by auto
  then have "session_resources (processes st) + held (calls st') =
      session_resources (processes st) + (session_resources (processes st') + mset (map RMapping (leak @ more)))"
    by (simp add: leak ac_simps)
  then have "held (calls st') = session_resources (processes st') + mset (map RMapping (leak @ more))"
    by (rule add_left_imp_eq)
  moreover have "\<forall>p\<in>set (processes st'). distinct (map mod_Base (proc_modules p))"
    using remove_process_subset [OF closed(1)] closed(2) by (auto simp: mg_inv_def)
  ultimately show ?case
    unfolding mg_inv_def by blast
qed (auto simp: mg_inv_def process_resources_def)

lemma reachable_inv: "mg_reachable fuel os st \<Longrightarrow> mg_inv st"
proof (induction rule: mg_reachable.induct)
  case start
  then show ?case by (auto simp: mg_inv_def mg_start_def trace_simps intro: exI [of _ "[]"])
qed (blast intro: change_inv step_change)

section \<open>Sample\<close>

text \<open>A process 1 with the image of \<open>PE_Image\<close> loaded at 0x140000000, without DWARF data.\<close>

definition sample_mg :: mg_os where
  "sample_mg = pe_os.extend (sample_os\<lparr>os_dwarf_object_init_b := (\<lambda>_ _. (DW_DLV_ERROR, 0))\<rparr>)
     (mg_os.fields True (\<lambda>_ _. Some (W ''a.exe'')) (\<lambda>_ _. 0) 2 (\<lambda>_. None)
        (\<lambda>_ a. if a < 0x140000000 then None else Some 0x140000000) (\<lambda>_ _. 0) (\<lambda>_ _ _ _ _ _. [])
        (\<lambda>_ _. True) (\<lambda>_ _. True) (\<lambda>_ b. b) (\<lambda>_ _. None) 0
        (\<lambda>_ s n. (of_nat (length s) + 1, map ucast s @ [0])) (\<lambda>_ s n. (0, map ucast s)) (\<lambda>_ _ _. None)
        (\<lambda>_ _. None) (\<lambda>_ _ _. (0, [])))"

definition sample_module :: mgwhelp_module where
  "sample_module =
     \<lparr>mod_self = 7, mod_Base = 0x140000000, mod_LoadedImageName = W ''a.exe'', mod_hFileMapping = 8,
      mod_lpFileBase = 9, mod_img = sample_image, mod_nFileSize = 236, mod_image_base_vma = 0x400000,
      mod_dwarf = None\<rparr>"

definition sample_session :: mgwhelp_state where
  "sample_session = snd (MgwSymInitialize sample_mg 1 mg_start)"

lemma sample_truncate:
  "pe_os.truncate sample_mg = sample_os\<lparr>os_dwarf_object_init_b := (\<lambda>_ _. (DW_DLV_ERROR, 0))\<rparr>"
  by (simp add: sample_mg_def pe_os.defs)

lemma sample_session_eq:
  "sample_session = mg_start\<lparr>processes := [\<lparr>proc_self = 7, proc_hProcess = 1, proc_modules = []\<rparr>],
     calls := [Acquire (RHeap 7)]\<rparr>"
  by (simp add: sample_session_def MgwSymInitialize_def mgwhelp_initialize_def sample_mg_def sample_os_def
      mg_start_def pe_os.defs mg_os.defs)

lemma sample_reachable: "mg_reachable 1 sample_mg sample_session"
  unfolding sample_session_def
  by (rule mg_reachable.step [OF mg_reachable.start], rule mg_step.sym_init [of _ 1]) (rule surjective_pairing)

lemma sample_vma: "PEGetImageBase True sample_image = Inr 0x400000"
  by code_simp

lemma sample_lookup:
  "\<exists>tr. mgwhelp_module_lookup 1 sample_mg 1 3 (Some (W ''a.exe'')) 0x140000000 sample_session =
     return (Some sample_module,
       sample_session\<lparr>processes := [\<lparr>proc_self = 7, proc_hProcess = 1, proc_modules = [sample_module]\<rparr>],
                      calls := tr\<rparr>)"
  unfolding sample_session_eq by (rule exI) code_simp

lemma sample_load:
  obtains tr where
    "MgwSymLoadModuleExW 1 sample_mg 1 3 (Some (W ''a.exe'')) 0x140000000 sample_session =
       return (0x40000000, sample_session\<lparr>
         processes := [\<lparr>proc_self = 7, proc_hProcess = 1, proc_modules = [sample_module]\<rparr>], calls := tr\<rparr>)"
  using sample_lookup
  by (auto simp: MgwSymLoadModuleExW_def sample_mg_def pe_os.defs mg_os.defs)

section \<open>Look-ups\<close>

lemma find_push_module:
  "find (\<lambda>p. proc_hProcess p = h) ps = Some p \<Longrightarrow>
   find (\<lambda>p. proc_hProcess p = h) (push_module h m ps) = Some (p\<lparr>proc_modules := m # proc_modules p\<rparr>)"
  by (induction ps) (auto split: if_splits)

lemma lookup_found:
  assumes "mgwhelp_module_lookup fuel os h hFile ImageName Base st = return (Some m, st')"
  shows "\<exists>p. mgwhelp_process_lookup h st' = Some p \<and> find (\<lambda>m. mod_Base m = Base) (proc_modules p) = Some m"
  using assms
  by (auto simp: mgwhelp_module_lookup_def mgwhelp_process_lookup_def run_eq_return find_push_module
      dest!: create_held split: option.splits)

lemma lookup_repeats:
  assumes "mgwhelp_module_lookup fuel os h hFile ImageName Base st = return (Some m, st')"
  shows "mgwhelp_module_lookup fuel' os' h hFile' ImageName' Base st' = return (Some m, st')"
  using lookup_found [OF assms] by (auto simp: mgwhelp_module_lookup_def)

lemma find_module_found:
  assumes "mgwhelp_find_module fuel os h Address st = return (Some (m, Offset), st')"
  shows "GetModuleBase os h Address \<noteq> 0" and
    "mgwhelp_module_lookup fuel os h NULL None (GetModuleBase os h Address) st = return (Some m, st')" and
    "Offset = mod_image_base_vma m + Address - mod_Base m"
  using assms by (auto simp: mgwhelp_find_module_def Let_def run_eq_return split: if_splits)

section \<open>Properties\<close>

text \<open>C8: over every sequence of calls of the library, what it holds is exactly what its lists of
  processes and modules own, plus mapping handles: nothing else is ever leaked.\<close>

theorem only_mappings_leak:
  assumes "mg_reachable fuel os st"
  shows "\<exists>leak. held (calls st) = session_resources (processes st) + mset (map RMapping leak)"
  using reachable_inv [OF assms] by (simp add: mg_inv_def)

theorem only_mappings_leak_witness:
  "\<exists>leak. held (calls sample_session) = session_resources (processes sample_session) + mset (map RMapping leak)"
  by (rule only_mappings_leak [OF sample_reachable])

text \<open>Creating a module and destroying it leaves its mapping handle open:
  \<open>mgwhelp_module_destroy\<close> unmaps the view but never closes \<open>hFileMapping\<close>.\<close>

theorem module_destroy_leaks_mapping:
  assumes "mgwhelp_module_create fuel os hProcess hFile ImageName Base tr = return (Some m, tr')"
  shows "held (mgwhelp_module_destroy m tr') = held tr + {#RMapping (mod_hFileMapping m)#}"
  using create_held [OF assms] by (simp add: destroy_held module_resources_def)

theorem module_destroy_leaks_mapping_witness:
  "\<exists>m tr'. mgwhelp_module_create 1 sample_mg 1 3 (Some (W ''a.exe'')) 0x140000000 [] = return (Some m, tr') \<and>
     held (mgwhelp_module_destroy m tr') = held [] + {#RMapping (mod_hFileMapping m)#}"
proof -
  have "\<exists>tr'. mgwhelp_module_create 1 sample_mg 1 3 (Some (W ''a.exe'')) 0x140000000 [] = return (Some sample_module, tr')"
    by (rule exI) code_simp
  then show ?thesis
    using module_destroy_leaks_mapping by blast
qed

text \<open>Within a process no two modules have the same base, over every sequence of calls.\<close>

theorem one_module_per_base:
  assumes "mg_reachable fuel os st" and "p \<in> set (processes st)"
  shows "distinct (map mod_Base (proc_modules p))"
  using reachable_inv [OF assms(1)] assms(2) by (simp add: mg_inv_def)

theorem one_module_per_base_witness:
  "distinct (map mod_Base (proc_modules \<lparr>proc_self = 7, proc_hProcess = 1, proc_modules = []\<rparr>))"
  by (rule one_module_per_base [OF sample_reachable]) (simp add: sample_session_eq)

text \<open>The module list is a cache: once a look-up has returned a module, looking up the same base
  again returns the same module and changes nothing, whatever file or name is given.\<close>

theorem lookup_is_cached:
  assumes "mgwhelp_module_lookup fuel os h hFile ImageName Base st = return (Some m, st')"
  shows "mgwhelp_module_lookup fuel' os' h hFile' ImageName' Base st' = return (Some m, st')"
  using lookup_repeats [OF assms] .

theorem lookup_is_cached_witness:
  "\<exists>st'. mgwhelp_module_lookup 0 sample_mg 1 0 None 0x140000000 st' = return (Some sample_module, st')"
  using sample_lookup lookup_is_cached by blast

text \<open>An address is translated with the module that contains it: the module that
  \<open>mgwhelp_find_module\<close> returns is in the process's list, its base is the one the system reports for
  the address, and the address lies as far from the preferred base as from the actual one.\<close>

theorem find_module_rebases:
  assumes "mgwhelp_find_module fuel os h Address st = return (Some (m, Offset), st')"
  shows "mod_Base m = GetModuleBase os h Address \<and> mod_Base m \<noteq> 0 \<and>
    Offset - mod_image_base_vma m = Address - mod_Base m \<and>
    (\<exists>p. mgwhelp_process_lookup h st' = Some p \<and> m \<in> set (proc_modules p))"
proof -
  obtain p where p: "mgwhelp_process_lookup h st' = Some p"
    "find (\<lambda>m. mod_Base m = GetModuleBase os h Address) (proc_modules p) = Some m"
    using lookup_found [OF find_module_found(2) [OF assms]] by blast
  then have "mod_Base m = GetModuleBase os h Address \<and> m \<in> set (proc_modules p)"
    by (auto simp: find_Some_iff)
  then show ?thesis
    using p(1) find_module_found [OF assms] by auto
qed

lemma sample_found:
  "\<exists>st. mgwhelp_find_module 0 sample_mg 1 0x140001015 st = return (Some (sample_module, 0x401015), st)"
proof -
  obtain st where st: "mgwhelp_module_lookup 0 sample_mg 1 0 None 0x140000000 st = return (Some sample_module, st)"
    using sample_lookup lookup_repeats by blast
  have "GetModuleBase sample_mg 1 0x140001015 = 0x140000000"
    by code_simp
  with st show ?thesis
    by (intro exI [of _ st]) (simp add: mgwhelp_find_module_def sample_module_def)
qed

theorem find_module_rebases_witness:
  "mod_Base sample_module = GetModuleBase sample_mg 1 0x140001015"
  using sample_found find_module_rebases by blast

text \<open>The base address that loading a module returns is truncated to 32 bits: DbgHelp's 64-bit
  result passes through a DWORD, so that a module at a multiple of 4 GB is reported as a failure.\<close>

theorem load_module_result_truncated:
  assumes "MgwSymLoadModuleExW fuel os h hFile name Base st = return (r, st')"
  shows "unat r = unat (os_SymLoadModuleEx os h Base) mod 2 ^ 32"
proof -
  have "r = ucast (ucast (os_SymLoadModuleEx os h Base) :: DWORD)"
    using assms by (auto simp: MgwSymLoadModuleExW_def Let_def run_eq_return split: if_splits)
  then show ?thesis
    by (simp only: unat_down_up)
qed

theorem load_module_result_truncated_witness:
  "unat (0x40000000 :: DWORD64) = unat (os_SymLoadModuleEx sample_mg 1 0x140000000) mod 2 ^ 32"
  by (rule sample_load) (erule load_module_result_truncated)

lemma coff_symbol:
  assumes "mgwhelp_find_module fuel os h Address st = return (Some (m, Offset), st1)"
    and "mod_dwarf m = None" and "mod_lpFileBase m \<noteq> 0"
    and "find_prologue (os_ndebug os) (mod_img m) (mod_nFileSize m) = Inr (Some c)"
    and "meets c 0 t" and "candidate c Offset t a name" and "Offset - a < NOT 0"
    and "MgwSymFromAddrW fuel os h Address n st = return (Some s, st')"
  shows "\<exists>u b nm. meets c 0 u \<and> candidate c Offset u b nm \<and> length nm < 1024 \<and>
    si_Displacement s = Offset - b \<and> Offset - b \<le> Offset - a \<and>
    si_Name s = snd (os_MultiByteToWideChar os CP_ACP (undecorate os nm) n)"
proof -
  obtain fs where find: "pe_find_symbol (os_ndebug os) (mod_img m) (mod_nFileSize m) Offset 1024 [] 0 = return fs"
    using assms(1,2,3,8)
    by (auto simp: MgwSymFromAddrW_def symbol_in_module_def symbol_from_dwarf_def symbol_from_pe_def run_eq_return)
  have "loop_post c Offset 1024 0 (find_start []) fs"
    using find assms(4) find_loop_post by (fastforce simp: pe_find_symbol_def)
  moreover from this have "fs_Displacement fs \<le> Offset - a"
    using assms(5,6) by (auto simp: loop_post_def)
  ultimately have "picked c Offset 1024 0 fs" and le: "fs_Displacement fs \<le> Offset - a"
    using assms(7) by (auto simp: loop_post_def find_start_def)
  then obtain u b nm where u: "meets c 0 u" "candidate c Offset u b nm"
    and fs: "fs = \<lparr>fs_bRet = True, fs_Displacement = Offset - b, fs_Name = strncpy 1024 nm\<rparr>"
    by (auto simp: picked_def)
  obtain nm' where nm': "cstr (strncpy 1024 nm) = Some nm'"
    and s: "si_Displacement s = Offset - b" "si_Name s = snd (os_MultiByteToWideChar os CP_ACP (undecorate os nm') n)"
    using assms(1,2,3,8) find fs
    by (auto simp: MgwSymFromAddrW_def symbol_in_module_def symbol_from_dwarf_def symbol_from_pe_def run_eq_return
        Let_def split: option.splits)
  have "0 \<notin> set nm"
    using u(2) by (auto simp: candidate_def dest: symbol_name_no_NUL)
  then have "length nm < 1024" "nm' = nm"
    using nm' by (simp_all add: cstr_strncpy_iff split: if_splits)
  then show ?thesis
    using u s fs le by auto
qed

text \<open>C23: the symbol of an address in a module without DWARF data is the nearest one of the COFF
  symbol table: when the table has a candidate, the name returned is that of a function symbol at or
  below the address, with its distance, and no other candidate is nearer.\<close>

theorem symbol_from_coff_table:
  assumes "mgwhelp_find_module fuel os h Address st = return (Some (m, Offset), st1)"
    and "mod_dwarf m = None" and "mod_lpFileBase m \<noteq> 0"
    and "find_prologue (os_ndebug os) (mod_img m) (mod_nFileSize m) = Inr (Some c)"
    and "meets c 0 t" and "candidate c Offset t a name" and "Offset - a < NOT 0"
    and "MgwSymFromAddrW fuel os h Address n st = return (Some s, st')"
  shows "\<exists>u b nm. meets c 0 u \<and> candidate c Offset u b nm \<and> length nm < 1024 \<and>
    si_Displacement s = Offset - b \<and> Offset - b \<le> Offset - a \<and>
    si_Name s = snd (os_MultiByteToWideChar os CP_ACP (undecorate os nm) n)"
  by (rule coff_symbol [OF assms])

lemma sample_candidate: "\<exists>t. meets sample_ctx 0 t \<and> candidate sample_ctx 0x401015 t 0x401010 [byte_of (CHR ''f'')]"
proof -
  have t: "\<exists>s. read_symbol (ctx_img sample_ctx) (ctx_pSymbolTable sample_ctx) 0 = Inr s \<and>
      candidate sample_ctx 0x401015 s 0x401010 [byte_of (CHR ''f'')]"
    by (rule exI, rule conjI, code_simp) (unfold candidate_def, code_simp)
  then show ?thesis
    using meets.here [of 0 sample_ctx] by (auto simp: sample_ctx_def)
qed

theorem symbol_from_coff_table_witness:
  "\<exists>u b nm. meets sample_ctx 0 u \<and> candidate sample_ctx 0x401015 u b nm \<and> length nm < 1024 \<and>
     5 = 0x401015 - b \<and> 0x401015 - b \<le> 5 \<and>
     W ''f'' @ [0] = snd (os_MultiByteToWideChar sample_mg CP_ACP (undecorate sample_mg nm) 32)"
proof -
  obtain st where st: "mgwhelp_find_module 0 sample_mg 1 0x140001015 st = return (Some (sample_module, 0x401015), st)"
    using sample_found by blast
  obtain s where s: "meets sample_ctx 0 s" "candidate sample_ctx 0x401015 s 0x401010 [byte_of (CHR ''f'')]"
    using sample_candidate by blast
  have pe: "symbol_from_pe sample_mg sample_module 0x401015 32 =
      return (Some \<lparr>si_Name = W ''f'' @ [0], si_NameLen = 2, si_Displacement = 5\<rparr>)"
    by code_simp
  have sym: "MgwSymFromAddrW 0 sample_mg 1 0x140001015 32 st =
      return (Some \<lparr>si_Name = W ''f'' @ [0], si_NameLen = 2, si_Displacement = 5\<rparr>, st)"
    using st pe by (simp add: MgwSymFromAddrW_def symbol_in_module_def symbol_from_dwarf_def sample_module_def)
  have "find_prologue (os_ndebug sample_mg) (mod_img sample_module) (mod_nFileSize sample_module) = Inr (Some sample_ctx)"
    using sample_prologue by (simp add: sample_mg_def sample_module_def pe_os.defs mg_os.defs)
  from symbol_from_coff_table [OF st _ _ this s _ sym] show ?thesis
    by (simp add: sample_module_def)
qed

text \<open>A failed line query in a module with DWARF data does not fail. The static \<open>info\<close> still holds
  the answer to an earlier query, and that answer is returned as the source line of the address;
  only before the first success is DbgHelp asked.\<close>

theorem line_query_returns_stale_answer:
  assumes "mgwhelp_find_module fuel os h dwAddr st = return (Some (m, Offset), st1)"
    and "mod_dwarf m = Some dwarf" and "filter has_line (dwarf_reports os m dwarf dwAddr) = []"
  shows "MgwSymGetLineFromAddrW64 fuel os h dwAddr st = return
    (if dli_filename (line_info st) = [] then os_SymGetLineFromAddrW64 os h dwAddr
     else Some \<lparr>li_FileName = strncpy 1024 (dli_filename (line_info st)),
                li_LineNumber = dli_line (line_info st),
                li_Displacement = dli_offset_addr (line_info st)\<rparr>, st1)"
proof -
  have "line_info st1 = line_info st"
    using find_module_change [OF assms(1)] by simp
  moreover have "st1\<lparr>line_info := line_info st1\<rparr> = st1"
    by simp
  ultimately show ?thesis
    using assms
    by (simp add: MgwSymGetLineFromAddrW64_def line_in_module_def dwarf_find_line_def fold_line_none)
qed

definition sample_stale :: mgwhelp_state where
  "sample_stale =
     \<lparr>processes = [\<lparr>proc_self = 7, proc_hProcess = 1, proc_modules = [sample_module\<lparr>mod_dwarf :=
        Some (\<lparr>de_dbg = 5, de_intfc = 7, de_obj = \<lparr>pe_self = 7, hFileMapping = 8, lpFileBase = 9,
          nFileSize = 236, pe_img = sample_image, pNtHeaders = 64, Sections = 120, pSymbolTable = 160,
          pStringTable = 232\<rparr>\<rparr>, 0)\<rparr>]\<rparr>],
      line_info = \<lparr>dli_filename = W ''a.c'', dli_line = 7, dli_offset_addr = 0\<rparr>, calls = []\<rparr>"

theorem line_query_returns_stale_answer_witness:
  "MgwSymGetLineFromAddrW64 0 sample_mg 1 0x140001015 sample_stale =
     return (Some \<lparr>li_FileName = strncpy 1024 (W ''a.c''), li_LineNumber = 7, li_Displacement = 0\<rparr>, sample_stale)"
proof -
  have "GetModuleBase sample_mg 1 0x140001015 = 0x140000000"
    by code_simp
  then have "\<exists>m d. mgwhelp_find_module 0 sample_mg 1 0x140001015 sample_stale = return (Some (m, 0x401015), sample_stale) \<and>
      mod_dwarf m = Some d"
    by (simp add: mgwhelp_find_module_def mgwhelp_module_lookup_def mgwhelp_process_lookup_def sample_stale_def
        sample_module_def)
  moreover have "dwarf_reports sample_mg m d a = []" for m d a
    by (simp add: dwarf_reports_def sample_mg_def pe_os.defs mg_os.defs)
  ultimately obtain m d where
    "mgwhelp_find_module 0 sample_mg 1 0x140001015 sample_stale = return (Some (m, 0x401015), sample_stale)"
    "mod_dwarf m = Some d" "filter has_line (dwarf_reports sample_mg m d 0x140001015) = []"
    by auto
  from line_query_returns_stale_answer [OF this] show ?thesis
    by (simp add: sample_stale_def)
qed

end
