(* ===== verification/Mgwhelp_Cache.thy ===== *)
theory Mgwhelp_Cache
  imports Mgwhelp_Facts
begin

text \<open>
  What the session of mgwhelp promises, and that the lists implement it: for every process handle a stack of
  caches, one for each time that the handle has been opened, each a partial map from the base of a module to
  what has been loaded of it. A call works on the cache on top, and fills it at most at the base that it
  asks for.
\<close>

section \<open>The specification\<close>

type_synonym module_cache = "HANDLE \<Rightarrow> (DWORD64 \<rightharpoonup> mgwhelp_module) list"

inductive cache_step :: "module_cache \<Rightarrow> mg_event \<Rightarrow> module_cache \<Rightarrow> bool" where
  idle: "cache_step c Idle c"
| opened: "cache_step c (Opened h) (c(h := Map.empty # c h))"
| closed: "cache_step c (Closed h) (c(h := tl (c h)))"
| unknown: "c h = [] \<Longrightarrow> cache_step c (Asked h b) c"
| hit: "c h = t # ts \<Longrightarrow> t b = Some m \<Longrightarrow> cache_step c (Asked h b) c"
| failed: "c h = t # ts \<Longrightarrow> t b = None \<Longrightarrow> cache_step c (Asked h b) c"
| filled: "c h = t # ts \<Longrightarrow> t b = None \<Longrightarrow> mod_Base m = b \<Longrightarrow> cache_step c (Asked h b) (c(h := t(b \<mapsto> m) # ts))"

inductive cache_run :: "module_cache \<Rightarrow> mg_event list \<Rightarrow> module_cache \<Rightarrow> bool" for c where
  start: "cache_run c [] c"
| step: "cache_run c es c1 \<Longrightarrow> cache_step c1 e c2 \<Longrightarrow> cache_run c (es @ [e]) c2"

text \<open>The calls of the library.\<close>

inductive mg_run :: "nat \<Rightarrow> mg_os \<Rightarrow> mgwhelp_state \<Rightarrow> mg_event list \<Rightarrow> mgwhelp_state \<Rightarrow> bool" for fuel os st where
  start: "mg_run fuel os st [] st"
| step: "mg_run fuel os st es st1 \<Longrightarrow> mg_step fuel os st1 e st2 \<Longrightarrow> mg_run fuel os st (es @ [e]) st2"

section \<open>The lists as caches\<close>

definition module_table :: "mgwhelp_module list \<Rightarrow> DWORD64 \<rightharpoonup> mgwhelp_module" where
  "module_table ms b = find (\<lambda>m. mod_Base m = b) ms"

definition cache_of :: "mgwhelp_state \<Rightarrow> module_cache" where
  "cache_of st h = map (\<lambda>p. module_table (proc_modules p)) (filter (\<lambda>p. proc_hProcess p = h) (processes st))"

lemma module_table_simps [simp]:
  "module_table [] = Map.empty" "module_table (m # ms) = (module_table ms)(mod_Base m \<mapsto> m)"
  by (auto simp: module_table_def)

lemma cache_same: "processes st' = processes st \<Longrightarrow> cache_of st' = cache_of st"
  by (simp add: cache_of_def fun_eq_iff)

lemma filter_find: "find P ps = None \<Longrightarrow> filter P ps = []" "find P ps = Some p \<Longrightarrow> \<exists>qs. filter P ps = p # qs"
  by (induction ps) (auto split: if_splits)

lemma cache_lookup:
  "mgwhelp_process_lookup h st = None \<Longrightarrow> cache_of st h = []"
  "mgwhelp_process_lookup h st = Some p \<Longrightarrow> \<exists>ts. cache_of st h = module_table (proc_modules p) # ts"
  by (auto simp: mgwhelp_process_lookup_def cache_of_def dest: filter_find)

lemma filter_push:
  "filter (\<lambda>p. proc_hProcess p = h') (push_module h m ps) =
   (if h' = h
    then (case filter (\<lambda>p. proc_hProcess p = h) ps of
            [] \<Rightarrow> [] | p # qs \<Rightarrow> p\<lparr>proc_modules := m # proc_modules p\<rparr> # qs)
    else filter (\<lambda>p. proc_hProcess p = h') ps)"
  by (induction ps) auto

lemma cache_push:
  assumes "processes st' = push_module h m (processes st)" and "cache_of st h = t # ts"
  shows "cache_of st' = (cache_of st)(h := t(mod_Base m \<mapsto> m) # ts)"
  using assms by (auto simp: cache_of_def filter_push fun_eq_iff split: list.split)

lemma filter_remove:
  "remove_process h ps tr = (ps', tr') \<Longrightarrow>
   filter (\<lambda>p. proc_hProcess p = h') ps' =
   (if h' = h then tl (filter (\<lambda>p. proc_hProcess p = h) ps) else filter (\<lambda>p. proc_hProcess p = h') ps)"
  by (induction h ps tr arbitrary: ps' tr' rule: remove_process.induct) (auto split: if_splits prod.splits)

lemma cache_remove:
  assumes "remove_process h (processes st) (calls st) = (processes st', tr')"
  shows "cache_of st' = (cache_of st)(h := tl (cache_of st h))"
  using filter_remove [OF assms] by (auto simp: cache_of_def fun_eq_iff map_tl)

section \<open>The refinement\<close>

lemma lookup_cache_step:
  assumes "mgwhelp_module_lookup fuel os h hFile name Base st = return (r, st')"
  shows "cache_step (cache_of st) (Asked h Base) (cache_of st')"
proof (cases "mgwhelp_process_lookup h st")
  case None
  then show ?thesis
    using assms cache_lookup(1) by (auto simp: mgwhelp_module_lookup_def intro: cache_step.unknown)
next
  case (Some p)
  then obtain ts where c: "cache_of st h = module_table (proc_modules p) # ts"
    using cache_lookup(2) by blast
  show ?thesis
  proof (cases "module_table (proc_modules p) Base")
    case (Some m)
    then have "st' = st"
      using assms \<open>mgwhelp_process_lookup h st = Some p\<close> by (simp add: mgwhelp_module_lookup_def module_table_def)
    then show ?thesis
      using cache_step.hit [where c = "cache_of st" and h = h and t = "module_table (proc_modules p)", OF c Some] by simp
  next
    case None
    then obtain q tr where create: "mgwhelp_module_create fuel os h hFile name Base (calls st) = return (q, tr)"
      and st': "st' = (case q of None \<Rightarrow> st\<lparr>calls := tr\<rparr>
         | Some m \<Rightarrow> st\<lparr>processes := push_module h m (processes st), calls := tr\<rparr>)"
      using assms Some by (auto simp: mgwhelp_module_lookup_def module_table_def run_eq_return split: option.splits)
    show ?thesis
    proof (cases q)
      case None
      then show ?thesis
        using st' cache_step.failed [where c = "cache_of st" and h = h and t = "module_table (proc_modules p)", OF c \<open>module_table (proc_modules p) Base = None\<close>] cache_same [of st' st] by simp
    next
      case (Some m)
      then have "cache_of st' = (cache_of st)(h := (module_table (proc_modules p))(mod_Base m \<mapsto> m) # ts)"
        using st' by (intro cache_push [OF _ c]) simp
      moreover have "mod_Base m = Base"
        using create_held [OF create] Some by simp
      ultimately show ?thesis
        using cache_step.filled [where c = "cache_of st" and h = h and t = "module_table (proc_modules p)", OF c None] by simp
    qed
  qed
qed

lemma find_module_cache_step:
  assumes "mgwhelp_find_module fuel os h Address st = return (r, st')"
  shows "cache_step (cache_of st) (asked h (GetModuleBase os h Address)) (cache_of st')"
  using assms lookup_cache_step
  by (auto simp: mgwhelp_find_module_def asked_def Let_def run_eq_return intro: cache_step.idle split: if_splits)

lemma step_refines:
  assumes "mg_step fuel os st e st'"
  shows "cache_step (cache_of st) e (cache_of st')"
  using assms
proof (cases rule: mg_step_cases)
  case (init h b)
  show ?thesis
  proof (cases "b \<and> os_calloc os (calls st) \<noteq> 0")
    case True
    then have "cache_of st' = (cache_of st)(h := Map.empty # cache_of st h)"
      using init(1) by (auto simp: MgwSymInitialize_def mgwhelp_initialize_def cache_of_def fun_eq_iff Let_def split: if_splits)
    then show ?thesis
      using True init(2) cache_step.opened by simp
  next
    case False
    then have "st' = st"
      using init(1) by (auto simp: MgwSymInitialize_def mgwhelp_initialize_def Let_def split: if_splits)
    then show ?thesis
      using False init(2) cache_step.idle by auto
  qed
next
  case load
  then show ?thesis
    using lookup_cache_step
    by (auto simp: MgwSymLoadModuleExW_def asked_def Let_def run_eq_return intro: cache_step.idle split: if_splits)
next
  case addr
  then show ?thesis
    using find_module_cache_step by (fastforce simp: MgwSymFromAddrW_def run_eq_return split: option.splits)
next
  case (line h Address l)
  then obtain found mid where "mgwhelp_find_module fuel os h Address st = return (found, mid)" "processes st' = processes mid"
    by (auto simp: MgwSymGetLineFromAddrW64_def run_eq_return Let_def)
  then show ?thesis
    using find_module_cache_step cache_same [of st' mid] line(2) by metis
next
  case (cleanup h b)
  then have "remove_process h (processes st) (calls st) = (processes st', calls st')"
    by (auto simp: MgwSymCleanup_def split: prod.splits)
  then show ?thesis
    using cache_remove cache_step.closed cleanup(2) by simp
qed

text \<open>C9: the session of the library implements a cache of modules for every process: whatever sequence of calls is made,
  opening a process adds an empty cache for its handle, closing it takes away the one that was opened last, and
  loading a module or asking for a symbol or a line uses the cache on top, which gains at most the module at
  the base asked for, and only when that base was not there before.\<close>

theorem session_refines_cache:
  assumes "mg_run fuel os st es st'"
  shows "cache_run (cache_of st) es (cache_of st')"
  using assms
proof (induction rule: mg_run.induct)
  case start
  show ?case by (rule cache_run.start)
next
  case (step es st1 e st2)
  then show ?case
    using cache_run.step step_refines by blast
qed

lemma sample_session_run:
  "\<exists>st'. mg_run 1 sample_mg mg_start (([] @ [Opened 1]) @ [Asked 1 0x140000000]) st' \<and>
     cache_of st' 1 = [[0x140000000 \<mapsto> sample_module]]"
proof -
  have "os_calloc sample_mg (calls mg_start) \<noteq> 0" "MgwSymInitialize sample_mg 1 mg_start = (True, sample_session)"
    by (simp_all add: sample_session_def MgwSymInitialize_def mgwhelp_initialize_def sample_mg_def sample_os_def
        mg_start_def pe_os.defs mg_os.defs)
  then have "mg_step 1 sample_mg mg_start (Opened 1) sample_session"
    using mg_step.sym_init [of sample_mg 1 mg_start True sample_session] by simp
  note one = mg_run.step [OF mg_run.start this]
  obtain tr where "MgwSymLoadModuleExW 1 sample_mg 1 3 (Some (W ''a.exe'')) 0x140000000 sample_session =
       return (0x40000000, sample_session\<lparr>
         processes := [\<lparr>proc_self = 7, proc_hProcess = 1, proc_modules = [sample_module]\<rparr>], calls := tr\<rparr>)"
    by (rule sample_load)
  from mg_run.step [OF one mg_step.sym_load [OF this]] show ?thesis
    by (intro exI conjI) (auto simp: asked_def cache_of_def sample_module_def)
qed

theorem session_refines_cache_witness:
  "\<exists>c. cache_run (\<lambda>h. []) (([] @ [Opened 1]) @ [Asked 1 0x140000000]) c \<and> c 1 = [[0x140000000 \<mapsto> sample_module]]"
proof -
  have "cache_of mg_start = (\<lambda>h. [])"
    by (simp add: cache_of_def mg_start_def fun_eq_iff)
  then show ?thesis
    using sample_session_run session_refines_cache by metis
qed

section \<open>Answers\<close>

text \<open>A query for an address in a cached module is answered from this module, whatever the debug links and the files are
  by now, and leaves the session as it is.\<close>

theorem cached_symbol:
  assumes "cache_of st h = t # ts" and "t (GetModuleBase os h Address) = Some m" and "GetModuleBase os h Address \<noteq> 0"
  shows "MgwSymFromAddrW fuel os h Address n st =
    run (symbol_in_module os m Address (mod_image_base_vma m + Address - mod_Base m) n) (\<lambda>r.
      return (case r of Some s \<Rightarrow> Some s | None \<Rightarrow> os_SymFromAddrW os h Address n, st))"
proof -
  obtain p where p: "mgwhelp_process_lookup h st = Some p"
    using cache_lookup(1) [of h st] assms(1) by (cases "mgwhelp_process_lookup h st") auto
  then have "find (\<lambda>m. mod_Base m = GetModuleBase os h Address) (proc_modules p) = Some m"
    using cache_lookup(2) [OF p] assms(1,2) by (auto simp: module_table_def)
  then have "mgwhelp_find_module fuel os h Address st = return (Some (m, mod_image_base_vma m + Address - mod_Base m), st)"
    using assms(3) p by (simp add: mgwhelp_find_module_def mgwhelp_module_lookup_def Let_def)
  then show ?thesis
    by (auto simp: MgwSymFromAddrW_def intro!: arg_cong [where f = "run _"] split: option.split)
qed

end
