(* ===== verification/Log_ARM64.thy ===== *)
theory Log_ARM64
  imports Log_Facts
begin

text \<open>
  The ARM64 build of the crash log (src/common/log.cpp): the registers, and the choice of the machine type from
  what the process is. The walk of the stack and everything printed for a frame are shared with the other
  builds (theory \<open>Log\<close>). The fields \<open>c_X\<close>, \<open>c_Sp\<close> and \<open>c_Pc\<close> are those of this build's CONTEXT; the frame pointer is
  register 29.
\<close>

section \<open>Registers\<close>

abbreviation ARM64_CONTEXT_CONTROL :: DWORD where "ARM64_CONTEXT_CONTROL \<equiv> 0x400001"
abbreviation ARM64_CONTEXT_INTEGER :: DWORD where "ARM64_CONTEXT_INTEGER \<equiv> 0x400002"
abbreviation ARM64_CONTEXT_FULL :: DWORD where "ARM64_CONTEXT_FULL \<equiv> 0x400007"

definition c_Fp :: "CONTEXT \<Rightarrow> DWORD64" where
  "c_Fp c = c_X c 29"

definition x_reg :: "CONTEXT \<Rightarrow> nat \<Rightarrow> string" where
  "x_reg c i = ''X'' @ num_str False 10 i @ ''='' @ fmt_X 16 (c_X c i)"

text \<open>Four registers to a line, for \<open>i\<close> from 0 below 28 in steps of 4.\<close>

definition x_line :: "CONTEXT \<Rightarrow> nat \<Rightarrow> wstr" where
  "x_line c i = W (x_reg c i @ '' '' @ x_reg c (i + 1) @ '' '' @ x_reg c (i + 2) @ '' '' @ x_reg c (i + 3)) @ [NL]"

definition dumpContext_ARM64 :: "CONTEXT \<Rightarrow> wstr list" where
  "dumpContext_ARM64 c =
     (if flag_set (c_ContextFlags c) ARM64_CONTEXT_INTEGER
      then map (\<lambda>k. x_line c (4 * k)) [0..<7] @ [W (x_reg c 28) @ [NL]] else []) @
     (if flag_set (c_ContextFlags c) ARM64_CONTEXT_CONTROL
      then [W (''pc='' @ fmt_X 16 (c_Pc c) @ '' sp='' @ fmt_X 16 (c_Sp c) @ '' fp='' @ fmt_X 16 (c_Fp c) @ '' '') @ [NL]]
      else []) @
     [[NL, NL]]"

section \<open>The process and its machine\<close>

abbreviation MACHINE_UNKNOWN :: WORD where "MACHINE_UNKNOWN \<equiv> 0"
abbreviation MACHINE_I386 :: WORD where "MACHINE_I386 \<equiv> 0x14c"
abbreviation MACHINE_AMD64 :: WORD where "MACHINE_AMD64 \<equiv> 0x8664"
abbreviation MACHINE_ARM64 :: WORD where "MACHINE_ARM64 \<equiv> 0xAA64"

record arm64_os = log_os +
  ar_IsWow64Process2 :: "HANDLE \<Rightarrow> (WORD \<times> WORD) option"     \<comment> \<open>of the process, and native\<close>
  ar_GetProcessInformation :: "HANDLE \<Rightarrow> WORD option"
  ar_GetLastError :: DWORD

text \<open>\<open>None\<close> when Windows does not tell.\<close>

definition process_arch :: "'a arm64_os_scheme \<Rightarrow> HANDLE \<Rightarrow> WORD option" where
  "process_arch os hProcess =
     (case ar_IsWow64Process2 os hProcess of
        None \<Rightarrow> None
      | Some (processArch, nativeArch) \<Rightarrow>
          if processArch = MACHINE_UNKNOWN then
            Some (case ar_GetProcessInformation os hProcess of Some m \<Rightarrow> m | None \<Rightarrow> nativeArch)
          else Some processArch)"

text \<open>
  The registers shown, the machine type and the frame to start from; \<open>None\<close> for an architecture that is
  not supported. A context of an x86_64 process is taken for an ARM64 one, as the code says.
\<close>

definition stack_start_ARM64 :: "WORD \<Rightarrow> context_memory \<Rightarrow> (wstr list \<times> machine_type \<times> STACKFRAME64) option" where
  "stack_start_ARM64 arch Context =
     (let wc = fst Context; nc = snd Context in
      if arch = MACHINE_ARM64 \<or> arch = MACHINE_AMD64 then
        Some (dumpContext_ARM64 nc, IMAGE_FILE_MACHINE_ARM64, start_frame (c_Pc nc) (c_Sp nc) (c_Fp nc))
      else if arch = MACHINE_I386 then
        Some (dumpContext_WOW64 wc, IMAGE_FILE_MACHINE_I386,
              start_frame (ucast (w_Eip wc)) (ucast (w_Esp wc)) (ucast (w_Ebp wc)))
      else None)"

definition context_is_full_ARM64 :: "WORD \<Rightarrow> context_memory \<Rightarrow> bool" where
  "context_is_full_ARM64 arch Context =
     (if arch = MACHINE_I386 then w_ContextFlags (fst Context) AND WOW64_CONTEXT_FULL = WOW64_CONTEXT_FULL
      else c_ContextFlags (snd Context) AND ARM64_CONTEXT_FULL = ARM64_CONTEXT_FULL)"

definition params_header :: "machine_type \<Rightarrow> wstr" where
  "params_header MachineType =
     W (if MachineType = IMAGE_FILE_MACHINE_I386 then ''AddrPC   Params'' else ''AddrPC           Params'') @ [NL]"

definition dumpStack_ARM64 :: "'a arm64_os_scheme \<Rightarrow> HANDLE \<Rightarrow> HANDLE \<Rightarrow> context_memory \<Rightarrow> fault + wstr list" where
  "dumpStack_ARM64 os hProcess hThread Context =
     (case process_arch os hProcess of
        None \<Rightarrow> Inr [W (''warning: IsWow64Process2 failed (0x'' @ fmt_x 8 (ar_GetLastError os) @ '')'') @ [NL]]
      | Some arch \<Rightarrow>
          (case stack_start_ARM64 arch Context of
             None \<Rightarrow> Inr [W (''error: unsupported process architecture 0x'' @ fmt_x 4 arch @ '' !'') @ [NL]]
           | Some (registers, MachineType, sf) \<Rightarrow>
               if \<not> context_is_full_ARM64 arch Context \<and> \<not> so_ndebug os then Inl AssertionFailed
               else
                 bnd (stack_loop os MachineType hProcess hThread (sf, Context) (AddrStack sf - 1) 0) (\<lambda>frames.
                   Inr (registers @ [params_header MachineType] @ frames @ [[NL]]))))"

section \<open>Properties\<close>

lemma x_reg_length: "i < 100 \<Longrightarrow> length (x_reg c i) \<le> 20"
  using dec_2 [of i] by (simp add: x_reg_def hex_lengths)

lemma no_NUL_x_reg [simp]: "no_NUL (x_reg c i)"
  by (simp add: x_reg_def)

lemma x_line_fits: "i + 3 < 100 \<Longrightarrow> fits (x_line c i)"
  using x_reg_length [of i c] x_reg_length [of "i + 1" c] x_reg_length [of "i + 2" c] x_reg_length [of "i + 3" c]
  by (simp add: x_line_def fits_W del: W_append)

lemma dumpContext_ARM64_fits: "list_all fits (dumpContext_ARM64 c)"
  using x_reg_length [of 28 c]
  by (auto simp: dumpContext_ARM64_def fits_NL x_line_fits fits_W hex_lengths list_all_iff simp del: W_append)

text \<open>
  The stack dump of the ARM64 build: one line when Windows does not tell what the process is or when it is
  not supported; otherwise the registers of its machine and the frames of the walk, in order.
\<close>

theorem arm64_stack_trace:
  assumes "dumpStack_ARM64 os hP hT Context = Inr out"
  shows "(case Option.bind (process_arch os hP) (\<lambda>arch. stack_start_ARM64 arch Context) of
      None \<Rightarrow> length out = 1
    | Some (registers, mt, sf) \<Rightarrow>
        \<exists>fs tss. out = registers @ [params_header mt] @ concat tss @ [[NL]] \<and>
          walk os mt hP hT (sf, Context) (AddrStack sf - 1) fs \<and> logged os mt hP 0 fs tss \<and>
          sorted_wrt (<) (map AddrStack (butlast fs)))"
proof (cases "Option.bind (process_arch os hP) (\<lambda>arch. stack_start_ARM64 arch Context)")
  case None
  then show ?thesis
    using assms by (auto simp: dumpStack_ARM64_def split: option.splits)
next
  case (Some r)
  then obtain arch registers mt sf where r: "r = (registers, mt, sf)" and arch: "process_arch os hP = Some arch"
    and start: "stack_start_ARM64 arch Context = Some (registers, mt, sf)"
    by (cases r) (auto split: Option.bind_splits)
  then obtain frames where "stack_loop os mt hP hT (sf, Context) (AddrStack sf - 1) 0 = Inr frames"
    and out: "out = registers @ [params_header mt] @ frames @ [[NL]]"
    using assms by (auto simp: dumpStack_ARM64_def bnd_eq_Inr split: if_splits)
  from frames_logged [OF this(1)] out show ?thesis
    unfolding Some r option.case prod.case by blast
qed

end
