(* ===== verification/Register_Dump.thy ===== *)
theory Register_Dump
  imports Log_ARM64
begin

text \<open>
  The registers in the crash log, read back: a reader of the text, which knows nothing of how it was printed,
  gets from it every register by its name with its value, and the processor flags, for contexts of x86_64,
  32-bit and ARM64 processes (\<open>dumpContext\<close> of src/common/log.cpp).
\<close>

section \<open>A reader\<close>

abbreviation SP :: wchar where "SP \<equiv> W_char (CHR '' '')"
abbreviation EQ :: wchar where "EQ \<equiv> W_char (CHR ''='')"
abbreviation COLON :: wchar where "COLON \<equiv> W_char (CHR '':'')"

definition blank_char :: "wchar \<Rightarrow> bool" where
  "blank_char c \<longleftrightarrow> c = SP \<or> c = NL"

text \<open>The words between blanks and line ends; blanks before an equals sign belong to the word.\<close>

fun dump_words :: "wstr \<Rightarrow> wstr \<Rightarrow> wstr list" where
  "dump_words w [] = (if w = [] then [] else [w])"
| "dump_words w (c # s) =
     (if \<not> blank_char c then dump_words (w @ [c]) s
      else if take 1 s = [EQ] then dump_words w s
      else (if w = [] then [] else [w]) @ dump_words [] s)"

text \<open>A register with the digits and the value of its numbers (two for one of 128 bits), or another word.\<close>

datatype dump_item = Register wstr "(nat \<times> nat) list" | Mnemonic wstr

definition hex_number :: "wstr \<Rightarrow> nat \<times> nat" where
  "hex_number ds = (length ds, parse_digits 16 (map unat ds) 0)"

definition read_item :: "wstr \<Rightarrow> dump_item" where
  "read_item w =
     (if EQ \<in> set w then
        let v = drop 1 (dropWhile (\<lambda>c. c \<noteq> EQ) w) in
        Register (takeWhile (\<lambda>c. c \<noteq> EQ) w)
          (hex_number (takeWhile (\<lambda>c. c \<noteq> COLON) v) #
           (if COLON \<in> set v then [hex_number (drop 1 (dropWhile (\<lambda>c. c \<noteq> COLON) v))] else []))
      else Mnemonic w)"

definition read_dump :: "wstr \<Rightarrow> dump_item list" where
  "read_dump s = map read_item (dump_words [] s)"

section \<open>What is to be read\<close>

text \<open>The names of the flags when they are set and when they are not.\<close>

definition flag_table :: "(DWORD \<times> string \<times> string) list" where
  "flag_table =
     [(0x00100000, ''vip'', ''   ''), (0x00080000, ''vif'', ''   ''), (0x00000800, ''ov'', ''nv''), (0x00000400, ''dn'', ''up''),
      (0x00000200, ''ei'', ''di''), (0x00000080, ''ng'', ''pl''), (0x00000040, ''zr'', ''nz''), (0x00000010, ''ac'', ''na''),
      (0x00000004, ''po'', ''pe''), (0x00000001, ''cy'', ''nc'')]"

definition flag_words :: "(DWORD \<times> string \<times> string) list \<Rightarrow> DWORD \<Rightarrow> wstr list" where
  "flag_words tbl EFlags =
     concat (map (\<lambda>(mask, s, c). if flag_set EFlags mask then [W s] else if c = ''   '' then [] else [W c]) tbl)"

definition reg64 :: "string \<Rightarrow> DWORD64 \<Rightarrow> dump_item" where
  "reg64 name v = Register (W name) [(16, unat v)]"

definition reg32 :: "string \<Rightarrow> DWORD \<Rightarrow> dump_item" where
  "reg32 name v = Register (W name) [(8, unat v)]"

definition flag_items :: "DWORD \<Rightarrow> dump_item list" where
  "flag_items EFlags = Register (W ''iopl'') [(1, unat EFlags div 2 ^ 12 mod 4)] # map Mnemonic (flag_words flag_table EFlags)"

definition xmm_item :: "CONTEXT \<Rightarrow> nat \<Rightarrow> dump_item" where
  "xmm_item c i = Register (W (''xmm'' @ num_str False 10 i)) [(16, unat (fst (c_Xmm c i))), (16, unat (snd (c_Xmm c i)))]"

text \<open>The registers that the flags of the context select, in the order of the log.\<close>

definition x64_items :: "CONTEXT \<Rightarrow> dump_item list" where
  "x64_items c =
     (let control = flag_set (c_ContextFlags c) CONTEXT_CONTROL in
      [Mnemonic (W ''Registers:'')] @
      (if flag_set (c_ContextFlags c) CONTEXT_INTEGER
       then map2 reg64 [''rax'', ''rbx'', ''rcx'', ''rdx'', ''rsi'', ''rdi'', ''r8'', ''r9'', ''r10'', ''r11'', ''r12'', ''r13'', ''r14'', ''r15'']
              [c_Rax c, c_Rbx c, c_Rcx c, c_Rdx c, c_Rsi c, c_Rdi c, c_R8 c, c_R9 c, c_R10 c, c_R11 c, c_R12 c, c_R13 c, c_R14 c, c_R15 c]
       else []) @
      (if control then map2 reg64 [''rip'', ''rsp'', ''rbp''] [c_Rip c, c_Rsp c, c_Rbp c] @ flag_items (c_EFlags c) else []) @
      (if flag_set (c_ContextFlags c) CONTEXT_SEGMENTS
       then map2 (\<lambda>name v. Register (W name) [(4, unat v)]) [''cs'', ''ss'', ''ds'', ''es'', ''fs'', ''gs'']
              [c_SegCs c, c_SegSs c, c_SegDs c, c_SegEs c, c_SegFs c, c_SegGs c] else []) @
      (if control then [reg32 ''efl'' (c_EFlags c)] else []) @
      (if flag_set (c_ContextFlags c) CONTEXT_FLOATING_POINT then map (xmm_item c) [0..<16] else []))"

definition wow64_items :: "WOW64_CONTEXT \<Rightarrow> dump_item list" where
  "wow64_items c =
     [Mnemonic (W ''Registers:'')] @
     (if flag_set (w_ContextFlags c) WOW64_CONTEXT_INTEGER
      then map2 reg32 [''eax'', ''ebx'', ''ecx'', ''edx'', ''esi'', ''edi''] [w_Eax c, w_Ebx c, w_Ecx c, w_Edx c, w_Esi c, w_Edi c]
      else []) @
     (if flag_set (w_ContextFlags c) CONTEXT_CONTROL
      then map2 reg32 [''eip'', ''esp'', ''ebp''] [w_Eip c, w_Esp c, w_Ebp c] @ flag_items (w_EFlags c) else []) @
     (if flag_set (w_ContextFlags c) WOW64_CONTEXT_SEGMENTS
      then map2 (\<lambda>name v. Register (W name) [(max 4 (length (num_str False 16 (unat v))), unat v)])
             [''cs'', ''ss'', ''ds'', ''es'', ''fs'', ''gs''] [w_SegCs c, w_SegSs c, w_SegDs c, w_SegEs c, w_SegFs c, w_SegGs c]
      else []) @
     (if flag_set (w_ContextFlags c) WOW64_CONTEXT_CONTROL then [reg32 ''efl'' (w_EFlags c)] else [])"

definition arm64_items :: "CONTEXT \<Rightarrow> dump_item list" where
  "arm64_items c =
     (if flag_set (c_ContextFlags c) ARM64_CONTEXT_INTEGER
      then map (\<lambda>i. reg64 (''X'' @ num_str False 10 i) (c_X c i)) [0..<29] else []) @
     (if flag_set (c_ContextFlags c) ARM64_CONTEXT_CONTROL
      then map2 reg64 [''pc'', ''sp'', ''fp''] [c_Pc c, c_Sp c, c_X c 29] else [])"

section \<open>Numbers are words without separators\<close>

lemma digit_code_char_of: "c \<in> set (zero_pad k (num_str up b n)) \<Longrightarrow> 2 \<le> b \<Longrightarrow> b \<le> 36 \<Longrightarrow> digit_code (of_char c) \<noteq> None"
proof -
  assume c: "c \<in> set (zero_pad k (num_str up b n))" and b: "2 \<le> b" "b \<le> 36"
  have "digit_code (of_char (digit_char up d)) = Some d" if "d \<in> set (to_digits b n)" for d
    using to_digits_lt [OF b(1) that] b(2) by (intro digit_code_char) simp
  moreover have zero: "digit_code (of_char (CHR ''0'')) \<noteq> None"
    by (simp add: digit_code_def)
  ultimately show ?thesis
    using c by (auto simp: zero_pad_def num_str_def split: if_splits)
qed

definition separators :: "char set" where
  "separators = {CHR '' '', CHR 0x0A, CHR ''='', CHR '':''}"

lemma no_separator: "digit_code (of_char c) \<noteq> None \<Longrightarrow> c \<notin> separators"
  by (auto simp: separators_def digit_code_def)

definition solid :: "string \<Rightarrow> bool" where
  "solid s \<longleftrightarrow> set s \<inter> separators = {}"

lemma solid_simps [simp]: "solid []" "solid (c # s) \<longleftrightarrow> c \<notin> separators \<and> solid s" "solid (s @ t) \<longleftrightarrow> solid s \<and> solid t"
  by (auto simp: solid_def)

lemma solid_numbers [simp]: "solid (fmt_x k w)" "solid (fmt_X k w)" "solid (num_str False 10 i)"
  using digit_code_char_of [of _ k False 16 "unat w"] digit_code_char_of [of _ k True 16 "unat w"]
    digit_code_char_of [of _ 0 False 10 i] no_separator
  by (fastforce simp: solid_def fmt_x_def fmt_X_def zero_pad_def)+

lemma in_W [simp]: "W_char c \<in> set (W s) \<longleftrightarrow> c \<in> set s"
  by (auto simp: W_def W_char_def)

lemma solid_set: "solid s \<Longrightarrow> EQ \<notin> set (W s) \<and> COLON \<notin> set (W s) \<and> (\<forall>c \<in> set (W s). \<not> blank_char c)"
  by (auto simp: solid_def separators_def blank_char_def)

lemma words_solid: "solid u \<Longrightarrow> dump_words w (W u @ s) = dump_words (w @ W u) s"
proof (induction u arbitrary: w)
  case (Cons c u)
  then have "\<not> blank_char (W_char c)"
    by (auto simp: separators_def blank_char_def)
  with Cons show ?case
    by (simp add: W_Cons)
qed simp

lemma takeWhile_solid: "solid s \<Longrightarrow> takeWhile (\<lambda>c. c \<noteq> EQ) (W s @ t) = W s @ takeWhile (\<lambda>c. c \<noteq> EQ) t"
  "solid s \<Longrightarrow> takeWhile (\<lambda>c. c \<noteq> COLON) (W s @ t) = W s @ takeWhile (\<lambda>c. c \<noteq> COLON) t"
  "solid s \<Longrightarrow> dropWhile (\<lambda>c. c \<noteq> EQ) (W s @ t) = dropWhile (\<lambda>c. c \<noteq> EQ) t"
  "solid s \<Longrightarrow> dropWhile (\<lambda>c. c \<noteq> COLON) (W s @ t) = dropWhile (\<lambda>c. c \<noteq> COLON) t"
  using solid_set [of s] by (simp_all add: takeWhile_append dropWhile_append)
section \<open>Reading an item\<close>

lemma hex_number_str [simp]:
  "hex_number (W (fmt_x k w)) = (length (fmt_x k w), unat w)" "hex_number (W (fmt_X k w)) = (length (fmt_X k w), unat w)"
proof -
  have "map unat (W s) = map of_char s" for s
    by (simp add: W_def unat_of_char16)
  then show "hex_number (W (fmt_x k w)) = (length (fmt_x k w), unat w)" "hex_number (W (fmt_X k w)) = (length (fmt_X k w), unat w)"
    using parse_zero_pad [of 16 k _ "unat w"] by (simp_all add: hex_number_def fmt_x_def fmt_X_def)
qed

lemma length_fmt_hex4: "length (fmt_x 4 (w :: WORD)) = 4"
  using length_num_str [of 16 "unat w" 4 False] unat_lt_max [of w] by (simp add: fmt_x_def)

lemma length_fmt_iopl: "length (fmt_x 1 (v AND 3 :: DWORD)) = 1" "unat (drop_bit 12 f AND 3 :: DWORD) = unat f div 2 ^ 12 mod 4"
proof -
  have and3: "unat (v AND 3 :: DWORD) = unat v mod 4" for v :: DWORD
  proof -
    have "v AND 3 = take_bit 2 v"
      by (simp add: take_bit_eq_mask mask_eq_exp_minus_1)
    then show ?thesis
      by (simp only: unsigned_take_bit_eq) (simp add: take_bit_eq_mod)
  qed
  then show "length (fmt_x 1 (v AND 3 :: DWORD)) = 1"
    using length_num_str [of 16 "unat v mod 4" 1 False] by (simp add: fmt_x_def)
  show "unat (drop_bit 12 f AND 3 :: DWORD) = unat f div 2 ^ 12 mod 4"
    by (simp only: and3 unat_drop_bit_eq) (simp only: drop_bit_eq_div)
qed

lemma takeWhile_COLON: "solid s \<Longrightarrow> takeWhile (\<lambda>c. c \<noteq> COLON) (W s) = W s"
  using takeWhile_solid(2) [of s "[]"] by (simp only: append_Nil2 takeWhile.simps simp_thms)

lemma read_register:
  assumes "solid name" and "solid v"
  shows "read_item (W name @ EQ # W v) = Register (W name) [hex_number (W v)]"
  using assms solid_set [of name] solid_set [of v]
  by (simp add: read_item_def takeWhile_solid takeWhile_COLON Let_def)

lemma read_register2:
  assumes "solid name" and "solid v" and "solid v'"
  shows "read_item (W name @ EQ # W v @ COLON # W v') = Register (W name) [hex_number (W v), hex_number (W v')]"
  using assms solid_set [of name] solid_set [of v]
  by (simp add: read_item_def takeWhile_solid Let_def)

lemma read_mnemonic: "EQ \<notin> set w \<Longrightarrow> read_item w = Mnemonic w"
  by (simp add: read_item_def)

section \<open>Reading lines\<close>

text \<open>These words are read from a text, whatever follows it that does not begin with an equals sign.\<close>

definition yields :: "wstr \<Rightarrow> wstr list \<Rightarrow> bool" where
  "yields s ws \<longleftrightarrow> take 1 s \<noteq> [EQ] \<and>
     (\<forall>t. take 1 t \<noteq> [EQ] \<longrightarrow> dump_words [] (s @ t) = ws @ dump_words [] t)"

lemma yields_Nil [intro]: "yields [] []"
  by (simp add: yields_def)

lemma yields_append [intro]: "yields s ws \<Longrightarrow> yields s' ws' \<Longrightarrow> yields (s @ s') (ws @ ws')"
  unfolding yields_def by (cases s; cases s') auto

lemma yields_words: "yields s ws \<Longrightarrow> dump_words [] s = ws"
  unfolding yields_def by (elim conjE allE [of _ "[]"]) simp

lemma blank_chars [simp]: "blank_char SP" "blank_char NL" "blank_char (W_char c) \<longleftrightarrow> c = CHR '' '' \<or> c = CHR 0x0A"
  by (simp_all add: blank_char_def)

lemma words_numbers [simp]:
  "dump_words w (W (fmt_x k v) @ s) = dump_words (w @ W (fmt_x k v)) s"
  "dump_words w (W (fmt_X k v) @ s) = dump_words (w @ W (fmt_X k v)) s"
  "dump_words w (W (num_str False 10 i) @ s) = dump_words (w @ W (num_str False 10 i)) s"
  by (simp_all add: words_solid)

text \<open>The flags, one after the other.\<close>

definition flag_string :: "(DWORD \<times> string \<times> string) list \<Rightarrow> DWORD \<Rightarrow> string" where
  "flag_string tbl EFlags = concat (map (\<lambda>(mask, s, c). '' '' @ (if flag_set EFlags mask then s else c)) tbl)"

lemma flag_text_string: "flag_text f = flag_string flag_table f"
  by (simp add: flag_text_def flag_string_def flag_table_def Let_def)

definition flag_names :: "(DWORD \<times> string \<times> string) list \<Rightarrow> bool" where
  "flag_names tbl \<longleftrightarrow> list_all (\<lambda>(m, s, c). s \<noteq> [] \<and> solid s \<and> (c = ''   '' \<or> c \<noteq> [] \<and> solid c)) tbl"

lemma words_end: "take 1 t \<noteq> [EQ] \<Longrightarrow> dump_words w (c # t) = (if w = [] then [] else [w]) @ dump_words [] t" if "blank_char c"
  using that by simp

lemma take_solid: "x \<noteq> [] \<Longrightarrow> solid x \<Longrightarrow> take 1 (W x @ r) \<noteq> [EQ]"
  by (cases x) (auto simp: W_Cons separators_def)

lemma words_flags:
  "flag_names tbl \<Longrightarrow> take 1 t \<noteq> [EQ] \<Longrightarrow>
   dump_words w (W (flag_string tbl f) @ NL # t) = (if w = [] then [] else [w]) @ flag_words tbl f @ dump_words [] t"
proof (induction tbl arbitrary: w)
  case Nil
  then show ?case
    by (simp add: flag_string_def flag_words_def)
next
  case (Cons x tbl)
  obtain m s c where x: "x = (m, s, c)"
    by (cases x)
  let ?r = "W (flag_string tbl f) @ NL # t" and ?x = "if flag_set f m then s else c"
  have IH: "dump_words w ?r = (if w = [] then [] else [w]) @ flag_words tbl f @ dump_words [] t" for w
    using Cons by (simp add: flag_names_def)
  have string: "W (flag_string (x # tbl) f) @ NL # t = SP # W ?x @ ?r"
    by (simp add: x flag_string_def W_Cons)
  show ?case
  proof (cases "?x = ''   ''")
    case True
    have "take 1 ?r \<noteq> [EQ]"
      by (cases tbl) (auto simp: flag_string_def W_Cons)
    then have "dump_words w (SP # SP # SP # SP # ?r) = (if w = [] then [] else [w]) @ dump_words [] ?r"
      by (simp add: blank_char_def)
    moreover have "flag_words (x # tbl) f = flag_words tbl f"
      using True Cons.prems by (cases "flag_set f m") (auto simp: x flag_words_def flag_names_def separators_def)
    ultimately show ?thesis
      unfolding string using True IH [of "[]"] by (simp add: W_Cons)
  next
    case False
    then have "?x \<noteq> []" "solid ?x"
      using Cons.prems by (auto simp: x flag_names_def)
    then have "dump_words w (SP # W ?x @ ?r) = (if w = [] then [] else [w]) @ dump_words (W ?x) ?r"
      using take_solid [of ?x ?r] words_solid [of ?x "[]" ?r] by (simp add: blank_char_def)
    moreover have "flag_words (x # tbl) f = W ?x # flag_words tbl f"
      using False by (cases "flag_set f m") (auto simp: x flag_words_def)
    ultimately show ?thesis
      unfolding string using IH [of "W ?x"] \<open>?x \<noteq> []\<close> by simp
  qed
qed

lemma flag_table_names: "flag_names flag_table"
  by (simp add: flag_names_def flag_table_def separators_def)

lemma flag_words_read: "map read_item (flag_words flag_table f) = map Mnemonic (flag_words flag_table f)"
proof -
  have "EQ \<notin> set w" if "w \<in> set (flag_words flag_table f)" for w
    using that flag_table_names solid_set
    by (fastforce simp: flag_words_def flag_names_def list_all_iff split: if_splits)
  then show ?thesis
    using read_mnemonic by (intro map_cong) blast+
qed

text \<open>The lines: a register as a word, and the words of each line.\<close>

definition reg_word :: "string \<Rightarrow> string \<Rightarrow> wstr" where
  "reg_word name v = W name @ EQ # W v"

definition xmm_word :: "CONTEXT \<Rightarrow> nat \<Rightarrow> wstr" where
  "xmm_word c i = W (''xmm'' @ num_str False 10 i) @ EQ # W (fmt_X 16 (fst (c_Xmm c i))) @ COLON # W (fmt_X 16 (snd (c_Xmm c i)))"

lemma words_blanks:
  assumes "0 < n" and "take 1 s \<noteq> [EQ]"
  shows "dump_words w (W (blanks n) @ s) = (if w = [] then [] else [w]) @ dump_words [] s"
  using assms(1)
proof (induction n arbitrary: w)
  case (Suc n)
  show ?case
  proof (cases n)
    case 0
    then show ?thesis
      using assms(2) by (simp add: blanks_def W_Cons)
  next
    case (Suc m)
    then have "take 1 (W (blanks n) @ s) \<noteq> [EQ]" "dump_words [] (W (blanks n) @ s) = dump_words [] s"
      using Suc.IH [of "[]"] by (simp_all add: blanks_def W_Cons)
    then show ?thesis
      by (simp add: blanks_def W_Cons)
  qed
qed simp

lemma length_blanks [simp]: "length (blanks n) = n"
  by (simp add: blanks_def)

lemma take_blanks: "0 < n \<Longrightarrow> take (Suc 0) (W (blanks n)) \<noteq> [EQ]"
  by (cases n) (simp_all add: blanks_def W_Cons)

lemmas line_simps = yields_def W_Cons reg_word_def words_blanks take_blanks

section \<open>The lines\<close>

text \<open>These items are read from the texts, one after the other.\<close>

definition prints :: "wstr list \<Rightarrow> dump_item list \<Rightarrow> bool" where
  "prints ts items \<longleftrightarrow> (\<exists>ws. yields (concat ts) ws \<and> map read_item ws = items)"

lemma printsI: "yields (concat ts) ws \<Longrightarrow> map read_item ws = items \<Longrightarrow> prints ts items"
  by (auto simp: prints_def)

lemma prints_Nil: "prints [] []"
  by (auto simp: prints_def)

lemma prints_append: "prints ts items \<Longrightarrow> prints ts' items' \<Longrightarrow> prints (ts @ ts') (items @ items')"
  by (fastforce simp: prints_def)

lemma prints_if: "(b \<Longrightarrow> prints ts items) \<Longrightarrow> (\<not> b \<Longrightarrow> prints ts' items') \<Longrightarrow>
  prints (if b then ts else ts') (if b then items else items')"
  by auto

lemma prints_dump: "prints ts items \<Longrightarrow> read_dump (concat ts) = items"
  by (auto simp: prints_def read_dump_def dest: yields_words)

lemma read_hex64: "read_item (reg_word name (fmt_X 16 v)) = reg64 name v" if "solid name"
  using that by (simp add: reg_word_def read_register reg64_def length_fmt_hex16)

lemma read_hex32: "read_item (reg_word name (fmt_x 8 v)) = reg32 name v" if "solid name"
  using that by (simp add: reg_word_def read_register reg32_def length_fmt_hex8)

lemma read_hex16: "read_item (reg_word name (fmt_x 4 v)) = Register (W name) [(4, unat v)]" if "solid name" for v :: WORD
  using that by (simp add: reg_word_def read_register length_fmt_hex4)

lemma read_iopl: "read_item (reg_word ''iopl'' (fmt_x 1 (drop_bit 12 f AND 3))) = Register (W ''iopl'') [(1, unat f div 2 ^ 12 mod 4)]"
  for f :: DWORD
  using length_fmt_iopl(1) [of "drop_bit 12 f"]
  by (simp add: reg_word_def read_register separators_def length_fmt_iopl(2) del: One_nat_def)

lemma read_xmm: "read_item (xmm_word c i) = xmm_item c i"
  unfolding xmm_word_def
  by (subst read_register2) (simp_all add: separators_def xmm_item_def length_fmt_hex16)

lemma read_digits4: "read_item (reg_word name (fmt_x 4 v)) = Register (W name) [(max 4 (length (num_str False 16 (unat v))), unat v)]"
  if "solid name"
proof -
  have "length (fmt_x 4 v) = max 4 (length (num_str False 16 (unat v)))"
    by (simp add: fmt_x_def zero_pad_def)
  then show ?thesis
    using that by (simp add: reg_word_def read_register)
qed

lemmas read_simps = read_hex64 read_hex32 read_hex16 read_iopl read_xmm separators_def

lemma prints_header: "prints [W ''Registers:'' @ [NL]] [Mnemonic (W ''Registers:'')]"
  by (rule printsI [of _ "[W ''Registers:'']"], simp add: line_simps, simp add: read_mnemonic)

lemma prints_end: "prints [[NL, NL]] []"
  by (rule printsI [of _ "[]"]) (simp_all add: line_simps)

lemma prints_flags: "map read_item (reg_word ''iopl'' (fmt_x 1 (drop_bit 12 f AND 3)) # flag_words flag_table f) = flag_items f"
  by (simp only: list.map read_iopl flag_words_read flag_items_def)

lemma prints_integer:
  "prints [W (''rax='' @ fmt_X 16 a @ '' rbx='' @ fmt_X 16 b @ '' rcx='' @ fmt_X 16 c) @ [NL] @
      W (''rdx='' @ fmt_X 16 d @ '' rsi='' @ fmt_X 16 e @ '' rdi='' @ fmt_X 16 f) @ [NL] @
      W (''r8 ='' @ fmt_X 16 g @ '' r9 ='' @ fmt_X 16 h @ '' r10='' @ fmt_X 16 i @ '' r11='' @ fmt_X 16 j) @ [NL] @
      W (''r12='' @ fmt_X 16 k @ '' r13='' @ fmt_X 16 l @ '' r14='' @ fmt_X 16 m @ '' r15='' @ fmt_X 16 n) @ [NL]]
    (map2 reg64
      [''rax'', ''rbx'', ''rcx'', ''rdx'', ''rsi'', ''rdi'', ''r8'', ''r9'', ''r10'', ''r11'', ''r12'', ''r13'', ''r14'', ''r15'']
      [a, b, c, d, e, f, g, h, i, j, k, l, m, n])"
  by (rule printsI [of _ "map2 (\<lambda>name v. reg_word name (fmt_X 16 v))
      [''rax'', ''rbx'', ''rcx'', ''rdx'', ''rsi'', ''rdi'', ''r8'', ''r9'', ''r10'', ''r11'', ''r12'', ''r13'', ''r14'', ''r15'']
      [a, b, c, d, e, f, g, h, i, j, k, l, m, n]"]) (simp add: line_simps, simp add: read_simps)

lemma prints_control:
  "prints [W (''rip='' @ fmt_X 16 a @ '' rsp='' @ fmt_X 16 b @ '' rbp='' @ fmt_X 16 c @ iopl_text f @ flag_text f) @ [NL]]
    (map2 reg64 [''rip'', ''rsp'', ''rbp''] [a, b, c] @ flag_items f)"
  by (rule printsI [of _ "[reg_word ''rip'' (fmt_X 16 a), reg_word ''rsp'' (fmt_X 16 b), reg_word ''rbp'' (fmt_X 16 c)] @
      reg_word ''iopl'' (fmt_x 1 (drop_bit 12 f AND 3)) # flag_words flag_table f"],
    simp add: line_simps iopl_text_def flag_text_string words_flags [OF flag_table_names],
    simp only: map_append prints_flags, simp add: read_simps)

abbreviation seg_names :: "string list" where
  "seg_names \<equiv> [''cs'', ''ss'', ''ds'', ''es'', ''fs'', ''gs'']"

abbreviation seg_line :: "'a::len word \<Rightarrow> 'a word \<Rightarrow> 'a word \<Rightarrow> 'a word \<Rightarrow> 'a word \<Rightarrow> 'a word \<Rightarrow> wstr" where
  "seg_line a b c d e g \<equiv> W (''cs='' @ fmt_x 4 a @ ''  ss='' @ fmt_x 4 b @ ''  ds='' @ fmt_x 4 c @
      ''  es='' @ fmt_x 4 d @ ''  fs='' @ fmt_x 4 e @ ''  gs='' @ fmt_x 4 g)"

lemma yields_segments:
  "t = [NL] \<or> t = [NL, NL] \<Longrightarrow> yields (seg_line a b c d e g @ t) (map2 (\<lambda>name v. reg_word name (fmt_x 4 v)) seg_names [a, b, c, d, e, g])"
  "t = [NL] \<or> t = [NL, NL] \<Longrightarrow> yields (seg_line a b c d e g @ W (blanks 13 @ ''efl='' @ fmt_x 8 f) @ t)
     (map2 (\<lambda>name v. reg_word name (fmt_x 4 v)) seg_names [a, b, c, d, e, g] @ [reg_word ''efl'' (fmt_x 8 f)])"
  "t = [NL] \<or> t = [NL, NL] \<Longrightarrow> yields (W (blanks 71 @ ''efl='' @ fmt_x 8 f) @ t) [reg_word ''efl'' (fmt_x 8 f)]"
  by (elim disjE; simp add: line_simps)+

lemma prints_segments:
  fixes a b c d e g :: WORD
  defines "items \<equiv> map2 (\<lambda>name v. Register (W name) [(4, unat v)]) seg_names [a, b, c, d, e, g]"
  shows "prints [seg_line a b c d e g, [NL]] items"
    and "prints [seg_line a b c d e g, W (blanks 13 @ ''efl='' @ fmt_x 8 f) @ [NL]] (items @ [reg32 ''efl'' f])"
    and "prints [W (blanks 71 @ ''efl='' @ fmt_x 8 f) @ [NL]] [reg32 ''efl'' f]"
  using yields_segments(1) [of "[NL]" a b c d e g] yields_segments(2) [of "[NL]" a b c d e g f] yields_segments(3) [of "[NL]" f]
  by (auto intro!: printsI simp: items_def read_simps simp del: W_append)

lemma prints_xmm: "prints [XMM_LINE c i] (map (xmm_item c) [i, i + 1, i + 2, i + 3])"
  by (rule printsI [of _ "map (xmm_word c) [i, i + 1, i + 2, i + 3]"])
    (simp add: line_simps XMM_LINE_def xmm_reg_def xmm_word_def, simp add: read_simps)

lemma upt_16: "[0..<16] = [0, 0 + 1, 0 + 2, 0 + 3] @ [4, 4 + 1, 4 + 2, 4 + 3] @ [8, 8 + 1, 8 + 2, 8 + 3] @ [12, 12 + 1, 12 + 2, 12 + 3::nat]"
  by code_simp

section \<open>The three dumps\<close>

lemma x64_read: "prints (dumpContext c) (x64_items c)"
proof -
  let ?control = "flag_set (c_ContextFlags c) CONTEXT_CONTROL" and ?segments = "flag_set (c_ContextFlags c) CONTEXT_SEGMENTS"
  have xmm: "prints [XMM_LINE c 0, XMM_LINE c 4, XMM_LINE c 8, XMM_LINE c 12] (map (xmm_item c) [0..<16])"
    using prints_append [OF prints_xmm [of c 0] prints_append [OF prints_xmm [of c 4] prints_append [OF prints_xmm [of c 8] prints_xmm [of c 12]]]]
    unfolding upt_16 map_append by (simp only: append_Cons append_Nil)
  have items: "(if ?segments then is else []) @ (if ?control then js else []) @ ks =
      (if ?segments then is @ (if ?control then js else []) else if ?control then js else []) @ ks" for "is" js ks :: "dump_item list"
    by simp
  have segments: "prints (if ?segments then [seg_line r1 r2 r3 r4 r5 r6, (if ?control then W (blanks 13 @ ''efl='' @ fmt_x 8 f) @ [NL] else [NL])]
      else if ?control then [W (blanks 71 @ ''efl='' @ fmt_x 8 f) @ [NL]] else [])
    (if ?segments then map2 (\<lambda>name v. Register (W name) [(4, unat v)]) seg_names [r1, r2, r3, r4, r5, r6] @
      (if ?control then [reg32 ''efl'' f] else []) else if ?control then [reg32 ''efl'' f] else [])" for r1 r2 r3 r4 r5 r6 :: WORD and f
    by (intro prints_if prints_segments prints_Nil)
      (cases ?control; simp only: if_True if_False simp_thms prints_segments append_Nil2)
  have "prints (dumpContext c) (x64_items c @ [])"
    unfolding dumpContext_def x64_items_def Let_def items append_assoc
    by (intro prints_append prints_header prints_if prints_integer prints_control prints_Nil segments xmm prints_end)
  then show ?thesis
    by simp
qed

lemma prints_integer32:
  "prints [W (''eax='' @ fmt_x 8 a @ '' ebx='' @ fmt_x 8 b @ '' ecx='' @ fmt_x 8 c @
      '' edx='' @ fmt_x 8 d @ '' esi='' @ fmt_x 8 e @ '' edi='' @ fmt_x 8 f) @ [NL]]
    (map2 reg32 [''eax'', ''ebx'', ''ecx'', ''edx'', ''esi'', ''edi''] [a, b, c, d, e, f])"
  by (rule printsI [of _ "map2 (\<lambda>name v. reg_word name (fmt_x 8 v)) [''eax'', ''ebx'', ''ecx'', ''edx'', ''esi'', ''edi'']
      [a, b, c, d, e, f]"]) (simp add: line_simps, simp add: read_simps)

lemma prints_control32:
  "prints [W (''eip='' @ fmt_x 8 a @ '' esp='' @ fmt_x 8 b @ '' ebp='' @ fmt_x 8 c @ iopl_text f @ flag_text f) @ [NL]]
    (map2 reg32 [''eip'', ''esp'', ''ebp''] [a, b, c] @ flag_items f)"
  by (rule printsI [of _ "[reg_word ''eip'' (fmt_x 8 a), reg_word ''esp'' (fmt_x 8 b), reg_word ''ebp'' (fmt_x 8 c)] @
      reg_word ''iopl'' (fmt_x 1 (drop_bit 12 f AND 3)) # flag_words flag_table f"],
    simp add: line_simps iopl_text_def flag_text_string words_flags [OF flag_table_names],
    simp only: map_append prints_flags, simp add: read_simps)

lemma prints_segments32:
  fixes a b c d e g :: DWORD
  defines "items \<equiv> map2 (\<lambda>name v. Register (W name) [(max 4 (length (num_str False 16 (unat v))), unat v)]) seg_names [a, b, c, d, e, g]"
  shows "prints [seg_line a b c d e g, [NL, NL]] items"
    and "prints [seg_line a b c d e g, W (blanks 13 @ ''efl='' @ fmt_x 8 f), [NL, NL]] (items @ [reg32 ''efl'' f])"
    and "prints [W (blanks 71 @ ''efl='' @ fmt_x 8 f), [NL, NL]] [reg32 ''efl'' f]"
  using yields_segments(1) [of "[NL, NL]" a b c d e g] yields_segments(2) [of "[NL, NL]" a b c d e g f]
    yields_segments(3) [of "[NL, NL]" f]
  by (auto intro!: printsI simp: items_def read_digits4 read_hex32 separators_def simp del: W_append)

lemma wow64_read: "prints (dumpContext_WOW64 c) (wow64_items c)"
proof -
  let ?control = "flag_set (w_ContextFlags c) WOW64_CONTEXT_CONTROL" and ?segments = "flag_set (w_ContextFlags c) WOW64_CONTEXT_SEGMENTS"
  have items: "(if ?segments then is else []) @ (if ?control then js else []) =
      (if ?segments then (if ?control then is @ js else is) else if ?control then js else [])" for "is" js :: "dump_item list"
    by simp
  have lines: "(if ?segments then [t] @ (if ?control then [u] else []) else if ?control then [v] else []) @ [[NL, NL]] =
      (if ?segments then (if ?control then [t, u, [NL, NL]] else [t, [NL, NL]]) else if ?control then [v, [NL, NL]] else [[NL, NL]])"
    for t u v :: wstr
    by simp
  show ?thesis
    unfolding dumpContext_WOW64_def wow64_items_def items lines
    by (intro prints_append prints_header prints_if prints_integer32 prints_control32 prints_Nil prints_segments32 prints_end)
qed

lemma prints_x_reg: "prints [W (x_reg c i) @ [NL]] [reg64 (''X'' @ num_str False 10 i) (c_X c i)]"
  by (rule printsI [of _ "[reg_word (''X'' @ num_str False 10 i) (fmt_X 16 (c_X c i))]"])
    (simp add: line_simps x_reg_def, simp add: read_simps del: W_append)

lemma prints_x_line: "prints [x_line c i] (map (\<lambda>i. reg64 (''X'' @ num_str False 10 i) (c_X c i)) [i, i + 1, i + 2, i + 3])"
  by (rule printsI [of _ "map (\<lambda>i. reg_word (''X'' @ num_str False 10 i) (fmt_X 16 (c_X c i))) [i, i + 1, i + 2, i + 3]"])
    (simp add: line_simps x_line_def x_reg_def, simp add: read_simps del: W_append)

lemma prints_x_lines: "prints (map (\<lambda>k. x_line c (4 * k)) [0..<n]) (map (\<lambda>i. reg64 (''X'' @ num_str False 10 i) (c_X c i)) [0..<4 * n])"
proof (induction n)
  case (Suc n)
  have "[0..<4 * Suc n] = [0..<4 * n] @ [4 * n, 4 * n + 1, 4 * n + 2, 4 * n + 3]"
    by (simp add: numeral_eq_Suc)
  then show ?case
    using prints_append [OF Suc.IH prints_x_line [of c "4 * n"]] by simp
qed (simp add: prints_Nil)

lemma prints_pointers:
  "prints [W (''pc='' @ fmt_X 16 a @ '' sp='' @ fmt_X 16 b @ '' fp='' @ fmt_X 16 d @ '' '') @ [NL]]
    (map2 reg64 [''pc'', ''sp'', ''fp''] [a, b, d])"
  by (rule printsI [of _ "map2 (\<lambda>name v. reg_word name (fmt_X 16 v)) [''pc'', ''sp'', ''fp''] [a, b, d]"])
    (simp add: line_simps, simp add: read_simps)

lemma arm64_read: "prints (dumpContext_ARM64 c) (arm64_items c)"
proof -
  have "[0..<29] = [0..<4 * 7] @ [28]"
    by code_simp
  then have "prints (map (\<lambda>k. x_line c (4 * k)) [0..<7] @ [W (x_reg c 28) @ [NL]])
      (map (\<lambda>i. reg64 (''X'' @ num_str False 10 i) (c_X c i)) [0..<29])"
    using prints_append [OF prints_x_lines [of c 7] prints_x_reg [of c 28]] by (simp only: map_append list.map)
  then have "prints (dumpContext_ARM64 c) (arm64_items c @ [])"
    unfolding dumpContext_ARM64_def arm64_items_def append_assoc c_Fp_def
    by (intro prints_append prints_if prints_pointers prints_Nil prints_end)
  then show ?thesis
    by simp
qed

text \<open>C35: what the crash log says of the registers is what they hold: from the text of \<open>dumpContext\<close>, for an
  x86_64, a 32-bit and an ARM64 context, a reader of words of the form \<open>name=digits\<close> gets exactly the registers of
  the parts that the flags of the context select, in order, each under its own name, with its own value and the
  full number of digits; the names of the processor flags that are set and of those that are not; and nothing
  else. No line overruns the buffer of \<open>lprintf\<close>, so the text is there in full. (As in the code, the line of EIP in
  a 32-bit context is selected by the flag of the 64-bit contexts.)\<close>

theorem registers_read_back:
  "map_sum id read_dump (log_output (dumpContext c)) = Inr (x64_items c) \<and>
   map_sum id read_dump (log_output (dumpContext_WOW64 w)) = Inr (wow64_items w) \<and>
   map_sum id read_dump (log_output (dumpContext_ARM64 c)) = Inr (arm64_items c)"
  by (simp add: log_output_fits dumpContext_fits dumpContext_WOW64_fits dumpContext_ARM64_fits
      prints_dump [OF x64_read] prints_dump [OF wow64_read] prints_dump [OF arm64_read])

end
