(* ===== verification/FileName.thy ===== *)
theory FileName
  imports Log Resources
begin

text \<open>
  \<open>GetFileNameFromHandle\<close> of src/common/debugger.cpp: the path of an open file, from Windows directly
  or through a mapping of its first byte, in which case the device name is replaced by a drive letter.
\<close>

record file_os = log_os +
  fo_GetFinalPathNameByHandleW :: "HANDLE \<Rightarrow> DWORD \<times> wstr"
  fo_GetFileSize :: "HANDLE \<Rightarrow> DWORD \<times> DWORD"
  fo_CreateFileMapping :: "HANDLE \<Rightarrow> HANDLE"
  fo_MapViewOfFile :: "HANDLE \<Rightarrow> DWORD64"
  fo_GetMappedFileNameW :: "DWORD64 \<Rightarrow> wstr option"
  fo_GetLogicalDriveStringsW :: "wstr list"           \<comment> \<open>empty when it fails\<close>
  fo_QueryDosDeviceW :: "wstr \<Rightarrow> wstr option"

definition towlower :: "wchar \<Rightarrow> wchar" where
  "towlower c = (if 65 \<le> c \<and> c \<le> 90 then c + 32 else c)"

text \<open>\<open>_wcsnicmp\<close> with the whole of the second string, and the test of the character that follows.\<close>

definition has_device :: "wstr \<Rightarrow> wstr \<Rightarrow> bool" where
  "has_device path name \<longleftrightarrow>
     map towlower (take (length name) path) = map towlower name \<and>
     length name < length path \<and> path ! length name = W_char (CHR 0x5C)"

text \<open>The loop over the drive strings, for the first one whose device the path begins with.\<close>

fun dos_path :: "'a file_os_scheme \<Rightarrow> nat \<Rightarrow> wstr \<Rightarrow> wstr list \<Rightarrow> wstr" where
  "dos_path os cchFilePath path [] = path"
| "dos_path os cchFilePath path (p # ps) =
     (let szDrive = take 1 p @ W '':'' in
      case fo_QueryDosDeviceW os szDrive of
        None \<Rightarrow> dos_path os cchFilePath path ps
      | Some szName \<Rightarrow>
          if length szName < MAX_PATH \<and> has_device path szName
          then take (cchFilePath - 1)
                 ([W_char (CHR 0x5C), W_char (CHR 0x5C), W_char (CHR ''?''), W_char (CHR 0x5C)] @
                  szDrive @ drop (length szName) path)
          else dos_path os cchFilePath path ps)"

text \<open>The name, unless the call fails, and the calls that open and close the mapping.\<close>

definition mapped_file_name :: "'a file_os_scheme \<Rightarrow> HANDLE \<Rightarrow> nat \<Rightarrow> wstr option \<times> trace" where
  "mapped_file_name os hFile cchFilePath =
     (let hFileMap = fo_CreateFileMapping os hFile in
      if hFileMap = NULL then (None, [])
      else
        let pMem = fo_MapViewOfFile os hFileMap in
        if pMem = 0 then (None, [Acquire (RMapping hFileMap), Release (RMapping hFileMap)])
        else
          (map_option (\<lambda>path. dos_path os cchFilePath path (fo_GetLogicalDriveStringsW os))
             (fo_GetMappedFileNameW os pMem),
           [Acquire (RMapping hFileMap), Acquire (RView pMem), Release (RView pMem),
            Release (RMapping hFileMap)]))"

definition GetFileNameFromHandle :: "'a file_os_scheme \<Rightarrow> HANDLE \<Rightarrow> nat \<Rightarrow> wstr option \<times> trace" where
  "GetFileNameFromHandle os hFile cchFilePath =
     (let (dwRet, path) = fo_GetFinalPathNameByHandleW os hFile in
      if dwRet \<noteq> 0 then ((if unat dwRet < cchFilePath then Some path else None), [])
      else if fo_GetFileSize os hFile = (0, 0) then (None, [])
      else mapped_file_name os hFile cchFilePath)"

section \<open>Lemmas\<close>

text \<open>Whatever is mapped is unmapped and closed again.\<close>

lemma file_name_balanced: "held (tr @ snd (GetFileNameFromHandle os hFile cch)) = held tr"
  by (auto simp: GetFileNameFromHandle_def mapped_file_name_def Let_def trace_simps split: prod.split)

text \<open>The first drive whose device begins the path replaces it; a path that no device begins stays.\<close>

lemma dos_path_first:
  assumes "fo_QueryDosDeviceW os (take 1 p @ W '':'') = Some dev" and "length dev < MAX_PATH"
    and "\<forall>q\<in>set before. \<forall>d. fo_QueryDosDeviceW os (take 1 q @ W '':'') = Some d \<longrightarrow> \<not> has_device (dev @ W_char (CHR 0x5C) # rest) d"
  shows "dos_path os cch (dev @ W_char (CHR 0x5C) # rest) (before @ p # ps) =
    take (cch - 1) ([W_char (CHR 0x5C), W_char (CHR 0x5C), W_char (CHR ''?''), W_char (CHR 0x5C)] @
      take 1 p @ W '':'' @ W_char (CHR 0x5C) # rest)"
  using assms(3)
proof (induction before)
  case Nil
  with assms(1,2) show ?case
    by (simp add: has_device_def)
next
  case (Cons q qs)
  then show ?case
    by (auto simp: Let_def split: option.split)
qed

end
