(* ===== verification/Debugger.thy ===== *)
theory Debugger
  imports FileName StdMap
begin

text \<open>
  The debugger (src/common/debugger.cpp): the tables of the debugged processes and their threads, one
  handler per debugging event, and the event loop. What the debugger does to the world is recorded as a
  list of \<open>effect\<close>s; the answers of Windows and DbgHelp (\<open>dbg_os\<close>) may depend on all effects so far.
\<close>

section \<open>State\<close>

record DebugOptions =
  breakpoint_flag :: bool
  verbose_flag :: bool
  debug_flag :: bool
  first_chance :: bool
  minidump :: bool
  minidumpDir :: "wstr option"
  hEvent :: HANDLE
  resume_dwThreadId :: DWORD       \<comment> \<open>\<open>dwThreadId\<close>: the thread to resume after attaching\<close>
  no_debug_string :: bool

text \<open>A THREAD_INFO is its only field, the handle.\<close>

record PROCESS_INFO =
  hProcess :: HANDLE
  Threads :: "(DWORD, HANDLE) stdmap"
  fBreakpointSignalled :: bool
  fWowBreakpointSignalled :: bool
  fDumpWritten :: bool

definition empty_process :: PROCESS_INFO where
  "empty_process = \<lparr>hProcess = 0, Threads = [], fBreakpointSignalled = False,
     fWowBreakpointSignalled = False, fDumpWritten = False\<rparr>"

text \<open>\<open>MINIDUMP_EXCEPTION_INFORMATION\<close>: the thread, the exception and the context, or nothing.\<close>

type_synonym exception_param = "(DWORD \<times> EXCEPTION_RECORD \<times> context_memory) option"

datatype effect =
    Say wstr                             \<comment> \<open>what the log callback receives\<close>
  | Debug string                         \<comment> \<open>\<open>OutputDebug\<close>\<close>
  | SignalEvent HANDLE                   \<comment> \<open>\<open>SetEvent\<close>\<close>
  | Close HANDLE
  | Suspend HANDLE
  | Resume HANDLE
  | Terminate HANDLE DWORD
  | SymInit HANDLE
  | SymClean HANDLE
  | LoadSymbols HANDLE HANDLE "wstr option" DWORD64 DWORD
  | UnloadSymbols HANDLE DWORD64
  | WriteDump DWORD wstr DWORD "(DWORD \<times> EXCEPTION_RECORD) option"
      \<comment> \<open>the process, the file name, the type of the dump, and the thread and its exception\<close>
  | Continue DWORD DWORD DWORD           \<comment> \<open>\<open>ContinueDebugEvent\<close>: process, thread, status\<close>

record dbg_state =
  g_Processes :: "(DWORD, PROCESS_INFO) stdmap"
  fFinished :: bool
  fTerminating :: bool
  effects :: "effect list"

datatype debug_event =
    EXCEPTION_DEBUG_EVENT EXCEPTION_RECORD bool       \<comment> \<open>and whether it is the first chance\<close>
  | CREATE_THREAD_DEBUG_EVENT HANDLE
  | CREATE_PROCESS_DEBUG_EVENT HANDLE HANDLE HANDLE DWORD64   \<comment> \<open>file, process, thread, image base\<close>
  | EXIT_THREAD_DEBUG_EVENT DWORD
  | EXIT_PROCESS_DEBUG_EVENT DWORD
  | LOAD_DLL_DEBUG_EVENT HANDLE DWORD64
  | UNLOAD_DLL_DEBUG_EVENT DWORD64
  | OUTPUT_DEBUG_STRING_EVENT DWORD64 WORD bool       \<comment> \<open>address, length, \<open>fUnicode\<close>\<close>
  | RIP_EVENT
  | OTHER_EVENT DWORD

record DEBUG_EVENT =
  dwProcessId :: DWORD
  dwThreadId :: DWORD
  event :: debug_event

record dbg_os = file_os +
  db_WaitForDebugEvent :: "effect list \<Rightarrow> DEBUG_EVENT option"
  db_SuspendThread :: "effect list \<Rightarrow> HANDLE \<Rightarrow> DWORD"
  db_ResumeThread :: "effect list \<Rightarrow> HANDLE \<Rightarrow> DWORD"
  db_GetThreadContext :: "effect list \<Rightarrow> HANDLE \<Rightarrow> DWORD \<Rightarrow> context_memory option"
  db_Wow64GetThreadContext :: "effect list \<Rightarrow> HANDLE \<Rightarrow> DWORD \<Rightarrow> context_memory option"
  db_VirtualQueryEx :: "HANDLE \<Rightarrow> DWORD64 \<Rightarrow> (DWORD64 \<times> DWORD64) option"   \<comment> \<open>allocation base, region size\<close>
  db_SymLoadModuleExW :: "effect list \<Rightarrow> bool"
  db_SymCleanup :: "effect list \<Rightarrow> bool"
  db_ReadProcessMemory :: "HANDLE \<Rightarrow> DWORD64 \<Rightarrow> nat \<Rightarrow> BYTE list option"
  db_CreateFileW :: "effect list \<Rightarrow> wstr \<Rightarrow> HANDLE"
  db_MiniDumpWriteDump :: "effect list \<Rightarrow> HANDLE \<Rightarrow> DWORD \<Rightarrow> HANDLE \<Rightarrow> DWORD \<Rightarrow> exception_param \<Rightarrow> string \<Rightarrow> bool"
  db_freed_hProcess :: "effect list \<Rightarrow> HANDLE \<Rightarrow> HANDLE"
    \<comment> \<open>what the \<open>hProcess\<close> field of a freed node reads as, from what it last held\<close>

abbreviation DBG_CONTINUE :: DWORD where "DBG_CONTINUE \<equiv> 0x00010002"
abbreviation DBG_EXCEPTION_NOT_HANDLED :: DWORD where "DBG_EXCEPTION_NOT_HANDLED \<equiv> 0x80010001"
abbreviation STATUS_BREAKPOINT :: DWORD where "STATUS_BREAKPOINT \<equiv> 0x80000003"
abbreviation STATUS_WX86_BREAKPOINT :: DWORD where "STATUS_WX86_BREAKPOINT \<equiv> 0x4000001F"
abbreviation DBG_CONTROL_C :: DWORD where "DBG_CONTROL_C \<equiv> 0x40010005"
abbreviation DBG_CONTROL_BREAK :: DWORD where "DBG_CONTROL_BREAK \<equiv> 0x40010008"
abbreviation EXCEPTION_STACK_OVERFLOW :: DWORD where "EXCEPTION_STACK_OVERFLOW \<equiv> 0xC00000FD"
abbreviation THREAD_NAME_EXCEPTION :: DWORD where "THREAD_NAME_EXCEPTION \<equiv> 0x406d1388"
abbreviation WOW64_CONTEXT_ALL :: DWORD where "WOW64_CONTEXT_ALL \<equiv> 0x1003F"
abbreviation CONTEXT_ALL :: DWORD where "CONTEXT_ALL \<equiv> 0x10001F"

section \<open>State access\<close>

definition emit :: "effect list \<Rightarrow> dbg_state \<Rightarrow> dbg_state" where
  "emit es st = st\<lparr>effects := effects st @ es\<rparr>"

text \<open>\<open>lprintf\<close>, text by text.\<close>

fun say :: "wstr list \<Rightarrow> dbg_state \<Rightarrow> fault + dbg_state" where
  "say [] st = Inr st"
| "say (t # ts) st = bnd (lprintf t) (\<lambda>(s, _). say ts (emit [Say s] st))"

declare say.simps [simp del]

definition say_if :: "bool \<Rightarrow> wstr list \<Rightarrow> dbg_state \<Rightarrow> fault + dbg_state" where
  "say_if b ts st = (if b then say ts st else Inr st)"

text \<open>\<open>g_Processes[dwProcessId]\<close>: the element, and the state in which it exists.\<close>

definition process :: "DWORD \<Rightarrow> dbg_state \<Rightarrow> PROCESS_INFO" where
  "process pid st = sm_at empty_process (g_Processes st) pid"

definition touch_process :: "DWORD \<Rightarrow> dbg_state \<Rightarrow> dbg_state" where
  "touch_process pid st = st\<lparr>g_Processes := sm_touch empty_process pid (g_Processes st)\<rparr>"

definition update_process :: "DWORD \<Rightarrow> (PROCESS_INFO \<Rightarrow> PROCESS_INFO) \<Rightarrow> dbg_state \<Rightarrow> dbg_state" where
  "update_process pid f st = st\<lparr>g_Processes := sm_put pid (f (process pid st)) (g_Processes st)\<rparr>"

text \<open>\<open>pProcessInfo->Threads[dwThreadId]\<close>.\<close>

definition thread :: "DWORD \<Rightarrow> DWORD \<Rightarrow> dbg_state \<Rightarrow> HANDLE" where
  "thread pid tid st = sm_at 0 (Threads (process pid st)) tid"

definition touch_thread :: "DWORD \<Rightarrow> DWORD \<Rightarrow> dbg_state \<Rightarrow> dbg_state" where
  "touch_thread pid tid = update_process pid (\<lambda>p. p\<lparr>Threads := sm_touch 0 tid (Threads p)\<rparr>)"

definition set_thread :: "DWORD \<Rightarrow> DWORD \<Rightarrow> HANDLE \<Rightarrow> dbg_state \<Rightarrow> dbg_state" where
  "set_thread pid tid h = update_process pid (\<lambda>p. p\<lparr>Threads := sm_put tid h (Threads p)\<rparr>)"

section \<open>Helpers of the handlers\<close>

definition isAbnormalExitCode :: "DWORD \<Rightarrow> bool" where
  "isAbnormalExitCode dwExitCode \<longleftrightarrow> dwExitCode > 255 \<or> dwExitCode = 3"

text \<open>
  The size of a module is summed up region by region, in a DWORD; \<open>None\<close> is a loop that does not end
  (an empty region, or a module of 4 GB whose size wraps around to its start).
\<close>

partial_function (option) module_size_loop ::
  "(HANDLE \<Rightarrow> DWORD64 \<Rightarrow> (DWORD64 \<times> DWORD64) option) \<Rightarrow> HANDLE \<Rightarrow> DWORD64 \<Rightarrow> DWORD \<Rightarrow> DWORD option" where
  "module_size_loop query hP lpBaseOfDll Size =
     (case query hP (lpBaseOfDll + ucast Size) of
        None \<Rightarrow> Some Size
      | Some (AllocationBase, RegionSize) \<Rightarrow>
          if AllocationBase \<noteq> lpBaseOfDll then Some Size
          else module_size_loop query hP lpBaseOfDll (Size + ucast RegionSize))"

declare module_size_loop.simps [code]

definition getModuleSize :: "'a dbg_os_scheme \<Rightarrow> HANDLE \<Rightarrow> DWORD64 \<Rightarrow> DWORD option" where
  "getModuleSize os hP lpBaseOfDll = module_size_loop (db_VirtualQueryEx os) hP lpBaseOfDll 0"

definition loadModule :: "'a dbg_os_scheme \<Rightarrow> HANDLE \<Rightarrow> HANDLE \<Rightarrow> wstr option \<Rightarrow> DWORD64 \<Rightarrow> dbg_state \<Rightarrow>
    (fault + dbg_state) option" where
  "loadModule os hP hFile pszImageName lpBaseOfDll st =
     (let deferred = flag_set (so_SymGetOptions os) SYMOPT_DEFERRED_LOADS in
      case (if deferred then getModuleSize os hP lpBaseOfDll else Some 0) of
        None \<Rightarrow> None
      | Some DllSize \<Rightarrow>
          (let st = emit [LoadSymbols hP hFile pszImageName lpBaseOfDll DllSize] st;
               st = (if db_SymLoadModuleExW os (effects st) then st
                     else emit [Debug ''warning: SymLoadModule64 failed''] st)
           in return (if hFile \<noteq> 0 \<and> \<not> deferred then emit [Close hFile] st else st)))"

text \<open>The string read, up to its first NUL; nothing when the memory cannot be read.\<close>

definition readProcessString :: "'a dbg_os_scheme \<Rightarrow> HANDLE \<Rightarrow> DWORD64 \<Rightarrow> nat \<Rightarrow> BYTE list" where
  "readProcessString os hP lpBaseAddress nSize =
     (case db_ReadProcessMemory os hP lpBaseAddress nSize of
        None \<Rightarrow> []
      | Some bs \<Rightarrow> takeWhile (\<lambda>b. b \<noteq> 0) (take nSize bs))"

definition getThreadContext :: "'a dbg_os_scheme \<Rightarrow> HANDLE \<Rightarrow> HANDLE \<Rightarrow> dbg_state \<Rightarrow> context_memory option" where
  "getThreadContext os hP hThread st =
     (if lo_IsWow64Process os hP then db_Wow64GetThreadContext os (effects st) hThread WOW64_CONTEXT_ALL
      else db_GetThreadContext os (effects st) hThread CONTEXT_ALL)"

definition dump_path :: "DebugOptions \<Rightarrow> DWORD \<Rightarrow> wstr" where
  "dump_path opts pid =
     (case minidumpDir opts of Some d \<Rightarrow> d @ [W_char (CHR 0x5C)] | None \<Rightarrow> []) @ W (fmt_u pid @ ''.dmp'')"

definition dump_comment :: "bool \<Rightarrow> string" where
  "dump_comment bWow64 =
     ''Dump generated with DrMingw'' @ [CHR 0x0A] @
     (if bWow64 then ''Enter `.effmach x86` command to debug this WOW64 dump with WinDbg (https://bit.ly/2TLG7hl)'' @
        [CHR 0x0A]
      else [])"

text \<open>
  The type of a dump: \<open>DataSegs\<close>, \<open>HandleData\<close>, \<open>UnloadedModules\<close>, \<open>PrivateReadWriteMemory\<close>, \<open>FullMemoryInfo\<close>
  and \<open>ThreadInfo\<close>.
\<close>

definition DumpType :: DWORD where
  "DumpType = 0x200 OR 0x1 OR 0x4 OR 0x800 OR 0x1000 OR 0x20"

definition writeDump :: "'a dbg_os_scheme \<Rightarrow> DebugOptions \<Rightarrow> DWORD \<Rightarrow> exception_param \<Rightarrow> dbg_state \<Rightarrow> fault + dbg_state" where
  "writeDump os opts pid pExceptionParam st =
     (if fDumpWritten (process pid st) then Inr st
      else
        (let st = update_process pid (\<lambda>p. p\<lparr>fDumpWritten := True\<rparr>) st;
             path = dump_path opts pid;
             hFile = db_CreateFileW os (effects st) path;
             hP = hProcess (process pid st);
             comment = dump_comment (lo_IsWow64Process os hP);
             bSuccess = (hFile \<noteq> INVALID_HANDLE_VALUE \<and>
                         db_MiniDumpWriteDump os (effects st) hP pid hFile DumpType pExceptionParam comment);
             st = emit (if hFile \<noteq> INVALID_HANDLE_VALUE then [WriteDump pid path DumpType (map_option (\<lambda>(t, r, c). (t, r)) pExceptionParam), Close hFile] else []) st
         in say [W (if bSuccess then ''info: minidump written to '' else ''error: failed to write minidump to '') @
                 path @ [NL]] st))"

text \<open>The stack of a thread, when its context can be read, and that context.\<close>

definition dump_thread :: "'a dbg_os_scheme \<Rightarrow> HANDLE \<Rightarrow> HANDLE \<Rightarrow> dbg_state \<Rightarrow>
    fault + context_memory option \<times> dbg_state" where
  "dump_thread os hP hThread st =
     (case getThreadContext os hP hThread st of
        None \<Rightarrow> Inr (None, st)
      | Some Context \<Rightarrow>
          bnd (dumpStack os hP hThread Context) (\<lambda>ts.
          bnd (say ts st) (\<lambda>st. Inr (Some Context, st))))"

section \<open>Exceptions\<close>

text \<open>
  The first breakpoint of a process: it signals the event and closes it, and resumes the thread that
  the options name. The look-up of that thread inserts an entry when the process has no such thread.
\<close>

definition resume_thread :: "'a dbg_os_scheme \<Rightarrow> DebugOptions \<Rightarrow> DWORD \<Rightarrow> dbg_state \<Rightarrow> fault + dbg_state" where
  "resume_thread os opts pid st =
     (let tid = resume_dwThreadId opts in
      if tid = 0 then Inr st
      else
        let st = touch_thread pid tid st; hThread = thread pid tid st;
            dwRet = (if hThread \<noteq> NULL then db_ResumeThread os (effects st) hThread else - 1);
            st = emit (if hThread \<noteq> NULL then [Resume hThread] else []) st
        in say_if (dwRet = - 1) [W (''error: failed to resume thread '' @ fmt_u tid) @ [NL]] st)"

definition attached :: "'a dbg_os_scheme \<Rightarrow> DebugOptions \<Rightarrow> DWORD \<Rightarrow> dbg_state \<Rightarrow> fault + dbg_state" where
  "attached os opts pid st =
     (let st = update_process pid (\<lambda>p. p\<lparr>fBreakpointSignalled := True\<rparr>) st;
          st = emit (if hEvent opts \<noteq> NULL then [SignalEvent (hEvent opts), Close (hEvent opts)] else []) st
      in resume_thread os opts pid st)"

text \<open>
  The continuation status of a first-chance exception that is not such a breakpoint, and whether it is
  reported.
\<close>

definition later_exception :: "'a dbg_os_scheme \<Rightarrow> DebugOptions \<Rightarrow> DWORD \<Rightarrow> DWORD \<times> bool" where
  "later_exception os opts code =
     (if code = THREAD_NAME_EXCEPTION then (DBG_CONTINUE, False)
      else if code = DBG_CONTROL_C \<or> code = DBG_CONTROL_BREAK then (DBG_CONTINUE, True)
      else if code = EXCEPTION_STACK_OVERFLOW \<and> isInsideWine os then (DBG_EXCEPTION_NOT_HANDLED, True)
      else (DBG_EXCEPTION_NOT_HANDLED, first_chance opts))"

definition first_chance_exception :: "'a dbg_os_scheme \<Rightarrow> DebugOptions \<Rightarrow> DWORD \<Rightarrow> DWORD \<Rightarrow> dbg_state \<Rightarrow>
    fault + (DWORD \<times> bool) \<times> dbg_state" where
  "first_chance_exception os opts pid code st =
     (if code = STATUS_BREAKPOINT \<and> \<not> fBreakpointSignalled (process pid st) then
        bnd (attached os opts pid st) (\<lambda>st.
          Inr (if \<not> breakpoint_flag opts then (DBG_CONTINUE, False) else later_exception os opts code, st))
      else if code = STATUS_WX86_BREAKPOINT \<and> \<not> fWowBreakpointSignalled (process pid st) then
        Inr ((DBG_CONTINUE, False), update_process pid (\<lambda>p. p\<lparr>fWowBreakpointSignalled := True\<rparr>) st)
      else Inr (later_exception os opts code, st))"

text \<open>Breakpoints and control events show all threads, other exceptions the one that raised them.\<close>

definition shows_all_threads :: "DWORD \<Rightarrow> bool" where
  "shows_all_threads code \<longleftrightarrow>
     code = STATUS_BREAKPOINT \<or> code = STATUS_WX86_BREAKPOINT \<or> code = DBG_CONTROL_C \<or> code = DBG_CONTROL_BREAK"

text \<open>The dump of a second-chance exception: the thread that raised it, with the context of the thread just shown.\<close>

definition crash_dump :: "'a dbg_os_scheme \<Rightarrow> DebugOptions \<Rightarrow> DWORD \<Rightarrow> DWORD \<Rightarrow> EXCEPTION_RECORD \<Rightarrow> bool \<Rightarrow>
    context_memory option \<Rightarrow> dbg_state \<Rightarrow> fault + dbg_state" where
  "crash_dump os opts pid tid r first shown st =
     (case shown of
        None \<Rightarrow> Inr st
      | Some Context \<Rightarrow> if first then Inr st else writeDump os opts pid (Some (tid, r, Context)) st)"

fun dump_threads :: "'a dbg_os_scheme \<Rightarrow> DebugOptions \<Rightarrow> DWORD \<Rightarrow> DWORD \<Rightarrow> EXCEPTION_RECORD \<Rightarrow> bool \<Rightarrow>
    (DWORD \<times> HANDLE) list \<Rightarrow> dbg_state \<Rightarrow> fault + dbg_state" where
  "dump_threads os opts pid tid r first [] st = Inr st"
| "dump_threads os opts pid tid r first ((t, h) # ths) st =
     (if t \<noteq> tid \<and> \<not> shows_all_threads (ExceptionCode r) then dump_threads os opts pid tid r first ths st
      else
        bnd (dump_thread os (hProcess (process pid st)) h st) (\<lambda>(shown, st).
        bnd (crash_dump os opts pid tid r first shown st) (dump_threads os opts pid tid r first ths)))"

definition report_exception :: "'a dbg_os_scheme \<Rightarrow> DebugOptions \<Rightarrow> DWORD \<Rightarrow> DWORD \<Rightarrow> EXCEPTION_RECORD \<Rightarrow> bool \<Rightarrow>
    dbg_state \<Rightarrow> fault + dbg_state" where
  "report_exception os opts pid tid r first st =
     bnd (say (dumpException os (hProcess (process pid st)) r) st) (\<lambda>st.
     bnd (dump_threads os opts pid tid r first (Threads (process pid st)) st) (\<lambda>st.
       Inr (if first then st
            else emit [Terminate (hProcess (process pid st)) (ExceptionCode r)] (st\<lparr>fTerminating := True\<rparr>))))"

definition verbose_exception :: "DWORD \<Rightarrow> DWORD \<Rightarrow> DWORD \<Rightarrow> bool \<Rightarrow> wstr" where
  "verbose_exception pid tid code first =
     W (''EXCEPTION PID='' @ fmt_u pid @ '' TID='' @ fmt_u tid @ '' ExceptionCode=0x'' @ fmt_x 0 code @
        '' dwFirstChance='' @ fmt_u (if first then 1 else 0 :: DWORD)) @ [NL]"

definition exception_verdict :: "'a dbg_os_scheme \<Rightarrow> DebugOptions \<Rightarrow> DWORD \<Rightarrow> DWORD \<Rightarrow> bool \<Rightarrow> dbg_state \<Rightarrow>
    fault + (DWORD \<times> bool) \<times> dbg_state" where
  "exception_verdict os opts pid code first st =
     (if first then first_chance_exception os opts pid code st
      else Inr ((DBG_EXCEPTION_NOT_HANDLED, True), st))"

definition on_exception :: "'a dbg_os_scheme \<Rightarrow> DebugOptions \<Rightarrow> DWORD \<Rightarrow> DWORD \<Rightarrow> EXCEPTION_RECORD \<Rightarrow> bool \<Rightarrow>
    dbg_state \<Rightarrow> fault + DWORD \<times> dbg_state" where
  "on_exception os opts pid tid r first st =
     bnd (say_if (verbose_flag opts) [verbose_exception pid tid (ExceptionCode r) first] st) (\<lambda>st.
     bnd (exception_verdict os opts pid (ExceptionCode r) first (touch_process pid st)) (\<lambda>((status, report), st).
       if report then bnd (report_exception os opts pid tid r first st) (\<lambda>st. Inr (status, st))
       else Inr (status, st)))"

section \<open>The other events\<close>

definition verbose_ids :: "string \<Rightarrow> DWORD \<Rightarrow> DWORD \<Rightarrow> string" where
  "verbose_ids what pid tid = what @ '' PID='' @ fmt_u pid @ '' TID='' @ fmt_u tid"

definition image_name :: "'a dbg_os_scheme \<Rightarrow> HANDLE \<Rightarrow> wstr option" where
  "image_name os hFile = (if hFile \<noteq> 0 then fst (GetFileNameFromHandle os hFile MAX_PATH) else None)"

definition name_or_empty :: "wstr option \<Rightarrow> wstr" where
  "name_or_empty n = (case n of Some s \<Rightarrow> s | None \<Rightarrow> [])"

definition on_create_thread :: "DebugOptions \<Rightarrow> DWORD \<Rightarrow> DWORD \<Rightarrow> HANDLE \<Rightarrow> dbg_state \<Rightarrow> fault + dbg_state" where
  "on_create_thread opts pid tid hThread st =
     bnd (say_if (verbose_flag opts) [W (verbose_ids ''CREATE_THREAD'' pid tid) @ [NL]] st) (\<lambda>st.
       Inr (set_thread pid tid hThread (touch_process pid st)))"

text \<open>The entries of a new process and its first thread; whether it may be dumped is set anew.\<close>

definition new_process :: "DebugOptions \<Rightarrow> DWORD \<Rightarrow> DWORD \<Rightarrow> HANDLE \<Rightarrow> HANDLE \<Rightarrow> dbg_state \<Rightarrow> dbg_state" where
  "new_process opts pid tid hP hThread st =
     set_thread pid tid hThread
       (update_process pid (\<lambda>p. p\<lparr>hProcess := hP, fDumpWritten := \<not> minidump opts\<rparr>) (touch_process pid st))"

text \<open>\<open>None\<close> for the state after \<open>exit(EXIT_FAILURE)\<close>.\<close>

definition on_create_process :: "'a dbg_os_scheme \<Rightarrow> DebugOptions \<Rightarrow> DWORD \<Rightarrow> DWORD \<Rightarrow> HANDLE \<Rightarrow> HANDLE \<Rightarrow> HANDLE \<Rightarrow>
    DWORD64 \<Rightarrow> dbg_state \<Rightarrow> (fault + dbg_state option) option" where
  "on_create_process os opts pid tid hFile hP hThread lpBaseOfImage st =
     (let lpImageName = image_name os hFile in
      run (Some (say_if (verbose_flag opts)
             [W (verbose_ids ''CREATE_PROCESS'' pid tid @ '' lpBaseOfImage='' @ fmt_p lpBaseOfImage @ '' '') @
              name_or_empty lpImageName @ [NL]] st)) (\<lambda>st.
      let st = emit [SymInit hP] (new_process opts pid tid hP hThread st) in
      run (Some (InitializeSym os hP False)) (\<lambda>ok.
        if \<not> ok then return None
        else run (loadModule os hP hFile lpImageName lpBaseOfImage st) (\<lambda>st. return (Some st)))))"

text \<open>An abnormal exit, unless the debugger has terminated the process itself, shows the thread's stack.\<close>

definition dump_exit :: "'a dbg_os_scheme \<Rightarrow> DWORD \<Rightarrow> DWORD \<Rightarrow> dbg_state \<Rightarrow> fault + dbg_state" where
  "dump_exit os pid tid st =
     (let st = touch_thread pid tid st in
      bnd (dump_thread os (hProcess (process pid st)) (thread pid tid st) st) (\<lambda>(_, st). Inr st))"

definition on_exit_thread :: "'a dbg_os_scheme \<Rightarrow> DebugOptions \<Rightarrow> DWORD \<Rightarrow> DWORD \<Rightarrow> DWORD \<Rightarrow> dbg_state \<Rightarrow>
    fault + dbg_state" where
  "on_exit_thread os opts pid tid dwExitCode st =
     bnd (say_if (verbose_flag opts)
            [W (verbose_ids ''EXIT_THREAD'' pid tid @ '' dwExitCode=0x'' @ fmt_x 0 dwExitCode) @ [NL]] st) (\<lambda>st.
     let st = touch_process pid st in
     bnd (if \<not> fTerminating st \<and> isAbnormalExitCode dwExitCode then dump_exit os pid tid st else Inr st) (\<lambda>st.
       Inr (update_process pid (\<lambda>p. p\<lparr>Threads := sm_erase tid (Threads p)\<rparr>) st)))"

text \<open>
  The end of a process: \<open>pProcessInfo\<close> points into the map, so that after the erasure the handle is read
  from the freed node. The loop is to end when no process is left.
\<close>

definition forget_process :: "'a dbg_os_scheme \<Rightarrow> DWORD \<Rightarrow> dbg_state \<Rightarrow> dbg_state" where
  "forget_process os pid st =
     (let hP = hProcess (process pid st);
          st = st\<lparr>g_Processes := sm_erase pid (g_Processes st)\<rparr>;
          st = emit [SymClean (db_freed_hProcess os (effects st) hP)] st;
          st = (if db_SymCleanup os (effects st) then st else emit [Debug ''SymCleanup failed''] st)
      in if g_Processes st = [] then st\<lparr>fFinished := True\<rparr> else st)"

definition on_exit_process :: "'a dbg_os_scheme \<Rightarrow> DebugOptions \<Rightarrow> DWORD \<Rightarrow> DWORD \<Rightarrow> DWORD \<Rightarrow> dbg_state \<Rightarrow>
    fault + dbg_state" where
  "on_exit_process os opts pid tid dwExitCode st =
     bnd (say_if (verbose_flag opts)
            [W (verbose_ids ''EXIT_PROCESS'' pid tid @ '' dwExitCode=0x'' @ fmt_x 0 dwExitCode) @ [NL]] st) (\<lambda>st.
     let st = touch_process pid st in
     bnd (if \<not> fTerminating st \<and> isAbnormalExitCode dwExitCode
          then bnd (dump_exit os pid tid st) (writeDump os opts pid None) else Inr st) (\<lambda>st.
       Inr (forget_process os pid st)))"

definition on_load_dll :: "'a dbg_os_scheme \<Rightarrow> DebugOptions \<Rightarrow> DWORD \<Rightarrow> DWORD \<Rightarrow> HANDLE \<Rightarrow> DWORD64 \<Rightarrow> dbg_state \<Rightarrow>
    (fault + dbg_state) option" where
  "on_load_dll os opts pid tid hFile lpBaseOfDll st =
     (let lpImageName = image_name os hFile in
      run (Some (say_if (verbose_flag opts)
             [W (verbose_ids ''LOAD_DLL'' pid tid @ '' lpBaseOfDll='' @ fmt_p lpBaseOfDll @ '' '') @
              name_or_empty lpImageName @ [NL]] st)) (\<lambda>st.
      let st = touch_process pid st in
      loadModule os (hProcess (process pid st)) hFile lpImageName lpBaseOfDll st))"

definition on_unload_dll :: "DebugOptions \<Rightarrow> DWORD \<Rightarrow> DWORD \<Rightarrow> DWORD64 \<Rightarrow> dbg_state \<Rightarrow> fault + dbg_state" where
  "on_unload_dll opts pid tid lpBaseOfDll st =
     bnd (say_if (verbose_flag opts)
            [W (verbose_ids ''UNLOAD_DLL'' pid tid @ '' lpBaseOfDll='' @ fmt_p lpBaseOfDll) @ [NL]] st) (\<lambda>st.
     let st = touch_process pid st in
     Inr (emit [UnloadSymbols (hProcess (process pid st)) lpBaseOfDll] st))"

definition on_output_debug_string :: "'a dbg_os_scheme \<Rightarrow> DebugOptions \<Rightarrow> DWORD \<Rightarrow> DWORD \<Rightarrow> DWORD64 \<Rightarrow> WORD \<Rightarrow> bool \<Rightarrow>
    dbg_state \<Rightarrow> fault + dbg_state" where
  "on_output_debug_string os opts pid tid lpData nLength fUnicode st =
     bnd (say_if (verbose_flag opts) [W (verbose_ids ''OUTPUT_DEBUG_STRING'' pid tid) @ [NL]] st) (\<lambda>st.
     if no_debug_string opts then Inr st
     else
       let st = touch_process pid st in
       if fUnicode \<and> \<not> so_ndebug os then Inl AssertionFailed
       else say [map ucast (readProcessString os (hProcess (process pid st)) lpData (unat nLength))] st)"

section \<open>The event loop\<close>

datatype step_result = Resumed | Exited

definition resumed :: "fault + dbg_state \<Rightarrow> (fault + (DWORD \<times> dbg_state) option) option" where
  "resumed m = Some (bnd m (\<lambda>st. Inr (Some (DBG_CONTINUE, st))))"

text \<open>The switch: the continuation status and the new state, or \<open>None\<close> after an \<open>exit\<close>.\<close>

definition handle_event :: "'a dbg_os_scheme \<Rightarrow> DebugOptions \<Rightarrow> DEBUG_EVENT \<Rightarrow> dbg_state \<Rightarrow>
    (fault + (DWORD \<times> dbg_state) option) option" where
  "handle_event os opts ev st =
     (let pid = dwProcessId ev; tid = dwThreadId ev in
      case event ev of
        EXCEPTION_DEBUG_EVENT r first \<Rightarrow> Some (bnd (on_exception os opts pid tid r first st) (\<lambda>x. Inr (Some x)))
      | CREATE_THREAD_DEBUG_EVENT hThread \<Rightarrow> resumed (on_create_thread opts pid tid hThread st)
      | CREATE_PROCESS_DEBUG_EVENT hFile hP hThread base \<Rightarrow>
          run (on_create_process os opts pid tid hFile hP hThread base st) (\<lambda>r.
            return (map_option (\<lambda>st. (DBG_CONTINUE, st)) r))
      | EXIT_THREAD_DEBUG_EVENT code \<Rightarrow> resumed (on_exit_thread os opts pid tid code st)
      | EXIT_PROCESS_DEBUG_EVENT code \<Rightarrow> resumed (on_exit_process os opts pid tid code st)
      | LOAD_DLL_DEBUG_EVENT hFile base \<Rightarrow>
          run (on_load_dll os opts pid tid hFile base st) (\<lambda>st. return (Some (DBG_CONTINUE, st)))
      | UNLOAD_DLL_DEBUG_EVENT base \<Rightarrow> resumed (on_unload_dll opts pid tid base st)
      | OUTPUT_DEBUG_STRING_EVENT data len uni \<Rightarrow>
          resumed (on_output_debug_string os opts pid tid data len uni st)
      | RIP_EVENT \<Rightarrow> resumed (say_if (verbose_flag opts) [W (verbose_ids ''RIP'' pid tid) @ [NL]] st)
      | OTHER_EVENT code \<Rightarrow>
          resumed (say_if (verbose_flag opts)
            [W (verbose_ids (''EVENT'' @ fmt_u code) pid tid) @ [NL]] st))"

text \<open>The thread that reported the event is resumed, with the status the switch has left.\<close>

definition ContinueDebugEvent :: "DEBUG_EVENT \<Rightarrow> DWORD \<Rightarrow> dbg_state \<Rightarrow> dbg_state" where
  "ContinueDebugEvent ev dwContinueStatus st = emit [Continue (dwProcessId ev) (dwThreadId ev) dwContinueStatus] st"

text \<open>One round of the loop: the event is handled and its thread resumed.\<close>

definition dbg_step :: "'a dbg_os_scheme \<Rightarrow> DebugOptions \<Rightarrow> DEBUG_EVENT \<Rightarrow> dbg_state \<Rightarrow>
    (fault + dbg_state option) option" where
  "dbg_step os opts ev st =
     run (handle_event os opts ev st) (\<lambda>r.
       return (map_option (\<lambda>(status, st). ContinueDebugEvent ev status st) r))"

datatype loop_result = Returned bool | ExitFailure

text \<open>\<open>DebugMainLoop\<close> from a given state; \<open>None\<close> when it does not return.\<close>

partial_function (option) debug_loop :: "'a dbg_os_scheme \<Rightarrow> DebugOptions \<Rightarrow> dbg_state \<Rightarrow>
    (fault + loop_result \<times> dbg_state) option" where
  "debug_loop os opts st =
     (if fFinished st then Some (Inr (Returned True, st))
      else
        (case db_WaitForDebugEvent os (effects st) of
           None \<Rightarrow> Some (Inr (Returned False, emit [Debug ''WaitForDebugEvent''] st))
         | Some ev \<Rightarrow>
             (case dbg_step os opts ev st of
                None \<Rightarrow> None
              | Some (Inl e) \<Rightarrow> Some (Inl e)
              | Some (Inr None) \<Rightarrow> Some (Inr (ExitFailure, st))
              | Some (Inr (Some st)) \<Rightarrow> debug_loop os opts st)))"

declare debug_loop.simps [code]

definition DebugMainLoop :: "'a dbg_os_scheme \<Rightarrow> DebugOptions \<Rightarrow> (DWORD, PROCESS_INFO) stdmap \<Rightarrow>
    (fault + loop_result \<times> dbg_state) option" where
  "DebugMainLoop os opts procs =
     debug_loop os opts \<lparr>g_Processes = procs, fFinished = False, fTerminating = False, effects = []\<rparr>"

text \<open>
  \<open>TrapThread\<close>, which catchsegv calls on its timer's thread: the stack and a dump of the process, and
  \<open>exit(3)\<close> when the thread could be suspended, otherwise the process is terminated.
\<close>

definition TrapThread :: "'a dbg_os_scheme \<Rightarrow> DebugOptions \<Rightarrow> DWORD \<Rightarrow> DWORD \<Rightarrow> dbg_state \<Rightarrow>
    fault + step_result \<times> dbg_state" where
  "TrapThread os opts pid tid st =
     (let st = touch_process pid st; hP = hProcess (process pid st);
          st = touch_thread pid tid st; hThread = thread pid tid st in
      if (hP = NULL \<or> hThread = NULL) \<and> \<not> so_ndebug os then Inl AssertionFailed
      else
        let dwRet = db_SuspendThread os (effects st) hThread; st = emit [Suspend hThread] st in
        if dwRet \<noteq> - 1 then
          bnd (dump_thread os hP hThread st) (\<lambda>(_, st).
          bnd (writeDump os opts pid None st) (\<lambda>st. Inr (Exited, st)))
        else Inr (Resumed, emit [Terminate hP 3] st))"

text \<open>The callback that DbgHelp reports to: its debugging texts, and partial symbol loads.\<close>

abbreviation CBA_DEBUG_INFO :: DWORD where "CBA_DEBUG_INFO \<equiv> 0x10000000"
abbreviation CBA_DEFERRED_SYMBOL_LOAD_PARTIAL :: DWORD where "CBA_DEFERRED_SYMBOL_LOAD_PARTIAL \<equiv> 0x20"

definition symCallback :: "DWORD \<Rightarrow> wstr \<Rightarrow> dbg_state \<Rightarrow> fault + bool \<times> dbg_state" where
  "symCallback ActionCode txt st =
     (if ActionCode = CBA_DEBUG_INFO then bnd (say [txt] st) (\<lambda>st. Inr (True, st))
      else if ActionCode = CBA_DEFERRED_SYMBOL_LOAD_PARTIAL then
        bnd (say [W ''error: partial symbol load of '' @ txt @ [NL]] st) (\<lambda>st. Inr (False, st))
      else Inr (False, st))"

end
