(* ===== verification/Debugger_Facts.thy ===== *)
theory Debugger_Facts
  imports Debugger
begin

text \<open>
  What makes the debugger correct: what any part of a handler may do (\<open>progress\<close>), the process and
  thread tables against an abstract table (\<open>abs_event\<close>), one \<open>ContinueDebugEvent\<close> per event with the
  right status, at most one dump per process, and when the loop ends.
\<close>

section \<open>Tables\<close>

definition good_table :: "(DWORD, PROCESS_INFO) stdmap \<Rightarrow> bool" where
  "good_table P \<longleftrightarrow> sm_inv P \<and> (\<forall>k p. sm_find P k = Some p \<longrightarrow> sm_inv (Threads p))"

lemma good_inv: "good_table P \<Longrightarrow> sm_inv P"
  by (simp add: good_table_def)

lemma good_empty: "good_table []"
  by (simp add: good_table_def pm.invar_empty pm.lookup_empty)

lemma empty_process_threads [simp]: "sm_inv (Threads empty_process)" "\<not> fDumpWritten empty_process"
  by (simp_all add: empty_process_def pm.invar_empty)

lemma good_process: "good_table P \<Longrightarrow> sm_inv (Threads (sm_at empty_process P pid))"
  by (auto simp: good_table_def sm_at_def split: option.split)

lemma good_put: "good_table P \<Longrightarrow> sm_inv (Threads p) \<Longrightarrow> good_table (sm_put k p P)"
  by (auto simp: good_table_def pm.laws)

lemma good_touch: "good_table P \<Longrightarrow> good_table (sm_touch empty_process k P)"
  by (auto simp: good_table_def find_touch sm_at_def split: option.splits)

lemma good_erase: "good_table P \<Longrightarrow> good_table (sm_erase k P)"
  by (auto simp: good_table_def pm.laws split: if_splits)

lemma state_simps [simp]:
  "g_Processes (emit es st) = g_Processes st" "fFinished (emit es st) = fFinished st"
  "fTerminating (emit es st) = fTerminating st" "effects (emit es st) = effects st @ es"
  "process pid (emit es st) = process pid st" "thread pid tid (emit es st) = thread pid tid st"
  "effects (touch_process pid st) = effects st" "fFinished (touch_process pid st) = fFinished st"
  "fTerminating (touch_process pid st) = fTerminating st"
  "effects (update_process pid f st) = effects st" "fFinished (update_process pid f st) = fFinished st"
  "fTerminating (update_process pid f st) = fTerminating st"
  by (simp_all add: emit_def process_def thread_def touch_process_def update_process_def)

section \<open>What a part of a handler may do\<close>

fun is_continue :: "effect \<Rightarrow> bool" where
  "is_continue (Continue p t s) = True"
| "is_continue _ = False"

fun is_terminate :: "effect \<Rightarrow> bool" where
  "is_terminate (Terminate h c) = True"
| "is_terminate _ = False"

fun is_dump :: "effect \<Rightarrow> bool" where
  "is_dump (WriteDump p f t x) = True"
| "is_dump _ = False"

fun dump_of :: "DWORD \<Rightarrow> effect \<Rightarrow> bool" where
  "dump_of pid (WriteDump p f t x) = (p = pid)"
| "dump_of pid _ = False"

definition dumps :: "DWORD \<Rightarrow> effect list \<Rightarrow> nat" where
  "dumps pid es = length (filter (dump_of pid) es)"

lemma dumps_simps [simp]:
  "dumps pid [] = 0" "dumps pid (e # es) = (if dump_of pid e then 1 else 0) + dumps pid es"
  "dumps pid (es @ fs) = dumps pid es + dumps pid fs"
  by (simp_all add: dumps_def)

text \<open>
  A part of the handler of an event of process \<open>pid\<close> leaves the other processes alone, continues no
  event, and writes a dump of that process at most once, and only if \<open>fDumpWritten\<close> was not set yet.
\<close>

definition progress :: "DWORD \<Rightarrow> dbg_state \<Rightarrow> dbg_state \<Rightarrow> bool" where
  "progress pid st st' \<longleftrightarrow>
     (good_table (g_Processes st) \<longrightarrow>
        good_table (g_Processes st') \<and>
        (\<forall>q. q \<noteq> pid \<longrightarrow> sm_find (g_Processes st') q = sm_find (g_Processes st) q) \<and>
        dumps pid (effects st') + of_bool (fDumpWritten (process pid st)) \<le>
        dumps pid (effects st) + of_bool (fDumpWritten (process pid st'))) \<and>
     fFinished st' = fFinished st \<and>
     (\<exists>es. effects st' = effects st @ es \<and> filter is_continue es = [] \<and>
        (\<forall>q. q \<noteq> pid \<longrightarrow> dumps q es = 0))"

lemma progress_refl [intro, simp]: "progress pid st st"
  by (auto simp: progress_def)

lemma progress_trans [trans]:
  assumes "progress pid st st1" and "progress pid st1 st2"
  shows "progress pid st st2"
proof -
  obtain es where es: "effects st1 = effects st @ es" "filter is_continue es = []" "\<forall>q. q \<noteq> pid \<longrightarrow> dumps q es = 0"
    using assms(1) by (auto simp: progress_def)
  obtain fs where fs: "effects st2 = effects st1 @ fs" "filter is_continue fs = []" "\<forall>q. q \<noteq> pid \<longrightarrow> dumps q fs = 0"
    using assms(2) by (auto simp: progress_def)
  have "\<exists>gs. effects st2 = effects st @ gs \<and> filter is_continue gs = [] \<and> (\<forall>q. q \<noteq> pid \<longrightarrow> dumps q gs = 0)"
    using es fs by (intro exI [of _ "es @ fs"]) simp
  moreover have "fFinished st2 = fFinished st"
    using assms by (simp add: progress_def)
  moreover have "good_table (g_Processes st) \<longrightarrow> good_table (g_Processes st2) \<and>
      (\<forall>q. q \<noteq> pid \<longrightarrow> sm_find (g_Processes st2) q = sm_find (g_Processes st) q) \<and>
      dumps pid (effects st2) + of_bool (fDumpWritten (process pid st)) \<le>
      dumps pid (effects st) + of_bool (fDumpWritten (process pid st2))"
    using assms unfolding progress_def by fastforce
  ultimately show ?thesis
    by (simp add: progress_def)
qed

lemma progress_emit: "filter is_continue es = [] \<Longrightarrow> filter is_dump es = [] \<Longrightarrow> progress pid st (emit es st)"
proof -
  have "filter is_dump es = [] \<Longrightarrow> dumps q es = 0" for q
    by (induction es) (auto split: if_splits effect.splits, (metis dump_of.elims(2) is_dump.simps(1))+)
  then show "filter is_continue es = [] \<Longrightarrow> filter is_dump es = [] \<Longrightarrow> ?thesis"
    by (simp add: progress_def)
qed

lemma progress_terminate: "progress pid st (emit [Terminate h c] (st\<lparr>fTerminating := b\<rparr>))"
  by (simp add: progress_def process_def)

lemma progress_touch: "progress pid st (touch_process pid st)"
  by (auto simp: progress_def good_touch good_inv touch_process_def process_def find_touch_other)

lemma progress_update:
  assumes "\<And>p. sm_inv (Threads p) \<Longrightarrow> sm_inv (Threads (f p))" and "\<And>p. fDumpWritten p \<Longrightarrow> fDumpWritten (f p)"
  shows "progress pid st (update_process pid f st)"
proof -
  have "good_table (g_Processes st) \<Longrightarrow> good_table (g_Processes (update_process pid f st))"
    using assms(1) good_put good_process by (simp add: update_process_def process_def)
  moreover have "good_table (g_Processes st) \<Longrightarrow> process pid (update_process pid f st) = f (process pid st)"
    by (simp add: update_process_def process_def at_put good_table_def)
  ultimately show ?thesis
    using assms(2) by (auto simp: progress_def update_process_def good_table_def pm.laws)
qed

section \<open>A contract for the parts of a handler\<close>

declare ContinueDebugEvent_def [simp]

text \<open>A result with a state in it, which \<open>g\<close> selects, is reached by \<open>R\<close>.\<close>

definition leads :: "(dbg_state \<Rightarrow> dbg_state \<Rightarrow> bool) \<Rightarrow> dbg_state \<Rightarrow> ('x \<Rightarrow> dbg_state) \<Rightarrow> fault + 'x \<Rightarrow> bool" where
  "leads R st g m \<longleftrightarrow> (\<forall>x. m = Inr x \<longrightarrow> R st (g x))"

text \<open>
  A relation between states that the elementary steps of the handlers of process \<open>pid\<close> keep; \<open>tids\<close> are
  the threads that may be looked up. The client lemmas carry it over to the handlers.
\<close>

locale handler_steps =
  fixes pid :: DWORD and tids :: "DWORD set" and R :: "dbg_state \<Rightarrow> dbg_state \<Rightarrow> bool"
  assumes R_refl: "R st st"
    and R_trans: "R st st1 \<Longrightarrow> R st1 st2 \<Longrightarrow> R st st2"
    and R_emit: "filter is_continue es = [] \<Longrightarrow> filter is_dump es = [] \<Longrightarrow> filter is_terminate es = [] \<Longrightarrow>
      R st (emit es st)"
    and R_touch: "R st (touch_process pid st)"
    and R_touch_thread: "tid \<in> tids \<Longrightarrow> R st (touch_thread pid tid st)"
    and R_breakpoint: "R st (update_process pid (\<lambda>p. p\<lparr>fBreakpointSignalled := True\<rparr>) st)"
    and R_wow_breakpoint: "R st (update_process pid (\<lambda>p. p\<lparr>fWowBreakpointSignalled := True\<rparr>) st)"
    and R_dump: "\<not> fDumpWritten (process pid st) \<Longrightarrow> es = [] \<or> (\<exists>f t x h. es = [WriteDump pid f t x, Close h]) \<Longrightarrow>
      R st (emit es (update_process pid (\<lambda>p. p\<lparr>fDumpWritten := True\<rparr>) st))"
begin

lemma leads_Inr: "R st (g x) \<Longrightarrow> leads R st g (Inr x)"
  by (simp add: leads_def)

lemma leads_Inl: "leads R st g (Inl e)"
  by (simp add: leads_def)

lemma leads_bnd:
  assumes "leads R st g m" and "\<And>x. leads R (g x) h (k x)"
  shows "leads R st h (bnd m k)"
  using assms R_trans by (fastforce simp: leads_def bnd_eq_Inr)

lemma leads_after: "R st st1 \<Longrightarrow> leads R st1 g m \<Longrightarrow> leads R st g m"
  unfolding leads_def by (blast intro: R_trans)

lemma leads_say: "leads R st (\<lambda>x. x) (say ts st)"
proof (induction ts arbitrary: st)
  case (Cons t ts)
  have "leads R st (\<lambda>x. x) (say ts (emit [Say s] st))" for s
    by (rule leads_after [OF R_emit Cons]) simp_all
  then show ?case
    by (auto simp: leads_def bnd_eq_Inr say.simps)
qed (simp add: leads_Inr R_refl say.simps)

lemma leads_say_if: "leads R st (\<lambda>x. x) (say_if b ts st)"
  by (simp add: say_if_def leads_say leads_Inr R_refl)

lemma leads_dump_thread: "leads R st snd (dump_thread os hP h st)"
  using leads_say R_refl
  by (auto simp: leads_def dump_thread_def bnd_eq_Inr split: option.splits)

lemma leads_writeDump: "leads R st (\<lambda>x. x) (writeDump os opts pid param st)"
proof (cases "fDumpWritten (process pid st)")
  case False
  have "leads R st (\<lambda>x. x) (say ts (emit es (update_process pid (\<lambda>p. p\<lparr>fDumpWritten := True\<rparr>) st)))"
    if "es = [] \<or> (\<exists>f t x h. es = [WriteDump pid f t x, Close h])" for es ts
    by (rule leads_after [OF R_dump leads_say]) (use False that in auto)
  with False show ?thesis
    by (simp add: writeDump_def Let_def)
qed (simp add: writeDump_def leads_Inr R_refl)

lemma leads_resume_thread:
  assumes "resume_dwThreadId opts = 0 \<or> resume_dwThreadId opts \<in> tids"
  shows "leads R st (\<lambda>x. x) (resume_thread os opts pid st)"
proof (cases "resume_dwThreadId opts = 0")
  case False
  then have "R st (touch_thread pid (resume_dwThreadId opts) st)"
    using assms R_touch_thread by blast
  then have "leads R st (\<lambda>x. x) (say_if b ts (emit es (touch_thread pid (resume_dwThreadId opts) st)))"
    if "es = [] \<or> (\<exists>h. es = [Resume h])" for b ts es
    using that by (intro leads_after [OF R_trans [OF _ R_emit] leads_say_if]) auto
  then show ?thesis
    using False by (simp add: resume_thread_def Let_def)
qed (simp add: resume_thread_def leads_Inr R_refl)

lemma leads_attached:
  assumes "resume_dwThreadId opts = 0 \<or> resume_dwThreadId opts \<in> tids"
  shows "leads R st (\<lambda>x. x) (attached os opts pid st)"
proof -
  have "leads R st (\<lambda>x. x)
      (resume_thread os opts pid (emit es (update_process pid (\<lambda>p. p\<lparr>fBreakpointSignalled := True\<rparr>) st)))"
    if "es = [] \<or> (\<exists>h. es = [SignalEvent h, Close h])" for es
    using that by (intro leads_after [OF R_trans [OF R_breakpoint R_emit] leads_resume_thread [OF assms]]) auto
  then show ?thesis
    by (simp add: attached_def Let_def)
qed

lemma leads_first_chance:
  assumes "resume_dwThreadId opts = 0 \<or> resume_dwThreadId opts \<in> tids"
  shows "leads R st snd (first_chance_exception os opts pid code st)"
  using R_wow_breakpoint R_refl
  by (auto simp: first_chance_exception_def intro!: leads_Inr leads_bnd [OF leads_attached [OF assms]])

lemma leads_crash_dump: "leads R st (\<lambda>x. x) (crash_dump os opts pid tid r first shown st)"
  by (simp add: crash_dump_def leads_writeDump leads_Inr R_refl split: option.split)

lemma leads_dump_threads: "leads R st (\<lambda>x. x) (dump_threads os opts pid tid r first ths st)"
proof (induction ths arbitrary: st)
  case (Cons th ths)
  obtain t h where th: "th = (t, h)"
    by fastforce
  have "leads R st' (\<lambda>x. x) (bnd (crash_dump os opts pid tid r first shown st') (dump_threads os opts pid tid r first ths))"
    for shown st'
    by (rule leads_bnd [OF leads_crash_dump Cons])
  then show ?case
    using Cons th by (auto intro!: leads_bnd [OF leads_dump_thread])
qed (simp add: leads_Inr R_refl)

lemma leads_dump_exit: "tid \<in> tids \<Longrightarrow> leads R st (\<lambda>x. x) (dump_exit os pid tid st)"
  unfolding dump_exit_def Let_def
  by (rule leads_after [OF R_touch_thread], assumption, rule leads_bnd [OF leads_dump_thread])
    (auto intro!: leads_Inr R_refl)

text \<open>Other handlers, up to their final update of the tables.\<close>

lemma exit_thread_split:
  assumes "tid \<in> tids" and "on_exit_thread os opts pid tid code st = Inr st'"
  shows "\<exists>mid. R st mid \<and> st' = update_process pid (\<lambda>p. p\<lparr>Threads := sm_erase tid (Threads p)\<rparr>) mid"
proof -
  have "leads R s (\<lambda>x. x) (dump_exit os pid tid (touch_process pid s))" for s
    by (rule leads_after [OF R_touch leads_dump_exit [OF assms(1)]])
  then have "leads R st (\<lambda>x. x) (bnd (say_if v ts st) (\<lambda>st. let st = touch_process pid st in
      if \<not> fTerminating st \<and> b then dump_exit os pid tid st else Inr st))" for v ts b
    by (intro leads_bnd [OF leads_say_if]) (simp add: leads_Inr R_touch Let_def)
  then show ?thesis
    using assms(2) by (fastforce simp: on_exit_thread_def leads_def bnd_eq_Inr Let_def)
qed

lemma exit_process_split:
  assumes "tid \<in> tids" and "on_exit_process os opts pid tid code st = Inr st'"
  shows "\<exists>mid. R st mid \<and> st' = forget_process os pid mid"
proof -
  have "leads R s (\<lambda>x. x) (bnd (dump_exit os pid tid (touch_process pid s)) (writeDump os opts pid None))" for s
    by (rule leads_after [OF R_touch leads_bnd [OF leads_dump_exit [OF assms(1)] leads_writeDump]])
  then have "leads R st (\<lambda>x. x) (bnd (say_if v ts st) (\<lambda>st. let st = touch_process pid st in
      if \<not> fTerminating st \<and> b then bnd (dump_exit os pid tid st) (writeDump os opts pid None) else Inr st))" for v ts b
    by (intro leads_bnd [OF leads_say_if]) (simp add: leads_Inr R_touch Let_def)
  then show ?thesis
    using assms(2) by (fastforce simp: on_exit_process_def leads_def bnd_eq_Inr Let_def)
qed

text \<open>A second-chance exception, up to the termination of the process.\<close>

lemma second_chance_split:
  assumes "on_exception os opts pid tid r False st = Inr (status, st')"
  shows "status = DBG_EXCEPTION_NOT_HANDLED \<and>
    (\<exists>mid. R st mid \<and>
       st' = emit [Terminate (hProcess (process pid mid)) (ExceptionCode r)] (mid\<lparr>fTerminating := True\<rparr>))"
proof -
  obtain st1 st2 where s1: "say_if (verbose_flag opts) [verbose_exception pid tid (ExceptionCode r) False] st = Inr st1"
    and s2: "bnd (say (dumpException os (hProcess (process pid (touch_process pid st1))) r) (touch_process pid st1))
        (\<lambda>s. dump_threads os opts pid tid r False (Threads (process pid s)) s) = Inr st2"
    and st': "st' = emit [Terminate (hProcess (process pid st2)) (ExceptionCode r)] (st2\<lparr>fTerminating := True\<rparr>)"
      "status = DBG_EXCEPTION_NOT_HANDLED"
    using assms by (auto simp: on_exception_def exception_verdict_def report_exception_def bnd_eq_Inr)
  have "leads R st1 (\<lambda>x. x) (Inr st2)"
    unfolding s2 [symmetric] by (rule leads_after [OF R_touch leads_bnd [OF leads_say leads_dump_threads]])
  moreover have "leads R st (\<lambda>x. x) (Inr st1)"
    unfolding s1 [symmetric] by (rule leads_say_if)
  ultimately have "R st st2"
    using R_trans by (simp add: leads_def)
  then show ?thesis
    using st' by blast
qed

lemma create_thread_split:
  assumes "on_create_thread opts pid tid h st = Inr st'"
  shows "\<exists>mid. R st mid \<and> st' = set_thread pid tid h (touch_process pid mid)"
  using assms leads_say_if by (fastforce simp: on_create_thread_def leads_def bnd_eq_Inr)

lemma leads_unload: "leads R st (\<lambda>x. x) (on_unload_dll opts pid tid base st)"
  unfolding on_unload_dll_def Let_def
  by (rule leads_bnd [OF leads_say_if], rule leads_Inr, rule R_trans [OF R_touch R_emit]) simp_all

lemma leads_output_debug: "leads R st (\<lambda>x. x) (on_output_debug_string os opts pid tid a n u st)"
proof -
  have "leads R st' (\<lambda>x. x) (say ts (touch_process pid st'))" for st' ts
    by (rule leads_after [OF R_touch leads_say])
  then show ?thesis
    unfolding on_output_debug_string_def Let_def
    by (intro leads_bnd [OF leads_say_if]) (simp add: leads_Inr R_refl leads_Inl)
qed

lemma R_loadModule:
  assumes "loadModule os hP h n b st = return st'"
  shows "R st st'"
proof -
  have "\<exists>es. st' = emit es st \<and> filter is_continue es = [] \<and> filter is_dump es = [] \<and> filter is_terminate es = []"
    using assms
    by (auto simp: loadModule_def Let_def emit_def split: option.splits if_splits intro!: exI [of _ "_ # _"])
  then show ?thesis
    using R_emit by blast
qed

lemma R_load_dll:
  assumes "on_load_dll os opts pid tid hFile base st = return st'"
  shows "R st st'"
proof -
  obtain st1 where "say_if (verbose_flag opts) [W (verbose_ids ''LOAD_DLL'' pid tid @ '' lpBaseOfDll='' @ fmt_p base @ '' '') @
        name_or_empty (image_name os hFile) @ [NL]] st = Inr st1"
    and load: "loadModule os (hProcess (process pid (touch_process pid st1))) hFile (image_name os hFile) base
      (touch_process pid st1) = return st'"
    using assms by (auto simp: on_load_dll_def Let_def run_eq_return)
  then have "R st st1"
    using leads_say_if by (simp add: leads_def)
  then show ?thesis
    using R_trans [OF R_touch R_loadModule [OF load]] by (rule R_trans)
qed

lemma create_process_split:
  assumes "on_create_process os opts pid tid hFile hP hThread base st = return (Some st')"
  shows "\<exists>mid. R st mid \<and> R (emit [SymInit hP] (new_process opts pid tid hP hThread mid)) st'"
  using assms leads_say_if
  by (fastforce simp: on_create_process_def Let_def leads_def run_eq_return split: if_splits dest: R_loadModule)

end

text \<open>And the last step of a second-chance exception, with which the handler of exceptions is complete.\<close>

locale terminating_steps = handler_steps +
  assumes R_terminate: "R st (emit [Terminate h c] (st\<lparr>fTerminating := True\<rparr>))"
begin

lemma leads_report: "leads R st (\<lambda>x. x) (report_exception os opts pid tid r first st)"
proof -
  have "leads R st' (\<lambda>x. x) (Inr (if first then st' else emit [Terminate h c] (st'\<lparr>fTerminating := True\<rparr>)))" for st' h c
    by (simp add: leads_Inr R_refl R_terminate)
  then show ?thesis
    unfolding report_exception_def by (intro leads_bnd [OF leads_say] leads_bnd [OF leads_dump_threads])
qed

lemma leads_exception:
  assumes "resume_dwThreadId opts = 0 \<or> resume_dwThreadId opts \<in> tids"
  shows "leads R st snd (on_exception os opts pid tid r first st)"
proof -
  have chance: "leads R st' snd (exception_verdict os opts pid code first (touch_process pid st'))" for st' code
    by (rule leads_after [OF R_touch])
      (simp add: exception_verdict_def leads_first_chance [OF assms] leads_Inr R_refl)
  have report: "leads R st' snd (if b then bnd (report_exception os opts pid tid r first st') (\<lambda>st. Inr (status, st))
      else Inr (status, st'))" for st' b and status :: DWORD
    by (simp add: leads_Inr R_refl leads_bnd [OF leads_report])
  show ?thesis
    unfolding on_exception_def
    by (intro leads_bnd [OF leads_say_if] leads_bnd [OF chance]) (simp add: report split: prod.split)
qed

end

lemma progress_touch_thread: "progress pid st (touch_thread pid tid st)"
  unfolding touch_thread_def by (rule progress_update) simp_all

lemma progress_set_thread: "progress pid st (set_thread pid tid h st)"
  unfolding set_thread_def by (rule progress_update) (simp_all add: pm.invar_store)

lemma progress_dump:
  assumes "\<not> fDumpWritten (process pid st)" and "es = [] \<or> (\<exists>f t x h. es = [WriteDump pid f t x, Close h])"
  shows "progress pid st (emit es (update_process pid (\<lambda>p. p\<lparr>fDumpWritten := True\<rparr>) st))"
proof -
  define st1 where "st1 = update_process pid (\<lambda>p. p\<lparr>fDumpWritten := True\<rparr>) st"
  have "progress pid st st1"
    unfolding st1_def by (rule progress_update) simp_all
  moreover have "good_table (g_Processes st) \<Longrightarrow> fDumpWritten (process pid st1)"
    by (simp add: st1_def update_process_def process_def at_put good_inv)
  moreover have "effects st1 = effects st"
    by (simp add: st1_def)
  ultimately show ?thesis
    using assms unfolding st1_def [symmetric] by (auto simp: progress_def)
qed

interpretation prog: terminating_steps pid UNIV "progress pid" for pid
proof
  show "progress pid st st2" if "progress pid st st1" "progress pid st1 st2" for st st1 st2
    using that by (rule progress_trans)
  show "progress pid st (update_process pid (\<lambda>p. p\<lparr>fBreakpointSignalled := True\<rparr>) st)" for st
    by (rule progress_update) simp_all
  show "progress pid st (update_process pid (\<lambda>p. p\<lparr>fWowBreakpointSignalled := True\<rparr>) st)" for st
    by (rule progress_update) simp_all
qed (simp_all add: progress_emit progress_terminate progress_touch progress_touch_thread progress_dump)

text \<open>Short of its last step, no part of a handler terminates a process.\<close>

definition calm :: "dbg_state \<Rightarrow> dbg_state \<Rightarrow> bool" where
  "calm st st' \<longleftrightarrow> (\<exists>es. effects st' = effects st @ es \<and> filter is_terminate es = [])"

lemma calm_emit: "effects st' = effects st @ es \<Longrightarrow> filter is_terminate es = [] \<Longrightarrow> calm st st'"
  by (auto simp: calm_def)

interpretation quiet: handler_steps pid UNIV calm for pid
proof
  show "calm st st2" if "calm st st1" "calm st1 st2" for st st1 st2
    using that by (auto simp: calm_def)
  show "calm st (emit es (update_process pid (\<lambda>p. p\<lparr>fDumpWritten := True\<rparr>) st))"
    if "es = [] \<or> (\<exists>f t x h. es = [WriteDump pid f t x, Close h])" for es st
    by (rule calm_emit [of _ _ es]) (use that in auto)
  show "calm st (touch_thread pid tid st)" for tid st
    by (rule calm_emit [of _ _ "[]"]) (simp_all add: touch_thread_def)
qed (auto intro!: calm_emit)

section \<open>The tables against an abstract table\<close>

type_synonym abs_table = "DWORD \<Rightarrow> (HANDLE \<times> (DWORD \<Rightarrow> HANDLE option)) option"

definition abs_process :: "PROCESS_INFO \<Rightarrow> HANDLE \<times> (DWORD \<Rightarrow> HANDLE option)" where
  "abs_process p = (hProcess p, sm_find (Threads p))"

definition table_of :: "dbg_state \<Rightarrow> abs_table" where
  "table_of st pid = map_option abs_process (sm_find (g_Processes st) pid)"

text \<open>The threads of a live process in the list may be looked up without a change.\<close>

definition keeps :: "DWORD \<Rightarrow> DWORD set \<Rightarrow> dbg_state \<Rightarrow> dbg_state \<Rightarrow> bool" where
  "keeps pid tids st st' \<longleftrightarrow>
     (good_table (g_Processes st) \<and> (\<exists>h T. table_of st pid = Some (h, T) \<and> tids \<subseteq> dom T) \<longrightarrow>
      good_table (g_Processes st') \<and> table_of st' = table_of st)"

lemma table_of_update:
  assumes "good_table (g_Processes st)"
  shows "table_of (update_process pid f st) = (table_of st)(pid \<mapsto> abs_process (f (process pid st)))"
  by (rule ext) (simp add: table_of_def update_process_def find_put [OF good_inv [OF assms]])

lemma process_table: "table_of st pid = Some x \<Longrightarrow> abs_process (process pid st) = x"
  by (cases "sm_find (g_Processes st) pid") (simp_all add: table_of_def process_def sm_at_def)

lemma keeps_update:
  assumes "\<And>p. sm_inv (Threads p) \<Longrightarrow> tids \<subseteq> dom (sm_find (Threads p)) \<Longrightarrow>
      abs_process (f p) = abs_process p \<and> sm_inv (Threads (f p))"
  shows "keeps pid tids st (update_process pid f st)"
  unfolding keeps_def
proof (intro impI, elim conjE exE)
  fix h T
  assume good: "good_table (g_Processes st)" and T: "table_of st pid = Some (h, T)" "tids \<subseteq> dom T"
  have "sm_find (Threads (process pid st)) = T"
    using process_table [OF T(1)] by (simp add: abs_process_def)
  moreover have "sm_inv (Threads (process pid st))"
    using good_process [OF good] by (simp add: process_def)
  ultimately have f: "abs_process (f (process pid st)) = (h, T)" "sm_inv (Threads (f (process pid st)))"
    using assms [of "process pid st"] T process_table [OF T(1)] by auto
  have "good_table (g_Processes (update_process pid f st))"
    using good_put [OF good f(2)] by (simp add: update_process_def)
  moreover have "table_of (update_process pid f st) = table_of st"
    using table_of_update [OF good] f(1) T(1) by (simp add: fun_upd_idem)
  ultimately show "good_table (g_Processes (update_process pid f st)) \<and> table_of (update_process pid f st) = table_of st"
    by simp
qed

lemma table_of_same: "g_Processes st' = g_Processes st \<Longrightarrow> table_of st' = table_of st"
  by (simp add: table_of_def fun_eq_iff)

lemma keeps_same: "g_Processes st' = g_Processes st \<Longrightarrow> keeps pid tids st st'"
  using table_of_same [of st' st] by (simp add: keeps_def)

lemma touch_known:
  "table_of st pid \<noteq> None \<Longrightarrow> touch_process pid st = st"
  by (auto simp: table_of_def touch_process_def touch_present)

lemma keeps_touch: "keeps pid tids st (touch_process pid st)"
  unfolding keeps_def by (auto simp: touch_known)

lemma keeps_touch_thread: "tid \<in> tids \<Longrightarrow> keeps pid tids st (touch_thread pid tid st)"
  unfolding touch_thread_def
  by (rule keeps_update) (force simp: abs_process_def touch_present)

interpretation keep: terminating_steps pid tids "keeps pid tids" for pid tids
proof
  show "keeps pid tids st st2" if "keeps pid tids st st1" "keeps pid tids st1 st2" for st st1 st2
    using that by (auto simp: keeps_def)
  show "keeps pid tids st (update_process pid (\<lambda>p. p\<lparr>fBreakpointSignalled := True\<rparr>) st)" for st
    by (rule keeps_update) (simp add: abs_process_def)
  show "keeps pid tids st (update_process pid (\<lambda>p. p\<lparr>fWowBreakpointSignalled := True\<rparr>) st)" for st
    by (rule keeps_update) (simp add: abs_process_def)
  show "keeps pid tids st (emit es (update_process pid (\<lambda>p. p\<lparr>fDumpWritten := True\<rparr>) st))" for st es
  proof -
    have "keeps pid tids st (update_process pid (\<lambda>p. p\<lparr>fDumpWritten := True\<rparr>) st)"
      by (rule keeps_update) (simp add: abs_process_def)
    then show ?thesis
      by (simp add: keeps_def table_of_def fun_eq_iff)
  qed
qed (auto simp: keeps_touch keeps_touch_thread intro: keeps_same)

text \<open>What an event does to the abstract table.\<close>

definition abs_event :: "DEBUG_EVENT \<Rightarrow> abs_table \<Rightarrow> abs_table" where
  "abs_event ev M =
     (let pid = dwProcessId ev; tid = dwThreadId ev;
          h = (case M pid of Some (h, T) \<Rightarrow> h | None \<Rightarrow> 0);
          T = (case M pid of Some (h, T) \<Rightarrow> T | None \<Rightarrow> (\<lambda>_. None))
      in case event ev of
           CREATE_PROCESS_DEBUG_EVENT hFile hP hThread base \<Rightarrow> M(pid \<mapsto> (hP, T(tid \<mapsto> hThread)))
         | CREATE_THREAD_DEBUG_EVENT hThread \<Rightarrow> M(pid \<mapsto> (h, T(tid \<mapsto> hThread)))
         | EXIT_THREAD_DEBUG_EVENT code \<Rightarrow> M(pid \<mapsto> (h, T(tid := None)))
         | EXIT_PROCESS_DEBUG_EVENT code \<Rightarrow> M(pid := None)
         | _ \<Rightarrow> M)"

text \<open>An event that Windows may send: its process is known, and so is a thread that exits; the thread to
  be resumed after attaching, if any, is one of the process.\<close>

definition known_event :: "DebugOptions \<Rightarrow> DEBUG_EVENT \<Rightarrow> abs_table \<Rightarrow> bool" where
  "known_event opts ev M =
     (case event ev of
        CREATE_PROCESS_DEBUG_EVENT hFile hP hThread base \<Rightarrow> True
      | _ \<Rightarrow>
          (case M (dwProcessId ev) of
             None \<Rightarrow> False
           | Some (h, T) \<Rightarrow>
               (case event ev of
                  EXIT_THREAD_DEBUG_EVENT code \<Rightarrow> T (dwThreadId ev) \<noteq> None
                | EXIT_PROCESS_DEBUG_EVENT code \<Rightarrow> T (dwThreadId ev) \<noteq> None
                | EXCEPTION_DEBUG_EVENT r first \<Rightarrow>
                    resume_dwThreadId opts = 0 \<or> T (resume_dwThreadId opts) \<noteq> None
                | _ \<Rightarrow> True)))"

lemma keeps_known:
  "keeps pid tids st st' \<Longrightarrow> good_table (g_Processes st) \<Longrightarrow> table_of st pid = Some (h, T) \<Longrightarrow> tids \<subseteq> dom T \<Longrightarrow>
   good_table (g_Processes st') \<and> table_of st' = table_of st"
  by (auto simp: keeps_def)

lemma resumed_iff [simp]: "resumed m = return (Some (status, st)) \<longleftrightarrow> m = Inr st \<and> status = DBG_CONTINUE"
  by (auto simp: resumed_def bnd_eq_Inr)

lemma set_thread_table:
  assumes "good_table (g_Processes st)"
  shows "good_table (g_Processes (set_thread pid tid h st)) \<and>
    table_of (set_thread pid tid h st) =
      (table_of st)(pid \<mapsto> (hProcess (process pid st), (sm_find (Threads (process pid st)))(tid \<mapsto> h)))"
proof -
  have "sm_inv (Threads (process pid st))"
    using good_process [OF assms] by (simp add: process_def)
  then show ?thesis
    using good_put [OF assms] table_of_update [OF assms]
    by (simp add: set_thread_def abs_process_def update_process_def pm.invar_store find_put)
qed

lemma create_thread_table:
  assumes "on_create_thread opts pid tid hT st = Inr st'"
    and "good_table (g_Processes st)" and "table_of st pid = Some (h, T)"
  shows "good_table (g_Processes st') \<and> table_of st' = (table_of st)(pid \<mapsto> (h, T(tid \<mapsto> hT)))"
proof -
  obtain mid where "keeps pid {} st mid" and st': "st' = set_thread pid tid hT (touch_process pid mid)"
    using keep.create_thread_split [OF assms(1)] by blast
  then have mid: "good_table (g_Processes mid)" "table_of mid = table_of st"
    using keeps_known [OF _ assms(2,3)] by auto
  then have "touch_process pid mid = mid" "abs_process (process pid mid) = (h, T)"
    using assms(3) touch_known process_table by simp_all
  then show ?thesis
    using set_thread_table [OF mid(1), of pid tid hT] st' mid(2) by (simp add: abs_process_def)
qed

lemma exit_thread_table:
  assumes "on_exit_thread os opts pid tid code st = Inr st'"
    and "good_table (g_Processes st)" and "table_of st pid = Some (h, T)" and "T tid \<noteq> None"
  shows "good_table (g_Processes st') \<and> table_of st' = (table_of st)(pid \<mapsto> (h, T(tid := None)))"
proof -
  obtain mid where "keeps pid {tid} st mid"
    and st': "st' = update_process pid (\<lambda>p. p\<lparr>Threads := sm_erase tid (Threads p)\<rparr>) mid"
    using keep.exit_thread_split [OF _ assms(1)] by blast
  then have mid: "good_table (g_Processes mid)" "table_of mid = table_of st"
    using keeps_known [OF _ assms(2,3)] assms(4) by auto
  then have "abs_process (process pid mid) = (h, T)"
    using assms(3) process_table by simp
  moreover have "sm_inv (Threads (process pid mid))"
    using good_process [OF mid(1)] by (simp add: process_def)
  ultimately show ?thesis
    using st' mid table_of_update [OF mid(1)] good_put [OF mid(1)]
    by (simp add: abs_process_def update_process_def find_erase pm.invar_erase)
qed

lemma forget_process_simps:
  "g_Processes (forget_process os pid st) = sm_erase pid (g_Processes st)"
  "fFinished (forget_process os pid st) \<longleftrightarrow> fFinished st \<or> sm_erase pid (g_Processes st) = []"
  "\<exists>es. effects (forget_process os pid st) = effects st @ es \<and> filter is_continue es = [] \<and> filter is_dump es = []"
  by (auto simp: forget_process_def Let_def)

lemma exit_process_table:
  assumes "on_exit_process os opts pid tid code st = Inr st'"
    and "good_table (g_Processes st)" and "table_of st pid = Some (h, T)" and "T tid \<noteq> None"
  shows "good_table (g_Processes st') \<and> table_of st' = (table_of st)(pid := None)"
proof -
  obtain mid where "keeps pid {tid} st mid" and st': "st' = forget_process os pid mid"
    using keep.exit_process_split [OF _ assms(1)] by blast
  then have mid: "good_table (g_Processes mid)" "table_of mid = table_of st"
    using keeps_known [OF _ assms(2,3)] assms(4) by auto
  have "table_of st' = (table_of mid)(pid := None)"
    by (rule ext) (simp add: st' table_of_def forget_process_simps find_erase)
  then show ?thesis
    using st' mid good_erase by (simp add: forget_process_simps)
qed

lemma say_same: "say ts st = Inr st' \<Longrightarrow> g_Processes st' = g_Processes st"
  by (induction ts st rule: say.induct) (auto simp: say.simps bnd_eq_Inr)

lemma loadModule_same: "loadModule os hP h n b st = return st' \<Longrightarrow> g_Processes st' = g_Processes st"
  by (auto simp: loadModule_def Let_def split: option.splits if_splits)

lemma threads_of_table:
  "sm_find (Threads (process pid st)) = (case table_of st pid of Some (h, T) \<Rightarrow> T | None \<Rightarrow> (\<lambda>_. None))"
  by (cases "sm_find (g_Processes st) pid")
    (simp_all add: table_of_def abs_process_def process_def sm_at_def empty_process_def pm.lookup_empty fun_eq_iff)

lemma table_of_touch:
  assumes "good_table (g_Processes st)"
  shows "good_table (g_Processes (touch_process pid st))" and "process pid (touch_process pid st) = process pid st"
    and "table_of (touch_process pid st) = (table_of st)(pid \<mapsto> abs_process (process pid st))"
  using assms good_touch good_inv [OF assms]
  by (simp_all add: touch_process_def process_def) (simp add: table_of_def find_touch fun_eq_iff)

lemma new_process_table:
  assumes "good_table (g_Processes st)"
  shows "good_table (g_Processes (new_process opts pid tid hP hT st)) \<and>
    table_of (new_process opts pid tid hP hT st) =
      (table_of st)(pid \<mapsto> (hP, (sm_find (Threads (process pid st)))(tid \<mapsto> hT)))"
proof -
  define st1 where "st1 = touch_process pid st"
  define st2 where "st2 = update_process pid (\<lambda>p. p\<lparr>hProcess := hP, fDumpWritten := \<not> minidump opts\<rparr>) st1"
  note touch = table_of_touch [OF assms, of pid, folded st1_def]
  have "sm_inv (Threads (process pid st1))"
    using good_process [OF touch(1)] by (simp add: process_def)
  then have good2: "good_table (g_Processes st2)"
    using good_put [OF touch(1)] by (simp add: st2_def update_process_def)
  have "table_of st2 = (table_of st)(pid \<mapsto> (hP, sm_find (Threads (process pid st))))"
    using table_of_update [OF touch(1)] touch(2,3) by (simp add: st2_def abs_process_def)
  moreover have "Threads (process pid st2) = Threads (process pid st)" "hProcess (process pid st2) = hP"
    using touch(1,2) by (simp_all add: st2_def update_process_def process_def at_put good_inv)
  ultimately show ?thesis
    using set_thread_table [OF good2, of pid tid hT] by (simp add: new_process_def st1_def st2_def)
qed

lemma create_process_table:
  assumes "on_create_process os opts pid tid hFile hP hT base st = return (Some st')"
    and good: "good_table (g_Processes st)"
  shows "good_table (g_Processes st') \<and>
    table_of st' = (table_of st)(pid \<mapsto> (hP, (sm_find (Threads (process pid st)))(tid \<mapsto> hT)))"
proof -
  obtain mid where mid: "g_Processes mid = g_Processes st"
    and st': "g_Processes st' = g_Processes (new_process opts pid tid hP hT mid)"
    using assms(1)
    by (fastforce simp: on_create_process_def Let_def run_eq_return say_if_def split: if_splits
        dest: say_same loadModule_same)
  then have "table_of mid = table_of st" "process pid mid = process pid st"
    "table_of st' = table_of (new_process opts pid tid hP hT mid)"
    by (simp_all add: table_of_def process_def fun_eq_iff)
  then show ?thesis
    using new_process_table [of mid opts pid tid hP hT] good mid st' by simp
qed

lemma exception_table:
  assumes "on_exception os opts pid tid r first st = Inr (status, st')"
    and "good_table (g_Processes st)" and "table_of st pid = Some (h, T)"
    and "resume_dwThreadId opts = 0 \<or> T (resume_dwThreadId opts) \<noteq> None"
  shows "good_table (g_Processes st') \<and> table_of st' = table_of st"
proof -
  define tids where "tids = (if resume_dwThreadId opts = 0 then {} else {resume_dwThreadId opts})"
  have "keeps pid tids st st'"
    using keep.leads_exception [of opts tids pid st os tid r first] assms(1) by (simp add: leads_def tids_def)
  moreover have "tids \<subseteq> dom T"
    using assms(4) by (auto simp: tids_def)
  ultimately show ?thesis
    using keeps_known [OF _ assms(2,3)] by blast
qed

text \<open>One round of the loop: the events that leave the tables alone, then all.\<close>

lemma module_event_keeps:
  assumes "handle_event os opts ev st = return (Some (status, st'))"
    and "(\<exists>hFile base. event ev = LOAD_DLL_DEBUG_EVENT hFile base) \<or> (\<exists>base. event ev = UNLOAD_DLL_DEBUG_EVENT base) \<or>
      (\<exists>a n u. event ev = OUTPUT_DEBUG_STRING_EVENT a n u)"
  shows "keeps (dwProcessId ev) {} st st'"
  using assms
  by (auto simp: handle_event_def run_eq_return leads_def intro: keep.R_load_dll
      dest: keep.leads_unload [unfolded leads_def, rule_format]
        keep.leads_output_debug [unfolded leads_def, rule_format])

lemma log_event_same:
  assumes "handle_event os opts ev st = return (Some (status, st'))"
    and "event ev = RIP_EVENT \<or> (\<exists>c. event ev = OTHER_EVENT c)"
  shows "g_Processes st' = g_Processes st"
  using assms by (auto simp: handle_event_def say_if_def split: if_splits dest: say_same)

lemma handle_event_table:
  assumes h: "handle_event os opts ev st = return (Some (status, st'))"
    and good: "good_table (g_Processes st)" and known: "known_event opts ev (table_of st)"
  shows "good_table (g_Processes st') \<and> table_of st' = abs_event ev (table_of st)"
proof (cases "\<exists>hFile hP hT base. event ev = CREATE_PROCESS_DEBUG_EVENT hFile hP hT base")
  case True
  then obtain hFile hP hT base where ev: "event ev = CREATE_PROCESS_DEBUG_EVENT hFile hP hT base"
    by blast
  with h have "on_create_process os opts (dwProcessId ev) (dwThreadId ev) hFile hP hT base st = return (Some st')"
    by (auto simp: handle_event_def run_eq_return)
  from create_process_table [OF this good] ev show ?thesis
    by (simp add: abs_event_def threads_of_table Let_def)
next
  case False
  then obtain hp T where T: "table_of st (dwProcessId ev) = Some (hp, T)"
    using known by (auto simp: known_event_def split: option.splits debug_event.splits)
  note handlers = exception_table [OF _ good T] create_thread_table [OF _ good T]
    exit_thread_table [OF _ good T] exit_process_table [OF _ good T]
  show ?thesis
  proof (cases "event ev")
    case (EXCEPTION_DEBUG_EVENT r first)
    then show ?thesis
      using h known T handlers(1)
      by (simp add: handle_event_def known_event_def abs_event_def Let_def bnd_eq_Inr) blast
  next
    case (CREATE_THREAD_DEBUG_EVENT hT)
    then show ?thesis
      using h T handlers(2) by (simp add: handle_event_def abs_event_def Let_def) blast
  next
    case (EXIT_THREAD_DEBUG_EVENT code)
    then show ?thesis
      using h known T handlers(3) by (simp add: handle_event_def known_event_def abs_event_def Let_def) blast
  next
    case (EXIT_PROCESS_DEBUG_EVENT code)
    then show ?thesis
      using h known T handlers(4) by (simp add: handle_event_def known_event_def abs_event_def Let_def) blast
  qed (use False keeps_known [OF module_event_keeps [OF h] good T] log_event_same [OF h] good in
      \<open>simp_all add: abs_event_def Let_def table_of_def fun_eq_iff\<close>)
qed

section \<open>Effects of an event\<close>

definition starts_or_ends :: "debug_event \<Rightarrow> bool" where
  "starts_or_ends e \<longleftrightarrow> (case e of
     CREATE_PROCESS_DEBUG_EVENT hFile hP hT base \<Rightarrow> True | EXIT_PROCESS_DEBUG_EVENT code \<Rightarrow> True | _ \<Rightarrow> False)"

lemma exit_thread_progress:
  assumes "on_exit_thread os opts pid tid code st = Inr st'"
  shows "progress pid st st'"
proof -
  obtain mid where mid: "progress pid st mid"
    and st': "st' = update_process pid (\<lambda>p. p\<lparr>Threads := sm_erase tid (Threads p)\<rparr>) mid"
    using prog.exit_thread_split [OF UNIV_I assms] by blast
  have "progress pid mid st'"
    unfolding st' by (rule progress_update) (simp_all add: pm.invar_erase)
  with mid show ?thesis
    by (rule progress_trans)
qed

lemma create_thread_progress: "on_create_thread opts pid tid h st = Inr st' \<Longrightarrow> progress pid st st'"
  using prog.create_thread_split [of opts pid tid h st st']
  by (blast intro: progress_trans progress_touch progress_set_thread)

lemma handle_event_progress:
  assumes "handle_event os opts ev st = return (Some (status, st'))" and "\<not> starts_or_ends (event ev)"
  shows "progress (dwProcessId ev) st st'"
proof (cases "event ev")
  case (EXCEPTION_DEBUG_EVENT r first)
  then have "on_exception os opts (dwProcessId ev) (dwThreadId ev) r first st = Inr (status, st')"
    using assms(1) by (auto simp: handle_event_def bnd_eq_Inr)
  then show ?thesis
    using prog.leads_exception [of opts "dwProcessId ev" st os "dwThreadId ev" r first] by (simp add: leads_def)
next
  case (OUTPUT_DEBUG_STRING_EVENT a n u)
  then show ?thesis
    using assms(1) prog.leads_output_debug [of "dwProcessId ev" st os opts "dwThreadId ev" a n u]
    by (simp add: handle_event_def leads_def Let_def)
next
  case (UNLOAD_DLL_DEBUG_EVENT base)
  then show ?thesis
    using assms(1) prog.leads_unload [of "dwProcessId ev" st opts "dwThreadId ev" base]
    by (simp add: handle_event_def leads_def Let_def)
next
  case RIP_EVENT
  then show ?thesis
    using assms(1) prog.leads_say_if [of "dwProcessId ev" st]
    by (simp add: handle_event_def leads_def Let_def) blast
next
  case (OTHER_EVENT c)
  then show ?thesis
    using assms(1) prog.leads_say_if [of "dwProcessId ev" st]
    by (simp add: handle_event_def leads_def Let_def) blast
qed (use assms in \<open>auto simp: handle_event_def starts_or_ends_def run_eq_return
      intro: exit_thread_progress create_thread_progress prog.R_load_dll\<close>)

lemma handle_exit_process:
  assumes "handle_event os opts ev st = return (Some (status, st'))" and "event ev = EXIT_PROCESS_DEBUG_EVENT code"
  shows "\<exists>mid. progress (dwProcessId ev) st mid \<and> st' = forget_process os (dwProcessId ev) mid"
  using assms prog.exit_process_split [OF UNIV_I] by (simp add: handle_event_def) blast

lemma handle_create_process:
  assumes "handle_event os opts ev st = return (Some (status, st'))"
    and "event ev = CREATE_PROCESS_DEBUG_EVENT hFile hP hT base"
  shows "\<exists>mid. progress (dwProcessId ev) st mid \<and>
    progress (dwProcessId ev) (emit [SymInit hP] (new_process opts (dwProcessId ev) (dwThreadId ev) hP hT mid)) st'"
  using assms by (auto simp: handle_event_def run_eq_return dest!: prog.create_process_split)

text \<open>The effects of any event, and of which processes it may write a dump.\<close>

definition extends :: "DWORD \<Rightarrow> dbg_state \<Rightarrow> dbg_state \<Rightarrow> bool" where
  "extends pid st st' \<longleftrightarrow> (\<exists>es. effects st' = effects st @ es \<and> filter is_continue es = [] \<and>
     (\<forall>q. q \<noteq> pid \<longrightarrow> dumps q es = 0))"

lemma extends_trans: "extends pid st st1 \<Longrightarrow> extends pid st1 st2 \<Longrightarrow> extends pid st st2"
  unfolding extends_def by (elim exE conjE, rule_tac x = "es @ esa" in exI) simp

lemma progress_extends: "progress pid st st' \<Longrightarrow> extends pid st st'"
  by (auto simp: progress_def extends_def)

lemma no_dump_dumps: "filter is_dump es = [] \<Longrightarrow> dumps q es = 0"
  by (induction es) (auto split: if_splits effect.splits elim: dump_of.elims)

lemma forget_extends: "extends pid st (forget_process os pid st)"
  using forget_process_simps(3) [of os pid st] no_dump_dumps by (auto simp: extends_def)

lemma new_process_effects [simp]: "effects (new_process opts pid tid hP hT st) = effects st"
  "fFinished (new_process opts pid tid hP hT st) = fFinished st"
  by (simp_all add: new_process_def set_thread_def)

lemma handle_event_extends:
  assumes "handle_event os opts ev st = return (Some (status, st'))"
  shows "extends (dwProcessId ev) st st'"
proof (cases "starts_or_ends (event ev)")
  case False
  then show ?thesis
    using handle_event_progress [OF assms] by (simp add: progress_extends)
next
  case True
  then consider (exits) code where "event ev = EXIT_PROCESS_DEBUG_EVENT code"
    | (creates) hFile hP hT base where "event ev = CREATE_PROCESS_DEBUG_EVENT hFile hP hT base"
    by (auto simp: starts_or_ends_def split: debug_event.splits)
  then show ?thesis
  proof cases
    case exits
    then show ?thesis
      using handle_exit_process [OF assms] extends_trans forget_extends progress_extends by blast
  next
    case creates
    then obtain mid where mid: "progress (dwProcessId ev) st mid" and
      after: "progress (dwProcessId ev) (emit [SymInit hP] (new_process opts (dwProcessId ev) (dwThreadId ev) hP hT mid)) st'"
      using handle_create_process [OF assms] by blast
    have "extends (dwProcessId ev) mid (emit [SymInit hP] (new_process opts (dwProcessId ev) (dwThreadId ev) hP hT mid))"
      by (simp add: extends_def)
    then show ?thesis
      using mid after by (blast intro: extends_trans progress_extends)
  qed
qed

section \<open>Rounds of the loop\<close>

lemma step_cases:
  assumes "dbg_step os opts ev st = return (Some st')"
  obtains status mid where "handle_event os opts ev st = return (Some (status, mid))"
    and "st' = emit [Continue (dwProcessId ev) (dwThreadId ev) status] mid"
  using assms by (auto simp: dbg_step_def run_eq_return)

text \<open>The status with which an event is continued.\<close>

definition continue_status :: "DebugOptions \<Rightarrow> DEBUG_EVENT \<Rightarrow> PROCESS_INFO \<Rightarrow> DWORD" where
  "continue_status opts ev p =
     (case event ev of
        EXCEPTION_DEBUG_EVENT r first \<Rightarrow>
          (let code = ExceptionCode r in
           if first \<and>
              (code = STATUS_BREAKPOINT \<and> \<not> fBreakpointSignalled p \<and> \<not> breakpoint_flag opts \<or>
               code = STATUS_WX86_BREAKPOINT \<and> \<not> fWowBreakpointSignalled p \<or>
               code \<in> {THREAD_NAME_EXCEPTION, DBG_CONTROL_C, DBG_CONTROL_BREAK})
           then DBG_CONTINUE else DBG_EXCEPTION_NOT_HANDLED)
      | _ \<Rightarrow> DBG_CONTINUE)"

lemma first_chance_status:
  assumes "first_chance_exception os opts pid code st = Inr ((status, report), st')"
  shows "status = (if code = STATUS_BREAKPOINT \<and> \<not> fBreakpointSignalled (process pid st) \<and> \<not> breakpoint_flag opts \<or>
        code = STATUS_WX86_BREAKPOINT \<and> \<not> fWowBreakpointSignalled (process pid st) \<or>
        code \<in> {THREAD_NAME_EXCEPTION, DBG_CONTROL_C, DBG_CONTROL_BREAK}
      then DBG_CONTINUE else DBG_EXCEPTION_NOT_HANDLED)"
  using assms
  by (auto simp: first_chance_exception_def later_exception_def bnd_eq_Inr split: if_splits)

lemma process_after_say:
  "good_table (g_Processes st) \<Longrightarrow> say_if b ts st = Inr st1 \<Longrightarrow> process pid (touch_process pid st1) = process pid st"
  using table_of_touch(2) [of st1 pid]
  by (auto simp: say_if_def process_def dest: say_same split: if_splits)

lemma exception_status:
  assumes "on_exception os opts pid tid r first st = Inr (status, st')" and "good_table (g_Processes st)"
    and "event ev = EXCEPTION_DEBUG_EVENT r first"
  shows "status = continue_status opts ev (process pid st)"
proof -
  obtain st1 report st2 where st1: "say_if (verbose_flag opts) [verbose_exception pid tid (ExceptionCode r) first] st = Inr st1"
    and d: "exception_verdict os opts pid (ExceptionCode r) first (touch_process pid st1) = Inr ((status, report), st2)"
    using assms(1) by (auto simp: on_exception_def bnd_eq_Inr split: if_splits)
  show ?thesis
  proof (cases first)
    case True
    then have "first_chance_exception os opts pid (ExceptionCode r) (touch_process pid st1) = Inr ((status, report), st2)"
      using d by (simp add: exception_verdict_def)
    from first_chance_status [OF this] show ?thesis
      using True assms(3) process_after_say [OF assms(2) st1] by (simp add: continue_status_def Let_def)
  qed (use d assms(3) in \<open>simp add: continue_status_def exception_verdict_def\<close>)
qed

lemma handle_event_status:
  assumes "handle_event os opts ev st = return (Some (status, st'))" and "good_table (g_Processes st)"
  shows "status = continue_status opts ev (process (dwProcessId ev) st)"
proof (cases "event ev")
  case (EXCEPTION_DEBUG_EVENT r first)
  then show ?thesis
    using assms exception_status [OF _ assms(2) EXCEPTION_DEBUG_EVENT]
    by (simp add: handle_event_def bnd_eq_Inr) blast
qed (use assms in \<open>auto simp: handle_event_def continue_status_def run_eq_return\<close>)

text \<open>No event touches the other processes.\<close>

definition others :: "DWORD \<Rightarrow> dbg_state \<Rightarrow> dbg_state \<Rightarrow> bool" where
  "others pid st st' \<longleftrightarrow>
     (good_table (g_Processes st) \<longrightarrow> good_table (g_Processes st') \<and>
        (\<forall>q. q \<noteq> pid \<longrightarrow> sm_find (g_Processes st') q = sm_find (g_Processes st) q))"

lemma others_trans: "others pid st st1 \<Longrightarrow> others pid st1 st2 \<Longrightarrow> others pid st st2"
  by (simp add: others_def)

lemma progress_others: "progress pid st st' \<Longrightarrow> others pid st st'"
  by (simp add: progress_def others_def)

lemma forget_others: "others pid st (forget_process os pid st)"
  by (simp add: others_def forget_process_simps good_erase find_erase)

lemma others_update:
  assumes "\<And>p. sm_inv (Threads p) \<Longrightarrow> sm_inv (Threads (f p))"
  shows "others pid st (update_process pid f st)"
  using assms good_put good_process
  by (simp add: others_def update_process_def process_def) (simp add: good_inv find_put)

lemma others_emit: "others pid st st' \<Longrightarrow> others pid st (emit es st')"
  by (simp add: others_def)

lemma new_process_others: "others pid st (new_process opts pid tid hP hT st)"
proof -
  have "others pid (touch_process pid st)
      (update_process pid (\<lambda>p. p\<lparr>hProcess := hP, fDumpWritten := \<not> minidump opts\<rparr>) (touch_process pid st))"
    by (rule others_update) simp
  then show ?thesis
    unfolding new_process_def
    using others_trans progress_others progress_touch progress_set_thread by blast
qed

lemma handle_event_others:
  assumes "handle_event os opts ev st = return (Some (status, st'))"
  shows "others (dwProcessId ev) st st'"
proof (cases "starts_or_ends (event ev)")
  case False
  then show ?thesis
    using handle_event_progress [OF assms] by (simp add: progress_others)
next
  case True
  then consider (exits) code where "event ev = EXIT_PROCESS_DEBUG_EVENT code"
    | (creates) hFile hP hT base where "event ev = CREATE_PROCESS_DEBUG_EVENT hFile hP hT base"
    by (auto simp: starts_or_ends_def split: debug_event.splits)
  then show ?thesis
  proof cases
    case exits
    then show ?thesis
      using handle_exit_process [OF assms] others_trans forget_others progress_others by blast
  next
    case creates
    then show ?thesis
      using handle_create_process [OF assms] others_trans [OF progress_others others_trans [OF others_emit progress_others]]
        new_process_others by blast
  qed
qed

lemma process_same: "sm_find (g_Processes st') q = sm_find (g_Processes st) q \<Longrightarrow> process q st' = process q st"
  by (simp add: process_def sm_at_def)

text \<open>Dumps of a process over an event that does not start or end it, and over its end.\<close>

lemma step_dumps:
  assumes step: "dbg_step os opts ev st = return (Some st')" and good: "good_table (g_Processes st)"
    and other: "dwProcessId ev \<noteq> pid \<or> \<not> starts_or_ends (event ev)"
  shows "good_table (g_Processes st') \<and>
    dumps pid (effects st') + of_bool (fDumpWritten (process pid st)) \<le>
    dumps pid (effects st) + of_bool (fDumpWritten (process pid st'))"
proof -
  obtain status mid where h: "handle_event os opts ev st = return (Some (status, mid))"
    and st': "st' = emit [Continue (dwProcessId ev) (dwThreadId ev) status] mid"
    using step by (rule step_cases)
  have o: "good_table (g_Processes mid)"
    "dwProcessId ev \<noteq> pid \<longrightarrow> sm_find (g_Processes mid) pid = sm_find (g_Processes st) pid"
    using handle_event_others [OF h] good by (auto simp: others_def)
  show ?thesis
  proof (cases "dwProcessId ev = pid")
    case True
    then show ?thesis
      using handle_event_progress [OF h] other good st' by (simp add: progress_def)
  next
    case False
    then show ?thesis
      using o handle_event_extends [OF h] process_same [of mid pid st] st' by (auto simp: extends_def)
  qed
qed

lemma exit_dumps:
  assumes step: "dbg_step os opts ev st = return (Some st')" and good: "good_table (g_Processes st)"
    and exits: "event ev = EXIT_PROCESS_DEBUG_EVENT code" "dwProcessId ev = pid"
  shows "dumps pid (effects st') + of_bool (fDumpWritten (process pid st)) \<le> dumps pid (effects st) + 1"
proof -
  obtain status mid where h: "handle_event os opts ev st = return (Some (status, mid))"
    and st': "st' = emit [Continue (dwProcessId ev) (dwThreadId ev) status] mid"
    using step by (rule step_cases)
  obtain m where "progress pid st m" "mid = forget_process os pid m"
    using handle_exit_process [OF h exits(1)] exits(2) by blast
  moreover obtain es where "effects mid = effects m @ es" "filter is_dump es = []"
    using forget_process_simps(3) [of os pid m] calculation by auto
  moreover have "dumps pid es = 0"
    using calculation no_dump_dumps by blast
  ultimately show ?thesis
    using good st' by (auto simp: progress_def of_bool_def split: if_splits)
qed

text \<open>Runs over a list of events.\<close>

fun dbg_run :: "'a dbg_os_scheme \<Rightarrow> DebugOptions \<Rightarrow> DEBUG_EVENT list \<Rightarrow> dbg_state \<Rightarrow>
    (fault + dbg_state option) option" where
  "dbg_run os opts [] st = return (Some st)"
| "dbg_run os opts (ev # evs) st =
     run (dbg_step os opts ev st) (\<lambda>r. case r of None \<Rightarrow> return None | Some st \<Rightarrow> dbg_run os opts evs st)"

lemma dbg_run_Cons:
  "dbg_run os opts (ev # evs) st = return (Some st') \<longleftrightarrow>
   (\<exists>st1. dbg_step os opts ev st = return (Some st1) \<and> dbg_run os opts evs st1 = return (Some st'))"
  by (auto simp: run_eq_return split: option.splits)

declare dbg_run.simps(2) [simp del]

lemma run_dumps:
  assumes "dbg_run os opts evs st = return (Some st')" and "good_table (g_Processes st)"
    and "list_all (\<lambda>ev. dwProcessId ev \<noteq> pid \<or> \<not> starts_or_ends (event ev)) evs"
  shows "good_table (g_Processes st') \<and>
    dumps pid (effects st') + of_bool (fDumpWritten (process pid st)) \<le>
    dumps pid (effects st) + of_bool (fDumpWritten (process pid st'))"
  using assms
proof (induction evs arbitrary: st)
  case (Cons ev evs)
  then obtain st1 where "dbg_step os opts ev st = return (Some st1)" "dbg_run os opts evs st1 = return (Some st')"
    by (auto simp: dbg_run_Cons)
  then show ?case
    using step_dumps [of os opts ev st st1 pid] Cons by fastforce
qed simp

end
