(* ===== verification/Log_Client.thy ===== *)
theory Log_Client
  imports Log_Facts
begin

text \<open>
  The log and its clients (src/common/log.cpp): every text that is logged goes through the callback that a
  program has registered. The locale \<open>log_client\<close> is the contract of a routine that logs a sequence of texts on
  behalf of a program whose state the callback changes; the debugger, the report of the exception handler and
  the log itself provide it.
\<close>

section \<open>What a callback gets\<close>

text \<open>The arguments of the callback over a sequence of calls, text by text.\<close>

fun heard :: "wstr list \<Rightarrow> fault + wstr list" where
  "heard [] = Inr []"
| "heard (t # ts) = bnd (lprintf t) (\<lambda>(s, _). bnd (heard ts) (\<lambda>ss. Inr (s # ss)))"

lemma heard_append: "heard (ts @ us) = bnd (heard ts) (\<lambda>ss. bnd (heard us) (\<lambda>rs. Inr (ss @ rs)))"
  by (induction ts) (auto simp: bnd_def split: sum.split prod.split)

lemma heard_fits: "list_all fits ts \<Longrightarrow> heard ts = Inr ts"
  by (induction ts) (simp_all add: lprintf_fits)

lemma heard_no_NUL: "heard ts = Inr ss \<Longrightarrow> s \<in> set ss \<Longrightarrow> 0 \<notin> set s"
  by (induction ts arbitrary: ss)
    (auto simp: bnd_eq_Inr lprintf_def split: option.splits prod.splits dest: cstr_Some_no_NUL)

lemma log_output_heard: "log_output ts = bnd (heard ts) (\<lambda>ss. Inr (concat ss))"
  by (induction ts) (auto simp: bnd_def split: sum.split prod.split)

locale log_client =
  fixes callback :: "wstr \<Rightarrow> 's \<Rightarrow> 's" and deliver :: "wstr list \<Rightarrow> 's \<Rightarrow> fault + 's"
  assumes deliver_Nil: "deliver [] s = Inr s"
    and deliver_Cons: "deliver (t # ts) s = bnd (lprintf t) (\<lambda>(x, _). deliver ts (callback x s))"
begin

lemma deliver_heard: "deliver ts s = bnd (heard ts) (\<lambda>ss. Inr (fold callback ss s))"
  by (induction ts arbitrary: s) (auto simp: deliver_Nil deliver_Cons bnd_def split: sum.split prod.split)

lemma deliver_append: "deliver (ts @ us) s = bnd (deliver ts s) (deliver us)"
  by (simp add: deliver_heard heard_append) (auto simp: bnd_def deliver_heard split: sum.split)

lemma deliver_fits: "list_all fits ts \<Longrightarrow> deliver ts s = Inr (fold callback ts s)"
  by (simp add: deliver_heard heard_fits)

lemma delivered: "deliver ts s = Inr s' \<longleftrightarrow> (\<exists>ss. heard ts = Inr ss \<and> s' = fold callback ss s)"
  by (auto simp: deliver_heard bnd_eq_Inr)

text \<open>What the callback keeps is kept.\<close>

lemma deliver_keeps:
  assumes "deliver ts s = Inr s'" and "\<And>x s. f (callback x s) = f s"
  shows "f s' = f s"
proof -
  have "f (fold callback ss s) = f s" for ss
    by (induction ss arbitrary: s) (simp_all add: assms(2))
  then show ?thesis
    using assms(1) by (auto simp: delivered)
qed

end

section \<open>The registered callback\<close>

text \<open>The static \<open>g_Cb\<close>, and what it writes to; to begin with, that is the debug output of Windows.\<close>

record 's log_state =
  g_Cb :: "wstr \<Rightarrow> 's \<Rightarrow> 's"
  written :: 's

definition defaultCallback :: "wstr \<Rightarrow> wstr list \<Rightarrow> wstr list" where
  "defaultCallback s debug_output = debug_output @ [s]"

definition setDumpCallback :: "(wstr \<Rightarrow> 's \<Rightarrow> 's) \<Rightarrow> 's log_state \<Rightarrow> 's log_state" where
  "setDumpCallback cb st = st\<lparr>g_Cb := cb\<rparr>"

fun log_texts :: "wstr list \<Rightarrow> 's log_state \<Rightarrow> fault + 's log_state" where
  "log_texts [] st = Inr st"
| "log_texts (t # ts) st = bnd (lprintf t) (\<lambda>(s, _). log_texts ts (st\<lparr>written := g_Cb st s (written st)\<rparr>))"

interpretation logged: log_client "\<lambda>s st. st\<lparr>written := g_Cb st s (written st)\<rparr>" log_texts
  by unfold_locales simp_all

lemma logged_with: "fold (\<lambda>s st. st\<lparr>written := g_Cb st s (written st)\<rparr>) ss st = st\<lparr>written := fold (g_Cb st) ss (written st)\<rparr>"
  by (induction ss arbitrary: st) simp_all

text \<open>A client is served by the log once its callback is set.\<close>

context log_client
begin

lemma served:
  "log_texts ts (setDumpCallback callback st) =
   bnd (deliver ts (written st)) (\<lambda>s. Inr (st\<lparr>g_Cb := callback, written := s\<rparr>))"
  by (simp add: logged.deliver_heard deliver_heard logged_with setDumpCallback_def bnd_def split: sum.split)

end

lemma default_log:
  assumes "list_all fits ts"
  shows "log_texts ts \<lparr>g_Cb = defaultCallback, written = out\<rparr> = Inr \<lparr>g_Cb = defaultCallback, written = out @ ts\<rparr>"
proof -
  have "fold defaultCallback ts out = out @ ts"
    by (induction ts arbitrary: out) (simp_all add: defaultCallback_def)
  then show ?thesis
    using assms by (simp add: logged.deliver_fits logged_with)
qed

end
