(* ===== verification/Debugger_Props.thy ===== *)
theory Debugger_Props
  imports Debugger_Facts Log_Client
begin

text \<open>
  The properties of the debugger's event loop, over single rounds (\<open>dbg_step\<close>), runs over a list of
  events (\<open>dbg_run\<close>) and the loop itself (\<open>DebugMainLoop\<close>).
\<close>

section \<open>A sample system\<close>

definition sample_file :: file_os where
  "sample_file = log_os.extend sample_log
     (file_os.fields (\<lambda>_. (0, [])) (\<lambda>_. (0, 0)) (\<lambda>_. 0) (\<lambda>_. 0) (\<lambda>_. None) [] (\<lambda>_. None))"

text \<open>
  Three events arrive: process 7 raises an access violation for the second time, is unloaded a module, and
  exits. Contexts cannot be read, and the process holds one memory region of 16 bytes.
\<close>

definition sample_events :: "DEBUG_EVENT list" where
  "sample_events =
     [\<lparr>dwProcessId = 7, dwThreadId = 9, event = UNLOAD_DLL_DEBUG_EVENT 5\<rparr>,
      \<lparr>dwProcessId = 7, dwThreadId = 9, event = EXIT_PROCESS_DEBUG_EVENT 0\<rparr>]"

definition sample_dbg :: dbg_os where
  "sample_dbg = file_os.extend sample_file
     (dbg_os.fields
        (\<lambda>es. if es = [] then Some (hd sample_events) else Some (sample_events ! 1))
        (\<lambda>_ _. 0) (\<lambda>_ _. 0) (\<lambda>_ _ _. None) (\<lambda>_ _ _. None)
        (\<lambda>h a. if a < 32 then Some (if a < 16 then 0 else 1, 16) else None)
        (\<lambda>_. True) (\<lambda>_. True) (\<lambda>_ a n. Some (replicate n 65)) (\<lambda>_ _. 3) (\<lambda>_ _ _ _ _ _ _. True) (\<lambda>_ h. h))"

definition sample_opts :: DebugOptions where
  "sample_opts = \<lparr>breakpoint_flag = False, verbose_flag = False, debug_flag = False, first_chance = False,
     minidump = True, minidumpDir = None, hEvent = 11, resume_dwThreadId = 0, no_debug_string = False\<rparr>"

definition sample_process :: PROCESS_INFO where
  "sample_process = \<lparr>hProcess = 1, Threads = [(9, 4)], fBreakpointSignalled = False,
     fWowBreakpointSignalled = False, fDumpWritten = False\<rparr>"

definition sample_state :: dbg_state where
  "sample_state = \<lparr>g_Processes = [(7, sample_process)], fFinished = False, fTerminating = False, effects = []\<rparr>"

lemmas sample_defs = sample_dbg_def sample_file_def sample_log_def sample_sym_def sample_opts_def
  sample_process_def sample_state_def sample_events_def

lemmas sample_fields = dbg_os.defs file_os.defs log_os.defs sym_os.defs

lemma sample_good: "good_table (g_Processes sample_state)"
  by (auto simp: good_table_def sample_state_def sample_process_def sm_inv_def sm_find_def split: if_splits)

text \<open>What a module's end and a process' end do in the sample.\<close>

lemma sample_unload:
  "dbg_step sample_dbg sample_opts \<lparr>dwProcessId = 7, dwThreadId = 9, event = UNLOAD_DLL_DEBUG_EVENT 5\<rparr> sample_state =
   return (Some (emit [UnloadSymbols 1 5, Continue 7 9 DBG_CONTINUE] sample_state))"
  by code_simp

lemma sample_exit:
  "dbg_step sample_dbg sample_opts \<lparr>dwProcessId = 7, dwThreadId = 9, event = EXIT_PROCESS_DEBUG_EVENT 0\<rparr>
     (emit es sample_state) =
   return (Some \<lparr>g_Processes = [], fFinished = True, fTerminating = False,
     effects = es @ [SymClean 1, Continue 7 9 DBG_CONTINUE]\<rparr>)"
  by (simp add: dbg_step_def handle_event_def on_exit_process_def say_if_def resumed_def forget_process_def
      emit_def touch_process_def process_def sm_touch_def sm_at_def sm_find_def sm_erase_def isAbnormalExitCode_def
      sample_defs sample_fields Let_def)

section \<open>One round\<close>

text \<open>C7: every event is answered exactly once: the round for an event ends with one \<open>ContinueDebugEvent\<close> for
  the event's process and thread, the handlers issue none themselves, and its status is the specified one:
  only handled first-chance exceptions (the attach breakpoints, thread names and console control
  events) are swallowed; every other exception goes back to the program.\<close>

theorem one_continue_per_event:
  assumes "good_table (g_Processes st)" and "dbg_step os opts ev st = return (Some st')"
  shows "\<exists>es. effects st' = effects st @ es @
      [Continue (dwProcessId ev) (dwThreadId ev) (continue_status opts ev (process (dwProcessId ev) st))] \<and>
    filter is_continue es = []"
proof -
  obtain status mid where h: "handle_event os opts ev st = return (Some (status, mid))"
    and st': "st' = emit [Continue (dwProcessId ev) (dwThreadId ev) status] mid"
    using assms(2) by (rule step_cases)
  then show ?thesis
    using handle_event_extends [OF h] handle_event_status [OF h assms(1)] by (auto simp: extends_def)
qed

theorem one_continue_per_event_witness:
  "\<exists>es. [UnloadSymbols 1 5, Continue 7 9 DBG_CONTINUE] = es @ [Continue 7 9 DBG_CONTINUE] \<and> filter is_continue es = []"
  using one_continue_per_event [OF sample_good sample_unload]
  by (simp add: continue_status_def sample_state_def)

text \<open>C6: an exception that nobody handled (second chance) ends the program: the debugger asks Windows, as
  the last thing before it answers the event, to terminate that process and no other, with the exception's
  code and only this once, hands the exception back, and remembers that the exits that follow are its own doing.\<close>

theorem second_chance_terminates:
  assumes "good_table (g_Processes st)" and "table_of st (dwProcessId ev) = Some (h, T)"
    and "resume_dwThreadId opts = 0 \<or> T (resume_dwThreadId opts) \<noteq> None"
    and "event ev = EXCEPTION_DEBUG_EVENT r False" and "dbg_step os opts ev st = return (Some st')"
  shows "fTerminating st' \<and>
    (\<exists>es. effects st' = effects st @ es @ [Terminate h (ExceptionCode r),
       Continue (dwProcessId ev) (dwThreadId ev) DBG_EXCEPTION_NOT_HANDLED] \<and> filter is_terminate es = [])"
proof -
  let ?pid = "dwProcessId ev" and ?tid = "dwThreadId ev"
  obtain status mid where m: "on_exception os opts ?pid ?tid r False st = Inr (status, mid)"
    and st': "st' = emit [Continue ?pid ?tid status] mid"
    using assms(4,5) by (auto simp: dbg_step_def handle_event_def run_eq_return bnd_eq_Inr)
  obtain k where k: "status = DBG_EXCEPTION_NOT_HANDLED" "keeps ?pid {} st k"
    "mid = emit [Terminate (hProcess (process ?pid k)) (ExceptionCode r)] (k\<lparr>fTerminating := True\<rparr>)"
    using keep.second_chance_split [OF m] by blast
  then have "hProcess (process ?pid k) = h"
    using keeps_known [OF k(2) assms(1,2)] assms(2) process_table [of k ?pid "(h, T)"] by (simp add: abs_process_def)
  then have mid: "effects mid = effects k @ [Terminate h (ExceptionCode r)]" "fTerminating mid"
    using k(3) by (simp_all add: emit_def)
  obtain j where j: "calm st j"
    "mid = emit [Terminate (hProcess (process ?pid j)) (ExceptionCode r)] (j\<lparr>fTerminating := True\<rparr>)"
    using quiet.second_chance_split [OF m] by blast
  then obtain es where "effects j = effects st @ es" "filter is_terminate es = []"
    by (auto simp: calm_def)
  moreover have "effects j = effects k"
    using mid(1) j(2) by (simp add: emit_def)
  ultimately show ?thesis
    using st' k(1) mid by simp
qed

lemma table_sample: "table_of sample_state 7 = Some (1, sm_find [(9, 4)])"
  by (simp add: table_of_def abs_process_def sample_state_def sample_process_def sm_find_def)

definition sample_crash :: DEBUG_EVENT where
  "sample_crash = \<lparr>dwProcessId = 7, dwThreadId = 9, event = EXCEPTION_DEBUG_EVENT sample_exception False\<rparr>"

interpretation dbg_log: log_client "\<lambda>s. emit [Say s]" say
  by unfold_locales (simp_all add: say.simps)

lemma fold_say: "fold (\<lambda>s. emit [Say s]) ts st = emit (map Say ts) st"
  by (induction ts arbitrary: st) (simp_all add: emit_def)

lemma say_fits: "list_all fits ts \<Longrightarrow> say ts st = Inr (emit (map Say ts) st)"
  by (simp add: dbg_log.deliver_fits fold_say)

lemma sample_names_fit: "names_fit sample_dbg"
  by (simp add: names_fit_def sample_defs sample_fields zero_in_W)

lemma sample_crash_step:
  "\<exists>st'. dbg_step sample_dbg sample_opts sample_crash sample_state = return (Some st')"
proof -
  have "say (dumpException sample_dbg h r) st = Inr (emit (map Say (dumpException sample_dbg h r)) st)" for h r st
    using dumpException_fits [OF sample_names_fit] by (rule say_fits)
  moreover have "touch_process 7 sample_state = sample_state"
    by (rule touch_known) (simp add: table_sample)
  moreover have "Threads (process 7 sample_state) = [(9, 4)]"
    by (simp add: process_def sm_at_def sm_find_def sample_state_def sample_process_def)
  moreover have "dump_thread sample_dbg h t st = Inr (None, st)" for h t st
    by (simp add: dump_thread_def getThreadContext_def sample_dbg_def file_os.defs dbg_os.defs)
  ultimately show ?thesis
    by (simp add: dbg_step_def handle_event_def on_exception_def exception_verdict_def report_exception_def crash_dump_def
        sample_crash_def say_if_def sample_opts_def)
qed

theorem second_chance_terminates_witness:
  "\<exists>st'. dbg_step sample_dbg sample_opts sample_crash sample_state = return (Some st') \<and> fTerminating st' \<and>
    (\<exists>es. effects st' = es @ [Terminate 1 0xC0000005, Continue 7 9 DBG_EXCEPTION_NOT_HANDLED] \<and>
       filter is_terminate es = [])"
proof -
  obtain st' where st': "dbg_step sample_dbg sample_opts sample_crash sample_state = return (Some st')"
    using sample_crash_step by blast
  have "fTerminating st' \<and> (\<exists>es. effects st' = effects sample_state @ es @
      [Terminate 1 (ExceptionCode sample_exception),
       Continue (dwProcessId sample_crash) (dwThreadId sample_crash) DBG_EXCEPTION_NOT_HANDLED] \<and>
       filter is_terminate es = [])"
    by (rule second_chance_terminates [OF sample_good _ _ _ st', where T = "sm_find [(9, 4)]"])
      (simp_all add: sample_crash_def table_sample sample_opts_def)
  then show ?thesis
    using st' by (simp add: sample_crash_def sample_exception_def sample_state_def)
qed

text \<open>Resuming the thread that the options name leaves the tables and the process as they were.\<close>

lemma resume_thread_named:
  assumes "good_table (g_Processes st)" and "table_of st pid = Some (h, T)"
    and "resume_dwThreadId opts = 0 \<or> T (resume_dwThreadId opts) = Some hT"
    and "resume_thread os opts pid st = Inr st'"
  shows "process pid st' = process pid st \<and> table_of st' = table_of st \<and>
    (\<exists>failed. (\<forall>e \<in> set failed. \<exists>s. e = Say s) \<and>
      effects st' = effects st @ (if resume_dwThreadId opts \<noteq> 0 \<and> hT \<noteq> NULL then [Resume hT] else []) @ failed)"
proof (cases "resume_dwThreadId opts = 0")
  case True
  then show ?thesis
    using assms(4) by (intro conjI exI [of _ "[]"]) (simp_all add: resume_thread_def)
next
  case False
  let ?tid = "resume_dwThreadId opts"
  define m1 where "m1 = touch_thread pid ?tid st"
  have find: "sm_find (Threads (process pid st)) ?tid = Some hT"
    using threads_of_table [of pid st] assms(2,3) False by simp
  then have same: "process pid m1 = process pid st" and eff: "effects m1 = effects st"
    by (simp_all add: m1_def touch_thread_def update_process_def process_def at_put good_inv [OF assms(1)]
        touch_present)
  have "keeps pid {?tid} st m1"
    unfolding m1_def by (rule keep.R_touch_thread) simp
  then have tab: "table_of m1 = table_of st"
    using keeps_known [OF _ assms(1,2)] assms(3) False by auto
  have "thread pid ?tid m1 = hT"
    using find same by (simp add: thread_def sm_at_def)
  then obtain b ts where "say_if b [ts] (emit (if hT \<noteq> NULL then [Resume hT] else []) m1) = Inr st'"
    using assms(4) False by (auto simp: resume_thread_def Let_def m1_def [symmetric])
  then obtain failed where "st' = emit failed (emit (if hT \<noteq> NULL then [Resume hT] else []) m1)"
    and "\<forall>e \<in> set failed. \<exists>s. e = Say s"
    by (cases b) (fastforce simp: say_if_def say.simps bnd_eq_Inr emit_def intro: that [of "[]"] that)+
  then show ?thesis
    using False same tab eff table_of_same [of st' m1] by auto
qed

text \<open>C26: attaching: the first breakpoint of a process is the debugger's own attach breakpoint. It releases the
  program that waits for the event (signal, then close), resumes the thread that the options name, says
  so only if that failed, and is swallowed without a report; and the process is marked, so that the next
  breakpoint is treated as the program's own.\<close>

theorem attach_protocol:
  assumes "good_table (g_Processes st)" and "table_of st (dwProcessId ev) = Some (h, T)"
    and "resume_dwThreadId opts = 0 \<or> T (resume_dwThreadId opts) = Some hT"
    and "event ev = EXCEPTION_DEBUG_EVENT r True" and "ExceptionCode r = STATUS_BREAKPOINT"
    and "\<not> fBreakpointSignalled (process (dwProcessId ev) st)" and "\<not> breakpoint_flag opts"
    and "\<not> verbose_flag opts" and "dbg_step os opts ev st = return (Some st')"
  shows "fBreakpointSignalled (process (dwProcessId ev) st') \<and> table_of st' = table_of st \<and>
    (\<exists>failed. (\<forall>e \<in> set failed. \<exists>s. e = Say s) \<and>
      effects st' = effects st @ (if hEvent opts \<noteq> NULL then [SignalEvent (hEvent opts), Close (hEvent opts)] else []) @
        (if resume_dwThreadId opts \<noteq> 0 \<and> hT \<noteq> NULL then [Resume hT] else []) @ failed @
        [Continue (dwProcessId ev) (dwThreadId ev) DBG_CONTINUE])"
proof -
  let ?pid = "dwProcessId ev"
  let ?es = "if hEvent opts \<noteq> NULL then [SignalEvent (hEvent opts), Close (hEvent opts)] else []"
  define mark where "mark = emit ?es (update_process ?pid (\<lambda>p. p\<lparr>fBreakpointSignalled := True\<rparr>) st)"
  have "attached os opts ?pid st = resume_thread os opts ?pid mark"
    by (simp add: attached_def mark_def Let_def)
  then obtain mid where mid: "resume_thread os opts ?pid mark = Inr mid"
    and st': "st' = emit [Continue ?pid (dwThreadId ev) DBG_CONTINUE] mid"
    using assms(4-9) touch_known [of st ?pid] assms(2)
    by (cases "resume_thread os opts ?pid mark")
      (auto simp: dbg_step_def handle_event_def run_eq_return on_exception_def say_if_def exception_verdict_def
        first_chance_exception_def)
  have "keeps ?pid {} st mark"
    unfolding mark_def by (rule keep.R_trans [OF keep.R_breakpoint keep.R_emit]) simp_all
  then have mark: "good_table (g_Processes mark)" "table_of mark = table_of st"
    using keeps_known [OF _ assms(1,2)] by auto
  have "effects mark = effects st @ ?es" "fBreakpointSignalled (process ?pid mark)"
    by (simp_all add: mark_def update_process_def process_def at_put good_inv [OF assms(1)])
  moreover have known: "table_of mark ?pid = Some (h, T)"
    using mark(2) assms(2) by simp
  ultimately show ?thesis
    using resume_thread_named [OF mark(1) known assms(3) mid] mark(2) st' table_of_same [of st' mid] by auto
qed

definition sample_attach :: DEBUG_EVENT where
  "sample_attach = \<lparr>dwProcessId = 7, dwThreadId = 9,
     event = EXCEPTION_DEBUG_EVENT (sample_exception\<lparr>ExceptionCode := STATUS_BREAKPOINT\<rparr>) True\<rparr>"

lemma sample_attach_step:
  "dbg_step sample_dbg (sample_opts\<lparr>resume_dwThreadId := 9\<rparr>) sample_attach sample_state =
   return (Some \<lparr>g_Processes = [(7, sample_process\<lparr>fBreakpointSignalled := True\<rparr>)], fFinished = False,
     fTerminating = False, effects = [SignalEvent 11, Close 11, Resume 4, Continue 7 9 DBG_CONTINUE]\<rparr>)"
  by (simp add: dbg_step_def handle_event_def on_exception_def say_if_def exception_verdict_def
      first_chance_exception_def attached_def resume_thread_def touch_thread_def thread_def update_process_def
      emit_def touch_process_def process_def sm_touch_def sm_at_def sm_find_def sample_attach_def sample_defs
      sample_fields Let_def)

theorem attach_protocol_witness:
  "\<exists>failed. (\<forall>e \<in> set failed. \<exists>s. e = Say s) \<and>
     [SignalEvent 11, Close 11, Resume 4, Continue 7 9 DBG_CONTINUE] =
     [SignalEvent 11, Close 11] @ [Resume 4] @ failed @ [Continue 7 9 DBG_CONTINUE]"
  using attach_protocol [OF sample_good _ _ _ _ _ _ _ sample_attach_step,
      where h = 1 and T = "sm_find [(9, 4)]" and hT = 4 and r = "sample_exception\<lparr>ExceptionCode := STATUS_BREAKPOINT\<rparr>"]
  by (simp add: sample_attach_def table_sample sample_opts_def sample_state_def sample_process_def process_def
      sm_at_def sm_find_def)

text \<open>A debug string of the program reaches the log character by character, as long as it has fewer than
  1024 characters; a longer one overruns the buffer of the log, which brings the debugger down.\<close>

theorem debug_string_or_fault:
  assumes "good_table (g_Processes st)" and "event ev = OUTPUT_DEBUG_STRING_EVENT lpData n False"
    and "\<not> verbose_flag opts" and "\<not> no_debug_string opts"
    and "s = readProcessString os (hProcess (process (dwProcessId ev) st)) lpData (unat n)"
  shows "dbg_step os opts ev st =
    (if length s < 1024
     then return (Some (emit [Say (map ucast s), Continue (dwProcessId ev) (dwThreadId ev) DBG_CONTINUE]
                          (touch_process (dwProcessId ev) st)))
     else Some (Inl AccessViolation))"
proof -
  have "0 \<notin> set s"
    using assms(5) by (auto simp: readProcessString_def split: option.splits dest: set_takeWhileD)
  moreover have "(ucast b :: wchar) = 0 \<longleftrightarrow> b = 0" for b :: BYTE
    by (simp flip: unat_eq_0 add: unat_ucast_up)
  ultimately have "0 \<notin> (ucast :: BYTE \<Rightarrow> wchar) ` set s"
    by (auto dest: sym)
  moreover have "process (dwProcessId ev) (touch_process (dwProcessId ev) st) = process (dwProcessId ev) st"
    using table_of_touch(2) [OF assms(1)] .
  ultimately show ?thesis
    using assms(2-5) lprintf_fits [of "map ucast s"] lprintf_overrun [of "map ucast s"]
    by (auto simp: dbg_step_def handle_event_def on_output_debug_string_def say_if_def say.simps
        fits_def emit_def resumed_def Let_def)
qed

theorem debug_string_or_fault_witness:
  "dbg_step sample_dbg sample_opts \<lparr>dwProcessId = 7, dwThreadId = 9, event = OUTPUT_DEBUG_STRING_EVENT 0 2000 False\<rparr>
     sample_state = Some (Inl AccessViolation)"
proof -
  have "readProcessString sample_dbg (hProcess (process 7 sample_state)) 0 (unat (2000 :: WORD)) = replicate 2000 65"
    by (simp add: readProcessString_def sample_dbg_def file_os.defs dbg_os.defs)
  then show ?thesis
    using debug_string_or_fault [OF sample_good, where os = sample_dbg and opts = sample_opts and lpData = 0 and
        n = 2000 and ev = "\<lparr>dwProcessId = 7, dwThreadId = 9, event = OUTPUT_DEBUG_STRING_EVENT 0 2000 False\<rparr>" and
        s = "replicate 2000 65"]
    by (simp add: sample_opts_def)
qed

section \<open>Runs\<close>

text \<open>The events of a run, each known in the abstract table its predecessors leave.\<close>

fun known_run :: "DebugOptions \<Rightarrow> DEBUG_EVENT list \<Rightarrow> abs_table \<Rightarrow> bool" where
  "known_run opts [] M = True"
| "known_run opts (ev # evs) M = (known_event opts ev M \<and> known_run opts evs (abs_event ev M))"

lemma run_tables:
  assumes "dbg_run os opts evs st = return (Some st')" and "good_table (g_Processes st)"
    and "known_run opts evs (table_of st)"
  shows "good_table (g_Processes st') \<and> table_of st' = fold abs_event evs (table_of st)"
  using assms
proof (induction evs arbitrary: st)
  case (Cons ev evs)
  then obtain st1 where step: "dbg_step os opts ev st = return (Some st1)"
    and rest: "dbg_run os opts evs st1 = return (Some st')"
    by (auto simp: dbg_run_Cons)
  obtain status mid where "handle_event os opts ev st = return (Some (status, mid))"
    and "st1 = emit [Continue (dwProcessId ev) (dwThreadId ev) status] mid"
    using step by (rule step_cases)
  then have "good_table (g_Processes st1) \<and> table_of st1 = abs_event ev (table_of st)"
    using handle_event_table Cons.prems(2,3) table_of_same [of st1 mid] by (metis known_run.simps(2) state_simps(1))
  then show ?case
    using Cons.IH [OF rest] Cons.prems(3) by simp
qed simp

text \<open>C2: the process and thread tables refine an abstract table over whole runs: after any sequence of events
  that Windows may send, the two-level \<open>std::map\<close> holds exactly the processes and threads that were
  created and have not exited, with the handles that came with their creation; reports, dumps and
  look-ups on the way change nothing of it.\<close>

theorem tables_refine:
  assumes "dbg_run os opts evs st = return (Some st')" and "good_table (g_Processes st)"
    and "known_run opts evs (table_of st)"
  shows "good_table (g_Processes st') \<and> table_of st' = fold abs_event evs (table_of st)"
  using assms by (rule run_tables)

lemma sample_run:
  "dbg_run sample_dbg sample_opts sample_events sample_state =
   return (Some \<lparr>g_Processes = [], fFinished = True, fTerminating = False,
     effects = [UnloadSymbols 1 5, Continue 7 9 DBG_CONTINUE, SymClean 1, Continue 7 9 DBG_CONTINUE]\<rparr>)"
  by (simp add: sample_events_def dbg_run.simps(2) sample_unload sample_exit)

lemma sample_known: "known_run sample_opts sample_events (table_of sample_state)"
  by (simp add: sample_events_def known_event_def abs_event_def Let_def table_sample sm_find_def)

theorem tables_refine_witness:
  "fold abs_event sample_events (table_of sample_state) = (\<lambda>_. None)"
  using tables_refine [OF sample_run sample_good sample_known]
  by (simp add: table_of_def sm_find_def fun_eq_iff)

text \<open>C30: the tables stay well-formed (strictly ascending keys in both levels) over every run, also one with
  events of unknown processes and threads, and a process that no event names keeps its entry, threads
  and flags included.\<close>

theorem tables_well_formed:
  assumes "dbg_run os opts evs st = return (Some st')" and "good_table (g_Processes st)"
  shows "good_table (g_Processes st') \<and>
    (\<forall>q. q \<notin> dwProcessId ` set evs \<longrightarrow> sm_find (g_Processes st') q = sm_find (g_Processes st) q)"
  using assms
proof (induction evs arbitrary: st)
  case (Cons ev evs)
  then obtain st1 where step: "dbg_step os opts ev st = return (Some st1)"
    and rest: "dbg_run os opts evs st1 = return (Some st')"
    by (auto simp: dbg_run_Cons)
  obtain status mid where h: "handle_event os opts ev st = return (Some (status, mid))"
    and "st1 = emit [Continue (dwProcessId ev) (dwThreadId ev) status] mid"
    using step by (rule step_cases)
  then have "good_table (g_Processes st1) \<and>
      (\<forall>q. q \<noteq> dwProcessId ev \<longrightarrow> sm_find (g_Processes st1) q = sm_find (g_Processes st) q)"
    using handle_event_others [OF h] Cons.prems(2) by (simp add: others_def)
  then show ?case
    using Cons.IH [OF rest] by simp
qed simp

theorem tables_well_formed_witness: "good_table [] \<and> sm_find ([] :: (DWORD, PROCESS_INFO) stdmap) 3 = None"
  using tables_well_formed [OF sample_run sample_good]
  by (simp add: sample_events_def sample_state_def sm_find_def)

text \<open>Dumps from the creation of a process to its exit.\<close>

lemma say_emits: "say ts st = Inr st' \<Longrightarrow> \<exists>es. st' = emit es st \<and> filter is_dump es = []"
proof (induction ts arbitrary: st)
  case Nil
  then show ?case
    by (intro exI [of _ "[]"]) (simp add: say.simps emit_def)
next
  case (Cons t ts)
  then obtain s es where "st' = emit es (emit [Say s] st)" "filter is_dump es = []"
    by (fastforce simp: say.simps bnd_eq_Inr)
  then show ?case
    by (intro exI [of _ "Say s # es"]) (simp add: emit_def)
qed

lemma say_if_emits: "say_if b ts st = Inr st' \<Longrightarrow> \<exists>es. st' = emit es st \<and> filter is_dump es = []"
  using say_emits by (fastforce simp: say_if_def emit_def split: if_splits intro: exI [of _ "[]"])

lemma loadModule_emits: "loadModule os hP h n b st = return st' \<Longrightarrow> \<exists>es. st' = emit es st \<and> filter is_dump es = []"
  by (auto simp: loadModule_def Let_def emit_def split: option.splits if_splits intro!: exI [of _ "_ # _"])

lemma new_process_dump_flag:
  assumes "good_table (g_Processes st)"
  shows "fDumpWritten (process pid (new_process opts pid tid hP hT st)) \<longleftrightarrow> \<not> minidump opts"
proof -
  have inv: "sm_inv (sm_touch empty_process pid (g_Processes st))"
    using good_inv [OF assms] by simp
  then show ?thesis
    by (simp add: new_process_def set_thread_def update_process_def process_def touch_process_def at_put sorted_put)
qed

lemma create_dumps:
  assumes step: "dbg_step os opts ev st = return (Some st')" and good: "good_table (g_Processes st)"
    and creates: "event ev = CREATE_PROCESS_DEBUG_EVENT hFile hP hT base" "dwProcessId ev = pid"
  shows "good_table (g_Processes st') \<and> dumps pid (effects st') = dumps pid (effects st) \<and>
    (fDumpWritten (process pid st') \<longleftrightarrow> \<not> minidump opts)"
proof -
  obtain status mid where h: "handle_event os opts ev st = return (Some (status, mid))"
    and st': "st' = emit [Continue (dwProcessId ev) (dwThreadId ev) status] mid"
    using step by (rule step_cases)
  then have "on_create_process os opts pid (dwThreadId ev) hFile hP hT base st = return (Some mid)"
    using creates by (auto simp: handle_event_def run_eq_return)
  then obtain es fs where "mid = emit fs (emit [SymInit hP] (new_process opts pid (dwThreadId ev) hP hT (emit es st)))"
    "filter is_dump es = []" "filter is_dump fs = []"
    by (auto simp: on_create_process_def Let_def run_eq_return split: if_splits
        dest!: say_if_emits loadModule_emits)
  then show ?thesis
    using st' good new_process_table [of "emit es st"] new_process_dump_flag [of "emit es st"]
    by (simp add: no_dump_dumps)
qed

lemma dbg_run_append:
  "dbg_run os opts (evs @ evs') st = return (Some st') \<longleftrightarrow>
   (\<exists>st1. dbg_run os opts evs st = return (Some st1) \<and> dbg_run os opts evs' st1 = return (Some st'))"
  by (induction evs arbitrary: st) (auto simp: dbg_run_Cons)

text \<open>C17: at most one minidump is written of a process, from its creation to its exit and whatever happens to
  it or to other processes in between (any number of crashes, threads and modules), and none at all when
  minidumps are switched off.\<close>

theorem at_most_one_dump:
  assumes "dbg_run os opts (c # evs @ [x]) st = return (Some st')" and "good_table (g_Processes st)"
    and "event c = CREATE_PROCESS_DEBUG_EVENT hFile hP hT base" and "dwProcessId c = pid"
    and "list_all (\<lambda>ev. dwProcessId ev \<noteq> pid \<or> \<not> starts_or_ends (event ev)) evs"
    and "event x = EXIT_PROCESS_DEBUG_EVENT code" and "dwProcessId x = pid"
  shows "dumps pid (effects st') \<le> dumps pid (effects st) + (if minidump opts then 1 else 0)"
proof -
  obtain st1 st2 where steps: "dbg_step os opts c st = return (Some st1)" "dbg_run os opts evs st1 = return (Some st2)"
    "dbg_step os opts x st2 = return (Some st')"
    using assms(1) by (auto simp: dbg_run_Cons dbg_run_append)
  note c = create_dumps [OF steps(1) assms(2-4)]
  note r = run_dumps [OF steps(2) _ assms(5)]
  have "dumps pid (effects st') + of_bool (fDumpWritten (process pid st2)) \<le> dumps pid (effects st2) + 1"
    by (rule exit_dumps [OF steps(3) _ assms(6,7)]) (use c r in blast)
  then show ?thesis
    using c r by (auto simp: of_bool_def split: if_splits)
qed

definition sample_create :: DEBUG_EVENT where
  "sample_create = \<lparr>dwProcessId = 7, dwThreadId = 9, event = CREATE_PROCESS_DEBUG_EVENT 0 1 4 0\<rparr>"

definition sample_abort :: DEBUG_EVENT where
  "sample_abort = \<lparr>dwProcessId = 7, dwThreadId = 9, event = EXIT_PROCESS_DEBUG_EVENT 3\<rparr>"

definition empty_state :: dbg_state where
  "empty_state = \<lparr>g_Processes = [], fFinished = False, fTerminating = False, effects = []\<rparr>"

definition aborted_effects :: "effect list" where
  "aborted_effects =
     [SymInit 1, LoadSymbols 1 0 None 0 0, Continue 7 9 DBG_CONTINUE, WriteDump 7 (W ''7.dmp'') 0x1A25 None, Close 3,
      Say (W ''info: minidump written to 7.dmp'' @ [NL]), SymClean 1, Continue 7 9 DBG_CONTINUE]"

lemma sample_abort_run:
  "dbg_run sample_dbg sample_opts (sample_create # [] @ [sample_abort]) empty_state =
   return (Some \<lparr>g_Processes = [], fFinished = True, fTerminating = False, effects = aborted_effects\<rparr>)"
  by code_simp

theorem at_most_one_dump_witness: "dumps 7 aborted_effects \<le> 1"
  using at_most_one_dump [OF sample_abort_run]
  by (simp add: empty_state_def good_empty sample_create_def sample_abort_def sample_opts_def)

section \<open>The loop\<close>

text \<open>The rounds of the loop: events are waited for, handled and answered until the loop is finished.\<close>

inductive rounds :: "'a dbg_os_scheme \<Rightarrow> DebugOptions \<Rightarrow> dbg_state \<Rightarrow> DEBUG_EVENT list \<Rightarrow> dbg_state \<Rightarrow> bool"
  for os opts where
    rounds_Nil: "rounds os opts st [] st"
  | rounds_Cons: "\<not> fFinished st \<Longrightarrow> db_WaitForDebugEvent os (effects st) = Some ev \<Longrightarrow>
      dbg_step os opts ev st = return (Some st1) \<Longrightarrow> rounds os opts st1 evs st' \<Longrightarrow> rounds os opts st (ev # evs) st'"

inductive_cases rounds_NilE: "rounds os opts st [] st'"
inductive_cases rounds_ConsE: "rounds os opts st (ev # evs) st'"

lemma rounds_loop: "rounds os opts st evs st' \<Longrightarrow> debug_loop os opts st = debug_loop os opts st'"
proof (induction rule: rounds.induct)
  case (rounds_Cons st ev st1 evs st')
  then show ?case
    by (subst debug_loop.simps) simp
qed simp

lemma rounds_run: "rounds os opts st evs st' \<Longrightarrow> dbg_run os opts evs st = return (Some st')"
  by (induction rule: rounds.induct) (auto simp: dbg_run_Cons)

lemma rounds_step:
  "\<not> fFinished st \<Longrightarrow> db_WaitForDebugEvent os (effects st) = Some ev \<Longrightarrow> dbg_step os opts ev st = return (Some st1) \<Longrightarrow>
   \<exists>evs. rounds os opts st1 evs st' \<Longrightarrow> \<exists>evs. rounds os opts st evs st'"
  by (blast intro: rounds_Cons)

lemma debug_loop_rounds:
  assumes "debug_loop os opts st = Some r"
  shows "\<forall>st'. r = Inr (Returned True, st') \<longrightarrow> (\<exists>evs. rounds os opts st evs st') \<and> fFinished st'"
proof (rule debug_loop.raw_induct
    [where P = "\<lambda>os opts st r. \<forall>st'. r = Inr (Returned True, st') \<longrightarrow> (\<exists>evs. rounds os opts st evs st') \<and> fFinished st'", OF _ assms])
  fix f os opts st r
  assume IH: "\<And>os opts st r. f os opts st = Some r \<Longrightarrow>
      \<forall>st'. r = Inr (Returned True, st') \<longrightarrow> (\<exists>evs. rounds os opts st evs st') \<and> fFinished st'"
    and eq: "(if fFinished st then return (Returned True, st)
      else case db_WaitForDebugEvent os (effects st) of
           None \<Rightarrow> return (Returned False, emit [Debug ''WaitForDebugEvent''] st)
         | Some ev \<Rightarrow>
             case dbg_step os opts ev st of None \<Rightarrow> None
             | Some (Inl e) \<Rightarrow> Some (Inl e)
             | Some (Inr None) \<Rightarrow> return (ExitFailure, st)
             | Some (Inr (Some st)) \<Rightarrow> f os opts st) = Some r"
  show "\<forall>st'. r = Inr (Returned True, st') \<longrightarrow> (\<exists>evs. rounds os opts st evs st') \<and> fFinished st'"
    using eq by (auto split: if_splits option.splits sum.splits dest!: IH intro: rounds_Nil rounds_step)
qed

lemma debug_loop_returns:
  "debug_loop os opts st = Some (Inr (Returned True, st')) \<longleftrightarrow> (\<exists>evs. rounds os opts st evs st') \<and> fFinished st'"
proof
  assume "(\<exists>evs. rounds os opts st evs st') \<and> fFinished st'"
  then obtain evs where "debug_loop os opts st = debug_loop os opts st'" "fFinished st'"
    using rounds_loop by blast
  then show "debug_loop os opts st = Some (Inr (Returned True, st'))"
    using debug_loop.simps [of os opts st'] by simp
qed (simp add: debug_loop_rounds)

text \<open>\<open>fFinished\<close> is set by the exit that empties the table, and by nothing else.\<close>

lemma handle_finishes:
  assumes "handle_event os opts ev st = return (Some (status, st'))" and "\<not> fFinished st"
  shows "fFinished st' \<longleftrightarrow> (\<exists>code. event ev = EXIT_PROCESS_DEBUG_EVENT code) \<and> g_Processes st' = []"
proof (cases "starts_or_ends (event ev)")
  case False
  then show ?thesis
    using handle_event_progress [OF assms(1)] assms(2) by (auto simp: progress_def starts_or_ends_def)
next
  case True
  then consider (exits) code where "event ev = EXIT_PROCESS_DEBUG_EVENT code"
    | (creates) hFile hP hT base where "event ev = CREATE_PROCESS_DEBUG_EVENT hFile hP hT base"
    by (auto simp: starts_or_ends_def split: debug_event.splits)
  then show ?thesis
  proof cases
    case exits
    then obtain mid where "progress (dwProcessId ev) st mid" "st' = forget_process os (dwProcessId ev) mid"
      using handle_exit_process [OF assms(1)] by blast
    then show ?thesis
      using assms(2) exits by (auto simp: progress_def forget_process_simps)
  next
    case creates
    then obtain mid where "progress (dwProcessId ev) st mid"
      "progress (dwProcessId ev) (emit [SymInit hP] (new_process opts (dwProcessId ev) (dwThreadId ev) hP hT mid)) st'"
      using handle_create_process [OF assms(1)] by blast
    then show ?thesis
      using assms(2) creates by (auto simp: progress_def)
  qed
qed

lemma step_finishes:
  assumes "dbg_step os opts ev st = return (Some st')" and "\<not> fFinished st"
  shows "fFinished st' \<longleftrightarrow> (\<exists>code. event ev = EXIT_PROCESS_DEBUG_EVENT code) \<and> g_Processes st' = []"
proof -
  obtain status mid where h: "handle_event os opts ev st = return (Some (status, mid))"
    and "st' = emit [Continue (dwProcessId ev) (dwThreadId ev) status] mid"
    using assms(1) by (rule step_cases)
  then show ?thesis
    using handle_finishes [OF h assms(2)] by simp
qed

lemma rounds_finished:
  "rounds os opts st evs st' \<Longrightarrow> \<not> fFinished st \<Longrightarrow>
   fFinished st' \<longleftrightarrow> evs \<noteq> [] \<and> (\<exists>code. event (last evs) = EXIT_PROCESS_DEBUG_EVENT code) \<and> g_Processes st' = []"
proof (induction rule: rounds.induct)
  case (rounds_Cons st ev st1 evs st')
  show ?case
  proof (cases evs)
    case Nil
    then have "st1 = st'"
      using rounds_Cons.hyps(4) by (auto elim: rounds_NilE)
    then show ?thesis
      using step_finishes [OF rounds_Cons.hyps(3,1)] Nil by simp
  next
    case (Cons e es)
    then have "\<not> fFinished st1"
      using rounds_Cons.hyps(4) by (auto elim: rounds_ConsE)
    then show ?thesis
      using rounds_Cons.IH Cons by simp
  qed
qed simp

definition loop_start :: "(DWORD, PROCESS_INFO) stdmap \<Rightarrow> dbg_state" where
  "loop_start procs = \<lparr>g_Processes = procs, fFinished = False, fTerminating = False, effects = []\<rparr>"

lemma main_loop_start: "DebugMainLoop os opts procs = debug_loop os opts (loop_start procs)"
  by (simp add: DebugMainLoop_def loop_start_def)

text \<open>C15: the main loop returns TRUE if and only if the events that arrive lead, round by round, to the exit of a
  process that leaves no process in the table; it never reports success earlier, and it never waits for
  another event after that.\<close>

theorem main_loop_returns:
  "DebugMainLoop os opts procs = Some (Inr (Returned True, st')) \<longleftrightarrow>
   (\<exists>evs code. rounds os opts (loop_start procs) evs st' \<and> evs \<noteq> [] \<and>
      event (last evs) = EXIT_PROCESS_DEBUG_EVENT code \<and> g_Processes st' = [])"
proof -
  have "\<not> fFinished (loop_start procs)"
    by (simp add: loop_start_def)
  then show ?thesis
    using rounds_finished [of os opts "loop_start procs" _ st'] by (simp add: main_loop_start debug_loop_returns) blast
qed

text \<open>C16: the loop lives exactly as long as its debuggees: when the known events up to a process exit have been
  handled, it returns TRUE if all processes that were created have exited, and goes on with the same
  state otherwise (a program that has spawned children is debugged until the last of them is gone).\<close>

theorem loop_ends_with_last_debuggee:
  assumes "rounds os opts (loop_start procs) evs st'" and "good_table procs"
    and "known_run opts evs (table_of (loop_start procs))"
    and "evs \<noteq> []" and "event (last evs) = EXIT_PROCESS_DEBUG_EVENT code"
  shows "DebugMainLoop os opts procs =
    (if \<forall>pid. fold abs_event evs (table_of (loop_start procs)) pid = None
     then Some (Inr (Returned True, st')) else debug_loop os opts st') \<and>
    (fFinished st' \<longleftrightarrow> (\<forall>pid. fold abs_event evs (table_of (loop_start procs)) pid = None))"
proof -
  have "good_table (g_Processes st') \<and> table_of st' = fold abs_event evs (table_of (loop_start procs))"
    using run_tables [OF rounds_run [OF assms(1)] _ assms(3)] assms(2) by (simp add: loop_start_def)
  moreover have "g_Processes st' = [] \<longleftrightarrow> (\<forall>pid. table_of st' pid = None)"
    if "good_table (g_Processes st')"
    using pm.keys_Nil_iff [OF good_inv [OF that]] by (simp add: table_of_def)
  moreover have "fFinished st' \<longleftrightarrow> g_Processes st' = []"
    using rounds_finished [OF assms(1)] assms(4,5) by (simp add: loop_start_def)
  moreover have "DebugMainLoop os opts procs = debug_loop os opts st'"
    using rounds_loop [OF assms(1)] by (simp add: main_loop_start)
  ultimately show ?thesis
    using debug_loop.simps [of os opts st'] by auto
qed

lemma sample_loop_start: "loop_start [(7, sample_process)] = sample_state"
  by (simp add: loop_start_def sample_state_def)

lemma sample_rounds:
  "rounds sample_dbg sample_opts (loop_start [(7, sample_process)]) sample_events
     \<lparr>g_Processes = [], fFinished = True, fTerminating = False,
      effects = [UnloadSymbols 1 5, Continue 7 9 DBG_CONTINUE, SymClean 1, Continue 7 9 DBG_CONTINUE]\<rparr>"
proof -
  have wait: "db_WaitForDebugEvent sample_dbg [] = Some (sample_events ! 0)"
    "db_WaitForDebugEvent sample_dbg (e # es) = Some (sample_events ! 1)" for e es
    by (simp_all add: sample_dbg_def sample_events_def file_os.defs dbg_os.defs)
  show ?thesis
    unfolding sample_loop_start sample_events_def
  proof (rule rounds_Cons [OF _ _ sample_unload rounds_Cons [OF _ _ sample_exit]])
    show "db_WaitForDebugEvent sample_dbg (effects sample_state) =
        Some \<lparr>dwProcessId = 7, dwThreadId = 9, event = UNLOAD_DLL_DEBUG_EVENT 5\<rparr>"
      using wait(1) by (simp add: sample_state_def sample_events_def)
    show "db_WaitForDebugEvent sample_dbg
          (effects (emit [UnloadSymbols 1 5, Continue 7 9 DBG_CONTINUE] sample_state)) =
        Some \<lparr>dwProcessId = 7, dwThreadId = 9, event = EXIT_PROCESS_DEBUG_EVENT 0\<rparr>"
      using wait(2) by (simp add: sample_state_def sample_events_def)
  qed (simp_all add: sample_state_def rounds_Nil)
qed

theorem loop_ends_with_last_debuggee_witness:
  "\<exists>st'. DebugMainLoop sample_dbg sample_opts [(7, sample_process)] = Some (Inr (Returned True, st')) \<and> fFinished st'"
proof -
  have ends: "fold abs_event sample_events (table_of (loop_start [(7, sample_process)])) = (\<lambda>_. None)"
    by (simp add: sample_loop_start sample_events_def abs_event_def Let_def table_sample fun_eq_iff)
      (simp add: table_of_def sample_state_def sm_find_def)
  have "known_run sample_opts sample_events (table_of (loop_start [(7, sample_process)]))"
    using sample_known by (simp add: sample_loop_start)
  moreover have "good_table [(7, sample_process)]"
    using sample_good by (simp add: sample_state_def)
  moreover have "sample_events \<noteq> []" "event (last sample_events) = EXIT_PROCESS_DEBUG_EVENT 0"
    by (simp_all add: sample_events_def)
  ultimately show ?thesis
    using loop_ends_with_last_debuggee [OF sample_rounds] ends by simp
qed

section \<open>Module sizes\<close>

text \<open>The regions of a module from an address on, up to one that belongs to something else.\<close>

fun regions :: "(DWORD64 \<Rightarrow> (DWORD64 \<times> DWORD64) option) \<Rightarrow> DWORD64 \<Rightarrow> DWORD64 \<Rightarrow> DWORD64 list \<Rightarrow> bool" where
  "regions query base a [] = (\<forall>b s. query a = Some (b, s) \<longrightarrow> b \<noteq> base)"
| "regions query base a (s # ss) = (query a = Some (base, s) \<and> regions query base (a + s) ss)"

lemma unat_plus_ucast:
  assumes "unat (Size :: DWORD) + unat (s :: DWORD64) < 2 ^ 32"
  shows "unat (Size + ucast s) = unat Size + unat s"
proof -
  have "unat (ucast s :: DWORD) = unat s"
    using assms by (simp add: unsigned_ucast_eq take_bit_nat_eq_self_iff)
  then show ?thesis
    using assms by (simp add: unat_word_ariths)
qed

lemma ucast_plus_ucast:
  assumes "unat (Size :: DWORD) + unat (s :: DWORD64) < 2 ^ 32"
  shows "(ucast (Size + ucast s) :: DWORD64) = ucast Size + s"
proof -
  have "unat ((ucast Size :: DWORD64) + s) = unat Size + unat s"
    using assms by (simp add: unat_word_ariths unat_ucast_up)
  then show ?thesis
    using unat_plus_ucast [OF assms] by (simp add: word_unat_eq_iff unat_ucast_up)
qed

lemma module_size_loop_regions:
  "regions (query hP) base (base + ucast Size) ss \<Longrightarrow> unat Size + sum_list (map unat ss) < 2 ^ 32 \<Longrightarrow>
   module_size_loop query hP base Size = Some (word_of_nat (unat Size + sum_list (map unat ss)))"
proof (induction ss arbitrary: Size)
  case Nil
  then show ?case
    by (subst module_size_loop.simps) (simp split: option.split)
next
  case (Cons s ss)
  have fits: "unat Size + unat s < 2 ^ 32"
    using Cons.prems(2) by simp
  note next_unat = unat_plus_ucast [OF fits]
  have "regions (query hP) base (base + ucast (Size + ucast s :: DWORD)) ss"
    using Cons.prems(1) ucast_plus_ucast [OF fits] by (simp add: add.assoc)
  then have "module_size_loop query hP base (Size + ucast s) =
      Some (word_of_nat (unat (Size + ucast s :: DWORD) + sum_list (map unat ss)))"
    using Cons.IH Cons.prems(2) next_unat by simp
  then show ?case
    using Cons.prems(1) next_unat by (subst module_size_loop.simps) (simp add: add.assoc)
qed

text \<open>The size of a module is found, and is the exact sum of its consecutive memory regions up to the
  first one that is not its own, for every module smaller than 4 GB: no wrap-around, and the loop ends.\<close>

theorem module_size_exact:
  assumes "regions (db_VirtualQueryEx os hP) base base ss" and "sum_list (map unat ss) < 2 ^ 32"
  shows "getModuleSize os hP base = Some (word_of_nat (sum_list (map unat ss)))"
  using module_size_loop_regions [of "db_VirtualQueryEx os" hP base 0 ss] assms by (simp add: getModuleSize_def)

theorem module_size_exact_witness: "getModuleSize sample_dbg 1 0 = Some 16"
  using module_size_exact [of sample_dbg 1 0 "[16]"] by (simp add: sample_dbg_def file_os.defs dbg_os.defs)

end
