(* ===== verification/Exchndl.thy ===== *)
theory Exchndl
  imports Log
begin

text \<open>
  The exception handler library (src/exchndl/exchndl.cpp): the report file and its name, the report, the
  unhandled-exception filter and its installation when the DLL is loaded and unloaded. The static
  variables are \<open>exc_state\<close>; Windows and the libraries are the parameter \<open>exc_os\<close>. Function pointers are
  their addresses, 0 for none.
\<close>

record exc_os = log_os +
  ex_WideCharToMultiByte :: "wstr \<Rightarrow> BYTE list option"
    \<comment> \<open>the UTF-8 string, without its NUL; nothing when the conversion or its buffer fails\<close>
  ex_MultiByteToWideChar :: "BYTE list \<Rightarrow> wstr option"
  ex_GetModuleFileNameW :: "HANDLE \<Rightarrow> DWORD \<Rightarrow> DWORD \<times> wstr"   \<comment> \<open>the result and what is written to the buffer\<close>
  ex_GetDateFormatW :: wstr
  ex_GetTimeFormatW :: wstr
  ex_GetModuleHandleW_kernel32 :: HANDLE
  ex_CreateFileW :: "wstr \<Rightarrow> HANDLE"
  ex_GetStdHandle :: HANDLE
  ex_SymCleanup :: bool
  ex_version :: "DWORD \<times> DWORD \<times> DWORD"          \<comment> \<open>PACKAGE_VERSION, from the build\<close>
  ex_call_filter :: "HANDLE \<Rightarrow> EXCEPTION_RECORD \<times> context_memory \<Rightarrow> DWORD"
  ex_TopLevelExceptionFilter :: HANDLE             \<comment> \<open>the address of the filter below\<close>

datatype exc_effect =
    WriteFile HANDLE "BYTE list"
  | SeekToEnd HANDLE
  | Flush HANDLE
  | OpenReport wstr HANDLE
  | CloseReport HANDLE

record exc_state =
  g_bHandlerSet :: bool
  g_prevExceptionFilter :: HANDLE
  g_szLogFileName :: wstr
  g_hReportFile :: HANDLE
  g_bOwnReportFile :: bool
  cBeenHere :: DWORD
  unhandled_filter :: HANDLE           \<comment> \<open>the filter Windows holds for the process\<close>
  error_mode :: DWORD                  \<comment> \<open>the error mode of the process\<close>
  file_effects :: "exc_effect list"

definition exc_start :: "HANDLE \<Rightarrow> exc_state" where
  "exc_start f = \<lparr>g_bHandlerSet = False, g_prevExceptionFilter = 0, g_szLogFileName = [], g_hReportFile = 0,
     g_bOwnReportFile = False, cBeenHere = 0, unhandled_filter = f, error_mode = 0, file_effects = []\<rparr>"

definition effect_on :: "exc_effect list \<Rightarrow> exc_state \<Rightarrow> exc_state" where
  "effect_on es st = st\<lparr>file_effects := file_effects st @ es\<rparr>"

section \<open>Writing\<close>

lemma dropWhile_shorter: "dropWhile P p = b # q \<Longrightarrow> length q < length p"
  using length_dropWhile_le [of P p] by simp

text \<open>The calls of \<open>WriteFile\<close> for a string: its lines, and a carriage return with every line feed.\<close>

function report_writes :: "BYTE list \<Rightarrow> BYTE list list" where
  "report_writes p =
     (if p = [] then []
      else takeWhile (\<lambda>b. b \<noteq> 10) p #
        (case dropWhile (\<lambda>b. b \<noteq> 10) p of [] \<Rightarrow> [] | b # q \<Rightarrow> [13, 10] # report_writes q))"
  by pat_completeness auto
termination
  by (relation "measure length") (auto intro: dropWhile_shorter)

declare report_writes.simps [simp del]

definition writeReport :: "'a exc_os_scheme \<Rightarrow> wstr \<Rightarrow> exc_state \<Rightarrow> exc_state" where
  "writeReport os szText st =
     (case ex_WideCharToMultiByte os szText of
        None \<Rightarrow> st
      | Some szTextA \<Rightarrow> effect_on (map (WriteFile (g_hReportFile st)) (report_writes (takeWhile (\<lambda>b. b \<noteq> 0) szTextA))) st)"

text \<open>\<open>lprintf\<close> with \<open>writeReport\<close> as the callback.\<close>

fun report :: "'a exc_os_scheme \<Rightarrow> wstr list \<Rightarrow> exc_state \<Rightarrow> fault + exc_state" where
  "report os [] st = Inr st"
| "report os (t # ts) st = bnd (lprintf t) (\<lambda>(s, _). report os ts (writeReport os s st))"

section \<open>The path of a module\<close>

definition overwrite :: "wstr \<Rightarrow> wstr \<Rightarrow> wstr" where
  "overwrite written buf = written @ drop (length written) buf"

definition resize :: "nat \<Rightarrow> wstr \<Rightarrow> wstr" where
  "resize n buf = take n buf @ replicate (n - length buf) 0"

text \<open>The buffer is doubled until the path fits; \<open>None\<close> if that never happens.\<close>

partial_function (option) module_path :: "(DWORD \<Rightarrow> DWORD \<times> wstr) \<Rightarrow> DWORD \<Rightarrow> wstr \<Rightarrow> (DWORD \<times> wstr) option" where
  "module_path get nSize path =
     (let r = get nSize; path = overwrite (snd r) path in
      if fst r = nSize then module_path get (nSize * 2) (resize (unat (nSize * 2)) path)
      else Some (fst r, path))"

declare module_path.simps [code]

definition full_module_path :: "'a exc_os_scheme \<Rightarrow> HANDLE \<Rightarrow> (DWORD \<times> wstr) option" where
  "full_module_path os hModule = module_path (ex_GetModuleFileNameW os hModule) 260 (replicate 260 0)"

section \<open>The report\<close>

abbreviation GetCurrentProcess :: HANDLE where "GetCurrentProcess \<equiv> - 1"
abbreviation GetCurrentThread :: HANDLE where "GetCurrentThread \<equiv> - 2"

definition report_exception_and_stack :: "'a exc_os_scheme \<Rightarrow> EXCEPTION_RECORD \<times> context_memory \<Rightarrow> exc_state \<Rightarrow>
    fault + exc_state" where
  "report_exception_and_stack os info st =
     (let (r, Context) = info in
      bnd (report os (dumpException os GetCurrentProcess r) st) (\<lambda>st.
      bnd (report os (if ExceptionAddress r \<noteq> c_Rip (snd Context)
                      then [W ''warning: inconsistent exception context record'' @ [NL]] else []) st) (\<lambda>st.
      bnd (dumpStack os GetCurrentProcess GetCurrentThread Context) (\<lambda>ts.
      bnd (report os ts st) (\<lambda>st.
      if \<not> ex_SymCleanup os \<and> \<not> so_ndebug os then Inl AssertionFailed else Inr st)))))"

definition windows_version :: "'a exc_os_scheme \<Rightarrow> wstr option" where
  "windows_version os =
     (if ex_GetModuleHandleW_kernel32 os = 0 then Some (W ''Windows version could not be determined'' @ [NL])
      else
        map_option (\<lambda>(dwRet, path).
          case (if dwRet \<noteq> 0 then getModuleVersionInfo os (takeWhile (\<lambda>c. c \<noteq> 0) path) else None) of
            Some [a, b, c, d] \<Rightarrow> W (''Windows '' @ fmt_u a @ ''.'' @ fmt_u b @ ''.'' @ fmt_u c @ ''.'' @ fmt_u d) @ [NL]
          | _ \<Rightarrow> W ''Windows version could not be determined'' @ [NL])
        (full_module_path os (ex_GetModuleHandleW_kernel32 os)))"

definition drmingw_version :: "'a exc_os_scheme \<Rightarrow> wstr" where
  "drmingw_version os =
     (let (major, minor, patch) = ex_version os
      in W (''DrMingw '' @ fmt_u major @ ''.'' @ fmt_u minor @ ''.'' @ fmt_u patch) @ [NL])"

definition report_banner :: "'a exc_os_scheme \<Rightarrow> wstr list" where
  "report_banner os =
     [W ''-------------------'' @ [NL, NL],
      W ''Error occurred on '' @ ex_GetDateFormatW os @ W '' at '' @ ex_GetTimeFormatW os @ W ''.'' @ [NL, NL]]"

text \<open>What follows the banner is done with the options that \<open>SetSymOptions(FALSE)\<close> leaves DbgHelp with.\<close>

definition GenerateExceptionReport :: "'a exc_os_scheme \<Rightarrow> EXCEPTION_RECORD \<times> context_memory \<Rightarrow> exc_state \<Rightarrow>
    (fault + exc_state) option" where
  "GenerateExceptionReport os info st =
     run (Some (report os (report_banner os) st)) (\<lambda>st.
     let os = set_sym_options False os in
     run (Some (bnd (InitializeSym os GetCurrentProcess True) (\<lambda>ok.
       bnd (if ok then report_exception_and_stack os info st else Inr st) (\<lambda>st.
       report os (dumpModules os GetCurrentProcess) st)))) (\<lambda>st.
     case windows_version os of
       None \<Rightarrow> None
     | Some version \<Rightarrow> Some (report os [version, drmingw_version os, [NL]] st)))"

section \<open>The filter\<close>

definition open_report :: "'a exc_os_scheme \<Rightarrow> exc_state \<Rightarrow> exc_state" where
  "open_report os st =
     (if g_hReportFile st \<noteq> 0 then st
      else if g_szLogFileName st = W ''-'' then
        st\<lparr>g_hReportFile := ex_GetStdHandle os, g_bOwnReportFile := False\<rparr>
      else if g_szLogFileName st \<noteq> [] then
        (let name = takeWhile (\<lambda>c. c \<noteq> 0) (g_szLogFileName st); h = ex_CreateFileW os name
         in effect_on [OpenReport name h] (st\<lparr>g_hReportFile := h, g_bOwnReportFile := True\<rparr>))
      else st)"

definition filter_body :: "'a exc_os_scheme \<Rightarrow> EXCEPTION_RECORD \<times> context_memory \<Rightarrow> exc_state \<Rightarrow>
    (fault + exc_state) option" where
  "filter_body os info st =
     (let st = open_report os st; h = g_hReportFile st in
      if h = 0 then return st
      else run (GenerateExceptionReport os info (effect_on [SeekToEnd h] st)) (\<lambda>st.
             return (effect_on [Flush h] st)))"

abbreviation EXCEPTION_CONTINUE_SEARCH :: DWORD where "EXCEPTION_CONTINUE_SEARCH \<equiv> 0"

abbreviation SEM_REPORT :: DWORD where
  "SEM_REPORT \<equiv> 0x8003"                \<comment> \<open>\<open>FAILCRITICALERRORS\<close>, \<open>NOGPFAULTERRORBOX\<close>, \<open>NOOPENFILEERRORBOX\<close>\<close>

text \<open>The first exception is reported without error message boxes.\<close>

definition report_crash :: "'a exc_os_scheme \<Rightarrow> EXCEPTION_RECORD \<times> context_memory \<Rightarrow> exc_state \<Rightarrow>
    (fault + exc_state) option" where
  "report_crash os info st =
     (let fuOldErrorMode = error_mode st in
      run (filter_body os info (st\<lparr>error_mode := SEM_REPORT\<rparr>)) (\<lambda>st.
        return (st\<lparr>error_mode := fuOldErrorMode\<rparr>)))"

definition TopLevelExceptionFilter :: "'a exc_os_scheme \<Rightarrow> EXCEPTION_RECORD \<times> context_memory \<Rightarrow> exc_state \<Rightarrow>
    (fault + DWORD \<times> exc_state) option" where
  "TopLevelExceptionFilter os info st =
     (let st = st\<lparr>cBeenHere := cBeenHere st + 1\<rparr> in
      run (if cBeenHere st = 1 then report_crash os info st else return st) (\<lambda>st.
      let st = st\<lparr>cBeenHere := cBeenHere st - 1\<rparr> in
      return (if g_prevExceptionFilter st \<noteq> 0 then ex_call_filter os (g_prevExceptionFilter st) info
              else EXCEPTION_CONTINUE_SEARCH, st)))"

section \<open>Set-up\<close>

abbreviation DOT :: wchar where "DOT \<equiv> W_char (CHR ''.'')"

text \<open>The buffer up to its last dot, or all of it, with the extension added.\<close>

definition report_name :: "wstr \<Rightarrow> wstr" where
  "report_name path =
     (if DOT \<in> set path then butlast (rev (dropWhile (\<lambda>c. c \<noteq> DOT) (rev path))) else path) @ W ''.RPT''"

definition Setup :: "'a exc_os_scheme \<Rightarrow> exc_state \<Rightarrow> exc_state option" where
  "Setup os st =
     map_option (\<lambda>(dwRet, path).
       st\<lparr>g_szLogFileName := if dwRet \<noteq> 0 then report_name path else W ''EXCHNDL.RPT''\<rparr>)
     (full_module_path os 0)"

definition Cleanup :: "exc_state \<Rightarrow> exc_state" where
  "Cleanup st =
     (let h = g_hReportFile st in
      if h = 0 then st
      else (effect_on (if g_bOwnReportFile st then [CloseReport h] else []) st)\<lparr>g_hReportFile := 0\<rparr>)"

definition SetupHandler :: "'a exc_os_scheme \<Rightarrow> exc_state \<Rightarrow> fault + exc_state" where
  "SetupHandler os st =
     (if g_bHandlerSet st then Inr st
      else if g_prevExceptionFilter st \<noteq> 0 \<and> \<not> so_ndebug os then Inl AssertionFailed
      else
        let prev = unhandled_filter st;
            st = st\<lparr>unhandled_filter := ex_TopLevelExceptionFilter os, g_prevExceptionFilter := prev\<rparr> in
        if prev = ex_TopLevelExceptionFilter os \<and> \<not> so_ndebug os then Inl AssertionFailed
        else Inr (st\<lparr>g_bHandlerSet := True\<rparr>))"

definition CleanupHandler :: "exc_state \<Rightarrow> exc_state" where
  "CleanupHandler st =
     (if g_bHandlerSet st then
        st\<lparr>unhandled_filter := g_prevExceptionFilter st, g_prevExceptionFilter := 0, g_bHandlerSet := False\<rparr>
      else st)"

definition ExcHndlInit :: "'a exc_os_scheme \<Rightarrow> exc_state \<Rightarrow> fault + exc_state" where
  "ExcHndlInit = SetupHandler"

definition ExcHndlSetLogFileNameW :: "wstr option \<Rightarrow> exc_state \<Rightarrow> bool \<times> exc_state" where
  "ExcHndlSetLogFileNameW pszLogFileName st =
     (case pszLogFileName of
        None \<Rightarrow> (False, st)
      | Some name \<Rightarrow> (True, st\<lparr>g_szLogFileName := name\<rparr>))"

text \<open>A name that cannot be converted leaves an empty array, whose first element is then referred to.\<close>

definition ExcHndlSetLogFileNameA :: "'a exc_os_scheme \<Rightarrow> BYTE list option \<Rightarrow> exc_state \<Rightarrow> fault + bool \<times> exc_state" where
  "ExcHndlSetLogFileNameA os pszLogFileName st =
     (case pszLogFileName of
        None \<Rightarrow> Inr (False, st)
      | Some name \<Rightarrow>
          (case ex_MultiByteToWideChar os name of
             None \<Rightarrow> Inl AccessViolation
           | Some wide \<Rightarrow> Inr (True, st\<lparr>g_szLogFileName := wide\<rparr>)))"

abbreviation DLL_PROCESS_DETACH :: DWORD where "DLL_PROCESS_DETACH \<equiv> 0"
abbreviation DLL_PROCESS_ATTACH :: DWORD where "DLL_PROCESS_ATTACH \<equiv> 1"

text \<open>\<open>lpvReserved\<close> is NULL when the DLL is loaded at run time.\<close>

definition DllMain :: "'a exc_os_scheme \<Rightarrow> DWORD \<Rightarrow> DWORD64 \<Rightarrow> exc_state \<Rightarrow> (fault + exc_state) option" where
  "DllMain os dwReason lpvReserved st =
     (if dwReason = DLL_PROCESS_ATTACH then
        (case Setup os st of
           None \<Rightarrow> None
         | Some st \<Rightarrow> Some (if lpvReserved = 0 then SetupHandler os st else Inr st))
      else if dwReason = DLL_PROCESS_DETACH then return (Cleanup (CleanupHandler st))
      else return st)"

end
