(* ===== verification/Exchndl_Facts.thy ===== *)
theory Exchndl_Facts
  imports Exchndl Log_Client
begin

text \<open>
  What makes the handler library correct: the bytes of the report, the name of its file, the verdict of the
  filter and its re-entrancy, and that loading and unloading the DLL leave no trace.
\<close>

section \<open>A sample system\<close>

definition sample_path :: wstr where
  "sample_path = W ''C:/v1.2/prog''"

definition sample_exc :: exc_os where
  "sample_exc = log_os.extend sample_log
     (exc_os.fields (\<lambda>s. Some (map (\<lambda>c. if c = 10 then 10 else 97) s)) (\<lambda>s. Some (map ucast s))
        (\<lambda>_ n. if 12 < unat n then (12, sample_path @ [0]) else (n, take (unat n - 1) sample_path @ [0]))
        (W ''today'') (W ''now'') 0 (\<lambda>_. 8) 2 True (0, 9, 11) (\<lambda>f _. 1) 77)"

lemmas sample_exc_fields = exc_os.defs log_os.defs sym_os.defs

section \<open>What is written\<close>

definition crlf :: "BYTE \<Rightarrow> BYTE list" where
  "crlf b = (if b = 10 then [13, 10] else [b])"

lemma crlf_LF: "crlf 10 = [13, 10]"
  by (simp add: crlf_def)

lemma crlf_line: "10 \<notin> set p \<Longrightarrow> concat (map crlf p) = p"
  by (induction p) (auto simp: crlf_def)

lemma report_writes_crlf: "concat (report_writes p) = concat (map crlf p)"
proof (induction p rule: report_writes.induct)
  case (1 p)
  let ?line = "takeWhile (\<lambda>b. b \<noteq> 10) p" and ?rest = "dropWhile (\<lambda>b. b \<noteq> 10) p"
  have "10 \<notin> set ?line"
    by (auto dest: set_takeWhileD)
  moreover have "concat (map crlf p) = concat (map crlf ?line) @ concat (map crlf ?rest)"
    by (metis concat_append map_append takeWhile_dropWhile_id)
  ultimately have split: "concat (map crlf p) = ?line @ concat (map crlf ?rest)"
    by (simp add: crlf_line)
  show ?case
  proof (cases ?rest)
    case Nil
    have "report_writes p = (if p = [] then [] else [?line])"
      by (subst report_writes.simps) (simp only: Nil list.case)
    with split Nil show ?thesis
      by (cases "p = []") simp_all
  next
    case (Cons b q)
    then have "b = 10" "p \<noteq> []"
      using hd_dropWhile [of "\<lambda>b. b \<noteq> 10" p] by auto
    with split Cons 1 show ?thesis
      by (simp add: report_writes.simps [of p] crlf_LF)
  qed
qed

text \<open>The bytes that a sequence of effects writes to a file.\<close>

fun bytes_to :: "HANDLE \<Rightarrow> exc_effect list \<Rightarrow> BYTE list" where
  "bytes_to h [] = []"
| "bytes_to h (WriteFile h' bs # es) = (if h' = h then bs else []) @ bytes_to h es"
| "bytes_to h (e # es) = bytes_to h es"

lemma bytes_to_append [simp]: "bytes_to h (es @ fs) = bytes_to h es @ bytes_to h fs"
  by (induction h es rule: bytes_to.induct) simp_all

lemma bytes_to_writes [simp]: "bytes_to h (map (WriteFile h) bss) = concat bss"
  by (induction bss) simp_all

lemma writeReport_bytes:
  "bytes_to (g_hReportFile st) (file_effects (writeReport os s st)) =
   bytes_to (g_hReportFile st) (file_effects st) @
   (case ex_WideCharToMultiByte os s of None \<Rightarrow> [] | Some u \<Rightarrow> concat (map crlf (takeWhile (\<lambda>b. b \<noteq> 0) u)))"
  by (auto simp: writeReport_def effect_on_def report_writes_crlf split: option.split)

text \<open>
  The report files that are open after a sequence of effects, from those open before it; \<open>None\<close> when a
  handle is closed that is not open.
\<close>

fun open_files :: "HANDLE list \<Rightarrow> exc_effect list \<Rightarrow> HANDLE list option" where
  "open_files hs [] = Some hs"
| "open_files hs (OpenReport name h # es) = open_files (h # hs) es"
| "open_files hs (CloseReport h # es) = (if h \<in> set hs then open_files (remove1 h hs) es else None)"
| "open_files hs (e # es) = open_files hs es"

lemma open_files_append [simp]:
  "open_files hs (es @ fs) = (case open_files hs es of None \<Rightarrow> None | Some gs \<Rightarrow> open_files gs fs)"
  by (induction hs es rule: open_files.induct) simp_all

text \<open>Writing changes the effects only, and opens and closes nothing.\<close>

fun writes :: "exc_effect \<Rightarrow> bool" where
  "writes (OpenReport name h) = False"
| "writes (CloseReport h) = False"
| "writes e = True"

lemma open_files_writes: "list_all writes es \<Longrightarrow> open_files hs es = Some hs"
  by (induction hs es rule: open_files.induct) simp_all

lemma effect_on_effect_on [simp]: "effect_on fs (effect_on es st) = effect_on (es @ fs) st"
  by (simp add: effect_on_def)

lemma effect_on_Nil: "effect_on [] st = st"
  by (simp add: effect_on_def)

lemma writeReport_only: "\<exists>es. writeReport os s st = effect_on es st \<and> list_all writes es"
proof (cases "ex_WideCharToMultiByte os s")
  case None
  then show ?thesis
    using effect_on_Nil [of st] by (intro exI [of _ "[]"]) (simp add: writeReport_def)
next
  case (Some u)
  have "list_all writes (map (WriteFile h) bss)" for h bss
    by (simp add: list_all_iff)
  with Some show ?thesis
    unfolding writeReport_def Some option.case by blast
qed

interpretation rpt: log_client "writeReport os" "report os" for os
  by unfold_locales simp_all

lemma report_only: "report os ts st = Inr st' \<Longrightarrow> \<exists>es. st' = effect_on es st \<and> list_all writes es"
proof (induction ts arbitrary: st)
  case Nil
  then show ?case
    using effect_on_Nil [of st] by (auto intro: exI [of _ "[]"])
next
  case (Cons t ts)
  then obtain s where "report os ts (writeReport os s st) = Inr st'"
    by (auto simp: bnd_eq_Inr)
  moreover obtain es where "writeReport os s st = effect_on es st" "list_all writes es"
    using writeReport_only by blast
  ultimately show ?case
    using Cons.IH by (fastforce simp: list_all_append)
qed

text \<open>Every text of the report reaches the file as its UTF-8 encoding with each line feed turned into a
  carriage return and line feed and nothing else changed, for texts that fit the log buffer; the pieces
  that are written one by one neither lose nor repeat a byte.\<close>

theorem report_bytes:
  assumes "list_all fits ts" and "\<And>s. ex_WideCharToMultiByte os s = Some (utf8 s)"
    and "\<And>s. 0 \<notin> set s \<Longrightarrow> 0 \<notin> set (utf8 s)"
  shows "\<exists>st'. report os ts st = Inr st' \<and>
    bytes_to (g_hReportFile st) (file_effects st') =
    bytes_to (g_hReportFile st) (file_effects st) @ concat (map (\<lambda>t. concat (map crlf (utf8 t))) ts)"
  using assms(1)
proof (induction ts arbitrary: st)
  case (Cons t ts)
  then have "\<forall>b\<in>set (utf8 t). b \<noteq> 0"
    using assms(3) by (auto simp: fits_def)
  then have "bytes_to (g_hReportFile st) (file_effects (writeReport os t st)) =
      bytes_to (g_hReportFile st) (file_effects st) @ concat (map crlf (utf8 t))"
    using writeReport_bytes [of st os t] assms(2) by (simp add: takeWhile_eq_all_conv [THEN iffD2])
  moreover have "g_hReportFile (writeReport os t st) = g_hReportFile st"
    by (simp add: writeReport_def effect_on_def split: option.split)
  moreover have "lprintf t = Inr (t, int (length t))"
    using Cons.prems lprintf_fits by simp
  ultimately show ?case
    using Cons.IH [of "writeReport os t st"] Cons.prems by simp
qed simp

lemma sample_utf8: "ex_WideCharToMultiByte sample_exc s = Some (map (\<lambda>c. if c = 10 then 10 else 97) s)"
  by (simp add: sample_exc_def sample_log_def exc_os.defs log_os.defs)

theorem report_bytes_witness:
  "\<exists>st'. report sample_exc [W ''a'' @ [NL], W ''b''] (exc_start 0) = Inr st' \<and>
     bytes_to 0 (file_effects st') = [97, 13, 10, 97]"
proof -
  have "\<exists>st'. report sample_exc [W ''a'' @ [NL], W ''b''] (exc_start 0) = Inr st' \<and>
    bytes_to (g_hReportFile (exc_start 0)) (file_effects st') =
    bytes_to (g_hReportFile (exc_start 0)) (file_effects (exc_start 0)) @
    concat (map (\<lambda>t. concat (map crlf (map (\<lambda>c. if c = 10 then 10 else 97) t))) [W ''a'' @ [NL], W ''b''])"
    by (rule report_bytes) (auto simp: sample_utf8 fits_def W_def W_char_def)
  then show ?thesis
    by (simp add: exc_start_def crlf_def W_def W_char_def)
qed

section \<open>The name of the report\<close>

text \<open>What Windows documents of \<open>GetModuleFileNameW\<close>: the path and its length, or a truncated path and the
  size of the buffer.\<close>

definition module_file_name :: "(DWORD \<Rightarrow> DWORD \<times> wstr) \<Rightarrow> wstr \<Rightarrow> bool" where
  "module_file_name get p \<longleftrightarrow> (\<forall>n > 0. get n =
     (if length p < unat n then (word_of_nat (length p), p @ [0]) else (n, take (unat n - 1) p @ [0])))"

lemma unat_double: "2 * unat (n :: DWORD) < 2 ^ 32 \<Longrightarrow> unat (n * 2) = 2 * unat n"
  by (simp add: unat_word_ariths mult.commute)

lemma unat_DWORD: "k < 2 ^ 32 \<Longrightarrow> unat (word_of_nat k :: DWORD) = k"
  by (simp add: unsigned_of_nat take_bit_nat_eq_self_iff)

lemma length_resize [simp]: "length (resize n buf) = n"
  by (simp add: resize_def)

lemma set_resize: "set (resize n buf) \<subseteq> insert 0 (set buf)"
  by (auto simp: resize_def dest: in_set_takeD)

text \<open>One round: the path fits, or the buffer is doubled.\<close>

lemma module_path_fits:
  assumes "module_file_name get p" and "length p < unat n"
  shows "module_path get n buf = Some (word_of_nat (length p), p @ 0 # drop (Suc (length p)) buf)"
proof -
  have "length p < 2 ^ 32" "0 < n"
    using assms(2) unat_lt_max [of n] by (auto simp: word_gt_0)
  then have "word_of_nat (length p) \<noteq> n"
    using unat_DWORD [of "length p"] assms(2) by auto
  moreover have "get n = (word_of_nat (length p), p @ [0])"
    using assms \<open>0 < n\<close> by (simp add: module_file_name_def)
  ultimately show ?thesis
    by (subst module_path.simps) (simp add: overwrite_def)
qed

lemma module_path_doubles:
  assumes "module_file_name get p" and "unat n \<le> length p" and "0 < n"
  shows "module_path get n buf =
    module_path get (n * 2) (resize (unat (n * 2)) (overwrite (take (unat n - 1) p @ [0]) buf))"
proof -
  have "get n = (n, take (unat n - 1) p @ [0])"
    using assms by (simp add: module_file_name_def)
  then show ?thesis
    by (subst module_path.simps) simp
qed

lemma module_path_finds:
  assumes get: "module_file_name get p"
  shows "length p < 2 ^ m * unat n \<Longrightarrow> 2 ^ m * unat n < 2 ^ 32 \<Longrightarrow> length buf = unat n \<Longrightarrow>
    set (drop (length p) buf) \<subseteq> {0} \<Longrightarrow>
    \<exists>rest. module_path get n buf = Some (word_of_nat (length p), p @ 0 # rest) \<and> set rest \<subseteq> {0}"
proof (induction m arbitrary: n buf)
  case 0
  then show ?case
    using module_path_fits [OF get, of n buf] set_drop_subset_set_drop [of "length p" "Suc (length p)" buf] by auto
next
  case (Suc m)
  show ?case
  proof (cases "length p < unat n")
    case True
    then show ?thesis
      using module_path_fits [OF get True, of buf] Suc.prems(4)
        set_drop_subset_set_drop [of "length p" "Suc (length p)" buf] by auto
  next
    case False
    let ?old = "overwrite (take (unat n - 1) p @ [0]) buf"
    have n: "0 < n"
      using Suc.prems(1) by (cases "n = 0") (auto simp: word_gt_0)
    have "2 * unat n \<le> 2 ^ Suc m * unat n"
      by simp
    then have double: "unat (n * 2) = 2 * unat n"
      using Suc.prems(2) by (intro unat_double) (rule le_less_trans)
    have "length ?old \<le> length p"
      using False Suc.prems(3) n by (simp add: overwrite_def) (simp add: word_gt_0 unat_gt_0)
    then have "set (drop (length p) (resize (unat (n * 2)) ?old)) \<subseteq> {0}"
      by (auto simp: resize_def dest: in_set_dropD)
    then show ?thesis
      using Suc.IH [of "n * 2" "resize (unat (n * 2)) ?old"] Suc.prems(1,2) double
        module_path_doubles [OF get _ n, of buf] False
      by (simp add: mult.assoc mult.left_commute)
  qed
qed

text \<open>The name up to the last dot of a buffer whose rest holds none.\<close>

lemma report_name_dot:
  assumes "DOT \<notin> set ext" and "DOT \<notin> set rest"
  shows "report_name (stem @ DOT # ext @ 0 # rest) = stem @ W ''.RPT''"
proof -
  have "dropWhile (\<lambda>c. c \<noteq> DOT) (rev (ext @ 0 # rest) @ DOT # rev stem) = DOT # rev stem"
    using assms by (subst dropWhile_append2) auto
  then show ?thesis
    by (simp add: report_name_def)
qed

definition log_file :: "exc_state \<Rightarrow> wstr" where
  "log_file st = takeWhile (\<lambda>c. c \<noteq> 0) (g_szLogFileName st)"

text \<open>C34: the report of \<open>a.exe\<close> goes to \<open>a.RPT\<close>: the path of the program up to its last dot gets the new
  extension, however long the path. But the new extension is appended after the NULs of the buffer when
  the path has no dot, so that the file that is opened for writing is then the program itself.\<close>

theorem report_file_name:
  assumes "module_file_name (ex_GetModuleFileNameW os 0) p" and "p \<noteq> []" and "length p < 2 ^ 15" and "0 \<notin> set p"
  shows "\<exists>st'. Setup os st = Some st' \<and>
    (\<forall>stem ext. p = stem @ DOT # ext \<and> DOT \<notin> set ext \<longrightarrow> log_file st' = stem @ W ''.RPT'') \<and>
    (DOT \<notin> set p \<longrightarrow> log_file st' = p)"
proof -
  have "length p < 2 ^ 7 * unat (260 :: DWORD)"
    using assms(3) by simp
  moreover have "set (drop (length p) (replicate 260 (0 :: wchar))) \<subseteq> {0}"
    by (auto dest: in_set_dropD)
  ultimately obtain rest where path: "full_module_path os 0 = Some (word_of_nat (length p), p @ 0 # rest)"
    and rest: "set rest \<subseteq> {0}"
    using module_path_finds [OF assms(1), of 7 260 "replicate 260 0"] by (auto simp: full_module_path_def)
  have "(word_of_nat (length p) :: DWORD) \<noteq> 0"
    using unat_DWORD [of "length p"] assms(2,3) by auto
  then have name: "Setup os st = Some (st\<lparr>g_szLogFileName := report_name (p @ 0 # rest)\<rparr>)"
    using path by (simp add: Setup_def)
  have "DOT \<notin> set rest"
    using rest by auto
  have cut: "takeWhile (\<lambda>c. c \<noteq> 0) (s @ W ''.RPT'') = s @ W ''.RPT''" if "0 \<notin> set s" for s
    using that by (subst takeWhile_eq_all_conv) (auto simp: W_def of_char16_eq_0)
  have "report_name (p @ 0 # rest) = p @ 0 # rest @ W ''.RPT''" if "DOT \<notin> set p"
    using that \<open>DOT \<notin> set rest\<close> by (simp add: report_name_def)
  moreover have "takeWhile (\<lambda>c. c \<noteq> 0) (p @ 0 # r) = p" for r
    using assms(4) by (subst takeWhile_append2) auto
  moreover have "takeWhile (\<lambda>c. c \<noteq> 0) (report_name (p @ 0 # rest)) = stem @ W ''.RPT''"
    if "p = stem @ DOT # ext" "DOT \<notin> set ext" for stem ext
    using report_name_dot [OF that(2) \<open>DOT \<notin> set rest\<close>, of stem] cut [of stem] that(1) assms(4) by simp
  ultimately show ?thesis
    using name by (auto simp: log_file_def)
qed

lemma sample_module_file_name: "module_file_name (ex_GetModuleFileNameW sample_exc 0) sample_path"
  by (simp add: module_file_name_def sample_exc_def sample_log_def exc_os.defs log_os.defs sample_path_def)

theorem report_file_name_witness:
  "\<exists>st'. Setup sample_exc (exc_start 0) = Some st' \<and> log_file st' = W ''C:/v1.RPT''"
proof -
  have p: "sample_path = W ''C:/v1'' @ DOT # W ''2/prog''" "DOT \<notin> set (W ''2/prog'')" "0 \<notin> set sample_path"
    "length sample_path < 2 ^ 15" "sample_path \<noteq> []"
    by (auto simp: sample_path_def W_def W_char_def)
  obtain st' where "Setup sample_exc (exc_start 0) = Some st'" and
    "\<forall>stem ext. sample_path = stem @ DOT # ext \<and> DOT \<notin> set ext \<longrightarrow> log_file st' = stem @ W ''.RPT''"
    using report_file_name [OF sample_module_file_name p(5,4,3)] by blast
  moreover from this(2) have "log_file st' = W ''C:/v1'' @ W ''.RPT''"
    using p(1,2) by blast
  ultimately show ?thesis
    by (simp flip: W_append)
qed

section \<open>The filter\<close>

text \<open>The installation, and the report file.\<close>

definition handler_part :: "exc_state \<Rightarrow> bool \<times> HANDLE \<times> HANDLE \<times> DWORD \<times> wstr \<times> DWORD" where
  "handler_part st =
     (g_bHandlerSet st, g_prevExceptionFilter st, unhandled_filter st, cBeenHere st, g_szLogFileName st, error_mode st)"

definition file_part :: "exc_state \<Rightarrow> HANDLE \<times> bool \<times> HANDLE list option" where
  "file_part st = (g_hReportFile st, g_bOwnReportFile st, open_files [] (file_effects st))"

definition same_parts :: "exc_state \<Rightarrow> exc_state \<Rightarrow> bool" where
  "same_parts st st' \<longleftrightarrow> handler_part st' = handler_part st \<and> file_part st' = file_part st"

lemma same_parts_refl [simp]: "same_parts st st"
  by (simp add: same_parts_def)

lemma same_parts_trans: "same_parts st st1 \<Longrightarrow> same_parts st1 st2 \<Longrightarrow> same_parts st st2"
  by (simp add: same_parts_def)

lemma same_parts_effect: "list_all writes es \<Longrightarrow> same_parts st (effect_on es st)"
  by (simp add: same_parts_def handler_part_def file_part_def effect_on_def open_files_writes split: option.split)

lemma report_same: "report os ts st = Inr st' \<Longrightarrow> same_parts st st'"
  using report_only same_parts_effect by blast

lemma stack_report_same: "report_exception_and_stack os info st = Inr st' \<Longrightarrow> same_parts st st'"
  by (auto simp: report_exception_and_stack_def Let_def bnd_eq_Inr simp del: report.simps split: prod.splits if_splits
      dest!: report_same intro: same_parts_trans)

lemma exception_report_same:
  assumes "GenerateExceptionReport os info st = return st'"
  shows "same_parts st st'"
proof -
  let ?os = "set_sym_options False os"
  obtain st1 st2 ok st3 ts where "report os (report_banner os) st = Inr st1"
    "(if ok then report_exception_and_stack ?os info st1 else Inr st1) = Inr st2"
    "report ?os (dumpModules ?os GetCurrentProcess) st2 = Inr st3" "report ?os ts st3 = Inr st'"
    using assms
    by (auto simp: GenerateExceptionReport_def run_eq_return bnd_eq_Inr Let_def simp del: report.simps split: option.splits)
  moreover from this(2) have "same_parts st1 st2"
    using stack_report_same [of ?os info st1 st2] by (auto split: if_splits)
  ultimately show ?thesis
    by (blast dest: report_same intro: same_parts_trans)
qed

lemma filter_body_same:
  assumes "filter_body os info st = return st'"
  shows "same_parts (open_report os st) st'"
proof (cases "g_hReportFile (open_report os st) = 0")
  case False
  then obtain mid where mid: "GenerateExceptionReport os info
      (effect_on [SeekToEnd (g_hReportFile (open_report os st))] (open_report os st)) = return mid"
    and st': "st' = effect_on [Flush (g_hReportFile (open_report os st))] mid"
    using assms by (auto simp: filter_body_def Let_def run_eq_return)
  have "same_parts (open_report os st) mid"
    using same_parts_effect exception_report_same [OF mid] by (rule same_parts_trans) simp
  then show ?thesis
    unfolding st' by (rule same_parts_trans [OF _ same_parts_effect]) simp
qed (use assms in \<open>simp add: filter_body_def Let_def\<close>)

lemma open_report_handler: "handler_part (open_report os st) = handler_part st"
  by (simp add: open_report_def handler_part_def effect_on_def Let_def)

lemma filter_body_handler: "filter_body os info st = return st' \<Longrightarrow> handler_part st' = handler_part st"
  using filter_body_same open_report_handler unfolding same_parts_def by metis

text \<open>The report leaves the installation and the error mode as they were.\<close>

lemma report_crash_parts:
  assumes "report_crash os info st = return st'"
  shows "handler_part st' = handler_part st" and "file_part st' = file_part (open_report os st)"
proof -
  let ?st = "st\<lparr>error_mode := SEM_REPORT\<rparr>"
  obtain mid where mid: "filter_body os info ?st = return mid" and st': "st' = mid\<lparr>error_mode := error_mode st\<rparr>"
    using assms by (auto simp: report_crash_def Let_def run_eq_return)
  show "handler_part st' = handler_part st"
    using filter_body_handler [OF mid] by (simp add: st' handler_part_def)
  have "file_part mid = file_part (open_report os ?st)"
    using filter_body_same [OF mid] by (simp add: same_parts_def)
  then show "file_part st' = file_part (open_report os st)"
    by (simp add: st' file_part_def open_report_def effect_on_def Let_def split: if_splits)
qed

text \<open>C18: the filter never changes what becomes of the exception: its verdict is that of the filter that was
  installed before, or to search on, and it keeps its own installation, the re-entrancy counter and the error mode
  of the process; and
  a fault inside the report, which enters the filter again, is passed on at once without writing a byte.\<close>

theorem filter_transparent:
  assumes "TopLevelExceptionFilter os info st = return (verdict, st')"
  shows "verdict = (if g_prevExceptionFilter st \<noteq> 0 then ex_call_filter os (g_prevExceptionFilter st) info
      else EXCEPTION_CONTINUE_SEARCH) \<and>
    handler_part st' = handler_part st \<and> (cBeenHere st \<noteq> 0 \<longrightarrow> st' = st)"
proof -
  let ?st = "st\<lparr>cBeenHere := cBeenHere st + 1\<rparr>"
  obtain mid where mid: "(if cBeenHere ?st = 1 then report_crash os info ?st else return ?st) = return mid"
    and v: "verdict = (if g_prevExceptionFilter mid \<noteq> 0 then ex_call_filter os (g_prevExceptionFilter mid) info
      else EXCEPTION_CONTINUE_SEARCH)" "st' = mid\<lparr>cBeenHere := cBeenHere mid - 1\<rparr>"
    using assms by (auto simp: TopLevelExceptionFilter_def Let_def run_eq_return)
  then have "handler_part mid = handler_part ?st"
    using report_crash_parts(1) [of os info ?st mid] by (simp split: if_splits)
  moreover have "cBeenHere st \<noteq> 0 \<longrightarrow> mid = ?st"
    using mid by (auto split: if_splits)
  ultimately show ?thesis
    using v by (auto simp: handler_part_def)
qed

theorem filter_transparent_witness:
  "TopLevelExceptionFilter sample_exc (sample_exception, sample_context) ((exc_start 0)\<lparr>cBeenHere := 1, g_prevExceptionFilter := 5\<rparr>) =
     return (1, (exc_start 0)\<lparr>cBeenHere := 1, g_prevExceptionFilter := 5\<rparr>)"
proof -
  let ?st = "(exc_start 0)\<lparr>cBeenHere := 1, g_prevExceptionFilter := 5\<rparr>"
  have call: "ex_call_filter sample_exc 5 info = 1" for info
    by (simp add: sample_exc_def sample_log_def exc_os.defs log_os.defs)
  obtain v st' where r: "TopLevelExceptionFilter sample_exc (sample_exception, sample_context) ?st = return (v, st')"
    by (simp add: TopLevelExceptionFilter_def exc_start_def)
  then show ?thesis
    using filter_transparent [OF r] call by (simp add: exc_start_def)
qed

section \<open>Loading and unloading\<close>

text \<open>What may happen while the library is loaded.\<close>

inductive session :: "'a exc_os_scheme \<Rightarrow> exc_state \<Rightarrow> exc_state \<Rightarrow> bool" for os where
    session_start: "session os st st"
  | session_init: "session os st st1 \<Longrightarrow> ExcHndlInit os st1 = Inr st2 \<Longrightarrow> session os st st2"
  | session_name: "session os st st1 \<Longrightarrow> ExcHndlSetLogFileNameW n st1 = (b, st2) \<Longrightarrow> session os st st2"
  | session_nameA: "session os st st1 \<Longrightarrow> ExcHndlSetLogFileNameA os m st1 = Inr (b, st2) \<Longrightarrow> session os st st2"
  | session_exception: "session os st st1 \<Longrightarrow> TopLevelExceptionFilter os info st1 = return (v, st2) \<Longrightarrow> session os st st2"

text \<open>The files that the library has opened and not closed: its report file, if it is its own.\<close>

definition file_inv :: "exc_state \<Rightarrow> bool" where
  "file_inv st \<longleftrightarrow>
     open_files [] (file_effects st) = Some (if g_hReportFile st \<noteq> 0 \<and> g_bOwnReportFile st then [g_hReportFile st] else [])"

lemma open_report_inv:
  assumes "\<And>n. ex_CreateFileW os n \<noteq> 0" and "file_inv st"
  shows "file_inv (open_report os st)"
  using assms by (auto simp: open_report_def file_inv_def effect_on_def Let_def)

definition installed :: "exc_state \<Rightarrow> HANDLE \<Rightarrow> bool" where
  "installed st f \<longleftrightarrow> g_bHandlerSet st \<and> g_prevExceptionFilter st = f \<and> file_inv st"

lemma filter_installed:
  assumes "TopLevelExceptionFilter os info st = return (v, st')" and "installed st f"
    and "\<And>n. ex_CreateFileW os n \<noteq> 0"
  shows "installed st' f"
proof -
  let ?st = "st\<lparr>cBeenHere := cBeenHere st + 1\<rparr>"
  obtain mid where mid: "(if cBeenHere ?st = 1 then report_crash os info ?st else return ?st) = return mid"
    and st': "st' = mid\<lparr>cBeenHere := cBeenHere mid - 1\<rparr>"
    using assms(1) by (auto simp: TopLevelExceptionFilter_def Let_def run_eq_return)
  have inv: "file_inv ?st"
    using assms(2) by (simp add: installed_def file_inv_def)
  have "handler_part mid = handler_part ?st \<and> file_inv mid"
  proof (cases "cBeenHere ?st = 1")
    case True
    then have body: "report_crash os info ?st = return mid"
      using mid by simp
    have "file_inv (open_report os ?st)"
      using open_report_inv [OF assms(3) inv] .
    then have "file_inv mid"
      using report_crash_parts(2) [OF body] by (simp add: file_part_def file_inv_def)
    then show ?thesis
      using report_crash_parts(1) [OF body] by simp
  qed (use mid inv in simp)
  then show ?thesis
    using st' assms(2) by (simp add: installed_def handler_part_def file_inv_def)
qed

lemma session_installed:
  assumes "session os st st'" and "installed st f" and "\<And>n. ex_CreateFileW os n \<noteq> 0"
  shows "installed st' f"
  using assms(1,2)
proof (induction rule: session.induct)
  case (session_exception st st1 info v st2)
  then show ?case
    using filter_installed assms(3) by blast
qed (auto simp: installed_def ExcHndlInit_def SetupHandler_def ExcHndlSetLogFileNameW_def
    ExcHndlSetLogFileNameA_def file_inv_def split: option.splits)

text \<open>C10: loading the library at run time, whatever the program then does with it (installing the handler again,
  naming the report, any number of handled crashes), and unloading it leaves the process with the filter
  that Windows held before, with nothing installed and no report file: replaying what it opened and closed, handle by handle, it never
  closes a handle that it has not opened, and leaves none of those it opened open.\<close>

theorem unload_restores:
  assumes "DllMain os DLL_PROCESS_ATTACH 0 st = return st1" and "session os st1 st2"
    and "DllMain os DLL_PROCESS_DETACH r st2 = return st3"
    and "\<not> g_bHandlerSet st" and "g_hReportFile st = 0" and "open_files [] (file_effects st) = Some []"
    and "\<And>n. ex_CreateFileW os n \<noteq> 0"
  shows "unhandled_filter st3 = unhandled_filter st \<and> g_prevExceptionFilter st3 = 0 \<and> \<not> g_bHandlerSet st3 \<and>
    g_hReportFile st3 = 0 \<and> open_files [] (file_effects st3) = Some []"
proof -
  have "installed st1 (unhandled_filter st)"
    using assms(1,4-6)
    by (auto simp: DllMain_def Setup_def SetupHandler_def installed_def file_inv_def Let_def
        split: option.splits if_splits)
  then have "installed st2 (unhandled_filter st)"
    using session_installed [OF assms(2) _ assms(7)] by blast
  then show ?thesis
    using assms(3)
    by (cases "g_hReportFile st2 = 0"; cases "g_bOwnReportFile st2")
      (auto simp: DllMain_def CleanupHandler_def Cleanup_def installed_def file_inv_def effect_on_def Let_def)
qed

theorem unload_restores_witness:
  "\<exists>st1 st3. DllMain sample_exc DLL_PROCESS_ATTACH 0 (exc_start 5) = return st1 \<and> unhandled_filter st1 = 77 \<and>
     DllMain sample_exc DLL_PROCESS_DETACH 0 st1 = return st3 \<and> unhandled_filter st3 = 5 \<and>
     open_files [] (file_effects st3) = Some []"
proof -
  have os: "ex_TopLevelExceptionFilter sample_exc = 77" "so_ndebug sample_exc" "\<And>n. ex_CreateFileW sample_exc n \<noteq> 0"
    by (simp_all add: sample_exc_def sample_log_def sample_sym_def sample_exc_fields)
  have "length sample_path < 2 ^ 7 * unat (260 :: DWORD)" "set (drop (length sample_path) (replicate 260 (0 :: wchar))) \<subseteq> {0}"
    by (auto simp: sample_path_def)
  then obtain path where "full_module_path sample_exc 0 = Some path"
    using module_path_finds [OF sample_module_file_name, of 7 260 "replicate 260 0"]
    by (auto simp: full_module_path_def)
  then obtain st1 where st1: "DllMain sample_exc DLL_PROCESS_ATTACH 0 (exc_start 5) = return st1" "unhandled_filter st1 = 77"
    using os by (cases path) (auto simp: DllMain_def Setup_def SetupHandler_def exc_start_def Let_def)
  obtain st3 where st3: "DllMain sample_exc DLL_PROCESS_DETACH 0 st1 = return st3"
    by (simp add: DllMain_def)
  show ?thesis
    using unload_restores [OF st1(1) session_start st3] st1 st3 os(3) by (simp add: exc_start_def)
qed

end
