(* ===== verification/Exchndl_Report.thy ===== *)
theory Exchndl_Report
  imports Exchndl_Facts
begin

text \<open>
  The report of a crash as a whole: what the filter of the library writes to which file, from the banner to the
  versions, with the log of the exception, the stack and the modules between them.
\<close>

section \<open>Texts and bytes\<close>

text \<open>The bytes of a text in the file.\<close>

definition text_bytes :: "(wstr \<Rightarrow> BYTE list) \<Rightarrow> wstr \<Rightarrow> BYTE list" where
  "text_bytes utf8 t = concat (map crlf (utf8 t))"

text \<open>The writes between two states: nothing but writes to the report, which make up these bytes.\<close>

definition wrote :: "BYTE list \<Rightarrow> exc_state \<Rightarrow> exc_state \<Rightarrow> bool" where
  "wrote bs st st' \<longleftrightarrow> (\<exists>ws. st' = effect_on (map (WriteFile (g_hReportFile st)) ws) st \<and> concat ws = bs)"

lemma wrote_Nil: "wrote [] st st"
  unfolding wrote_def by (intro exI [of _ "[]"]) (simp add: effect_on_Nil)

lemma wrote_trans: "wrote bs st st1 \<Longrightarrow> wrote cs st1 st2 \<Longrightarrow> wrote (bs @ cs) st st2"
  unfolding wrote_def by (force simp: effect_on_def intro: exI [of _ "ws @ vs" for ws vs])

text \<open>These texts have been passed to the log, and their bytes are in the file.\<close>

definition logged_to_file :: "(wstr \<Rightarrow> BYTE list) \<Rightarrow> wstr list \<Rightarrow> exc_state \<Rightarrow> exc_state \<Rightarrow> bool" where
  "logged_to_file utf8 ts st st' \<longleftrightarrow> (\<exists>ss. heard ts = Inr ss \<and> wrote (concat (map (text_bytes utf8) ss)) st st')"

lemma logged_nothing: "logged_to_file utf8 [] st st"
  by (simp add: logged_to_file_def wrote_Nil)

lemma logged_trans:
  "logged_to_file utf8 ts st st1 \<Longrightarrow> logged_to_file utf8 us st1 st2 \<Longrightarrow> logged_to_file utf8 (ts @ us) st st2"
  by (auto simp: logged_to_file_def heard_append intro: wrote_trans)

lemma report_logged:
  assumes "\<And>s. ex_WideCharToMultiByte os s = Some (utf8 s)" and "\<And>s. 0 \<notin> set s \<Longrightarrow> 0 \<notin> set (utf8 s)"
  shows "report os ts st = Inr st' \<Longrightarrow> logged_to_file utf8 ts st st'"
proof (induction ts arbitrary: st)
  case (Cons t ts)
  then obtain s n where s: "lprintf t = Inr (s, n)" and rest: "report os ts (writeReport os s st) = Inr st'"
    by (auto simp: bnd_eq_Inr)
  have heard: "heard [t] = Inr [s]"
    by (simp add: s)
  then have "0 \<notin> set (utf8 s)"
    using assms(2) heard_no_NUL by fastforce
  then have whole: "takeWhile (\<lambda>b. b \<noteq> 0) (utf8 s) = utf8 s"
    by (auto simp: takeWhile_eq_all_conv)
  have "writeReport os s st = effect_on (map (WriteFile (g_hReportFile st)) (report_writes (utf8 s))) st"
    by (simp add: writeReport_def assms(1) whole)
  then have "wrote (text_bytes utf8 s) st (writeReport os s st)"
    unfolding wrote_def text_bytes_def using report_writes_crlf by blast
  then have "logged_to_file utf8 [t] st (writeReport os s st)"
    by (simp add: logged_to_file_def heard del: heard.simps)
  from logged_trans [OF this Cons.IH [OF rest]] show ?case
    by simp
qed (simp add: logged_nothing)

section \<open>The report\<close>

text \<open>All texts of the report, from the answers of the systems after the options of DbgHelp have been set.\<close>

definition report_texts :: "'a exc_os_scheme \<Rightarrow> EXCEPTION_RECORD \<times> context_memory \<Rightarrow> wstr list \<Rightarrow> wstr \<Rightarrow> wstr list" where
  "report_texts os info stack version =
     report_banner os @ dumpException os GetCurrentProcess (fst info) @
     (if ExceptionAddress (fst info) \<noteq> c_Rip (snd (snd info))
      then [W ''warning: inconsistent exception context record'' @ [NL]] else []) @
     stack @ dumpModules os GetCurrentProcess @ [version, drmingw_version os, [NL]]"

lemma generated:
  assumes "\<And>s. ex_WideCharToMultiByte os s = Some (utf8 s)" and "\<And>s. 0 \<notin> set s \<Longrightarrow> 0 \<notin> set (utf8 s)"
    and "os' = set_sym_options False os" and "InitializeSym os' GetCurrentProcess True = Inr True"
    and "GenerateExceptionReport os info st = return st'"
  shows "\<exists>stack version. dumpStack os' GetCurrentProcess GetCurrentThread (snd info) = Inr stack \<and>
    windows_version os' = Some version \<and> logged_to_file utf8 (report_texts os' info stack version) st st'"
proof -
  have rl: "logged_to_file utf8 ts s s'" if "report os' ts s = Inr s'" for ts s s'
    by (rule report_logged [OF _ _ that]) (simp_all add: assms(1-3) set_sym_options_def)
  have "report os' ts s = report os ts s" for ts s
    by (induction ts arbitrary: s) (simp_all add: assms(3) set_sym_options_def writeReport_def cong: option.case_cong)
  moreover have "report_banner os' = report_banner os"
    by (simp add: report_banner_def assms(3) set_sym_options_def)
  ultimately obtain st1 st2 st3 version where banner: "report os' (report_banner os') st = Inr st1"
    and body: "report_exception_and_stack os' info st1 = Inr st2"
    and modules: "report os' (dumpModules os' GetCurrentProcess) st2 = Inr st3"
    and version: "windows_version os' = Some version"
    and versions: "report os' [version, drmingw_version os', [NL]] st3 = Inr st'"
    using assms(4,5) unfolding GenerateExceptionReport_def Let_def assms(3) [symmetric]
    by (auto simp: run_eq_return bnd_eq_Inr simp del: report.simps split: option.splits)
  let ?warning = "if ExceptionAddress (fst info) \<noteq> c_Rip (snd (snd info))
    then [W ''warning: inconsistent exception context record'' @ [NL]] else []"
  obtain sa sb stack where "report os' (dumpException os' GetCurrentProcess (fst info)) st1 = Inr sa"
    and "report os' ?warning sa = Inr sb"
    and stack: "dumpStack os' GetCurrentProcess GetCurrentThread (snd info) = Inr stack" and "report os' stack sb = Inr st2"
    using body by (auto simp: report_exception_and_stack_def case_prod_beta bnd_eq_Inr simp del: report.simps split: if_splits)
  from this(1,2,4) [THEN rl] banner [THEN rl] modules [THEN rl] versions [THEN rl]
  have "logged_to_file utf8 (report_texts os' info stack version) st st'"
    unfolding report_texts_def by (blast intro: logged_trans)
  with stack version show ?thesis
    by blast
qed

text \<open>C5: a crash ends up in the report: when the first exception reaches the filter, the file named is opened (and
  its descriptor kept), the report is appended at its end and flushed, and what is written in between is
  exactly the UTF-8 encoding, with the line ends of Windows, of all texts of the report in their order: the banner,
  the exception, the registers and the stack, the modules and the versions. Each is passed through the
  buffer of the log.\<close>

theorem crash_written_to_report:
  assumes "cBeenHere st = 0" and "g_hReportFile st = 0" and "g_szLogFileName st \<noteq> []" and "g_szLogFileName st \<noteq> W ''-''"
    and "ex_CreateFileW os (log_file st) = h" and "h \<noteq> 0"
    and "\<And>s. ex_WideCharToMultiByte os s = Some (utf8 s)" and "\<And>s. 0 \<notin> set s \<Longrightarrow> 0 \<notin> set (utf8 s)"
    and "os' = set_sym_options False os" and "InitializeSym os' GetCurrentProcess True = Inr True"
    and "TopLevelExceptionFilter os info st = return (verdict, st')"
  shows "\<exists>stack version texts ws. dumpStack os' GetCurrentProcess GetCurrentThread (snd info) = Inr stack \<and>
    windows_version os' = Some version \<and> heard (report_texts os' info stack version) = Inr texts \<and>
    file_effects st' = file_effects st @ [OpenReport (log_file st) h, SeekToEnd h] @ map (WriteFile h) ws @ [Flush h] \<and>
    concat ws = concat (map (text_bytes utf8) texts) \<and> g_hReportFile st' = h"
proof -
  let ?open = "effect_on [OpenReport (log_file st) h] (st\<lparr>cBeenHere := 1, error_mode := SEM_REPORT, g_hReportFile := h, g_bOwnReportFile := True\<rparr>)"
  have "open_report os (st\<lparr>cBeenHere := 1, error_mode := SEM_REPORT\<rparr>) = ?open"
    using assms(2-5) by (simp add: open_report_def log_file_def Let_def)
  then obtain mid where mid: "GenerateExceptionReport os info (effect_on [SeekToEnd h] ?open) = return mid"
    and st': "st' = (effect_on [Flush h] mid)\<lparr>error_mode := error_mode st, cBeenHere := cBeenHere mid - 1\<rparr>"
    using assms(1,6,11) by (auto simp: TopLevelExceptionFilter_def report_crash_def filter_body_def run_eq_return Let_def effect_on_def)
  obtain stack version texts ws where "dumpStack os' GetCurrentProcess GetCurrentThread (snd info) = Inr stack"
    "windows_version os' = Some version" "heard (report_texts os' info stack version) = Inr texts"
    and "mid = effect_on (map (WriteFile h) ws) (effect_on [SeekToEnd h] ?open)" "concat ws = concat (map (text_bytes utf8) texts)"
    using generated [OF assms(7-10) mid] by (auto simp: logged_to_file_def wrote_def effect_on_def)
  then show ?thesis
    using st' by (intro exI [of _ stack] exI [of _ version] exI [of _ texts] exI [of _ ws]) (simp add: effect_on_def)
qed

text \<open>The sample: a crash whose stack cannot be walked, reported to \<open>a.RPT\<close>.\<close>

definition report_exc :: exc_os where
  "report_exc = sample_exc\<lparr>lo_StackWalk64 := \<lambda>_ _ _ _. None\<rparr>"

definition report_sym :: exc_os where
  "report_sym = set_sym_options False report_exc"

lemmas report_exc_defs = report_sym_def set_sym_options_def report_exc_def sample_exc_def sample_log_def sample_sym_def sample_exc_fields

lemma report_total: "list_all fits ts \<Longrightarrow> \<exists>st'. report os ts st = Inr st'"
  by (simp add: rpt.deliver_fits)

lemma report_exc_stack:
  "dumpStack report_sym h t sample_context = Inr (stack_header False sample_context @ [[NL]])"
proof -
  have "lo_IsWow64Process report_sym h = False" "so_ndebug report_sym" "lo_StackWalk64 report_sym mt h t sfc = None" for mt sfc
    by (simp_all add: report_exc_defs)
  then show ?thesis
    by (simp add: dumpStack_def stack_loop.simps split: prod.split)
qed

lemma report_exc_os:
  "names_fit report_sym" "InitializeSym report_sym GetCurrentProcess True = Inr True"
  "dumpModules report_sym GetCurrentProcess = []" "ex_SymCleanup report_sym"
  "windows_version report_sym = Some (W ''Windows version could not be determined'' @ [NL])"
  by (auto simp: names_fit_def report_exc_defs zero_in_W InitializeSym_def symbol_search_path_def dumpModules_def windows_version_def)

lemma report_exc_versions:
  "list_all fits [W ''Windows version could not be determined'' @ [NL], drmingw_version report_sym, [NL]]"
proof -
  have "fits (drmingw_version report_sym)"
    using length_fmt_u [of 0] length_fmt_u [of 9] length_fmt_u [of 11]
    by (simp add: drmingw_version_def report_exc_defs fits_W del: W_append)
  then show ?thesis
    by (simp add: fits_def [of "_ @ _"] fits_def [of "[NL]"] zero_in_W)
qed

lemma report_exc_body:
  "\<exists>st'. report_exception_and_stack report_sym (sample_exception, sample_context) st = Inr st'"
proof -
  let ?warning = "if ExceptionAddress sample_exception \<noteq> c_Rip (snd sample_context)
    then [W ''warning: inconsistent exception context record'' @ [NL]] else []"
  have "list_all fits ?warning"
    by (simp add: fits_def zero_in_W)
  moreover have "list_all fits (stack_header False sample_context @ [[NL]])"
    using dumpContext_fits [of "snd sample_context"]
    by (simp add: stack_header_def fits_def [of "_ @ _"] fits_def [of "[NL]"] zero_in_W)
  moreover note dumpException_fits [OF report_exc_os(1)]
  ultimately obtain sa sb sc where "report report_sym (dumpException report_sym GetCurrentProcess sample_exception) st = Inr sa"
    "report report_sym ?warning sa = Inr sb" "report report_sym (stack_header False sample_context @ [[NL]]) sb = Inr sc"
    using report_total by metis
  then show ?thesis
    using report_exc_os(4) by (simp add: report_exception_and_stack_def report_exc_stack del: report.simps)
qed

lemma report_exc_generates: "\<exists>st'. GenerateExceptionReport report_exc (sample_exception, sample_context) st = return st'"
proof -
  have "list_all fits (report_banner report_exc)"
    by (simp add: report_banner_def report_exc_defs fits_def zero_in_W)
  then obtain st1 sc sd where "report report_exc (report_banner report_exc) st = Inr st1"
    "report_exception_and_stack report_sym (sample_exception, sample_context) st1 = Inr sc"
    "report report_sym [W ''Windows version could not be determined'' @ [NL], drmingw_version report_sym, [NL]] sc = Inr sd"
    using report_total report_exc_versions report_exc_body by metis
  then show ?thesis
    using report_exc_os by (simp add: GenerateExceptionReport_def report_sym_def [symmetric] report.simps(1) del: report.simps(2))
qed

theorem crash_written_to_report_witness:
  "\<exists>st v st' texts ws. log_file st = W ''a.RPT'' \<and>
     TopLevelExceptionFilter report_exc (sample_exception, sample_context) st = return (v, st') \<and>
     file_effects st' = [OpenReport (W ''a.RPT'') 8, SeekToEnd 8] @ map (WriteFile 8) ws @ [Flush 8] \<and>
     concat ws = concat (map (text_bytes (map (\<lambda>c. if c = 10 then 10 else 97))) texts)"
proof -
  let ?st = "(exc_start 0)\<lparr>g_szLogFileName := W ''a.RPT''\<rparr>" and ?utf8 = "map (\<lambda>c :: wchar. if c = 10 then 10 else 97 :: BYTE)"
  have file_name: "log_file ?st = W ''a.RPT''"
    by (simp add: log_file_def W_Cons)
  have start: "cBeenHere ?st = 0" "g_hReportFile ?st = 0" "g_szLogFileName ?st \<noteq> []" "g_szLogFileName ?st \<noteq> W ''-''"
    "file_effects ?st = []"
    by (simp_all add: exc_start_def W_Cons)
  have os: "ex_CreateFileW report_exc n = 8" "ex_WideCharToMultiByte report_exc s = Some (?utf8 s)" for n s
    by (simp_all add: report_exc_defs)
  have plain: "0 \<notin> set (?utf8 s)" for s
    by (induction s) auto
  have "g_hReportFile (open_report report_exc (?st\<lparr>cBeenHere := 1, error_mode := SEM_REPORT\<rparr>)) = 8" "cBeenHere (?st\<lparr>cBeenHere := 1, error_mode := SEM_REPORT\<rparr>) = 1"
    using start by (simp_all add: open_report_def os(1) Let_def effect_on_def)
  then have "\<exists>v st'. TopLevelExceptionFilter report_exc (sample_exception, sample_context) ?st = return (v, st')"
    using start(1) report_exc_generates [of "effect_on [SeekToEnd 8] (open_report report_exc (?st\<lparr>cBeenHere := 1, error_mode := SEM_REPORT\<rparr>))"]
    by (auto simp: TopLevelExceptionFilter_def report_crash_def filter_body_def Let_def)
  then obtain v st' where filtered: "TopLevelExceptionFilter report_exc (sample_exception, sample_context) ?st = return (v, st')"
    by blast
  obtain texts ws where "file_effects st' = [OpenReport (W ''a.RPT'') 8, SeekToEnd 8] @ map (WriteFile 8) ws @ [Flush 8]"
    "concat ws = concat (map (text_bytes ?utf8) texts)"
    using crash_written_to_report [OF start(1-4) os(1) _ os(2) plain report_sym_def report_exc_os(2) filtered] file_name start(5) by auto
  with filtered file_name show ?thesis
    by (intro exI [of _ ?st] exI [of _ v] exI [of _ st'] exI [of _ texts] exI [of _ ws]) (simp only: simp_thms)
qed

end
