(* ===== verification/Strtoul.thy ===== *)
theory Strtoul
  imports Format
begin

text \<open>
  The number parsers of the C run-time that the programs read their options with: \<open>wcstoul\<close>, \<open>wcstoull\<close>
  and \<open>wcstol\<close>, with their blanks, sign, prefixes, bases and saturation.
\<close>

definition is_space :: "wchar \<Rightarrow> bool" where
  "is_space c \<longleftrightarrow> c = 32 \<or> 9 \<le> c \<and> c \<le> 13"

text \<open>The sign, and what follows it.\<close>

definition split_sign :: "wstr \<Rightarrow> bool \<times> wstr" where
  "split_sign s =
     (let t = dropWhile is_space s in
      case t of
        [] \<Rightarrow> (False, [])
      | c # cs \<Rightarrow> if c = 45 then (True, cs) else if c = 43 then (False, cs) else (False, t))"

text \<open>Base 0 means that the prefix \<open>0x\<close> or \<open>0\<close> tells the base; base 16 allows the prefix \<open>0x\<close>.\<close>

definition parse_nat :: "nat \<Rightarrow> wstr \<Rightarrow> nat" where
  "parse_nat base s =
     (let hex = length s \<ge> 2 \<and> s ! 0 = 48 \<and> (s ! 1 = 120 \<or> s ! 1 = 88) in
      if (base = 0 \<or> base = 16) \<and> hex then parse_digits 16 (map unat (drop 2 s)) 0
      else if base \<noteq> 0 then parse_digits base (map unat s) 0
      else if s \<noteq> [] \<and> hd s = 48 then parse_digits 8 (map unat s) 0
      else parse_digits 10 (map unat s) 0)"

text \<open>A value that does not fit is the largest one, whatever its sign; others are negated modulo the width.\<close>

definition wcstoul :: "wstr \<Rightarrow> nat \<Rightarrow> DWORD" where
  "wcstoul s base =
     (let (neg, t) = split_sign s; n = parse_nat base t in
      if n \<ge> 2 ^ 32 then - 1 else if neg then - word_of_nat n else word_of_nat n)"

definition wcstoull :: "wstr \<Rightarrow> nat \<Rightarrow> DWORD64" where
  "wcstoull s base =
     (let (neg, t) = split_sign s; n = parse_nat base t in
      if n \<ge> 2 ^ 64 then - 1 else if neg then - word_of_nat n else word_of_nat n)"

definition wcstol :: "wstr \<Rightarrow> nat \<Rightarrow> DWORD" where
  "wcstol s base =
     (let (neg, t) = split_sign s; n = parse_nat base t in
      if neg then (if n > 2 ^ 31 then word_of_nat (2 ^ 31) else - word_of_nat n)
      else if n \<ge> 2 ^ 31 then word_of_nat (2 ^ 31 - 1) else word_of_nat n)"

section \<open>Reading back what was printed\<close>

lemma digit_char_code: "d < 10 \<Longrightarrow> (of_char (digit_char up d) :: nat) = 48 + d"
  by (simp add: digit_char_def of_char_of)

lemma unat_W: "map unat (W s) = map of_char s"
  by (simp add: W_def unat_of_char16)

lemma hd_to_digits: "2 \<le> b \<Longrightarrow> 0 < n \<Longrightarrow> 0 < hd (to_digits b n)"
proof (induction b n rule: to_digits.induct)
  case (1 b n)
  show ?case
  proof (cases "n < b")
    case True
    with "1.prems" show ?thesis
      by (simp add: to_digits.simps [of b n])
  next
    case False
    with "1.prems" have "0 < n div b"
      by (simp add: div_greater_zero_iff)
    with 1 False show ?thesis
      by (simp add: to_digits.simps [of b n] hd_append)
  qed
qed

text \<open>A decimal number starts with a digit, which is 0 for the number 0 only.\<close>

lemma decimal_digits:
  "\<exists>d cs. map of_char (num_str up 10 n) = (48 + d :: nat) # cs \<and> d < 10 \<and> (d = 0 \<longrightarrow> n = 0)"
proof -
  obtain d ds where ds: "to_digits 10 n = d # ds"
    by (cases "to_digits 10 n") simp_all
  then have "d < 10" "d = 0 \<longrightarrow> n = 0"
    using to_digits_lt [of 10 d n] hd_to_digits [of 10 n] by (auto intro: gr0I)
  then show ?thesis
    using ds by (simp add: num_str_def digit_char_code)
qed

lemma decimal_head:
  obtains c cs where "W (num_str up 10 n) = c # cs" and "48 \<le> c" and "c \<le> 57" and "c = 48 \<longrightarrow> n = 0"
proof -
  obtain d cs where d: "map of_char (num_str up 10 n) = (48 + d :: nat) # cs" "d < 10" "d = 0 \<longrightarrow> n = 0"
    using decimal_digits [where up = up and n = n] by metis
  then obtain c w where w: "W (num_str up 10 n) = c # w" "unat c = 48 + d"
    using unat_W [of "num_str up 10 n"] by (cases "W (num_str up 10 n)") auto
  then have "48 \<le> c" "c \<le> 57" "c = 48 \<longrightarrow> n = 0"
    using d by (auto simp: word_le_nat_alt)
  then show thesis
    using w(1) that by blast
qed

lemma sign_decimal [simp]: "split_sign (W (num_str up 10 n)) = (False, W (num_str up 10 n))"
proof -
  obtain c cs where c: "W (num_str up 10 n) = c # cs" "48 \<le> c" "c \<le> 57" "c = 48 \<longrightarrow> n = 0"
    by (rule decimal_head)
  then have "\<not> is_space c" "c \<noteq> 45" "c \<noteq> 43"
    by (auto simp: is_space_def word_le_nat_alt)
  then show ?thesis
    using c(1) by (simp add: split_sign_def)
qed

lemma parse_nat_decimal [simp]: "parse_nat 0 (W (num_str up 10 n)) = n"
proof -
  obtain c cs where c: "W (num_str up 10 n) = c # cs" "c = 48 \<longrightarrow> n = 0"
    using decimal_head by metis
  show ?thesis
  proof (cases "n = 0")
    case True
    have "char_of (48 :: nat) = CHR ''0''"
      by (simp add: char_of_def bit_0)
    then have "W (num_str up 10 0) = [48]"
      by (simp add: num_str_def to_digits.simps digit_char_def W_def)
    then show ?thesis
      using True by (simp add: parse_nat_def digit_code_def)
  next
    case False
    then have "parse_nat 0 (W (num_str up 10 n)) = parse_digits 10 (map unat (W (num_str up 10 n))) 0"
      using c by (simp add: parse_nat_def)
    then show ?thesis
      by (simp add: unat_W parse_num_str)
  qed
qed

lemma wcstoul_num: "n < 2 ^ 32 \<Longrightarrow> wcstoul (W (num_str up 10 n)) 0 = word_of_nat n"
  by (simp add: wcstoul_def)

lemma wcstoul_fmt_u: "wcstoul (W (fmt_u (w :: DWORD))) 0 = w"
  using unat_lt_max [of w] by (simp add: fmt_u_def wcstoul_num)

lemma sign_minus: "split_sign (W (CHR ''-'' # s)) = (True, W s)"
  by (simp add: split_sign_def is_space_def W_def)

lemma wcstol_int: "- (2 ^ 31) \<le> i \<Longrightarrow> i < 2 ^ 31 \<Longrightarrow> wcstol (W (int_str i)) 0 = word_of_int i"
proof (cases "i < 0")
  case True
  assume "- (2 ^ 31) \<le> i"
  with True have "nat (- i) \<le> 2 ^ 31"
    by simp
  moreover have "(- word_of_nat (nat (- i)) :: DWORD) = word_of_int i"
    using True by (simp add: of_nat_nat)
  ultimately show ?thesis
    using True by (simp add: int_str_def wcstol_def sign_minus)
next
  case False
  assume "i < 2 ^ 31"
  with False have "\<not> 2147483648 \<le> nat i"
    by simp
  with False show ?thesis
    by (simp add: int_str_def wcstol_def of_nat_nat)
qed

end
