(* ===== verification/Catchsegv.thy ===== *)
theory Catchsegv
  imports CmdLine Strtoul Debugger
begin

text \<open>
  catchsegv (src/catchsegv/catchsegv.cpp, apart from the quoting in theory \<open>CmdLine\<close>): its options, the
  timer that watches for modal dialogs and the time-out, the console control handler, and the part of
  \<open>wmain\<close> behind the options. Theory \<open>Startup\<close> has the loop over the options and the whole of \<open>wmain\<close>.
\<close>

section \<open>State\<close>

record top_window =
  w_process :: DWORD
  w_thread :: DWORD
  w_style :: DWORD
  w_text :: wstr                     \<comment> \<open>empty when it has none or cannot be read\<close>

record seg_os = dbg_os +
  sg_OpenProcess :: "DWORD \<Rightarrow> HANDLE"
  sg_TerminateProcess :: "HANDLE \<Rightarrow> bool"
  sg_EnumWindows :: "effect list \<Rightarrow> top_window list"
  sg_CreateProcessW :: "bool \<Rightarrow> wstr \<Rightarrow> (HANDLE \<times> HANDLE) option"
    \<comment> \<open>process and thread; the flag is whether \<open>_NO_DEBUG_HEAP\<close> has been set\<close>
  sg_GetProcessId :: "HANDLE \<Rightarrow> DWORD"
  sg_CreateTimerQueue :: HANDLE
  sg_timeGetDevCaps :: "DWORD option"                          \<comment> \<open>the largest period\<close>
  sg_CreateTimerQueueTimer :: bool
  sg_GetExitCodeProcess :: "effect list \<Rightarrow> HANDLE \<Rightarrow> DWORD option"
  sg_last_error :: DWORD

record seg_state =
  g_TimeOut :: DWORD
  g_ElapsedTime :: DWORD
  g_TimerIgnore :: bool
  g_Period :: DWORD
  g_ModalDialogIgnore :: bool
  cCtrlC :: DWORD
  cCtrlBreak :: DWORD
  stderr_texts :: "wstr list"
  debugger :: dbg_state

definition seg_start :: seg_state where
  "seg_start = \<lparr>g_TimeOut = 0, g_ElapsedTime = 0, g_TimerIgnore = False, g_Period = 1000,
     g_ModalDialogIgnore = False, cCtrlC = 0, cCtrlBreak = 0, stderr_texts = [],
     debugger = \<lparr>g_Processes = [], fFinished = False, fTerminating = False, effects = []\<rparr>\<rparr>"

definition complain :: "wstr \<Rightarrow> seg_state \<Rightarrow> seg_state" where
  "complain txt st = st\<lparr>stderr_texts := stderr_texts st @ [txt]\<rparr>"

definition act :: "effect list \<Rightarrow> seg_state \<Rightarrow> seg_state" where
  "act es st = st\<lparr>debugger := emit es (debugger st)\<rparr>"

section \<open>The timer\<close>

text \<open>The result of a callback on the timer's thread: \<open>True\<close> when it has ended catchsegv.\<close>

definition TerminateProcessById :: "'a seg_os_scheme \<Rightarrow> DWORD \<Rightarrow> seg_state \<Rightarrow> bool \<times> seg_state" where
  "TerminateProcessById os pid st =
     (let h = sg_OpenProcess os pid;
          st = (if h \<noteq> 0 then act [Terminate h 3, Close h] st else st);
          bTerminated = (h \<noteq> 0 \<and> sg_TerminateProcess os h)
      in if bTerminated then (False, st)
         else (True, complain (W (''catchsegv: error: failed to interrupt target (0x'' @
                                  fmt_x 8 (sg_last_error os) @ '')'') @ [NL]) st))"

abbreviation DS_MODALFRAME :: DWORD where "DS_MODALFRAME \<equiv> 0x80"

text \<open>\<open>EnumWindowCallback\<close>: whether to go on with the next window, and whether catchsegv has exited.\<close>

definition EnumWindowCallback :: "'a seg_os_scheme \<Rightarrow> DebugOptions \<Rightarrow> DWORD \<Rightarrow> top_window \<Rightarrow> seg_state \<Rightarrow>
    fault + (bool \<times> bool) \<times> seg_state" where
  "EnumWindowCallback os opts pid w st =
     (if w_process w = pid \<and> flag_set (w_style w) DS_MODALFRAME then
        let st = complain (W ''catchsegv: error: message dialog detected ('' @ take 255 (w_text w) @ W '')'' @ [NL]) st;
            st = st\<lparr>g_TimerIgnore := True\<rparr> in
        if w_thread w = 0 \<and> \<not> so_ndebug os then Inl AssertionFailed
        else
          bnd (TrapThread (dbg_os.truncate os) opts pid (w_thread w) (debugger st)) (\<lambda>(r, d).
            Inr ((False, r = Exited), st\<lparr>debugger := d\<rparr>))
      else Inr ((True, False), st))"

fun enum_windows :: "'a seg_os_scheme \<Rightarrow> DebugOptions \<Rightarrow> DWORD \<Rightarrow> top_window list \<Rightarrow> seg_state \<Rightarrow>
    fault + bool \<times> seg_state" where
  "enum_windows os opts pid [] st = Inr (False, st)"
| "enum_windows os opts pid (w # ws) st =
     bnd (EnumWindowCallback os opts pid w st) (\<lambda>((go_on, exited), st).
       if go_on then enum_windows os opts pid ws st else Inr (exited, st))"

text \<open>The time-out itself: the product is taken in 32 bits.\<close>

definition check_timeout :: "'a seg_os_scheme \<Rightarrow> DWORD \<Rightarrow> seg_state \<Rightarrow> bool \<times> seg_state" where
  "check_timeout os pid st =
     (let st = st\<lparr>g_ElapsedTime := g_ElapsedTime st + g_Period st\<rparr> in
      if g_TimeOut st = 0 \<or> g_ElapsedTime st < g_TimeOut st * 1000 then (False, st)
      else
        TerminateProcessById os pid
          ((complain (W (''catchsegv: time out ('' @ fmt_u (g_TimeOut st) @ '' sec) exceeded'') @ [NL]) st)
            \<lparr>g_TimerIgnore := True\<rparr>))"

definition TimeOutCallback :: "'a seg_os_scheme \<Rightarrow> DebugOptions \<Rightarrow> DWORD \<Rightarrow> seg_state \<Rightarrow> fault + bool \<times> seg_state" where
  "TimeOutCallback os opts pid st =
     (if g_TimerIgnore st then Inr (False, st)
      else
        bnd (if g_ModalDialogIgnore st then Inr (False, st)
             else enum_windows os opts pid (sg_EnumWindows os (effects (debugger st))) st) (\<lambda>(exited, st).
          Inr (if exited then (True, st)
               else if g_TimerIgnore st then (False, st)
               else check_timeout os pid st)))"

section \<open>Console control events\<close>

abbreviation CTRL_C_EVENT :: DWORD where "CTRL_C_EVENT \<equiv> 0"
abbreviation CTRL_BREAK_EVENT :: DWORD where "CTRL_BREAK_EVENT \<equiv> 1"

text \<open>\<open>TRUE\<close> means that the event is swallowed.\<close>

definition consoleCtrlHandler :: "DWORD \<Rightarrow> seg_state \<Rightarrow> bool \<times> seg_state" where
  "consoleCtrlHandler fdwCtrlType st =
     (if fdwCtrlType = CTRL_C_EVENT then
        (cCtrlC st = 0, (complain (W ''catchsegv: warning: caught Ctrl-C event'' @ [NL]) st)\<lparr>cCtrlC := cCtrlC st + 1\<rparr>)
      else if fdwCtrlType = CTRL_BREAK_EVENT then
        (cCtrlBreak st = 0,
         (complain (W ''catchsegv: warning: caught Ctrl-Break event'' @ [NL]) st)\<lparr>cCtrlBreak := cCtrlBreak st + 1\<rparr>)
      else (False, st))"

section \<open>Options\<close>

record seg_options =
  o_debug :: DebugOptions
  o_heap :: bool
  o_state :: seg_state

datatype seg_parse = SegUsage | SegRun seg_options

definition plain_options :: DebugOptions where
  "plain_options = \<lparr>breakpoint_flag = False, verbose_flag = False, debug_flag = False, first_chance = False,
     minidump = False, minidumpDir = None, hEvent = 0, resume_dwThreadId = 0, no_debug_string = False\<rparr>"

text \<open>One option; \<open>None\<close> for one that ends the loop.\<close>

definition seg_option :: "char \<Rightarrow> wstr \<Rightarrow> seg_options \<Rightarrow> seg_options option" where
  "seg_option opt optarg s =
     (if opt = CHR ''v'' then Some (s\<lparr>o_debug := o_debug s\<lparr>verbose_flag := True\<rparr>\<rparr>)
      else if opt = CHR ''d'' then Some (s\<lparr>o_debug := o_debug s\<lparr>debug_flag := True\<rparr>\<rparr>)
      else if opt = CHR ''1'' then Some (s\<lparr>o_debug := o_debug s\<lparr>first_chance := True\<rparr>\<rparr>)
      else if opt = CHR ''m'' then Some (s\<lparr>o_state := o_state s\<lparr>g_ModalDialogIgnore := True\<rparr>\<rparr>)
      else if opt = CHR ''t'' then Some (s\<lparr>o_state := o_state s\<lparr>g_TimeOut := wcstoul optarg 0\<rparr>\<rparr>)
      else if opt = CHR ''H'' then Some (s\<lparr>o_heap := True\<rparr>)
      else if opt = CHR ''z'' then Some (s\<lparr>o_debug := o_debug s\<lparr>minidump := True\<rparr>\<rparr>)
      else if opt = CHR ''Z'' then Some (s\<lparr>o_debug := o_debug s\<lparr>minidump := True, minidumpDir := Some optarg\<rparr>\<rparr>)
      else if opt = CHR ''q'' then Some (s\<lparr>o_debug := o_debug s\<lparr>no_debug_string := True\<rparr>\<rparr>)
      else None)"

section \<open>The program\<close>

abbreviation EXIT_FAILURE :: DWORD where "EXIT_FAILURE \<equiv> 1"
abbreviation STILL_ACTIVE :: DWORD where "STILL_ACTIVE \<equiv> 259"

definition Usage :: "seg_state \<Rightarrow> seg_state" where
  "Usage st = complain
     (W ''usage: catchsegv [options] -- <command-line>'' @ [NL] @
      [NL] @
      W ''options:'' @ [NL] @
      W ''  -?|-h        displays command line help text'' @ [NL] @
      W ''  -v           enables verbose output from the debugger'' @ [NL] @
      W ''  -d           enables debugging output (for debugging catchsegv itself)'' @ [NL] @
      W ''  -t SECONDS   specifies a timeout in seconds'' @ [NL] @
      W ''  -1           dump stack on first chance exceptions'' @ [NL] @
      W ''  -m           ignore modal dialogs'' @ [NL] @
      W ''  -z           write minidumps'' @ [NL] @
      W ''  -Z DIRECTORY write minidumps to specified directory'' @ [NL] @
      W ''  -H           use debug heap'' @ [NL] @
      W ''  -q           silence messages from OutputDebugString'' @ [NL]) st"

text \<open>
  The debuggee is created with its timer, without the debug heap unless it is asked for; \<open>Inl\<close> is the exit
  code of a failure.
\<close>

definition start_debuggee :: "'a seg_os_scheme \<Rightarrow> bool \<Rightarrow> wstr \<Rightarrow> seg_state \<Rightarrow> (DWORD \<times> seg_state) + HANDLE \<times> HANDLE \<times> seg_state" where
  "start_debuggee os debugHeap commandLine st =
     (let failed = (\<lambda>what. Inl (EXIT_FAILURE, complain (W (''catchsegv: error: failed to '' @ what @ '' (0x'' @
                                   fmt_x 8 (sg_last_error os) @ '')'') @ [NL]) st)) in
      case sg_CreateProcessW os (\<not> debugHeap) commandLine of
        None \<Rightarrow> failed ''create the process''
      | Some (hP, hT) \<Rightarrow>
          if sg_CreateTimerQueue os = 0 then failed ''create a timer queue''
          else
            let period = (case sg_timeGetDevCaps os of
                            Some wPeriodMax \<Rightarrow> if wPeriodMax < g_Period st then wPeriodMax else g_Period st
                          | None \<Rightarrow> g_Period st) in
            if \<not> sg_CreateTimerQueueTimer os then failed ''CreateTimerQueueTimer failed''
            else Inr (hP, hT, st\<lparr>g_Period := period\<rparr>))"

text \<open>
  \<open>wmain\<close> behind the options, without callbacks of the timer: the exit code and the final state.
\<close>

definition run_command :: "'a seg_os_scheme \<Rightarrow> seg_options \<Rightarrow> wstr list \<Rightarrow> (fault + DWORD \<times> seg_state) option" where
  "run_command os s rest =
     (let commandLine = command_line rest; st = o_state s in
      if commandLine = [] then
        return (EXIT_FAILURE, Usage (complain (W ''catchsegv: error: no command line given'' @ [NL, NL]) st))
      else
        case start_debuggee os (o_heap s) commandLine st of
          Inl failure \<Rightarrow> return failure
        | Inr (hP, hT, st) \<Rightarrow>
            run (DebugMainLoop (set_sym_options (debug_flag (o_debug s)) (dbg_os.truncate os)) (o_debug s) []) (\<lambda>(r, d).
              let st = st\<lparr>debugger := d\<rparr> in
              if r = ExitFailure then return (EXIT_FAILURE, st)
              else
                let code = (case sg_GetExitCodeProcess os (effects d) hP of
                              Some c \<Rightarrow> c | None \<Rightarrow> STILL_ACTIVE)
                in return (code, act [Close hP, Close hT] st)))"

end
