(* ===== verification/Catchsegv_Facts.thy ===== *)
theory Catchsegv_Facts
  imports Catchsegv Debugger_Props
begin

text \<open>
  What makes catchsegv correct around its debugger: the time-out fires once and when it should, and the
  first console control event of a kind is swallowed.
\<close>

definition sample_seg :: seg_os where
  "sample_seg = dbg_os.extend sample_dbg
     (seg_os.fields (\<lambda>_. 6) (\<lambda>_. True) (\<lambda>_. [\<lparr>w_process = 8, w_thread = 1, w_style = 0x80, w_text = []\<rparr>])
        (\<lambda>_ _. Some (1, 4)) (\<lambda>_. 7) 2 None True (\<lambda>_ _. Some 0) 0)"

lemmas sample_seg_defs = sample_seg_def sample_defs sample_fields seg_os.defs

section \<open>The time-out\<close>

text \<open>The debuggee shows no modal dialog.\<close>

definition no_dialog :: "'a seg_os_scheme \<Rightarrow> DWORD \<Rightarrow> bool" where
  "no_dialog os pid \<longleftrightarrow>
     (\<forall>es. \<forall>w \<in> set (sg_EnumWindows os es). w_process w = pid \<longrightarrow> \<not> flag_set (w_style w) DS_MODALFRAME)"

lemma enum_windows_quiet:
  "\<forall>w \<in> set ws. w_process w = pid \<longrightarrow> \<not> flag_set (w_style w) DS_MODALFRAME \<Longrightarrow>
   enum_windows os opts pid ws st = Inr (False, st)"
  by (induction ws) (auto simp: EnumWindowCallback_def)

lemma callback_quiet:
  "no_dialog os pid \<Longrightarrow> \<not> g_TimerIgnore st \<Longrightarrow> TimeOutCallback os opts pid st = Inr (check_timeout os pid st)"
  by (simp add: TimeOutCallback_def no_dialog_def enum_windows_quiet)

text \<open>The first callbacks of the timer.\<close>

fun ticks :: "'a seg_os_scheme \<Rightarrow> DebugOptions \<Rightarrow> DWORD \<Rightarrow> nat \<Rightarrow> seg_state \<Rightarrow> fault + bool \<times> seg_state" where
  "ticks os opts pid 0 st = Inr (False, st)"
| "ticks os opts pid (Suc n) st =
     bnd (ticks os opts pid n st) (\<lambda>(exited, st). if exited then Inr (True, st) else TimeOutCallback os opts pid st)"

text \<open>What has become of the timer after \<open>n\<close> callbacks.\<close>

definition fired :: "DWORD \<Rightarrow> DWORD \<Rightarrow> nat \<Rightarrow> bool" where
  "fired TimeOut Period n \<longleftrightarrow> 0 < n \<and> unat (TimeOut * 1000) \<le> n * unat Period"

definition timer_after :: "HANDLE \<Rightarrow> nat \<Rightarrow> seg_state \<Rightarrow> seg_state \<Rightarrow> bool" where
  "timer_after h n st st' \<longleftrightarrow>
     g_TimeOut st' = g_TimeOut st \<and> g_Period st' = g_Period st \<and> g_ModalDialogIgnore st' = g_ModalDialogIgnore st \<and>
     g_TimerIgnore st' = fired (g_TimeOut st) (g_Period st) n \<and>
     (\<not> g_TimerIgnore st' \<longrightarrow> unat (g_ElapsedTime st') = n * unat (g_Period st)) \<and>
     effects (debugger st') = effects (debugger st) @
       (if fired (g_TimeOut st) (g_Period st) n then [Terminate h 3, Close h] else [])"

lemma fired_mono: "fired T P n \<Longrightarrow> fired T P (Suc n)"
  by (auto simp: fired_def)

lemma check_timeout_steps:
  assumes "sg_OpenProcess os pid = h" and "h \<noteq> 0" and "sg_TerminateProcess os h" and "g_TimeOut st \<noteq> 0"
    and "timer_after h n st mid" and "\<not> g_TimerIgnore mid" and "Suc n * unat (g_Period st) < 2 ^ 32"
  shows "\<exists>st'. check_timeout os pid mid = (False, st') \<and> timer_after h (Suc n) st st'"
proof -
  have mid: "g_TimeOut mid = g_TimeOut st" "g_Period mid = g_Period st"
    "unat (g_ElapsedTime mid) = n * unat (g_Period st)" "effects (debugger mid) = effects (debugger st)"
    "g_ModalDialogIgnore mid = g_ModalDialogIgnore st"
    using assms(5,6) by (simp_all add: timer_after_def split: if_splits)
  have "unat (g_ElapsedTime mid + g_Period mid) = Suc n * unat (g_Period st)"
    using assms(7) mid by (simp add: unat_word_ariths)
  then have "g_ElapsedTime mid + g_Period mid < g_TimeOut mid * 1000 \<longleftrightarrow> \<not> fired (g_TimeOut st) (g_Period st) (Suc n)"
    using mid by (simp add: fired_def word_less_nat_alt not_le)
  then show ?thesis
    using assms(1-4) mid \<open>unat (g_ElapsedTime mid + g_Period mid) = Suc n * unat (g_Period st)\<close>
    by (simp add: check_timeout_def Let_def timer_after_def TerminateProcessById_def act_def complain_def assms(6))
qed

lemma ticks_timer:
  assumes "no_dialog os pid" and "sg_OpenProcess os pid = h" and "h \<noteq> 0" and "sg_TerminateProcess os h"
    and "g_TimeOut st \<noteq> 0" and "\<not> g_TimerIgnore st" and "g_ElapsedTime st = 0"
  shows "n * unat (g_Period st) < 2 ^ 32 \<Longrightarrow> \<exists>st'. ticks os opts pid n st = Inr (False, st') \<and> timer_after h n st st'"
proof (induction n)
  case 0
  then show ?case
    using assms(6,7) by (simp add: timer_after_def fired_def)
next
  case (Suc n)
  then obtain mid where mid: "ticks os opts pid n st = Inr (False, mid)" "timer_after h n st mid"
    by auto
  show ?case
  proof (cases "g_TimerIgnore mid")
    case True
    then have "fired (g_TimeOut st) (g_Period st) n"
      using mid(2) by (simp add: timer_after_def)
    then have "timer_after h (Suc n) st mid"
      using mid(2) fired_mono True by (simp add: timer_after_def)
    then show ?thesis
      using mid(1) True by (simp add: TimeOutCallback_def)
  next
    case False
    then obtain st' where "check_timeout os pid mid = (False, st')" "timer_after h (Suc n) st st'"
      using check_timeout_steps [OF assms(2-5) mid(2)] Suc.prems by blast
    then show ?thesis
      using mid(1) callback_quiet [OF assms(1) False] by simp
  qed
qed

text \<open>C27: a debuggee that shows no modal dialog is terminated exactly once, at the first callback of the timer
  at which the time since the start has reached the time-out; the time-out that counts is the number of
  milliseconds modulo 2^32, so that one of more than 4294967 seconds fires too early.\<close>

theorem timeout_fires_once:
  assumes "no_dialog os pid" and "sg_OpenProcess os pid = h" and "h \<noteq> 0" and "sg_TerminateProcess os h"
    and "g_TimeOut st \<noteq> 0" and "\<not> g_TimerIgnore st" and "g_ElapsedTime st = 0"
    and "n * unat (g_Period st) < 2 ^ 32"
  shows "\<exists>st'. ticks os opts pid n st = Inr (False, st') \<and>
    effects (debugger st') = effects (debugger st) @
      (if 0 < n \<and> (unat (g_TimeOut st) * 1000) mod 2 ^ 32 \<le> n * unat (g_Period st)
       then [Terminate h 3, Close h] else [])"
proof -
  have "unat (g_TimeOut st * 1000) = (unat (g_TimeOut st) * 1000) mod 2 ^ 32"
    by (simp add: unat_word_ariths)
  then show ?thesis
    using ticks_timer [OF assms(1-7), of n opts] assms(8) by (auto simp: timer_after_def fired_def)
qed

text \<open>A time-out of 4294968 seconds ends the program after the first second.\<close>

theorem timeout_fires_once_witness:
  "\<exists>st'. ticks sample_seg sample_opts 7 1 (seg_start\<lparr>g_TimeOut := 4294968\<rparr>) = Inr (False, st') \<and>
     effects (debugger st') = [Terminate 6 3, Close 6]"
proof -
  have "no_dialog sample_seg 7" "sg_OpenProcess sample_seg 7 = 6" "sg_TerminateProcess sample_seg 6"
    by (simp_all add: no_dialog_def sample_seg_defs)
  then show ?thesis
    using timeout_fires_once [of sample_seg 7 6 "seg_start\<lparr>g_TimeOut := 4294968\<rparr>" 1 sample_opts]
    by (simp add: seg_start_def)
qed

section \<open>Console control events\<close>

text \<open>The answers to a sequence of events.\<close>

fun control_answers :: "DWORD list \<Rightarrow> seg_state \<Rightarrow> bool list" where
  "control_answers [] st = []"
| "control_answers (e # es) st =
     (let (swallowed, st) = consoleCtrlHandler e st in swallowed # control_answers es st)"

definition controls :: "DWORD \<Rightarrow> seg_state \<Rightarrow> DWORD" where
  "controls e st = (if e = CTRL_C_EVENT then cCtrlC st else cCtrlBreak st)"

lemma control_answers_nth:
  "i < length es \<Longrightarrow> unat (cCtrlC st) + length es < 2 ^ 32 \<Longrightarrow> unat (cCtrlBreak st) + length es < 2 ^ 32 \<Longrightarrow>
   control_answers es st ! i \<longleftrightarrow>
     es ! i \<in> {CTRL_C_EVENT, CTRL_BREAK_EVENT} \<and> es ! i \<notin> set (take i es) \<and> controls (es ! i) st = 0"
proof (induction es arbitrary: i st)
  case (Cons e es)
  let ?st = "snd (consoleCtrlHandler e st)"
  have inc: "unat (x + 1) = unat x + 1" if "unat x + length (e # es) < 2 ^ 32" for x :: DWORD
    using that by (simp add: unat_word_ariths)
  have nonzero: "x + 1 \<noteq> 0" if "unat x + length (e # es) < 2 ^ 32" for x :: DWORD
    using inc [OF that] by auto
  show ?case
  proof (cases i)
    case 0
    then show ?thesis
      by (auto simp: consoleCtrlHandler_def controls_def)
  next
    case (Suc j)
    have "unat (cCtrlC ?st) + length es < 2 ^ 32" "unat (cCtrlBreak ?st) + length es < 2 ^ 32"
      using Cons.prems inc by (auto simp: consoleCtrlHandler_def complain_def)
    then have "control_answers es ?st ! j \<longleftrightarrow>
        es ! j \<in> {CTRL_C_EVENT, CTRL_BREAK_EVENT} \<and> es ! j \<notin> set (take j es) \<and> controls (es ! j) ?st = 0"
      using Cons.IH [of j ?st] Cons.prems(1) Suc by simp
    moreover have "control_answers (e # es) st ! i = control_answers es ?st ! j"
      using Suc by (simp add: case_prod_beta)
    moreover have "controls (es ! j) ?st = 0 \<longleftrightarrow> controls (es ! j) st = 0 \<and> es ! j \<noteq> e"
      if "es ! j \<in> {CTRL_C_EVENT, CTRL_BREAK_EVENT}"
      using that nonzero Cons.prems(2,3)
      by (auto simp: consoleCtrlHandler_def controls_def complain_def)
    ultimately show ?thesis
      using Suc by auto
  qed
qed simp

text \<open>Catchsegv survives the first Ctrl-C and the first Ctrl-Break, so that it can still report the crash of
  its debuggee, and lets every later one, and every other event, end it.\<close>

theorem first_control_swallowed:
  assumes "i < length es" and "length es < 2 ^ 32"
  shows "control_answers es seg_start ! i \<longleftrightarrow>
    es ! i \<in> {CTRL_C_EVENT, CTRL_BREAK_EVENT} \<and> es ! i \<notin> set (take i es)"
  using control_answers_nth [of i es seg_start] assms by (simp add: seg_start_def controls_def)

theorem first_control_swallowed_witness: "control_answers [0, 1, 0] seg_start ! 1 \<and> \<not> control_answers [0, 1, 0] seg_start ! 2"
  using first_control_swallowed [of 1 "[0, 1, 0]"] first_control_swallowed [of 2 "[0, 1, 0]"] by simp

end
