(* ===== verification/Dialog.thy ===== *)
theory Dialog
  imports Log "HOL-Library.Multiset"
begin

text \<open>
  The window of drmingw (src/drmingw/dialog.cpp, errmsg.cpp): the text that the debugger's thread appends
  travels through the message queue of the window to its edit control; the user may save it. The model
  keeps the queue, the text of the control and the copies of texts that are not freed yet; what Windows
  draws is left out. Theory \<open>Dialog_Facts\<close> has what is proved of it.
\<close>

datatype message =
    WM_CREATE
  | WM_USER_APPEND_TEXT wstr
  | WM_SIZE bool DWORD                  \<comment> \<open>minimized, and the packed size\<close>
  | WM_SETFOCUS
  | WM_COMMAND WORD
  | WM_CLOSE
  | WM_OTHER DWORD

datatype box_answer = IDABORT | IDRETRY | IDIGNORE
datatype box_action = ExitProcess DWORD | DebugBreak | GoOn

record dialog_os =
  di_RegisterClassExW :: bool
  di_CreateWindowExW :: bool
  di_wShowWindow :: "WORD option"       \<comment> \<open>of the start-up information, where it is to be used\<close>
  di_dpiY :: int
  di_LastErrorMessage :: string
  di_source_file :: string              \<comment> \<open>\<open>__FILE__\<close>\<close>
  di_MessageBoxA :: "string \<Rightarrow> box_answer"
  di_PostMessage :: bool
  di_GetMessage_fails :: "message list \<Rightarrow> bool"
  di_GetSaveFileNameW :: "wstr option"
  di_CreateFileW :: "wstr \<Rightarrow> bool"
  di_GlobalAlloc :: "nat \<Rightarrow> bool"
  di_WriteFile :: bool
  di_GetModuleFileNameW :: "string option"      \<comment> \<open>as \<open>%ls\<close> prints it\<close>

record dialog_state =
  edit_text :: wstr
  edit_size :: "WORD \<times> WORD"
  edit_focus :: bool
  edit_font_height :: int
  msg_queue :: "message list"
  copies :: "wstr multiset"              \<comment> \<open>what \<open>wcsdup\<close> has allocated and \<open>free\<close> has not freed\<close>
  window_alive :: bool
  window_shown :: "WORD option"
  quit_posted :: "DWORD option"         \<comment> \<open>WM_QUIT and its \<open>wParam\<close>, the argument of \<open>PostQuitMessage\<close>\<close>
  saved_files :: "(wstr \<times> BYTE list) list"
  boxes :: "wstr list"

text \<open>Before \<open>createDialog\<close> there is no window.\<close>

definition no_window :: dialog_state where
  "no_window = \<lparr>edit_text = [], edit_size = (0, 0), edit_focus = False, edit_font_height = 0, msg_queue = [],
     copies = {#}, window_alive = False, window_shown = None, quit_posted = None, saved_files = [], boxes = []\<rparr>"

abbreviation IDOK :: WORD where "IDOK \<equiv> 1"
abbreviation IDCANCEL :: WORD where "IDCANCEL \<equiv> 2"
abbreviation CM_FILE_SAVEAS :: WORD where "CM_FILE_SAVEAS \<equiv> 9001"
abbreviation CM_FILE_EXIT :: WORD where "CM_FILE_EXIT \<equiv> 9002"
abbreviation CM_HELP_ABOUT :: WORD where "CM_HELP_ABOUT \<equiv> 9003"
abbreviation SW_SHOWDEFAULT :: WORD where "SW_SHOWDEFAULT \<equiv> 10"

text \<open>The about box: whether the message is handled, and with what the dialog ends.\<close>

datatype about_message = WM_INITDIALOG | ABOUT_COMMAND WORD | ABOUT_OTHER

definition AboutDlgProc :: "about_message \<Rightarrow> bool \<times> WORD option" where
  "AboutDlgProc m =
     (case m of
        WM_INITDIALOG \<Rightarrow> (True, None)
      | ABOUT_COMMAND w \<Rightarrow> if w = IDOK \<or> w = IDCANCEL then (True, Some w) else (False, None)
      | ABOUT_OTHER \<Rightarrow> (False, None))"

text \<open>
  A message is posted with a copy of the text, which is lost when the queue is full or the window has been
  destroyed.
\<close>

definition appendText :: "dialog_os \<Rightarrow> wstr \<Rightarrow> dialog_state \<Rightarrow> dialog_state" where
  "appendText os szText st =
     (let st = st\<lparr>copies := add_mset szText (copies st)\<rparr> in
      if window_alive st \<and> di_PostMessage os
      then st\<lparr>msg_queue := msg_queue st @ [WM_USER_APPEND_TEXT szText]\<rparr> else st)"

text \<open>The text is written as it is in memory, without a byte order mark.\<close>

definition utf16_bytes :: "wstr \<Rightarrow> BYTE list" where
  "utf16_bytes s = concat (map (\<lambda>c. [ucast c, ucast (drop_bit 8 c)]) s)"

definition write_text :: "dialog_os \<Rightarrow> dialog_state \<Rightarrow> BYTE list option" where
  "write_text os st =
     (let dwTextLength = length (edit_text st) in
      if dwTextLength > 0 \<and> di_GlobalAlloc os ((dwTextLength + 1) * 2) \<and> di_WriteFile os
      then Some (utf16_bytes (edit_text st)) else None)"

definition save_as :: "dialog_os \<Rightarrow> dialog_state \<Rightarrow> dialog_state" where
  "save_as os st =
     (case di_GetSaveFileNameW os of
        None \<Rightarrow> st
      | Some name \<Rightarrow>
          (let written = (if di_CreateFileW os name then Some (write_text os st) else None);
               st = (case written of
                       None \<Rightarrow> st
                     | Some bytes \<Rightarrow>
                         st\<lparr>saved_files := saved_files st @ [(name, case bytes of Some b \<Rightarrow> b | None \<Rightarrow> [])]\<rparr>)
           in if written = None \<or> written = Some None
              then st\<lparr>boxes := boxes st @ [W ''Save file failed.'']\<rparr> else st))"

text \<open>\<open>DestroyWindow\<close> discards what is queued for the window and sends it WM_DESTROY, which posts the quit with exit code 0.\<close>

definition destroy_window :: "dialog_state \<Rightarrow> dialog_state" where
  "destroy_window st = st\<lparr>window_alive := False, msg_queue := [], quit_posted := Some 0\<rparr>"

text \<open>\<open>MulDiv\<close>: the quotient, rounded half away from zero (for a positive divisor).\<close>

definition MulDiv :: "int \<Rightarrow> int \<Rightarrow> int \<Rightarrow> int" where
  "MulDiv n k d = sgn (n * k) * ((2 * \<bar>n * k\<bar> + d) div (2 * d))"

definition WndProc :: "dialog_os \<Rightarrow> message \<Rightarrow> dialog_state \<Rightarrow> dialog_state" where
  "WndProc os m st =
     (case m of
        WM_CREATE \<Rightarrow> st\<lparr>edit_text := [], edit_font_height := - MulDiv 10 (di_dpiY os) 72\<rparr>
      | WM_USER_APPEND_TEXT t \<Rightarrow>
          st\<lparr>edit_focus := True, edit_text := edit_text st @ t, copies := copies st - {#t#}\<rparr>
      | WM_SIZE minimized lParam \<Rightarrow> if minimized then st else st\<lparr>edit_size := (LOWORD lParam, HIWORD lParam)\<rparr>
      | WM_SETFOCUS \<Rightarrow> st\<lparr>edit_focus := True\<rparr>
      | WM_COMMAND w \<Rightarrow>
          if w = CM_FILE_SAVEAS then save_as os st
          else if w = CM_FILE_EXIT then
            (if di_PostMessage os then st\<lparr>msg_queue := msg_queue st @ [WM_CLOSE]\<rparr> else st)
          else st
      | WM_CLOSE \<Rightarrow> destroy_window st
      | WM_OTHER n \<Rightarrow> st)"

section \<open>Error boxes\<close>

abbreviation CRLF :: string where "CRLF \<equiv> [CHR 0x0D, CHR 0x0A]"

text \<open>\<open>_ErrorMessageBox\<close>: the two arrays on the stack overflow when the message does not fit.\<close>

definition error_message :: "string \<Rightarrow> string \<Rightarrow> DWORD \<Rightarrow> string \<Rightarrow> string" where
  "error_message szModule lpszFile dwLine szErrorMsg =
     ''Error!'' @ CRLF @ CRLF @ ''Program: '' @ szModule @ CRLF @ ''File: '' @ lpszFile @ CRLF @
     ''Line: '' @ fmt_u dwLine @ CRLF @ CRLF @ szErrorMsg @ CRLF @ CRLF @
     ''(Press Retry to debug the application - JIT must be enabled)'' @ CRLF"

definition ErrorMessageBox :: "string option \<Rightarrow> string \<Rightarrow> DWORD \<Rightarrow> string \<Rightarrow> (string \<Rightarrow> box_answer) \<Rightarrow> fault + box_action" where
  "ErrorMessageBox szModule lpszFile dwLine szErrorMsg MessageBoxA =
     (let szMsg = error_message (case szModule of Some m \<Rightarrow> m | None \<Rightarrow> []) lpszFile dwLine szErrorMsg in
      if length szErrorMsg \<ge> 1024 \<or> length szMsg \<ge> 4096 then Inl AccessViolation
      else Inr (case MessageBoxA szMsg of IDABORT \<Rightarrow> ExitProcess 3 | IDRETRY \<Rightarrow> DebugBreak | IDIGNORE \<Rightarrow> GoOn))"

section \<open>Creating the window\<close>

text \<open>A failure ends the program, by the answer to the box or by the \<open>exit(EXIT_FAILURE)\<close> after it.\<close>

definition dialog_failure :: "dialog_os \<Rightarrow> DWORD \<Rightarrow> string \<Rightarrow> fault + box_action" where
  "dialog_failure os dwLine what =
     bnd (ErrorMessageBox (di_GetModuleFileNameW os) (di_source_file os) dwLine (what @ di_LastErrorMessage os)
            (di_MessageBoxA os))
       (\<lambda>action. Inr (if action = GoOn then ExitProcess 1 else action))"

text \<open>\<open>CreateWindowExW\<close> sends WM_CREATE to the window before it returns.\<close>

definition createDialog :: "dialog_os \<Rightarrow> dialog_state \<Rightarrow> (fault + box_action) + dialog_state" where
  "createDialog os st =
     (if \<not> di_RegisterClassExW os then Inl (dialog_failure os 226 ''RegisterClassEx: '')
      else if \<not> di_CreateWindowExW os then Inl (dialog_failure os 235 ''CreateWindowEx: '')
      else
        let st = WndProc os WM_CREATE (st\<lparr>window_alive := True\<rparr>) in
        Inr (st\<lparr>window_shown := Some (case di_wShowWindow os of Some n \<Rightarrow> n | None \<Rightarrow> SW_SHOWDEFAULT)\<rparr>))"

section \<open>The message loop\<close>

text \<open>
  One message of \<open>mainLoop\<close>: the first of the queue is dispatched. \<open>GetMessage\<close> returns the quit when it has
  been posted and the queue is empty.
\<close>

definition dispatch :: "dialog_os \<Rightarrow> dialog_state \<Rightarrow> dialog_state" where
  "dispatch os st =
     (case msg_queue st of
        [] \<Rightarrow> st
      | m # ms \<Rightarrow> WndProc os m (st\<lparr>msg_queue := ms\<rparr>))"

definition loop_ended :: "dialog_state \<Rightarrow> bool" where
  "loop_ended st \<longleftrightarrow> quit_posted st \<noteq> None \<and> msg_queue st = []"

text \<open>What may happen next: the debugger appends, the user acts, the loop takes a message.\<close>

datatype ui_event = Append wstr | UserInput message | Dispatch

fun ui_step :: "dialog_os \<Rightarrow> ui_event \<Rightarrow> dialog_state \<Rightarrow> dialog_state" where
  "ui_step os (Append t) st = appendText os t st"
| "ui_step os (UserInput m) st = (if window_alive st then st\<lparr>msg_queue := msg_queue st @ [m]\<rparr> else st)"
| "ui_step os Dispatch st = dispatch os st"

definition ui_run :: "dialog_os \<Rightarrow> ui_event list \<Rightarrow> dialog_state \<Rightarrow> dialog_state" where
  "ui_run os es st = fold (ui_step os) es st"

text \<open>
  The loop while these events happen: the exit code, or \<open>None\<close> when it has not returned at their end. It
  returns with the \<open>wParam\<close> of WM_QUIT, the message \<open>GetMessage\<close> stops at, or with a failure when \<open>GetMessage\<close> fails.
\<close>

fun mainLoop :: "dialog_os \<Rightarrow> ui_event list \<Rightarrow> dialog_state \<Rightarrow> DWORD option \<times> dialog_state" where
  "mainLoop os [] st = (if loop_ended st then quit_posted st else None, st)"
| "mainLoop os (e # es) st =
     (if loop_ended st then (quit_posted st, st)
      else if e = Dispatch \<and> di_GetMessage_fails os (msg_queue st) then (Some 1, st)
      else mainLoop os es (ui_step os e st))"

end
