(* ===== verification/Dialog_Facts.thy ===== *)
theory Dialog_Facts
  imports Dialog
begin

text \<open>
  The window of drmingw: its loop returns exactly when the window has been closed, and whatever is appended
  arrives in its text in order.
\<close>

section \<open>The end of the loop\<close>

text \<open>The quit is posted exactly when the window is destroyed, which also empties its queue.\<close>

definition ui_inv :: "dialog_state \<Rightarrow> bool" where
  "ui_inv st \<longleftrightarrow> quit_posted st = (if window_alive st then None else Some 0) \<and> (window_alive st \<or> msg_queue st = [])"

lemma save_as_keeps [simp]: "edit_text (save_as os st) = edit_text st" "copies (save_as os st) = copies st"
  "msg_queue (save_as os st) = msg_queue st" "window_alive (save_as os st) = window_alive st"
  "quit_posted (save_as os st) = quit_posted st"
  by (auto simp: save_as_def Let_def split: option.split)

lemma ui_inv_step: "ui_inv st \<Longrightarrow> ui_inv (ui_step os e st)"
  by (cases "(os, e, st)" rule: ui_step.cases)
    (auto simp: ui_inv_def appendText_def dispatch_def WndProc_def destroy_window_def Let_def
      split: list.splits message.splits)

lemma loop_ended_iff: "ui_inv st \<Longrightarrow> loop_ended st \<longleftrightarrow> \<not> window_alive st"
  by (auto simp: ui_inv_def loop_ended_def)

lemma dead_stays: "\<not> window_alive st \<Longrightarrow> msg_queue st = [] \<Longrightarrow>
  \<not> window_alive (ui_step os e st) \<and> msg_queue (ui_step os e st) = []"
  by (cases e) (simp_all add: appendText_def dispatch_def Let_def)

lemma ui_run_simps [simp]: "ui_run os [] st = st" "ui_run os (e # es) st = ui_run os es (ui_step os e st)"
  by (simp_all add: ui_run_def)

lemma ui_run_dead: "\<not> window_alive st \<Longrightarrow> msg_queue st = [] \<Longrightarrow> \<not> window_alive (ui_run os es st)"
  by (induction es arbitrary: st) (simp_all add: dead_stays)

lemma loop_result:
  assumes "\<And>ms. \<not> di_GetMessage_fails os ms" and "ui_inv st"
  shows "fst (mainLoop os es st) = (if window_alive (ui_run os es st) then None else Some 0)"
  using assms(2)
proof (induction es arbitrary: st)
  case Nil
  then show ?case
    by (simp add: loop_ended_iff) (simp add: ui_inv_def)
next
  case (Cons e es)
  show ?case
  proof (cases "loop_ended st")
    case True
    then have dead: "\<not> window_alive st" "msg_queue st = []" and quit: "quit_posted st = Some 0"
      using Cons.prems by (simp_all add: ui_inv_def loop_ended_def split: if_splits)
    then have "\<not> window_alive (ui_run os es (ui_step os e st))"
      using ui_run_dead [of st os "e # es"] dead by simp
    with True quit show ?thesis
      by simp
  next
    case False
    with assms(1) Cons.IH [OF ui_inv_step [OF Cons.prems]] show ?thesis
      by simp
  qed
qed

text \<open>Closing the window: the message is reached after what was queued before it.\<close>

lemma dispatch_shortens:
  "msg_queue st = ms @ WM_CLOSE # rest \<Longrightarrow> window_alive st \<Longrightarrow>
   \<not> window_alive (ui_run os (replicate (Suc (length ms)) Dispatch) st)"
proof (induction ms arbitrary: st rest)
  case Nil
  then show ?case
    by (simp add: dispatch_def WndProc_def destroy_window_def)
next
  case (Cons m ms)
  let ?st = "dispatch os st"
  have "\<not> window_alive ?st \<and> msg_queue ?st = [] \<or> window_alive ?st \<and> (\<exists>rest. msg_queue ?st = ms @ WM_CLOSE # rest)"
    using Cons.prems by (cases m) (simp_all add: dispatch_def WndProc_def destroy_window_def)
  then show ?case
    using Cons.IH [of ?st] ui_run_dead [of ?st os "replicate (Suc (length ms)) Dispatch"] by auto
qed

section \<open>The text\<close>

fun appended :: "ui_event list \<Rightarrow> wstr list" where
  "appended [] = []"
| "appended (Append t # es) = t # appended es"
| "appended (e # es) = appended es"

fun queued :: "message list \<Rightarrow> wstr list" where
  "queued [] = []"
| "queued (WM_USER_APPEND_TEXT t # ms) = t # queued ms"
| "queued (m # ms) = queued ms"

lemma queued_append [simp]: "queued (ms @ ns) = queued ms @ queued ns"
  by (induction ms rule: queued.induct) simp_all

text \<open>Messages that the user's actions and the system may put into the queue while the window lives.\<close>

fun harmless :: "ui_event \<Rightarrow> bool" where
  "harmless (UserInput m) = (case m of WM_CREATE \<Rightarrow> False | WM_USER_APPEND_TEXT t \<Rightarrow> False | WM_CLOSE \<Rightarrow> False
     | WM_COMMAND w \<Rightarrow> w \<noteq> CM_FILE_EXIT | _ \<Rightarrow> True)"
| "harmless e = True"

definition harmless_queue :: "message list \<Rightarrow> bool" where
  "harmless_queue ms \<longleftrightarrow> list_all (\<lambda>m. harmless (UserInput m) \<or> (\<exists>t. m = WM_USER_APPEND_TEXT t)) ms"

definition log_inv :: "wstr list \<Rightarrow> dialog_state \<Rightarrow> bool" where
  "log_inv ts st \<longleftrightarrow> window_alive st \<and> edit_text st @ concat (queued (msg_queue st)) = concat ts \<and>
     copies st = mset (queued (msg_queue st)) \<and> harmless_queue (msg_queue st)"

lemma dispatch_inv: "log_inv ts st \<Longrightarrow> log_inv ts (dispatch os st)"
  by (cases "msg_queue st")
    (auto simp: dispatch_def log_inv_def harmless_queue_def WndProc_def split: message.splits if_splits)

lemma ui_step_inv:
  assumes "di_PostMessage os" and "harmless e" and "log_inv ts st"
  shows "log_inv (ts @ appended [e]) (ui_step os e st)"
proof (cases e)
  case (UserInput m)
  then have "queued [m] = []"
    using assms(2) by (cases m) simp_all
  then show ?thesis
    using assms UserInput by (simp add: log_inv_def harmless_queue_def)
next
  case Dispatch
  then show ?thesis
    using assms(3) dispatch_inv by simp
qed (use assms in \<open>simp add: log_inv_def appendText_def harmless_queue_def\<close>)

lemma appended_append: "appended (es @ fs) = appended es @ appended fs"
  by (induction es rule: appended.induct) simp_all

lemma ui_run_inv:
  "di_PostMessage os \<Longrightarrow> list_all harmless es \<Longrightarrow> log_inv ts st \<Longrightarrow> log_inv (ts @ appended es) (ui_run os es st)"
proof (induction es arbitrary: ts st)
  case (Cons e es)
  have "log_inv ((ts @ appended [e]) @ appended es) (ui_run os es (ui_step os e st))"
    by (rule Cons.IH) (use Cons.prems ui_step_inv [of os e ts st] in simp_all)
  moreover have "appended (e # es) = appended [e] @ appended es"
    using appended_append [of "[e]" es] by simp
  ultimately show ?case
    by (simp add: ui_run_def)
qed (simp add: ui_run_def)

text \<open>The window as \<open>createDialog\<close> leaves it.\<close>

lemma log_inv_created:
  assumes "createDialog os no_window = Inr st"
  shows "log_inv [] st \<and> ui_inv st"
  using assms
  by (auto simp: createDialog_def WndProc_def no_window_def log_inv_def ui_inv_def harmless_queue_def Let_def
      split: if_splits)

definition sample_dialog :: dialog_os where
  "sample_dialog = \<lparr>di_RegisterClassExW = True, di_CreateWindowExW = True, di_wShowWindow = None, di_dpiY = 96,
     di_LastErrorMessage = [], di_source_file = ''dialog.cpp'', di_MessageBoxA = (\<lambda>_. IDIGNORE),
     di_PostMessage = True, di_GetMessage_fails = (\<lambda>_. False), di_GetSaveFileNameW = None,
     di_CreateFileW = (\<lambda>_. True), di_GlobalAlloc = (\<lambda>_. True), di_WriteFile = True, di_GetModuleFileNameW = None\<rparr>"

lemma sample_created: "\<exists>st. createDialog sample_dialog no_window = Inr st \<and> edit_font_height st = - 13"
  by (simp add: createDialog_def sample_dialog_def WndProc_def MulDiv_def no_window_def)

text \<open>C21: the window's loop returns exactly when the window has been closed, then with exit code 0: as long as the
  window is there it does not return, and once the user has closed it, it returns as soon as the messages
  that were queued before have been dispatched.\<close>

theorem loop_returns_when_closed:
  assumes "createDialog os no_window = Inr st" and "\<And>ms. \<not> di_GetMessage_fails os ms"
  shows "fst (mainLoop os es st) = (if window_alive (ui_run os es st) then None else Some 0) \<and>
    (window_alive (ui_run os es st) \<longrightarrow>
     fst (mainLoop os (es @ UserInput WM_CLOSE # replicate (Suc (length (msg_queue (ui_run os es st)))) Dispatch) st) = Some 0)"
proof -
  have inv: "ui_inv st"
    using log_inv_created [OF assms(1)] by simp
  let ?mid = "ui_run os es st"
  have "\<not> window_alive (ui_run os (replicate (Suc (length (msg_queue ?mid))) Dispatch) (ui_step os (UserInput WM_CLOSE) ?mid))"
    if "window_alive ?mid"
    using that by (intro dispatch_shortens [where rest = "[]"]) simp_all
  moreover have "ui_run os (es @ UserInput WM_CLOSE # ds) st = ui_run os ds (ui_step os (UserInput WM_CLOSE) ?mid)" for ds
    by (simp add: ui_run_def)
  ultimately show ?thesis
    by (intro conjI impI) (simp_all only: loop_result [OF assms(2) inv] if_False)
qed

theorem loop_returns_when_closed_witness:
  "\<exists>st. createDialog sample_dialog no_window = Inr st \<and> fst (mainLoop sample_dialog [] st) = None \<and>
     fst (mainLoop sample_dialog [UserInput WM_CLOSE, Dispatch] st) = Some 0"
proof -
  obtain st where st: "createDialog sample_dialog no_window = Inr st"
    using sample_created by blast
  have never: "\<not> di_GetMessage_fails sample_dialog ms" for ms
    by (simp add: sample_dialog_def)
  have "window_alive st" "msg_queue st = []"
    using st by (auto simp: createDialog_def sample_dialog_def WndProc_def no_window_def)
  then show ?thesis
    using loop_returns_when_closed [OF st never, of "[]"] st by simp
qed

end
