(* ===== verification/Privilege.thy ===== *)
theory Privilege
  imports Resources Format
begin

text \<open>
  The debug privilege that drmingw asks for (\<open>ObtainSeDebugPrivilege\<close> of src/common/debugger.cpp), with a
  trace of what it takes from the system: neither the token nor a block of memory is ever given back.
\<close>

abbreviation ERROR_INSUFFICIENT_BUFFER :: DWORD where "ERROR_INSUFFICIENT_BUFFER \<equiv> 122"

text \<open>
  The system's answers: the token, the block of each \<open>LocalAlloc\<close> (0 when it fails), and whether
  \<open>AdjustTokenPrivileges\<close> succeeds with a buffer of that size, with the size it needs.
\<close>

record token_os =
  tk_OpenProcessToken :: "HANDLE option"
  tk_LocalAlloc :: "nat \<Rightarrow> DWORD64"
  tk_AdjustTokenPrivileges :: "HANDLE \<Rightarrow> DWORD \<Rightarrow> bool \<times> DWORD"
  tk_GetLastError :: DWORD

text \<open>The second attempt, with a buffer off the heap.\<close>

definition adjust_again :: "token_os \<Rightarrow> HANDLE \<Rightarrow> DWORD \<Rightarrow> trace \<Rightarrow> bool \<times> trace" where
  "adjust_again os hToken cbNeeded tr =
     (let pbOldPriv = tk_LocalAlloc os (unat cbNeeded) in
      if pbOldPriv = 0 then (False, tr)
      else (fst (tk_AdjustTokenPrivileges os hToken cbNeeded), tr @ [Acquire (RLocal pbOldPriv)]))"

definition ObtainSeDebugPrivilege :: "token_os \<Rightarrow> bool \<times> trace" where
  "ObtainSeDebugPrivilege os =
     (case tk_OpenProcessToken os of
        None \<Rightarrow> (False, [OutputDebug (W (''OpenProcessToken failed with 0x'' @ fmt_x 8 (tk_GetLastError os) @ [CHR 0x0A]))])
      | Some hToken \<Rightarrow>
          (let NewPrivileges = tk_LocalAlloc os 16; tr = [Acquire (RToken hToken)] in
           if NewPrivileges = 0 then (False, tr)
           else
             let tr = tr @ [Acquire (RLocal NewPrivileges)];
                 (fRc, cbNeeded) = tk_AdjustTokenPrivileges os hToken 1024
             in if \<not> fRc \<and> tk_GetLastError os = ERROR_INSUFFICIENT_BUFFER
                then adjust_again os hToken cbNeeded tr
                else (fRc, tr)))"

lemma privilege_keeps_token:
  assumes "tk_OpenProcessToken os = Some hToken"
  shows "RToken hToken \<in># held (snd (ObtainSeDebugPrivilege os))"
  using assms by (auto simp: ObtainSeDebugPrivilege_def adjust_again_def Let_def held_def split: prod.split)

lemma privilege_keeps_memory:
  assumes "fst (ObtainSeDebugPrivilege os)"
  shows "RLocal (tk_LocalAlloc os 16) \<in># held (snd (ObtainSeDebugPrivilege os))"
  using assms
  by (auto simp: ObtainSeDebugPrivilege_def adjust_again_def Let_def held_def split: prod.split option.splits if_splits)

end
