(* ===== verification/Drmingw.thy ===== *)
theory Drmingw
  imports CmdLine Strtoul Debugger Privilege Dialog
begin

text \<open>
  drmingw (src/drmingw/main.cpp): its installation as the just-in-time debugger in the registry, the options,
  and \<open>wmain\<close> behind them, which opens the window (theory \<open>Dialog\<close>) and starts the thread of the debugger. The
  registry is a map from a view (the flags of the access mask), a value name to its text. Theory \<open>Startup\<close> has
  \<open>wmain\<close> from the arguments of the process.
  The window and the thread at work are in theory \<open>Drmingw_Run\<close>.
\<close>

section \<open>The registry\<close>

abbreviation KEY_WOW64_32KEY :: DWORD where "KEY_WOW64_32KEY \<equiv> 0x200"
abbreviation ERROR_SUCCESS :: DWORD where "ERROR_SUCCESS \<equiv> 0"
abbreviation ERROR_ACCESS_DENIED :: DWORD where "ERROR_ACCESS_DENIED \<equiv> 5"

record registry =
  aedebug :: "DWORD \<Rightarrow> string \<Rightarrow> wstr option"     \<comment> \<open>the values of the AeDebug key, per view\<close>
  open_keys :: int

record drm_os = dbg_os +
  dr_GetModuleFileNameW :: "wstr option"
  dr_GetLastError :: DWORD
  dr_RegCreateKeyExW :: "DWORD \<Rightarrow> DWORD"
  dr_RegOpenKeyExW :: "DWORD \<Rightarrow> DWORD"
  dr_RegSetValueExW :: "DWORD \<Rightarrow> string \<Rightarrow> wstr \<Rightarrow> DWORD"
  dr_Toolhelp32Processes :: "(DWORD \<times> wstr) list option"
  dr_token :: token_os
  dr_DebugActiveProcess :: "DWORD \<Rightarrow> bool"
  dr_dialog :: dialog_os
  dr_window_events :: "ui_event list"         \<comment> \<open>while \<open>mainLoop\<close> runs\<close>
  dr_version :: "DWORD \<times> DWORD \<times> DWORD"

definition regSetStr :: "'a drm_os_scheme \<Rightarrow> DWORD \<Rightarrow> string \<Rightarrow> wstr \<Rightarrow> registry \<Rightarrow> DWORD \<times> registry" where
  "regSetStr os sam lpValueName szStr rg =
     (let lRet = dr_RegSetValueExW os sam lpValueName szStr in
      (lRet, if lRet = ERROR_SUCCESS
             then rg\<lparr>aedebug := (aedebug rg)(sam := (aedebug rg sam)(lpValueName \<mapsto> szStr))\<rparr> else rg))"

definition open_key :: "registry \<Rightarrow> registry" where
  "open_key rg = rg\<lparr>open_keys := open_keys rg + 1\<rparr>"

definition RegCloseKey :: "registry \<Rightarrow> registry" where
  "RegCloseKey rg = rg\<lparr>open_keys := open_keys rg - 1\<rparr>"

definition option_flags :: "DebugOptions \<Rightarrow> string" where
  "option_flags opts =
     (if verbose_flag opts then '' -v'' else []) @ (if breakpoint_flag opts then '' -b'' else []) @
     (if debug_flag opts then '' -d'' else [])"

definition debugger_command :: "DebugOptions \<Rightarrow> wstr \<Rightarrow> wstr" where
  "debugger_command opts szFile = [dquote] @ szFile @ [dquote] @ W ('' -p %ld -e %ld'' @ option_flags opts)"

definition install :: "'a drm_os_scheme \<Rightarrow> DebugOptions \<Rightarrow> DWORD \<Rightarrow> registry \<Rightarrow> DWORD \<times> registry" where
  "install os opts samDesired rg =
     (case dr_GetModuleFileNameW os of
        None \<Rightarrow> (dr_GetLastError os, rg)
      | Some szFile \<Rightarrow>
          (let lRet = dr_RegCreateKeyExW os samDesired in
           if lRet \<noteq> ERROR_SUCCESS then (lRet, rg)
           else
             let (lRet, rg) = regSetStr os samDesired ''Debugger'' (debugger_command opts szFile) (open_key rg);
                 (lRet, rg) = (if lRet = ERROR_SUCCESS then regSetStr os samDesired ''Auto'' (W ''1'') rg
                               else (lRet, rg))
             in (lRet, RegCloseKey rg)))"

definition uninstall :: "'a drm_os_scheme \<Rightarrow> DWORD \<Rightarrow> registry \<Rightarrow> DWORD \<times> registry" where
  "uninstall os samDesired rg =
     (let lRet = dr_RegOpenKeyExW os samDesired in
      if lRet \<noteq> ERROR_SUCCESS then (lRet, rg)
      else
        let (lRet, rg) = regSetStr os samDesired ''Debugger'' [] (open_key rg)
        in (lRet, RegCloseKey rg))"

text \<open>Both views of the registry, the 64-bit one first; the second only after the first has succeeded.\<close>

definition both_views :: "(DWORD \<Rightarrow> registry \<Rightarrow> DWORD \<times> registry) \<Rightarrow> registry \<Rightarrow> DWORD \<times> registry" where
  "both_views change rg =
     (let (dwRet, rg) = change 0 rg in
      if dwRet = ERROR_SUCCESS then change KEY_WOW64_32KEY rg else (dwRet, rg))"

section \<open>Processes by name\<close>

definition wcsicmp_eq :: "wstr \<Rightarrow> wstr \<Rightarrow> bool" where
  "wcsicmp_eq a b \<longleftrightarrow> map towlower a = map towlower b"

fun find_process :: "wstr \<Rightarrow> (DWORD \<times> wstr) list \<Rightarrow> DWORD" where
  "find_process szProcessName [] = 0"
| "find_process szProcessName ((pid, szExeFile) # ps) =
     (if wcsicmp_eq szProcessName szExeFile then pid else find_process szProcessName ps)"

definition getProcessIdByName :: "'a drm_os_scheme \<Rightarrow> wstr \<Rightarrow> DWORD" where
  "getProcessIdByName os szProcessName =
     (case dr_Toolhelp32Processes os of None \<Rightarrow> 0 | Some ps \<Rightarrow> find_process szProcessName ps)"

section \<open>Options\<close>

datatype shown = Help | Version | ErrorBox wstr | InfoBox wstr

text \<open>The texts of the two boxes; the version comes from the build.\<close>

definition version_str :: "DWORD \<times> DWORD \<times> DWORD \<Rightarrow> string" where
  "version_str = (\<lambda>(major, minor, patch). fmt_u major @ ''.'' @ fmt_u minor @ ''.'' @ fmt_u patch)"

definition help_text :: "DWORD \<times> DWORD \<times> DWORD \<Rightarrow> string" where
  "help_text v =
     ''Dr. Mingw version '' @ version_str v @ CRLF @
     ''Copyright 2002-2015 Jose Fonseca'' @ CRLF @
     CRLF @
     ''Usage: drmingw [OPTIONS]'' @ CRLF @
     CRLF @
     ''Options:'' @ CRLF @
     ''  -h, --help'' @ [CHR 0x09] @ ''Print help and exit'' @ CRLF @
     ''  -V, --version'' @ [CHR 0x09] @ ''Print version and exit'' @ CRLF @
     ''  -i, --install'' @ [CHR 0x09] @ ''Install as the default JIT debugger'' @ CRLF @
     ''  -u, --uninstall'' @ [CHR 0x09] @ ''Uninstall'' @ CRLF @
     ''  -pLONG, --process-id=LONG'' @ CRLF @
     [CHR 0x09, CHR 0x09] @ ''Attach to the process with the given identifier'' @ CRLF @
     ''  -eLONG, --event=LONG'' @ CRLF @
     [CHR 0x09, CHR 0x09] @ ''Signal an event after process is attached'' @ CRLF @
     ''  -b, --breakpoint'' @ [CHR 0x09] @ ''Treat debug breakpoints as exceptions'' @ CRLF @
     ''  -v, --verbose'' @ [CHR 0x09] @ ''Verbose output'' @ CRLF @
     ''  -d, --debug'' @ [CHR 0x09] @ ''Debug output'' @ CRLF"

definition shown_text :: "DWORD \<times> DWORD \<times> DWORD \<Rightarrow> shown \<Rightarrow> wstr" where
  "shown_text v box =
     (case box of Help \<Rightarrow> W (help_text v) | Version \<Rightarrow> W (''DrMingw '' @ version_str v)
      | ErrorBox t \<Rightarrow> t | InfoBox t \<Rightarrow> t)"

record drm_options =
  drm_debug :: DebugOptions
  process_id_given :: bool
  install_given :: bool
  uninstall_given :: bool
  drm_pid :: DWORD

text \<open>Where an option leads: an exit code with what is shown, or on to the next option.\<close>

type_synonym 'x outcome = "(DWORD \<times> shown) + 'x"

definition process_option :: "'a drm_os_scheme \<Rightarrow> wstr \<Rightarrow> drm_options \<Rightarrow> drm_options outcome" where
  "process_option os optarg s =
     (if process_id_given s then Inl (1, ErrorBox (W ''`--process-id' (`-p') option redeclared''))
      else
        let numeric = (optarg \<noteq> [] \<and> 48 \<le> hd optarg \<and> hd optarg \<le> 57);
            pid = (if numeric then wcstoul optarg 0 else getProcessIdByName os optarg);
            s = s\<lparr>process_id_given := True, drm_pid := pid\<rparr>;
            s = (if numeric then s else s\<lparr>drm_debug := drm_debug s\<lparr>breakpoint_flag := True\<rparr>\<rparr>)
        in if pid = 0 then Inl (1, ErrorBox (W ''Invalid process'')) else Inr s)"

definition event_option :: "wstr \<Rightarrow> drm_options \<Rightarrow> drm_options outcome" where
  "event_option optarg s =
     (if hEvent (drm_debug s) \<noteq> 0 then Inl (1, ErrorBox (W ''`--event' (`-e') option redeclared''))
      else Inr (s\<lparr>drm_debug := drm_debug s\<lparr>hEvent := scast (wcstol optarg 0)\<rparr>\<rparr>))"

definition drm_option :: "'a drm_os_scheme \<Rightarrow> char \<times> wstr \<times> wchar \<Rightarrow> drm_options \<Rightarrow> drm_options outcome" where
  "drm_option os = (\<lambda>(c, optarg, optopt) s.
     if c = CHR ''?'' \<and> optopt \<noteq> W_char (CHR ''?'') then
        Inl (1, ErrorBox (W ''Invalid option '' @ [W_char (CHR 0x27), optopt, W_char (CHR 0x27)]))
      else if c = CHR ''?'' \<or> c = CHR ''h'' then Inl (0, Help)
      else if c = CHR ''V'' then Inl (0, Version)
      else if c = CHR ''i'' then
        (if uninstall_given s
         then Inl (0, ErrorBox (W ''conficting options `--uninstall' (`-u') and `--install' (`-i')''))
         else Inr (s\<lparr>install_given := True\<rparr>))
      else if c = CHR ''u'' then
        (if install_given s
         then Inl (0, ErrorBox (W ''conficting options `--install' (`-i') and `--uninstall' (`-u')''))
         else Inr (s\<lparr>uninstall_given := True\<rparr>))
      else if c = CHR ''p'' then process_option os optarg s
      else if c = CHR ''e'' then event_option optarg s
      else if c = CHR ''t'' then Inr (s\<lparr>drm_debug := drm_debug s\<lparr>resume_dwThreadId := wcstoul optarg 0\<rparr>\<rparr>)
      else if c = CHR ''b'' then Inr (s\<lparr>drm_debug := drm_debug s\<lparr>breakpoint_flag := True\<rparr>\<rparr>)
      else if c = CHR ''v'' then Inr (s\<lparr>drm_debug := drm_debug s\<lparr>verbose_flag := True\<rparr>\<rparr>)
      else if c = CHR ''d'' then Inr (s\<lparr>drm_debug := drm_debug s\<lparr>debug_flag := True\<rparr>\<rparr>)
      else Inl (1, ErrorBox (W ''Unexpected option '' @ W [CHR 0x27, CHR ''-'', c, CHR 0x27])))"

definition drm_start :: drm_options where
  "drm_start = \<lparr>drm_debug = \<lparr>breakpoint_flag = False, verbose_flag = False, debug_flag = False, first_chance = True,
       minidump = False, minidumpDir = None, hEvent = 0, resume_dwThreadId = 0, no_debug_string = False\<rparr>,
     process_id_given = False, install_given = False, uninstall_given = False, drm_pid = 0\<rparr>"

section \<open>The program\<close>

text \<open>
  The debugger's thread: attach, then the main loop; \<open>Inl\<close> is the answer to the box of a failure, whose
  text is made from the last error.
\<close>

definition debugThread :: "'a drm_os_scheme \<Rightarrow> DebugOptions \<Rightarrow> DWORD \<Rightarrow>
    (fault + (box_action + loop_result \<times> dbg_state)) option" where
  "debugThread os opts pid =
     (let d = dr_dialog os in
      if \<not> dr_DebugActiveProcess os pid then
        run (Some (ErrorMessageBox (di_GetModuleFileNameW d) (di_source_file d) 186
                     (''DebugActiveProcess: '' @ di_LastErrorMessage d) (di_MessageBoxA d)))
          (\<lambda>action. return (Inl action))
      else run (DebugMainLoop (set_sym_options (debug_flag opts) (dbg_os.truncate os)) opts []) (\<lambda>r. return (Inr r)))"

definition registry_answer :: "string \<Rightarrow> DWORD \<times> registry \<Rightarrow> wstr \<Rightarrow> DWORD \<times> shown list \<times> registry" where
  "registry_answer verb r success =
     (if fst r \<noteq> ERROR_SUCCESS then
        (1, [ErrorBox (W (if fst r = ERROR_ACCESS_DENIED
               then ''You must have administrator privileges to '' @ verb @ '' Dr. Mingw as the default application debugger''
               else ''Unexpected error when trying to '' @ verb @ '' Dr. Mingw as the default application debugger''))],
         snd r)
      else (0, [InfoBox success], snd r))"

text \<open>How the program ends: with an exit code, at a failure to open the window, or not yet.\<close>

datatype drm_end = ExitCode DWORD | WindowFailed "fault + box_action" | WindowOpen

definition run_window :: "'a drm_os_scheme \<Rightarrow> drm_end" where
  "run_window os =
     (case createDialog (dr_dialog os) no_window of
        Inl failure \<Rightarrow> WindowFailed failure
      | Inr st \<Rightarrow>
          (case fst (mainLoop (dr_dialog os) (dr_window_events os) st) of
             Some code \<Rightarrow> ExitCode code
           | None \<Rightarrow> WindowOpen))"

text \<open>
  \<open>wmain\<close> behind the options: its end, the boxes shown, the registry, and the options and the process with
  which the thread of the debugger was started. (Theory \<open>Startup\<close> has the options.)
\<close>

definition drm_run_options :: "'a drm_os_scheme \<Rightarrow> drm_options \<Rightarrow> registry \<Rightarrow>
    (drm_end \<times> shown list \<times> registry) \<times> (DebugOptions \<times> DWORD) option" where
  "drm_run_options os s rg =
     (let exited = (\<lambda>(code, boxes, rg). ((ExitCode code, boxes, rg), None)) in
      if install_given s then
        exited (registry_answer ''install'' (both_views (install os (drm_debug s)) rg)
          (W ''Dr. Mingw has been installed as the default application debugger''))
      else if uninstall_given s then
        exited (registry_answer ''uninstall'' (both_views (uninstall os) rg) (W ''Dr. Mingw has been uninstalled''))
      else if process_id_given s then
        ((run_window os,
          if fst (ObtainSeDebugPrivilege (dr_token os)) then []
          else [ErrorBox (W ''An error occurred while obtaining debug privileges.'' @ [NL] @
                          W ''DrMingw will not debug system processes.'')],
          rg),
         case createDialog (dr_dialog os) no_window of Inl _ \<Rightarrow> None | Inr _ \<Rightarrow> Some (drm_debug s, drm_pid s))
      else exited (0, [Help], rg))"

end
