(* ===== verification/Drmingw_Facts.thy ===== *)
theory Drmingw_Facts
  imports Drmingw Dialog_Facts Debugger_Props
begin

text \<open>
  What makes drmingw correct: how the command it registers is completed and taken apart into arguments, what
  its options make of numbers, and which values installing and removing it leave in the registry.
\<close>

definition sample_drm :: drm_os where
  "sample_drm = dbg_os.extend sample_dbg
     (drm_os.fields (Some (W ''C:/a b/drmingw.exe'')) 0 (\<lambda>_. 0) (\<lambda>_. 0) (\<lambda>_ _ _. 0)
        (Some [(7, W ''Prog.exe'')])
        \<lparr>tk_OpenProcessToken = Some 5, tk_LocalAlloc = (\<lambda>_. 1), tk_AdjustTokenPrivileges = (\<lambda>_ _. (True, 0)),
          tk_GetLastError = 0\<rparr> (\<lambda>_. True) sample_dialog [] (0, 9, 13))"

lemmas sample_drm_defs = sample_drm_def sample_defs sample_fields drm_os.defs

section \<open>The registered command\<close>

text \<open>How Windows completes the command: the numbers of the process and of the event, in decimal, replace
  the two conversions (documented behaviour, not code of this repository).\<close>

function complete :: "wstr \<Rightarrow> wstr list \<Rightarrow> wstr" where
  "complete [] vs = []"
| "complete (a # s) [] = a # s"
| "complete (a # s) (v # vs) =
     (if take 3 (a # s) = W ''%ld'' then v @ complete (drop 2 s) vs else a # complete s (v # vs))"
  by pat_completeness auto
termination
  by (relation "measure (\<lambda>(s, vs). length s)") auto

declare complete.simps(3) [simp del]

lemma complete_no_value [simp]: "complete s [] = s"
  by (cases s) simp_all

lemma complete_skip: "W_char (CHR ''%'') \<notin> set u \<Longrightarrow> complete (u @ s) (v # vs) = u @ complete s (v # vs)"
  by (induction u) (auto simp: complete.simps(3) W_Cons)

lemma complete_value: "complete (W ''%ld'' @ s) (v # vs) = v @ complete s vs"
  by (simp add: complete.simps(3) W_Cons)

text \<open>The arguments after the file name.\<close>

definition decimal :: "int \<Rightarrow> wstr" where
  "decimal i = W (int_str i)"

definition flag_args :: "DebugOptions \<Rightarrow> wstr list" where
  "flag_args opts = (if verbose_flag opts then [W ''-v''] else []) @ (if breakpoint_flag opts then [W ''-b''] else []) @
     (if debug_flag opts then [W ''-d''] else [])"

lemma complete_two:
  assumes "W_char (CHR ''%'') \<notin> set u" and "W_char (CHR ''%'') \<notin> set t"
  shows "complete (u @ W ''%ld'' @ t @ W ''%ld'' @ r) [v, w] = u @ v @ t @ w @ r"
  by (simp only: complete_skip [OF assms(1)] complete_value complete_skip [OF assms(2)] complete_no_value)

lemma complete_command:
  assumes "W_char (CHR ''%'') \<notin> set path"
  shows "complete (debugger_command opts path) [v, w] =
    [dquote] @ path @ [dquote] @ W '' -p '' @ v @ W '' -e '' @ w @ W (option_flags opts)"
proof -
  have "debugger_command opts path =
      ([dquote] @ path @ [dquote] @ W '' -p '') @ W ''%ld'' @ W '' -e '' @ W ''%ld'' @ W (option_flags opts)"
    by (simp add: debugger_command_def W_Cons)
  moreover have "W_char (CHR ''%'') \<notin> set ([dquote] @ path @ [dquote] @ W '' -p '')"
    "W_char (CHR ''%'') \<notin> set (W '' -e '')"
    using assms by (simp_all add: W_Cons)
  ultimately show ?thesis
    using complete_two [of "[dquote] @ path @ [dquote] @ W '' -p ''" "W '' -e ''"]
    by (simp only: append_assoc simp_thms True_implies_equals)
qed

text \<open>Arguments that need no quotes.\<close>

lemma plain_arg_ok:
  assumes "s \<noteq> []" and "space \<notin> set s" and "tab \<notin> set s" and "dquote \<notin> set s"
  shows "arg_ok s \<and> arg_text s = s"
proof -
  have "\<not> needsQuote s"
    using assms(2-4) by (induction s rule: needsQuote.induct) (auto split: list.splits)
  then show ?thesis
    using assms by (simp add: arg_ok_def arg_text_def needsQuote_exposed)
qed

lemma int_str_chars: "c \<in> set (int_str i) \<Longrightarrow> c = CHR ''-'' \<or> (48 \<le> (of_char c :: nat))"
  using to_digits_lt [of 10] digit_char_code [of _ False]
  by (fastforce simp: int_str_def num_str_def split: if_splits)

lemma decimal_plain: "decimal i \<noteq> [] \<and> space \<notin> set (decimal i) \<and> tab \<notin> set (decimal i) \<and> dquote \<notin> set (decimal i)"
proof -
  have W: "W_char c \<in> set (decimal i) \<longleftrightarrow> c \<in> set (int_str i)" for c
    by (auto simp: decimal_def W_def W_char_def)
  have "int_str i \<noteq> []"
    by (simp add: int_str_def num_str_def)
  then show ?thesis
    using int_str_chars [of "CHR 0x20" i] int_str_chars [of "CHR 0x09" i] int_str_chars [of "CHR 0x22" i]
    by (auto simp: W) (simp add: decimal_def)
qed

text \<open>The arguments of the completed command.\<close>

lemma option_flags_args: "W (option_flags opts) = concat (map (\<lambda>a. space # a) (flag_args opts))"
  by (simp add: option_flags_def flag_args_def W_Cons)

lemma append_command_line: "list_all (\<lambda>a. arg_text a = a) argv \<Longrightarrow>
  concat (map (\<lambda>a. space # a) argv) = (if argv = [] then [] else space # command_line argv)"
  by (induction argv) (auto simp: command_line_Cons)

lemma parsed_command:
  assumes "dquote \<notin> set path" and "W_char (CHR ''%'') \<notin> set path"
  shows "parse_command_line (complete (debugger_command opts path) [decimal p, decimal e]) =
    [path, W ''-p'', decimal p, W ''-e'', decimal e] @ flag_args opts"
proof -
  let ?argv = "[W ''-p'', decimal p, W ''-e'', decimal e] @ flag_args opts"
  have plain: "list_all (\<lambda>a. arg_ok a \<and> arg_text a = a) ?argv"
    using decimal_plain plain_arg_ok
    by (auto simp: flag_args_def W_Cons list_all_iff)
  then have "concat (map (\<lambda>a. space # a) ?argv) = space # command_line ?argv"
    using append_command_line [of ?argv] by (simp add: list_all_iff)
  then have "complete (debugger_command opts path) [decimal p, decimal e] =
      dquote # path @ dquote # tail_text ?argv"
    using complete_command [OF assms(2)] by (simp add: option_flags_args tail_text_def W_Cons)
  moreover have "parse_args (command_line ?argv) = ?argv"
    using plain parse_args_exact [of ?argv] by (simp add: list_all_iff)
  ultimately show ?thesis
    by (simp add: parse_command_line_def parse_prog_quoted [OF assms(1), simplified])
qed

lemma process_option_decimal:
  assumes "0 < i" and "i < 2 ^ 31" and "\<not> process_id_given s"
  shows "process_option os (decimal i) s = Inr (s\<lparr>process_id_given := True, drm_pid := word_of_int i\<rparr>)"
proof -
  have d: "decimal i = W (num_str False 10 (nat i))"
    using assms(1) by (simp add: decimal_def int_str_def)
  obtain c cs where "decimal i = c # cs" "48 \<le> c" "c \<le> 57"
    unfolding d by (rule decimal_head [of False "nat i"]) blast
  then have numeric: "decimal i \<noteq> []" "48 \<le> hd (decimal i)" "hd (decimal i) \<le> 57"
    by simp_all
  have "wcstoul (decimal i) 0 = word_of_int i"
    using assms(1,2) wcstoul_num [of "nat i" False] by (simp add: d of_nat_nat)
  moreover have "(word_of_int i :: DWORD) \<noteq> 0"
  proof
    assume "(word_of_int i :: DWORD) = 0"
    then have "uint (word_of_int i :: DWORD) = 0"
      by simp
    then show False
      using assms(1,2) by (simp add: unsigned_of_int take_bit_int_eq_self)
  qed
  ultimately show ?thesis
    using numeric assms(3) by (simp add: process_option_def Let_def)
qed

lemma event_option_decimal:
  assumes "- (2 ^ 31) \<le> e" and "e < 2 ^ 31" and "hEvent (drm_debug s) = 0"
  shows "event_option (decimal e) s = Inr (s\<lparr>drm_debug := drm_debug s\<lparr>hEvent := word_of_int e\<rparr>\<rparr>)"
proof -
  have "(scast (word_of_int e :: DWORD) :: HANDLE) = word_of_int e"
    using assms(1,2) by (simp add: scast_eq signed_of_int signed_take_bit_int_eq_self)
  then show ?thesis
    using assms wcstol_int [OF assms(1,2)] by (simp add: event_option_def decimal_def)
qed

section \<open>Installing\<close>

lemma install_values:
  assumes "install os opts sam rg = (ERROR_SUCCESS, rg')" and "dr_GetModuleFileNameW os = Some path"
  shows "rg' = rg\<lparr>aedebug := (aedebug rg)(sam := (aedebug rg sam)
    (''Debugger'' \<mapsto> debugger_command opts path, ''Auto'' \<mapsto> W ''1''))\<rparr>"
  using assms
  by (auto simp: install_def regSetStr_def RegCloseKey_def open_key_def Let_def split: if_splits)

lemma uninstall_values:
  assumes "uninstall os sam rg = (ERROR_SUCCESS, rg')"
  shows "rg' = rg\<lparr>aedebug := (aedebug rg)(sam := (aedebug rg sam)(''Debugger'' \<mapsto> []))\<rparr>"
  using assms
  by (auto simp: uninstall_def regSetStr_def RegCloseKey_def open_key_def Let_def split: if_splits)

end
