(* ===== verification/Drmingw_Run.thy ===== *)
theory Drmingw_Run
  imports Drmingw_Facts
begin

text \<open>
  drmingw at work, as a state machine: the thread of the debugger handles events and passes every text of the
  log to \<open>appendText\<close>, while the user acts on the window and its loop dispatches messages. The texts of a round
  are passed on one by one, so that the window may do anything between two of them; the next round starts
  when all have been passed on.
\<close>

section \<open>The two threads\<close>

record drm_session =
  window :: dialog_state
  debuggees :: dbg_state
  unsent :: "wstr list"                 \<comment> \<open>texts of this round, not yet passed to \<open>appendText\<close>\<close>

datatype drm_event = Window ui_event | Deliver | Round DEBUG_EVENT

text \<open>What the log callback has received.\<close>

fun said :: "effect list \<Rightarrow> wstr list" where
  "said [] = []"
| "said (Say t # es) = t # said es"
| "said (e # es) = said es"

inductive drm_step :: "'a drm_os_scheme \<Rightarrow> DebugOptions \<Rightarrow> drm_session \<Rightarrow> drm_event \<Rightarrow> drm_session \<Rightarrow> bool"
  for os opts s where
  window: "(\<And>t. e \<noteq> Append t) \<Longrightarrow> drm_step os opts s (Window e) (s\<lparr>window := ui_step (dr_dialog os) e (window s)\<rparr>)"
| deliver: "unsent s = t # ts \<Longrightarrow>
    drm_step os opts s Deliver (s\<lparr>window := appendText (dr_dialog os) t (window s), unsent := ts\<rparr>)"
| round: "unsent s = [] \<Longrightarrow> dbg_step (dbg_os.truncate os) opts ev (debuggees s) = return (Some d) \<Longrightarrow>
    drm_step os opts s (Round ev)
      (s\<lparr>debuggees := d, unsent := said (drop (length (effects (debuggees s))) (effects d))\<rparr>)"

inductive_cases drm_windowE: "drm_step os opts s (Window e) s'"
inductive_cases drm_deliverE: "drm_step os opts s Deliver s'"
inductive_cases drm_roundE: "drm_step os opts s (Round ev) s'"

inductive drm_run :: "'a drm_os_scheme \<Rightarrow> DebugOptions \<Rightarrow> drm_session \<Rightarrow> drm_event list \<Rightarrow> drm_session \<Rightarrow> bool"
  for os opts s where
  start: "drm_run os opts s [] s"
| step: "drm_run os opts s es s1 \<Longrightarrow> drm_step os opts s1 e s2 \<Longrightarrow> drm_run os opts s (es @ [e]) s2"

lemma drm_run_trans: "drm_run os opts s1 es2 s2 \<Longrightarrow> drm_run os opts s es1 s1 \<Longrightarrow> drm_run os opts s (es1 @ es2) s2"
proof (induction rule: drm_run.induct)
  case (step es s1' e s2)
  show ?case
    using drm_run.step [OF step.IH [OF step.prems] step.hyps(2)] by simp
qed simp

lemmas drm_run_one = drm_run.step [OF drm_run.start, simplified]

text \<open>The thread of the debugger starts when the window is there.\<close>

definition session_start :: "dialog_state \<Rightarrow> drm_session" where
  "session_start w = \<lparr>window = w,
     debuggees = \<lparr>g_Processes = [], fFinished = False, fTerminating = False, effects = []\<rparr>, unsent = []\<rparr>"

section \<open>The log in the window\<close>

lemma said_append [simp]: "said (es @ fs) = said es @ said fs"
  by (induction es rule: said.induct) simp_all

text \<open>What the window shows, has queued or will be sent is the log so far.\<close>

definition session_inv :: "drm_session \<Rightarrow> bool" where
  "session_inv s \<longleftrightarrow> (\<exists>ts. log_inv ts (window s) \<and> ts @ unsent s = said (effects (debuggees s)))"

fun user_stays :: "drm_event \<Rightarrow> bool" where
  "user_stays (Window e) = harmless e"
| "user_stays e = True"

lemma step_session_inv:
  assumes "drm_step os opts s e s'" and "di_PostMessage (dr_dialog os)" and "user_stays e" and "session_inv s"
  shows "session_inv s'"
proof -
  obtain ts where ts: "log_inv ts (window s)" "ts @ unsent s = said (effects (debuggees s))"
    using assms(4) by (auto simp: session_inv_def)
  show ?thesis
    using assms(1)
  proof cases
    case (window u)
    then have "appended [u] = []"
      by (cases u) (simp_all, blast)
    with window ts show ?thesis
      using ui_step_inv [OF assms(2), of u ts "drm_session.window s"] assms(3) by (auto simp: session_inv_def)
  next
    case (deliver t us)
    with ts show ?thesis
      using ui_step_inv [OF assms(2), of "Append t" ts "window s"]
      by (auto simp: session_inv_def intro!: exI [of _ "ts @ [t]"])
  next
    case (round ev d)
    then obtain status mid where "handle_event (dbg_os.truncate os) opts ev (debuggees s) = return (Some (status, mid))"
      and d: "d = emit [Continue (dwProcessId ev) (dwThreadId ev) status] mid"
      by (elim step_cases)
    then obtain es where "effects d = effects (debuggees s) @ es"
      using handle_event_extends by (fastforce simp: extends_def)
    with round ts show ?thesis
      by (auto simp: session_inv_def)
  qed
qed

lemma run_session_inv:
  assumes "drm_run os opts s es s'" and "di_PostMessage (dr_dialog os)" and "list_all user_stays es" and "session_inv s"
  shows "session_inv s'"
  using assms
proof (induction rule: drm_run.induct)
  case (step es s1 e s2)
  then have "session_inv s1" "user_stays e"
    by simp_all
  then show ?case
    using step_session_inv [OF step.hyps(2) step.prems(1)] by blast
qed simp

lemma session_start_inv: "createDialog os no_window = Inr w \<Longrightarrow> session_inv (session_start w)"
  using log_inv_created by (fastforce simp: session_inv_def session_start_def)

text \<open>The window can always catch up: the texts are passed on, then every message is dispatched.\<close>

lemma deliver_all:
  "\<exists>s'. drm_run os opts s (replicate (length (unsent s)) Deliver) s' \<and> unsent s' = [] \<and> debuggees s' = debuggees s"
proof (induction "unsent s" arbitrary: s)
  case Nil
  then have "drm_run os opts s (replicate (length (unsent s)) Deliver) s"
    by (simp add: drm_run.start flip: Nil)
  with Nil show ?case
    by metis
next
  case (Cons t ts)
  let ?s = "s\<lparr>window := appendText (dr_dialog os) t (window s), unsent := ts\<rparr>"
  have one: "drm_run os opts s [Deliver] ?s"
    using Cons.hyps(2) by (intro drm_run_one drm_step.deliver) simp
  obtain s' where "drm_run os opts ?s (replicate (length ts) Deliver) s'" "unsent s' = []" "debuggees s' = debuggees s"
    using Cons.hyps(1) [of ?s] by auto
  with drm_run_trans [OF this(1) one] show ?case
    by (auto simp flip: Cons.hyps(2))
qed

lemma dispatch_harmless:
  "harmless_queue (m # ms) \<Longrightarrow> msg_queue st = m # ms \<Longrightarrow> msg_queue (dispatch os st) = ms"
  by (auto simp: dispatch_def WndProc_def harmless_queue_def split: message.splits if_splits)

lemma dispatch_all:
  "session_inv s \<Longrightarrow> msg_queue (window s) = ms \<Longrightarrow> \<exists>s'. drm_run os opts s (replicate (length ms) (Window Dispatch)) s' \<and>
     msg_queue (window s') = [] \<and> unsent s' = unsent s \<and> debuggees s' = debuggees s"
proof (induction ms arbitrary: s)
  case Nil
  then show ?case
    using drm_run.start by fastforce
next
  case (Cons m ms)
  let ?s = "s\<lparr>window := dispatch (dr_dialog os) (window s)\<rparr>"
  have one: "drm_run os opts s [Window Dispatch] ?s"
    using drm_step.window [of Dispatch os opts s] by (intro drm_run_one) simp
  have "session_inv ?s"
    using Cons.prems(1) dispatch_inv by (auto simp: session_inv_def)
  moreover have "msg_queue (window ?s) = ms"
    using Cons.prems dispatch_harmless by (auto simp: session_inv_def log_inv_def)
  ultimately obtain s' where "drm_run os opts ?s (replicate (length ms) (Window Dispatch)) s'"
    "msg_queue (window s') = []" "unsent s' = unsent s" "debuggees s' = debuggees s"
    using Cons.IH [of ?s] by auto
  with drm_run_trans [OF this(1) one] show ?case
    by auto
qed

lemma catches_up:
  assumes "session_inv s" and "di_PostMessage (dr_dialog os)"
  shows "\<exists>n s'. drm_run os opts s (replicate (length (unsent s)) Deliver @ replicate n (Window Dispatch)) s' \<and>
    edit_text (window s') = concat (said (effects (debuggees s))) \<and> copies (window s') = {#} \<and> debuggees s' = debuggees s"
proof -
  obtain s1 where s1: "drm_run os opts s (replicate (length (unsent s)) Deliver) s1" "unsent s1 = []"
    "debuggees s1 = debuggees s"
    using deliver_all by blast
  have inv: "session_inv s1"
    by (rule run_session_inv [OF s1(1) assms(2) _ assms(1)]) (simp add: list_all_iff)
  obtain s2 where s2: "drm_run os opts s1 (replicate (length (msg_queue (window s1))) (Window Dispatch)) s2"
    "msg_queue (window s2) = []" "unsent s2 = unsent s1" "debuggees s2 = debuggees s1"
    using dispatch_all [OF inv refl] by blast
  have "session_inv s2"
    by (rule run_session_inv [OF s2(1) assms(2) _ inv]) (simp add: list_all_iff)
  then have "edit_text (window s2) = concat (said (effects (debuggees s)))" "copies (window s2) = {#}"
    using s2 s1 by (auto simp: session_inv_def log_inv_def)
  then show ?thesis
    using drm_run_trans [OF s2(1) s1(1)] s2(4) s1(3) by metis
qed

text \<open>C20: the window shows the log of the debugger: however the thread of the debugger, the user (who does not close
  the window) and the window's loop interleave, the text of the control, what is queued and what is still
  to be sent make up exactly what the debugger has logged, in order, and the copies of texts that are allocated
  are those that are queued; and from any point the pending steps of the two threads alone, without another
  round, lead to the control showing all of it and every copy freed.\<close>

theorem window_shows_log:
  assumes "createDialog (dr_dialog os) no_window = Inr w" and "di_PostMessage (dr_dialog os)"
    and "drm_run os opts (session_start w) es s" and "list_all user_stays es"
  shows "edit_text (window s) @ concat (queued (msg_queue (window s))) @ concat (unsent s) =
      concat (said (effects (debuggees s))) \<and>
    copies (window s) = mset (queued (msg_queue (window s))) \<and>
    (\<exists>n s'. drm_run os opts s (replicate (length (unsent s)) Deliver @ replicate n (Window Dispatch)) s' \<and>
       edit_text (window s') = concat (said (effects (debuggees s))) \<and> copies (window s') = {#} \<and>
       debuggees s' = debuggees s)"
proof -
  have inv: "session_inv s"
    by (rule run_session_inv [OF assms(3,2,4) session_start_inv [OF assms(1)]])
  then obtain ts where "log_inv ts (window s)" "ts @ unsent s = said (effects (debuggees s))"
    by (auto simp: session_inv_def)
  then have "edit_text (window s) @ concat (queued (msg_queue (window s))) @ concat (unsent s) =
      concat (said (effects (debuggees s)))" "copies (window s) = mset (queued (msg_queue (window s)))"
    unfolding log_inv_def by (metis append.assoc concat_append, blast)
  then show ?thesis
    using catches_up [OF inv assms(2)] by blast
qed

text \<open>In the sample the debuggee prints a text and its debugger says so.\<close>

definition sample_print :: DEBUG_EVENT where
  "sample_print = \<lparr>dwProcessId = 7, dwThreadId = 9, event = OUTPUT_DEBUG_STRING_EVENT 0 3 False\<rparr>"

lemma sample_says:
  "\<exists>d. dbg_step (dbg_os.truncate sample_drm) sample_opts sample_print (debuggees (session_start w)) = return (Some d) \<and>
     said (effects d) = [[65, 65, 65]]"
proof -
  have "dbg_os.truncate sample_drm = sample_dbg"
    by (simp add: sample_drm_def dbg_os.defs sample_dbg_def)
  moreover have "dbg_step sample_dbg sample_opts sample_print
      \<lparr>g_Processes = [], fFinished = False, fTerminating = False, effects = []\<rparr> =
    return (Some \<lparr>g_Processes = [(7, empty_process)], fFinished = False, fTerminating = False,
      effects = [Say [65, 65, 65], Continue 7 9 DBG_CONTINUE]\<rparr>)"
    by code_simp
  ultimately show ?thesis
    by (simp add: session_start_def)
qed

theorem window_shows_log_witness:
  "\<exists>w s s' n. createDialog (dr_dialog sample_drm) no_window = Inr w \<and>
     drm_run sample_drm sample_opts (session_start w) [Round sample_print] s \<and>
     drm_run sample_drm sample_opts s (replicate 1 Deliver @ replicate n (Window Dispatch)) s' \<and>
     edit_text (window s') = [65, 65, 65] \<and> copies (window s') = {#}"
proof -
  have dialog: "dr_dialog sample_drm = sample_dialog"
    by (simp add: sample_drm_defs)
  obtain w where w: "createDialog (dr_dialog sample_drm) no_window = Inr w"
    using sample_created dialog by auto
  obtain d where d: "dbg_step (dbg_os.truncate sample_drm) sample_opts sample_print (debuggees (session_start w)) =
      return (Some d)" "said (effects d) = [[65, 65, 65]]"
    using sample_says by blast
  let ?s = "(session_start w)\<lparr>debuggees := d, unsent := said (drop (length (effects (debuggees (session_start w)))) (effects d))\<rparr>"
  have run: "drm_run sample_drm sample_opts (session_start w) [Round sample_print] ?s"
    by (intro drm_run_one drm_step.round d(1)) (simp add: session_start_def)
  have "unsent ?s = [[65, 65, 65]]" "debuggees ?s = d"
    using d(2) by (simp_all add: session_start_def)
  moreover have "di_PostMessage (dr_dialog sample_drm)"
    by (simp add: dialog sample_dialog_def)
  ultimately show ?thesis
    using window_shows_log [OF w _ run] w run d(2) by fastforce
qed

end
