(* ===== verification/Crash_Report.thy ===== *)
theory Crash_Report
  imports Drmingw_Run
begin

text \<open>
  The debugger and the log together, and the window behind them: what an exception that nobody handled leaves
  in the log, whatever the process, its thread and its stack are, and that the window of drmingw shows it.
\<close>

section \<open>What the log receives\<close>

text \<open>The text logged so far, as the callback gets it piece by piece.\<close>

definition log_text :: "dbg_state \<Rightarrow> wstr" where
  "log_text st = concat (said (effects st))"

lemma log_text_simps [simp]:
  "log_text (emit es st) = log_text st @ concat (said es)"
  "log_text (update_process pid f st) = log_text st" "log_text (touch_process pid st) = log_text st"
  "log_text (st\<lparr>fTerminating := b\<rparr>) = log_text st"
  by (simp_all add: log_text_def emit_def update_process_def touch_process_def)

lemma emit_keeps_table: "g_Processes (emit es st) = g_Processes st"
  by (simp add: emit_def)

lemma said_map_Say [simp]: "said (map Say ts) = ts"
  by (induction ts) simp_all

lemma say_logs: "say ts st = Inr st' \<Longrightarrow>
  \<exists>out. log_output ts = Inr out \<and> log_text st' = log_text st @ out \<and> g_Processes st' = g_Processes st"
proof -
  assume "say ts st = Inr st'"
  then obtain ss where "heard ts = Inr ss" "st' = emit (map Say ss) st"
    by (auto simp: dbg_log.delivered fold_say)
  then show ?thesis
    by (simp add: log_output_heard emit_keeps_table)
qed

lemma verbose_fits: "fits (verbose_exception pid tid code first)"
  using fmt_bounds(1) [of 0 code] length_fmt_u [of pid] length_fmt_u [of tid] length_fmt_u [of "if first then 1 else 0"]
  by (simp add: verbose_exception_def fits_W del: W_append split del: if_split)

lemma crash_dump_logs: "crash_dump os opts pid tid r first shown st = Inr st' \<Longrightarrow>
  \<exists>out. log_text st' = log_text st @ out \<and> (fDumpWritten (process pid st) \<longrightarrow> out = [])"
  by (auto simp: crash_dump_def writeDump_def Let_def dest!: say_logs split: if_splits option.splits)

section \<open>The thread that crashed\<close>

text \<open>An exception that is not shown for all threads is shown for exactly the one that raised it.\<close>

lemma no_thread_dumped:
  "\<not> shows_all_threads (ExceptionCode r) \<Longrightarrow> tid \<notin> fst ` set ths \<Longrightarrow> dump_threads os opts pid tid r first ths st = Inr st"
  by (induction ths) auto

lemma one_thread_dumped:
  assumes "sm_inv ths" and "sm_find ths tid = Some hT" and "\<not> shows_all_threads (ExceptionCode r)"
  shows "dump_threads os opts pid tid r first ths st =
    bnd (dump_thread os (hProcess (process pid st)) hT st) (\<lambda>(shown, st). crash_dump os opts pid tid r first shown st)"
  using assms
proof (induction ths)
  case (Cons th ths)
  show ?case
  proof (cases "fst th = tid")
    case True
    moreover have "tid \<notin> fst ` set ths"
      using Cons.prems(1) True by (auto simp: sm_inv_def)
    then have "bnd m (dump_threads os opts pid tid r first ths) = m" for m
      by (cases m) (simp_all add: no_thread_dumped Cons.prems(3))
    ultimately show ?thesis
      using Cons.prems by (cases th) (simp add: sm_find_def)
  next
    case False
    then show ?thesis
      using Cons by (cases th) (auto simp: sm_find_def sm_inv_def)
  qed
qed (simp add: sm_find_def)


section \<open>The report\<close>

text \<open>What a crash adds to the log; the last piece is about the minidump.\<close>

definition crash_text :: "'a dbg_os_scheme \<Rightarrow> DebugOptions \<Rightarrow> DEBUG_EVENT \<Rightarrow> EXCEPTION_RECORD \<Rightarrow> HANDLE \<Rightarrow> wstr \<Rightarrow> wstr \<Rightarrow> wstr" where
  "crash_text os opts ev r h trace dump =
     (if verbose_flag opts then verbose_exception (dwProcessId ev) (dwThreadId ev) (ExceptionCode r) False else []) @
     concat (dumpException os h r) @ trace @ dump"

lemma known_emit [simp]:
  "process pid (emit es st) = process pid st" "table_of (emit es st) = table_of st"
  by (simp_all add: process_def table_of_def emit_def fun_eq_iff)

text \<open>The texts before the stack, and then the one thread: the handler, for a process and a thread that are known.\<close>

lemma second_chance_known:
  assumes "names_fit os" and "good_table (g_Processes st)" and "table_of st pid = Some (h, T)" and "T tid = Some hT"
    and "\<not> shows_all_threads (ExceptionCode r)"
    and "ts = (if verbose_flag opts then [verbose_exception pid tid (ExceptionCode r) False] else []) @ dumpException os h r"
  shows "on_exception os opts pid tid r False st =
    bnd (bnd (dump_thread os h hT (emit (map Say ts) st)) (\<lambda>(shown, st). crash_dump os opts pid tid r False shown st))
      (\<lambda>st. Inr (DBG_EXCEPTION_NOT_HANDLED,
         emit [Terminate (hProcess (process pid st)) (ExceptionCode r)] (st\<lparr>fTerminating := True\<rparr>)))"
proof -
  have p: "hProcess (process pid st) = h" "sm_find (Threads (process pid st)) tid = Some hT"
    using process_table [OF assms(3)] assms(4) by (auto simp: abs_process_def)
  have threads: "sm_inv (Threads (process pid st))"
    unfolding process_def by (rule good_process [OF assms(2)])
  have touch: "touch_process pid (emit es st) = emit es st" for es
    by (rule touch_known) (simp add: assms(3))
  have emit: "emit fs (emit es st) = emit (es @ fs) st" "emit [] st = st" for es fs
    by (simp_all add: emit_def)
  have "say_if (verbose_flag opts) [verbose_exception pid tid (ExceptionCode r) False] st =
      Inr (emit (if verbose_flag opts then [Say (verbose_exception pid tid (ExceptionCode r) False)] else []) st)"
    by (simp add: say_if_def say_fits verbose_fits emit)
  then show ?thesis
    using touch [of "[]"]
    by (simp add: on_exception_def exception_verdict_def report_exception_def say_fits [OF dumpException_fits [OF assms(1)]]
        one_thread_dumped [OF threads p(2) assms(5)] p(1) assms(6) touch emit flip: bnd_assoc)
qed

lemma dump_thread_logs:
  assumes "getThreadContext os h hT st = Some Context" and "dump_thread os h hT st = Inr (shown, st')"
  shows "shown = Some Context \<and> (\<exists>stack trace. dumpStack os h hT Context = Inr stack \<and> log_output stack = Inr trace \<and>
    log_text st' = log_text st @ trace \<and> g_Processes st' = g_Processes st)"
  using assms by (auto simp: dump_thread_def bnd_eq_Inr dest!: say_logs)

lemma crash_logged:
  assumes "names_fit os" and "good_table (g_Processes st)" and "table_of st (dwProcessId ev) = Some (h, T)"
    and "T (dwThreadId ev) = Some hT" and "event ev = EXCEPTION_DEBUG_EVENT r False"
    and "\<not> shows_all_threads (ExceptionCode r)" and "\<And>s. getThreadContext os h hT s = Some Context"
    and "dbg_step os opts ev st = return (Some st')"
  shows "\<exists>stack trace dump. dumpStack os h hT Context = Inr stack \<and> log_output stack = Inr trace \<and>
    log_text st' = log_text st @ crash_text os opts ev r h trace dump \<and>
    (fDumpWritten (process (dwProcessId ev) st) \<longrightarrow> dump = [])"
proof -
  let ?pid = "dwProcessId ev" and ?tid = "dwThreadId ev"
  define ts where "ts = (if verbose_flag opts then [verbose_exception ?pid ?tid (ExceptionCode r) False] else []) @
    dumpException os h r"
  define told where "told = emit (map Say ts) st"
  note handler = second_chance_known [OF assms(1-4,6) ts_def, folded told_def]
  obtain status hdl where "on_exception os opts ?pid ?tid r False st = Inr (status, hdl)"
    and st': "st' = emit [Continue ?pid ?tid status] hdl"
    using assms(5,8) by (auto simp: dbg_step_def handle_event_def run_eq_return bnd_eq_Inr)
  then obtain shown mid st2 where mid: "dump_thread os h hT told = Inr (shown, mid)"
    and st2: "crash_dump os opts ?pid ?tid r False shown mid = Inr st2" and "log_text st' = log_text st2"
    unfolding handler by (auto simp: bnd_eq_Inr)
  moreover obtain stack trace where "dumpStack os h hT Context = Inr stack" "log_output stack = Inr trace"
    "log_text mid = log_text told @ trace" and table: "g_Processes mid = g_Processes told"
    using dump_thread_logs [OF assms(7) mid] by blast
  moreover obtain dump where "log_text st2 = log_text mid @ dump" "fDumpWritten (process ?pid mid) \<longrightarrow> dump = []"
    using crash_dump_logs [OF st2] by auto
  moreover have "process ?pid mid = process ?pid st"
    using table by (simp add: told_def process_def emit_def)
  moreover have "log_text told = log_text st @ concat ts"
    by (simp add: told_def)
  ultimately show ?thesis
    by (intro exI [of _ stack] exI [of _ trace] exI [of _ dump]) (simp add: crash_text_def ts_def)
qed


text \<open>C3: a crash is reported: when an exception that nobody handled is raised in a known thread whose context can
  be read, the log receives, in this order, what the exception is, where and in which module it was raised,
  the registers, and the frames of that thread's stack as \<open>StackWalk64\<close> yields them, each once, with their
  locations; of the other threads nothing. Only the outcome of the minidump may follow, when one was
  still to be written.\<close>

theorem crash_reported:
  assumes "names_fit os" and "good_table (g_Processes st)" and "table_of st (dwProcessId ev) = Some (h, T)"
    and "T (dwThreadId ev) = Some hT" and "event ev = EXCEPTION_DEBUG_EVENT r False"
    and "\<not> shows_all_threads (ExceptionCode r)" and "\<And>s. getThreadContext os h hT s = Some Context"
    and "stack_start (lo_IsWow64Process os h) Context = (mt, sf)" and "dbg_step os opts ev st = return (Some st')"
  shows "\<exists>fs tss trace dump. log_text st' = log_text st @ crash_text os opts ev r h trace dump \<and>
    log_output (stack_header (lo_IsWow64Process os h) Context @ concat tss @ [[NL]]) = Inr trace \<and>
    walk os mt h hT (sf, Context) (AddrStack sf - 1) fs \<and> logged os mt h 0 fs tss \<and>
    (fDumpWritten (process (dwProcessId ev) st) \<longrightarrow> dump = [])"
proof -
  obtain stack trace dump where stack: "dumpStack os h hT Context = Inr stack" and trace: "log_output stack = Inr trace"
    and report: "log_text st' = log_text st @ crash_text os opts ev r h trace dump"
      "fDumpWritten (process (dwProcessId ev) st) \<longrightarrow> dump = []"
    using crash_logged [OF assms(1-7,9)] by blast
  obtain frames where "stack_loop os mt h hT (sf, Context) (AddrStack sf - 1) 0 = Inr frames"
    and out: "stack = stack_header (lo_IsWow64Process os h) Context @ frames @ [[NL]]"
    using stack assms(8) by (auto simp: dumpStack_def Let_def bnd_eq_Inr split: if_splits)
  then obtain fs tss where "frames = concat tss" "walk os mt h hT (sf, Context) (AddrStack sf - 1) fs" "logged os mt h 0 fs tss"
    using frames_logged by blast
  then show ?thesis
    using report trace out by blast
qed

text \<open>In the sample the context can be read, and the walk yields one frame.\<close>

definition crash_dbg :: dbg_os where
  "crash_dbg = sample_dbg\<lparr>db_GetThreadContext := \<lambda>_ _ _. Some sample_context,
     lo_StackWalk64 := \<lambda>_ _ _ (sf, c). Some (sf\<lparr>AddrStack := 0\<rparr>, c)\<rparr>"

lemma crash_dbg_names: "names_fit crash_dbg"
  using sample_names_fit by (simp add: names_fit_def crash_dbg_def)

lemma frame_params_fits: "fits (frame_params mt sf)"
  by (simp add: frame_params_def fits_W hex_lengths fmt_bounds Let_def del: W_append)

lemma crash_frame: "\<exists>ts. frame_texts crash_dbg IMAGE_FILE_MACHINE_AMD64 1 \<lparr>AddrPC = 0x401000, AddrStack = 0, AddrFrame = 0x8100,
    Param0 = 0, Param1 = 0, Param2 = 0\<rparr> 0 = Inr ts \<and> list_all fits ts"
proof -
  have "GetSymFromAddr crash_dbg 1 a 512 = Some (strncpy 512 [102, 111, 111], ucast (a - 0x1000))"
    and "GetLineFromAddr crash_dbg 1 a MAX_PATH = None"
    and name: "lo_GetModuleFileNameExW crash_dbg h a = Some (W ''a.exe'')" for a h
    by (simp_all add: crash_dbg_def sample_defs sample_fields GetSymFromAddr_def GetLineFromAddr_def flag_set_def)
  moreover have "fits (W ''!'' @ 102 # 111 # 111 # W (''+0x'' @ fmt_x 0 (w :: DWORD)))" for w
    using fmt_bounds(1) [of 0 w] by (simp add: fits_def zero_in_W)
  moreover have "fits [NL]"
    by (simp add: fits_def)
  ultimately show ?thesis
    using base_name_fits(2) [OF crash_dbg_names name, of "''  ''"]
    by (simp add: frame_params_fits frame_texts_def frame_location_def frame_symbol_def frame_line_def
        cstr_strncpy_fits Let_def)
qed

definition crash_state :: dbg_state where
  "crash_state = \<lparr>g_Processes = [(7, sample_process\<lparr>fDumpWritten := True\<rparr>)], fFinished = False,
     fTerminating = False, effects = []\<rparr>"

lemma crash_state_simps:
  "good_table (g_Processes crash_state)" "table_of crash_state 7 = Some (1, sm_find [(9, 4)])"
  "process 7 crash_state = sample_process\<lparr>fDumpWritten := True\<rparr>" "log_text crash_state = []"
  by (auto simp: crash_state_def good_table_def sample_process_def sm_inv_def sm_find_def table_of_def abs_process_def
      process_def sm_at_def log_text_def split: if_splits)

lemma crash_start:
  "lo_IsWow64Process crash_dbg h = False"
  "stack_start False sample_context = (IMAGE_FILE_MACHINE_AMD64, start_frame 0x401000 0x8000 0x8100)"
  "getThreadContext crash_dbg h t s = Some sample_context" "so_ndebug crash_dbg"
  using sample_start by (simp_all add: getThreadContext_def crash_dbg_def sample_defs sample_fields)

lemma crash_stack: "\<exists>ts. dumpStack crash_dbg 1 4 sample_context = Inr ts \<and> list_all fits ts"
proof -
  obtain ts where frame: "frame_texts crash_dbg IMAGE_FILE_MACHINE_AMD64 1 \<lparr>AddrPC = 0x401000, AddrStack = 0,
      AddrFrame = 0x8100, Param0 = 0, Param1 = 0, Param2 = 0\<rparr> 0 = Inr ts" "list_all fits ts"
    using crash_frame by blast
  have "stack_loop crash_dbg IMAGE_FILE_MACHINE_AMD64 1 4 (start_frame 0x401000 0x8000 0x8100, sample_context) 0x7FFF 0 = Inr ts"
    using frame by (subst stack_loop.simps) (simp add: crash_dbg_def start_frame_def walk_ends_def)
  then have "dumpStack crash_dbg 1 4 sample_context = Inr (stack_header False sample_context @ ts @ [[NL]])"
    by (simp add: dumpStack_def crash_start) (simp add: start_frame_def)
  moreover have "fits (W ''AddrPC           Params'' @ [NL])" "fits [NL]"
    by (simp_all add: fits_def zero_in_W)
  ultimately show ?thesis
    using frame(2) dumpContext_fits [of "snd sample_context"] by (simp add: stack_header_def)
qed

lemma crash_step: "\<exists>st'. dbg_step crash_dbg opts sample_crash (emit es crash_state) = return (Some st')"
proof -
  obtain ts where ts: "dumpStack crash_dbg 1 4 sample_context = Inr ts" "list_all fits ts"
    using crash_stack by blast
  have code: "\<not> shows_all_threads (ExceptionCode sample_exception)"
    by (simp add: shows_all_threads_def sample_exception_def)
  have "\<exists>mid. on_exception crash_dbg opts 7 9 sample_exception False (emit es crash_state) =
      Inr (DBG_EXCEPTION_NOT_HANDLED, mid)"
    by (subst second_chance_known [OF crash_dbg_names _ _ _ code refl, of _ 7 1 "sm_find [(9, 4)]" 9 4])
      (simp_all add: emit_keeps_table sm_find_def dump_thread_def crash_start ts say_fits crash_dump_def writeDump_def crash_state_simps)
  then show ?thesis
    by (auto simp: dbg_step_def handle_event_def sample_crash_def)
qed

theorem crash_reported_witness:
  "\<exists>st' fs trace. dbg_step crash_dbg sample_opts sample_crash crash_state = return (Some st') \<and>
     log_text st' = crash_text crash_dbg sample_opts sample_crash sample_exception 1 trace [] \<and>
     walk crash_dbg IMAGE_FILE_MACHINE_AMD64 1 4 (start_frame 0x401000 0x8000 0x8100, sample_context) 0x7FFF fs"
proof -
  obtain st' where st': "dbg_step crash_dbg sample_opts sample_crash crash_state = return (Some st')"
    using crash_step [of sample_opts "[]"] by (auto simp: emit_def)
  have "table_of crash_state (dwProcessId sample_crash) = Some (1, sm_find [(9, 4)])"
    and "sm_find [(9, 4)] (dwThreadId sample_crash) = Some 4"
    and "event sample_crash = EXCEPTION_DEBUG_EVENT sample_exception False"
    and "\<not> shows_all_threads (ExceptionCode sample_exception)"
    and "stack_start (lo_IsWow64Process crash_dbg 1) sample_context =
      (IMAGE_FILE_MACHINE_AMD64, start_frame 0x401000 0x8000 0x8100)"
    and "fDumpWritten (process (dwProcessId sample_crash) crash_state)"
    by (simp_all add: sample_crash_def crash_state_simps crash_start sm_find_def shows_all_threads_def
        sample_exception_def)
  then show ?thesis
    using crash_reported [OF crash_dbg_names crash_state_simps(1) _ _ _ _ crash_start(3) _ st'] st'
    by (fastforce simp: crash_state_simps(4) start_frame_def)
qed


section \<open>In the window\<close>

lemma run_good:
  "drm_run os opts s es s' \<Longrightarrow> good_table (g_Processes (debuggees s)) \<Longrightarrow> good_table (g_Processes (debuggees s'))"
proof (induction rule: drm_run.induct)
  case (step es s1 e s2)
  then have good: "good_table (g_Processes (debuggees s1))"
    by blast
  show ?case
    using step.hyps(2)
  proof cases
    case (round ev d)
    then obtain status mid where "handle_event (dbg_os.truncate os) opts ev (debuggees s1) = return (Some (status, mid))"
      and d: "d = emit [Continue (dwProcessId ev) (dwThreadId ev) status] mid"
      by (elim step_cases)
    then have "good_table (g_Processes mid)"
      using handle_event_others good by (fastforce simp: others_def)
    with round d show ?thesis
      by (simp add: emit_def)
  qed (use good in simp_all)
qed simp

text \<open>C4: drmingw shows a crash: after any interleaving of the debugger's thread, the user (who does not close the window)
  and the window's loop, once an exception that nobody handled has been handled by the debugger, the
  remaining steps of the two threads lead to a window that shows the log so far followed by the whole report,
  with the exception, the registers and the stack of the thread.\<close>

theorem crash_shown_in_window:
  assumes "createDialog (dr_dialog os) no_window = Inr w" and "di_PostMessage (dr_dialog os)"
    and "drm_run os opts (session_start w) es s" and "list_all user_stays es" and "unsent s = []"
    and "names_fit (dbg_os.truncate os)" and "table_of (debuggees s) (dwProcessId ev) = Some (h, T)"
    and "T (dwThreadId ev) = Some hT" and "event ev = EXCEPTION_DEBUG_EVENT r False"
    and "\<not> shows_all_threads (ExceptionCode r)"
    and "\<And>st. getThreadContext (dbg_os.truncate os) h hT st = Some Context"
    and "dbg_step (dbg_os.truncate os) opts ev (debuggees s) = return (Some d)"
  shows "\<exists>m n s' stack trace dump.
    drm_run os opts (session_start w) (es @ Round ev # replicate m Deliver @ replicate n (Window Dispatch)) s' \<and>
    dumpStack (dbg_os.truncate os) h hT Context = Inr stack \<and> log_output stack = Inr trace \<and>
    edit_text (window s') = log_text (debuggees s) @ crash_text (dbg_os.truncate os) opts ev r h trace dump"
proof -
  let ?s = "s\<lparr>debuggees := d, unsent := said (drop (length (effects (debuggees s))) (effects d))\<rparr>"
  have "good_table (g_Processes (debuggees (session_start w)))"
    by (simp add: session_start_def good_empty)
  from crash_logged [OF assms(6) run_good [OF assms(3) this] assms(7-12)]
  obtain stack trace dump where report: "dumpStack (dbg_os.truncate os) h hT Context = Inr stack" "log_output stack = Inr trace"
    "log_text d = log_text (debuggees s) @ crash_text (dbg_os.truncate os) opts ev r h trace dump"
    by blast
  have round: "drm_run os opts s [Round ev] ?s"
    by (intro drm_run_one drm_step.round assms(5,12))
  have "session_inv s"
    by (rule run_session_inv [OF assms(3,2,4) session_start_inv [OF assms(1)]])
  then have "session_inv ?s"
    using run_session_inv [OF round assms(2)] by simp
  then obtain n s' where run: "drm_run os opts ?s (replicate (length (unsent ?s)) Deliver @ replicate n (Window Dispatch)) s'"
    and shown: "edit_text (window s') = concat (said (effects (debuggees ?s)))"
    using catches_up [OF _ assms(2)] by blast
  have "drm_run os opts (session_start w)
      (es @ Round ev # replicate (length (unsent ?s)) Deliver @ replicate n (Window Dispatch)) s'"
    using drm_run_trans [OF run drm_run_trans [OF round assms(3)]] by simp
  moreover have "edit_text (window s') = log_text (debuggees s) @ crash_text (dbg_os.truncate os) opts ev r h trace dump"
    using shown report(3) by (simp add: log_text_def)
  ultimately show ?thesis
    using report(1,2) by blast
qed


text \<open>The sample: a process is created and crashes, without minidumps.\<close>

definition crash_drm :: drm_os where
  "crash_drm = sample_drm\<lparr>db_GetThreadContext := db_GetThreadContext crash_dbg, lo_StackWalk64 := lo_StackWalk64 crash_dbg\<rparr>"

definition crash_opts :: DebugOptions where
  "crash_opts = sample_opts\<lparr>minidump := False\<rparr>"

lemma crash_drm_truncate: "dbg_os.truncate crash_drm = crash_dbg"
  by (simp add: crash_drm_def crash_dbg_def sample_drm_def dbg_os.defs sample_dbg_def)

lemma crash_created:
  "dbg_step crash_dbg crash_opts sample_create (debuggees (session_start w)) =
   return (Some (emit [SymInit 1, LoadSymbols 1 0 None 0 0, Continue 7 9 DBG_CONTINUE] crash_state))"
proof -
  have "dbg_step crash_dbg crash_opts sample_create \<lparr>g_Processes = [], fFinished = False, fTerminating = False, effects = []\<rparr> =
      return (Some (emit [SymInit 1, LoadSymbols 1 0 None 0 0, Continue 7 9 DBG_CONTINUE] crash_state))"
    by code_simp
  then show ?thesis
    by (simp add: session_start_def)
qed

theorem crash_shown_in_window_witness:
  "\<exists>w s es s' trace dump. createDialog (dr_dialog crash_drm) no_window = Inr w \<and>
     drm_run crash_drm crash_opts (session_start w) [Round sample_create] s \<and>
     drm_run crash_drm crash_opts (session_start w) (Round sample_create # Round sample_crash # es) s' \<and>
     edit_text (window s') = log_text (debuggees s) @ crash_text crash_dbg crash_opts sample_crash sample_exception 1 trace dump"
proof -
  have dialog: "dr_dialog crash_drm = sample_dialog"
    by (simp add: crash_drm_def sample_drm_defs)
  obtain w where w: "createDialog (dr_dialog crash_drm) no_window = Inr w"
    using sample_created dialog by auto
  have post: "di_PostMessage (dr_dialog crash_drm)"
    by (simp add: dialog sample_dialog_def)
  let ?d = "emit [SymInit 1, LoadSymbols 1 0 None 0 0, Continue 7 9 DBG_CONTINUE] crash_state"
  let ?s = "(session_start w)\<lparr>debuggees := ?d, unsent := said (drop (length (effects (debuggees (session_start w)))) (effects ?d))\<rparr>"
  have run: "drm_run crash_drm crash_opts (session_start w) [Round sample_create] ?s"
    by (intro drm_run_one drm_step.round) (simp_all add: crash_drm_truncate crash_created, simp add: session_start_def)
  have unsent: "unsent ?s = []" and debuggees: "debuggees ?s = ?d"
    by (simp_all add: session_start_def emit_def crash_state_def)
  obtain d where d: "dbg_step (dbg_os.truncate crash_drm) crash_opts sample_crash (debuggees ?s) = return (Some d)"
    using crash_step by (auto simp: crash_drm_truncate)
  have stays: "list_all user_stays [Round sample_create]" and names: "names_fit (dbg_os.truncate crash_drm)"
    and known: "table_of (debuggees ?s) (dwProcessId sample_crash) = Some (1, sm_find [(9, 4)])"
    and crashed: "sm_find [(9, 4 :: HANDLE)] (dwThreadId sample_crash) = Some 4"
      "event sample_crash = EXCEPTION_DEBUG_EVENT sample_exception False"
      "\<not> shows_all_threads (ExceptionCode sample_exception)"
    and regs: "getThreadContext (dbg_os.truncate crash_drm) 1 4 st = Some sample_context" for st
    by (simp_all add: debuggees sample_crash_def crash_state_simps sm_find_def shows_all_threads_def sample_exception_def
        crash_drm_truncate crash_dbg_names crash_start)
  obtain m n s' stack trace dump where shown: "drm_run crash_drm crash_opts (session_start w)
      ([Round sample_create] @ Round sample_crash # replicate m Deliver @ replicate n (Window Dispatch)) s' \<and>
    dumpStack (dbg_os.truncate crash_drm) 1 4 sample_context = Inr stack \<and> log_output stack = Inr trace \<and>
    edit_text (window s') =
      log_text (debuggees ?s) @ crash_text (dbg_os.truncate crash_drm) crash_opts sample_crash sample_exception 1 trace dump"
    using crash_shown_in_window [OF w post run stays unsent names known crashed regs d] by (elim exE)
  then have "drm_run crash_drm crash_opts (session_start w)
      (Round sample_create # Round sample_crash # replicate m Deliver @ replicate n (Window Dispatch)) s'"
    by simp
  then show ?thesis
    using shown unfolding crash_drm_truncate by (intro exI conjI) (rule w, rule run, assumption, simp only:)
qed

end
