(* ===== verification/Addr2line.thy ===== *)
theory Addr2line
  imports Log Strtoul
begin

text \<open>
  addr2line (src/addr2line/addr2line.cpp): its options, the parsing of an address, the function and the
  line printed for one, and \<open>wmain\<close> behind the options; theory \<open>Addr2line_Main\<close> puts them together. What is
  written to the two streams is kept as texts.
\<close>

abbreviation UNDNAME_COMPLETE :: DWORD where "UNDNAME_COMPLETE \<equiv> 0"
abbreviation LOAD_LIBRARY_AS_DATAFILE :: DWORD where "LOAD_LIBRARY_AS_DATAFILE \<equiv> 2"
abbreviation DONT_RESOLVE_DLL_REFERENCES :: DWORD where "DONT_RESOLVE_DLL_REFERENCES \<equiv> 1"

record addr_os = sym_os +
  ad_LoadLibraryExW :: "wstr \<Rightarrow> DWORD \<Rightarrow> HANDLE"
  ad_GetCurrentProcess :: HANDLE
  ad_SymLoadModuleExW :: "HANDLE \<Rightarrow> wstr \<Rightarrow> DWORD64 \<Rightarrow> DWORD64"
  ad_symsrv_loaded :: bool

text \<open>The two streams, the options of DbgHelp, its sessions and the modules that are open.\<close>

record addr_state =
  stdout :: "wstr list"
  stderr :: "wstr list"
  sym_options :: DWORD
  callback_registered :: bool
  sessions :: int
  libraries :: int

definition put :: "wstr \<Rightarrow> addr_state \<Rightarrow> addr_state" where
  "put txt st = st\<lparr>stdout := stdout st @ [txt]\<rparr>"

definition warn :: "wstr \<Rightarrow> addr_state \<Rightarrow> addr_state" where
  "warn txt st = st\<lparr>stderr := stderr st @ [txt]\<rparr>"

definition usage :: "wstr \<Rightarrow> addr_state \<Rightarrow> addr_state" where
  "usage argv0 st = warn
     (W ''usage: '' @ argv0 @ W '' -e EXECUTABLE ADDRESS ...'' @ [NL] @
      [NL] @
      W ''options:'' @ [NL] @
      W ''  -C             demangle C++ function names'' @ [NL] @
      W ''  -D             enables debugging output (for debugging addr2line itself)'' @ [NL] @
      W ''  -e EXECUTABLE  specify the EXE/DLL'' @ [NL] @
      W ''  -f             show functions'' @ [NL] @
      W ''  -H             displays command line help text'' @ [NL] @
      W ''  -p             pretty print'' @ [NL]) st"

text \<open>The callback of DbgHelp: only its debugging texts are passed on.\<close>

abbreviation CBA_DEBUG_INFO :: DWORD where "CBA_DEBUG_INFO \<equiv> 0x10000000"

definition callback :: "DWORD \<Rightarrow> wstr \<Rightarrow> addr_state \<Rightarrow> bool \<times> addr_state" where
  "callback ActionCode CallbackData st =
     (if ActionCode = CBA_DEBUG_INFO then (True, warn CallbackData st) else (False, st))"

section \<open>Options\<close>

record addr_options =
  opt_debug :: bool
  szModule :: "wstr option"
  show_functions :: bool
  opt_demangle :: bool
  pretty :: bool

definition addr_start :: addr_options where
  "addr_start = \<lparr>opt_debug = False, szModule = None, show_functions = False, opt_demangle = False, pretty = False\<rparr>"

text \<open>One result of \<open>getoptW\<close>: an exit code, or on to the next option.\<close>

definition addr_option :: "wstr \<Rightarrow> char \<Rightarrow> wstr \<Rightarrow> wchar \<Rightarrow> addr_options \<times> addr_state \<Rightarrow>
    (DWORD \<times> addr_state) + addr_options \<times> addr_state" where
  "addr_option argv0 opt optarg optopt = (\<lambda>(s, st).
     if opt = CHR ''C'' then Inr (s\<lparr>opt_demangle := True\<rparr>, st)
     else if opt = CHR ''D'' then Inr (s\<lparr>opt_debug := True\<rparr>, st)
     else if opt = CHR ''e'' then Inr (s\<lparr>szModule := Some optarg\<rparr>, st)
     else if opt = CHR ''f'' then Inr (s\<lparr>show_functions := True\<rparr>, st)
     else if opt = CHR ''H'' then Inl (0, usage argv0 st)
     else if opt = CHR ''p'' then Inr (s\<lparr>pretty := True\<rparr>, st)
     else if opt = CHR ''?'' then
       Inl (1, usage argv0 (warn (W ''error: invalid option `'' @ [optopt] @ W ''`'' @ [NL]) st))
     else Inl (1, usage argv0 st))"

section \<open>Addresses\<close>

definition parse_address :: "wstr \<Rightarrow> DWORD64" where
  "parse_address arg =
     (if take 2 arg = W ''0x'' then wcstoull (drop 2 arg) 16 else wcstoull arg 10)"

text \<open>The name of the function, undecorated with \<open>-C\<close> where that succeeds.\<close>

definition function_name :: "'a addr_os_scheme \<Rightarrow> bool \<Rightarrow> DWORD64 \<Rightarrow> wstr" where
  "function_name os demangle dwAddr =
     (case so_SymFromAddr os (ad_GetCurrentProcess os) dwAddr of
        None \<Rightarrow> W ''??''
      | Some (name, d) \<Rightarrow>
          (let und = so_UnDecorateSymbolName os name 512 UNDNAME_COMPLETE in
           map ucast (takeWhile (\<lambda>c. c \<noteq> 0) (if demangle \<and> fst und \<noteq> 0 then snd und else name))))"

definition print_function :: "'a addr_os_scheme \<Rightarrow> addr_options \<Rightarrow> DWORD64 \<Rightarrow> addr_state \<Rightarrow> addr_state" where
  "print_function os s dwAddr st =
     (if show_functions s
      then put (if pretty s then W '' at '' else [NL]) (put (function_name os (opt_demangle s) dwAddr) st)
      else st)"

definition print_line :: "'a addr_os_scheme \<Rightarrow> DWORD64 \<Rightarrow> addr_state \<Rightarrow> addr_state" where
  "print_line os dwAddr st =
     (case so_SymGetLineFromAddrW64 os (ad_GetCurrentProcess os) dwAddr of
        Some (FileName, LineNumber) \<Rightarrow> put (FileName @ W ('':'' @ fmt_u LineNumber) @ [NL]) st
      | None \<Rightarrow> put (W ''??:?'' @ [NL]) st)"

text \<open>The loop over the arguments that are left.\<close>

fun address_loop :: "'a addr_os_scheme \<Rightarrow> addr_options \<Rightarrow> DWORD64 \<Rightarrow> wstr list \<Rightarrow> addr_state \<Rightarrow> addr_state" where
  "address_loop os s BaseOfDll [] st = st"
| "address_loop os s BaseOfDll (arg # args) st =
     (let dwAddr = BaseOfDll + parse_address arg in
      address_loop os s BaseOfDll args (print_line os dwAddr (print_function os s dwAddr st)))"

section \<open>The program\<close>

definition load_module :: "'a addr_os_scheme \<Rightarrow> wstr \<Rightarrow> HANDLE" where
  "load_module os m =
     (let hModule = ad_LoadLibraryExW os m LOAD_LIBRARY_AS_DATAFILE in
      if hModule = 0 then ad_LoadLibraryExW os m DONT_RESOLVE_DLL_REFERENCES else hModule)"

text \<open>The low bits of the handle of a module loaded as data are flags.\<close>

definition module_base :: "HANDLE \<Rightarrow> DWORD64" where
  "module_base hModule = hModule AND NOT 3"

definition addr_sym_options :: "bool \<Rightarrow> DWORD \<Rightarrow> DWORD" where
  "addr_sym_options ndebug dwSymOptions =
     (let dwSymOptions = dwSymOptions OR SYMOPT_LOAD_LINES;
          dwSymOptions = (if ndebug then dwSymOptions else dwSymOptions OR SYMOPT_DEBUG)
      in dwSymOptions AND NOT SYMOPT_UNDNAME)"

text \<open>The result of \<open>SymLoadModuleExW\<close> is kept in a DWORD; a failure is only worth a warning.\<close>

definition load_symbols :: "'a addr_os_scheme \<Rightarrow> wstr \<Rightarrow> DWORD64 \<Rightarrow> addr_state \<Rightarrow> addr_state" where
  "load_symbols os m BaseOfDll st =
     (let dwRet = (ucast (ad_SymLoadModuleExW os (ad_GetCurrentProcess os) m BaseOfDll) :: DWORD);
          st = (if dwRet = 0 then warn (W ''warning: failed to load module symbols'' @ [NL]) st else st)
      in if ad_symsrv_loaded os then st else warn (W ''warning: symbol server not loaded'' @ [NL]) st)"

text \<open>From the module on; the early return leaves the module open.\<close>

definition addr2line_run :: "'a addr_os_scheme \<Rightarrow> addr_options \<Rightarrow> wstr \<Rightarrow> wstr list \<Rightarrow> addr_state \<Rightarrow>
    fault + DWORD \<times> addr_state" where
  "addr2line_run os s m args st =
     (let hModule = load_module os m in
      if hModule = 0 then Inr (1, warn (W ''error: failed to load '' @ m @ [NL]) st)
      else
        let BaseOfDll = module_base hModule;
            st = st\<lparr>libraries := libraries st + 1, sym_options := addr_sym_options (so_ndebug os) (sym_options st)\<rparr>
        in
        bnd (InitializeSym os (ad_GetCurrentProcess os) False) (\<lambda>ok.
          if \<not> ok then Inr (1, warn (W ''warning: failed to initialize DbgHelp'' @ [NL]) st)
          else
            let st = st\<lparr>sessions := sessions st + 1, callback_registered := opt_debug s \<or> callback_registered st\<rparr>;
                st = load_symbols os m BaseOfDll st;
                st = address_loop os s BaseOfDll args st
            in Inr (0, st\<lparr>sessions := sessions st - 1, libraries := libraries st - 1\<rparr>)))"

end
