(* ===== verification/Addr2line_Facts.thy ===== *)
theory Addr2line_Facts
  imports Addr2line
begin

text \<open>
  What addr2line answers: the addresses it reads are the ones that were printed, in the log among others,
  and each of them gets its answer, in order.
\<close>

section \<open>Hexadecimal numbers\<close>

definition hex_char :: "wchar \<Rightarrow> bool" where
  "hex_char c \<longleftrightarrow> 48 \<le> c \<and> c \<le> 57 \<or> 65 \<le> c \<and> c \<le> 70 \<or> 97 \<le> c \<and> c \<le> 102"

lemma hex_char_digit: "d < 16 \<Longrightarrow> hex_char (of_char (digit_char up d))"
  by (auto simp: hex_char_def word_le_nat_alt unat_of_char16 digit_char_def of_char_of)

lemma hex_chars: "list_all hex_char (W (zero_pad k (num_str up 16 n)))"
proof -
  have "hex_char (of_char (CHR ''0''))"
    by (simp add: hex_char_def)
  then show ?thesis
    using to_digits_lt [of 16 _ n]
    by (auto simp: list_all_iff W_def zero_pad_def num_str_def hex_char_digit)
qed

lemma hex_char_plain: "hex_char c \<Longrightarrow> \<not> is_space c \<and> c \<noteq> 43 \<and> c \<noteq> 45 \<and> c \<noteq> 88 \<and> c \<noteq> 120"
  by (auto simp: hex_char_def is_space_def word_le_nat_alt)

lemma hex_unsigned: "list_all hex_char s \<Longrightarrow> split_sign s = (False, s)"
  by (cases s) (simp_all add: split_sign_def hex_char_plain)

lemma hex_unprefixed: "list_all hex_char s \<Longrightarrow> parse_nat 16 s = parse_digits 16 (map unat s) 0"
  by (cases s; cases "tl s") (auto simp: parse_nat_def hex_char_plain)

lemma parse_nat_hex: "parse_nat 16 (W (zero_pad k (num_str up 16 n))) = n"
  by (simp add: hex_unprefixed hex_chars unat_W parse_zero_pad)

lemma wcstoull_hex: "n < 2 ^ 64 \<Longrightarrow> wcstoull (W (zero_pad k (num_str up 16 n))) 16 = word_of_nat n"
  by (simp add: wcstoull_def hex_unsigned hex_chars parse_nat_hex)

section \<open>Addresses\<close>

lemma W_0x: "W (''0x'' @ s) = W ''0x'' @ W s" and take_0x: "take 2 (W ''0x'' @ t) = W ''0x''"
  and drop_0x: "drop 2 (W ''0x'' @ t) = t"
  by (simp_all add: W_def)

lemma address_hex: "n < 2 ^ 64 \<Longrightarrow> parse_address (W (''0x'' @ zero_pad k (num_str up 16 n))) = word_of_nat n"
  by (simp only: parse_address_def W_0x take_0x drop_0x wcstoull_hex if_True refl)

lemma address_fmt_x: "parse_address (W (''0x'' @ fmt_x k (w :: DWORD64))) = w"
  unfolding fmt_x_def by (subst address_hex) (use unat_lt_max [of w] in simp_all)

lemma address_fmt_X: "parse_address (W (''0x'' @ fmt_X k (w :: DWORD64))) = w"
  unfolding fmt_X_def by (subst address_hex) (use unat_lt_max [of w] in simp_all)

lemma decimal_no_x: "120 \<notin> set (W (num_str up 10 n))"
proof
  assume "120 \<in> set (W (num_str up 10 n))"
  then obtain d where "d \<in> set (to_digits 10 n)" and d: "(of_char (digit_char up d) :: wchar) = 120"
    by (auto simp: W_def num_str_def)
  then have "d < 10"
    using to_digits_lt by simp
  then have "(of_char (digit_char up d) :: nat) < 58"
    by (simp add: digit_char_code)
  moreover have "(of_char (digit_char up d) :: nat) = 120"
    using d unat_of_char16 [of "digit_char up d"] by simp
  ultimately show False
    by simp
qed

lemma address_fmt_u: "parse_address (W (fmt_u (w :: DWORD64))) = w"
proof -
  let ?s = "W (num_str False 10 (unat w))"
  have "take 2 ?s \<noteq> W ''0x''"
  proof
    assume "take 2 ?s = W ''0x''"
    then have "120 \<in> set (take 2 ?s)"
      by (simp add: W_Cons W_char_def)
    then show False
      using decimal_no_x in_set_takeD by metis
  qed
  moreover have "parse_nat 10 ?s = unat w"
    by (simp add: parse_nat_def unat_W parse_num_str)
  ultimately show ?thesis
    using unat_lt_max [of w] by (simp add: parse_address_def fmt_u_def wcstoull_def)
qed

section \<open>Answers\<close>

text \<open>What is printed for one address.\<close>

definition answer :: "'a addr_os_scheme \<Rightarrow> addr_options \<Rightarrow> DWORD64 \<Rightarrow> wstr list" where
  "answer os s dwAddr =
     (if show_functions s
      then [function_name os (opt_demangle s) dwAddr, if pretty s then W '' at '' else [NL]] else []) @
     [case so_SymGetLineFromAddrW64 os (ad_GetCurrentProcess os) dwAddr of
        Some (FileName, LineNumber) \<Rightarrow> FileName @ W ('':'' @ fmt_u LineNumber) @ [NL]
      | None \<Rightarrow> W ''??:?'' @ [NL]]"

lemma address_loop_stdout:
  "stdout (address_loop os s base args st) =
     stdout st @ concat (map (\<lambda>arg. answer os s (base + parse_address arg)) args)"
proof (induction args arbitrary: st)
  case (Cons arg args)
  then show ?case
    by (simp add: Let_def print_line_def print_function_def put_def answer_def split: option.split prod.split)
qed simp

lemma put_keeps [simp]: "sessions (put t st) = sessions st" "libraries (put t st) = libraries st"
  by (simp_all add: put_def)

lemma address_loop_keeps [simp]:
  "sessions (address_loop os s base args st) = sessions st"
  "libraries (address_loop os s base args st) = libraries st"
  by (induction args arbitrary: st)
    (simp_all add: Let_def print_line_def print_function_def split: option.split prod.split)

lemma load_symbols_keeps [simp]:
  "stdout (load_symbols os m base st) = stdout st" "sessions (load_symbols os m base st) = sessions st"
  "libraries (load_symbols os m base st) = libraries st"
  by (simp_all add: load_symbols_def Let_def warn_def)

lemma addr2line_run_answers:
  assumes "load_module os m \<noteq> 0" and "InitializeSym os (ad_GetCurrentProcess os) False = Inr True"
  shows "\<exists>st'. addr2line_run os s m args st = Inr (0, st') \<and>
    stdout st' = stdout st @
      concat (map (\<lambda>arg. answer os s (module_base (load_module os m) + parse_address arg)) args) \<and>
    sessions st' = sessions st \<and> libraries st' = libraries st"
  using assms by (simp add: addr2line_run_def Let_def address_loop_stdout)

definition sample_addr :: addr_os where
  "sample_addr = sym_os.extend sample_sym (addr_os.fields (\<lambda>_ _. 0x140000002) 1 (\<lambda>_ _ base. base) True)"

definition addr_state_start :: addr_state where
  "addr_state_start = \<lparr>stdout = [], stderr = [], sym_options = 0, callback_registered = False, sessions = 0, libraries = 0\<rparr>"

lemma sample_loads: "load_module sample_addr m = 0x140000002"
  "InitializeSym sample_addr (ad_GetCurrentProcess sample_addr) False = Inr True"
  by (simp_all add: sample_addr_def sample_sym_def load_module_def InitializeSym_def symbol_search_path_def
      sym_os.defs addr_os.defs)

lemma sample_answer:
  "answer sample_addr \<lparr>opt_debug = d, szModule = m, show_functions = True, opt_demangle = False, pretty = False\<rparr> a =
     [[102, 111, 111], [NL], W ''??:?'' @ [NL]]"
  by (simp add: answer_def function_name_def sample_addr_def sample_sym_def sym_os.defs addr_os.defs Let_def)

end
