(* ===== verification/GetoptW.thy ===== *)
theory GetoptW
  imports Prelude
begin

text \<open>
  The option parser of the programs (src/thirdparty/getoptW/getoptW.c, as the repository carries it): short
  options, GNU style permutation of the arguments, and long options with abbreviations, also after a
  single dash. The variables of the file and \<open>argv\<close>, which it permutes, are \<open>getopt_state\<close>. A cell of the
  caller, to which the \<open>flag\<close> of a long option points, is a number.
\<close>

section \<open>State\<close>

record getopt_state =
  argv :: "wstr list"
  optind :: nat
  argind :: nat
  optbase :: nat
  optmark :: nat
  nextchar :: "wstr option"          \<comment> \<open>the rest of the argument under way\<close>
  optarg :: "wstr option"
  optopt :: wchar
  opterr :: bool
  optreset :: bool
  longindex :: "nat option"          \<comment> \<open>the index of the long option found last, for the caller\<close>
  stored :: "(nat \<times> wchar) list"     \<comment> \<open>the stores to cells of the caller\<close>
  complaints :: "wstr list"

definition getopt_start :: "wstr list \<Rightarrow> getopt_state" where
  "getopt_start args = \<lparr>argv = args, optind = 1, argind = 0, optbase = 0, optmark = 0, nextchar = None,
     optarg = None, optopt = W_char (CHR ''?''), opterr = True, optreset = False,
     longindex = None, stored = [], complaints = []\<rparr>"

datatype parse_mode = Standard | Long | LongOnly

datatype arg_kind = no_argument | required_argument | optional_argument

record long_option =
  long_name :: wstr
  has_arg :: arg_kind
  long_flag :: "nat option"
  long_val :: wchar

text \<open>What a call returns: -1, 1 for an argument in its place, or a character (0 after a store).\<close>

datatype getopt_result = AllDone | Ordered | Opt wchar

abbreviation DASH :: wchar where "DASH \<equiv> W_char (CHR ''-'')"
abbreviation COLON :: wchar where "COLON \<equiv> W_char (CHR '':'')"
abbreviation EQUALS :: wchar where "EQUALS \<equiv> W_char (CHR ''='')"
abbreviation PLUS :: wchar where "PLUS \<equiv> W_char (CHR ''+'')"
abbreviation QUESTION :: wchar where "QUESTION \<equiv> W_char (CHR ''?'')"

definition getopt_complain :: "wstr \<Rightarrow> getopt_state \<Rightarrow> getopt_state" where
  "getopt_complain msg st =
     (if opterr st then st\<lparr>complaints := complaints st @ [argv st ! 0 @ W '': '' @ msg @ [W_char (CHR 0x0A)]]\<rparr> else st)"

text \<open>The character of a C string at a position, which is the NUL at its end.\<close>

definition char_at :: "wstr \<Rightarrow> nat \<Rightarrow> wchar" where
  "char_at s i = (if i < length s then s ! i else 0)"

section \<open>Matching\<close>

definition skip_mode_char :: "wstr \<Rightarrow> wstr" where
  "skip_mode_char s = (if char_at s 0 = PLUS \<or> char_at s 0 = DASH then tl s else s)"

definition getopt_missing_arg :: "wstr \<Rightarrow> wchar" where
  "getopt_missing_arg optstring = (if char_at (skip_mode_char optstring) 0 = COLON then COLON else QUESTION)"

text \<open>The option string from the character on.\<close>

definition getopt_match :: "wchar \<Rightarrow> wstr \<Rightarrow> wstr option" where
  "getopt_match lookup opt_string =
     (let s = skip_mode_char opt_string;
          s = (if char_at s 0 = COLON then tl s else s)
      in case dropWhile (\<lambda>c. c \<noteq> lookup) s of [] \<Rightarrow> None | c # cs \<Rightarrow> Some (c # cs))"

datatype long_match = NoMatch | AbbreviatedMatch | ExactMatch

text \<open>How an argument matches the name of a long option, and the value after an equals sign.\<close>

fun getopt_match_long :: "wstr \<Rightarrow> wstr \<Rightarrow> long_match \<times> wstr option" where
  "getopt_match_long [] [] = (ExactMatch, None)"
| "getopt_match_long [] (n # ns) = (AbbreviatedMatch, None)"
| "getopt_match_long (c # cs) [] = (if c = EQUALS then (ExactMatch, Some cs) else (NoMatch, None))"
| "getopt_match_long (c # cs) (n # ns) =
     (if c = n then getopt_match_long cs ns
      else if c = EQUALS then (AbbreviatedMatch, Some cs) else (NoMatch, None))"

text \<open>Whether an argument may be read as short options.\<close>

fun verify_loop :: "wstr \<Rightarrow> wstr \<Rightarrow> bool" where
  "verify_loop [] optstring = True"
| "verify_loop (c # cs) optstring =
     (case getopt_match c optstring of
        None \<Rightarrow> False
      | Some test \<Rightarrow> char_at test 1 = COLON \<or> verify_loop cs optstring)"

definition getopt_verify :: "wstr \<Rightarrow> wstr \<Rightarrow> bool" where
  "getopt_verify next optstring \<longleftrightarrow> next \<noteq> [] \<and> optstring \<noteq> [] \<and> verify_loop next optstring"

text \<open>The scan of the long options: the first exact match, or the only abbreviated one.\<close>

datatype long_search = Found nat long_option | Ambiguous | Unmatched

fun find_long :: "wstr \<Rightarrow> nat \<Rightarrow> long_option list \<Rightarrow> (nat \<times> long_option) option \<Rightarrow> wstr option \<Rightarrow>
    long_search \<times> wstr option" where
  "find_long next lookup [] matched arg = (case matched of Some (i, lo) \<Rightarrow> Found i lo | None \<Rightarrow> Unmatched, arg)"
| "find_long next lookup (lo # los) matched arg =
     (let (m, a) = getopt_match_long next (long_name lo);
          arg = (if a = None then arg else a)
      in case m of
           ExactMatch \<Rightarrow> (Found lookup lo, arg)
         | AbbreviatedMatch \<Rightarrow>
             if matched \<noteq> None then (Ambiguous, arg) else find_long next (lookup + 1) los (Some (lookup, lo)) arg
         | NoMatch \<Rightarrow> find_long next (lookup + 1) los matched arg)"

section \<open>Short and long options\<close>

definition advance_optind :: "getopt_state \<Rightarrow> getopt_state" where
  "advance_optind st =
     st\<lparr>optind := (if nextchar st = None \<or> nextchar st = Some [] then argind st + 1 else argind st)\<rparr>"

text \<open>The next character of an argument of short options.\<close>

definition short_option :: "parse_mode \<Rightarrow> wstr \<Rightarrow> wchar \<Rightarrow> wstr \<Rightarrow> getopt_state \<Rightarrow> getopt_result \<times> getopt_state" where
  "short_option mode optstring c rest st =
     (let st = st\<lparr>optopt := c, nextchar := Some rest\<rparr> in
      case getopt_match c optstring of
        Some optchar \<Rightarrow>
          if char_at optchar 1 = COLON then
            if rest \<noteq> [] then (Opt c, st\<lparr>optarg := Some rest, optind := argind st + 1, nextchar := None\<rparr>)
            else if char_at optchar 2 = COLON then
              (Opt c, st\<lparr>optarg := None, optind := argind st + 1, nextchar := None\<rparr>)
            else if length (argv st) - argind st > 1 then
              (Opt c, st\<lparr>optarg := Some (argv st ! (argind st + 1)), argind := argind st + 1,
                         optind := argind st + 2, nextchar := None\<rparr>)
            else
              (Opt (getopt_missing_arg optstring),
               getopt_complain (W ''option requires an argument -- '' @ [c]) (st\<lparr>optarg := Some []\<rparr>))
          else (Opt c, advance_optind (st\<lparr>optarg := None\<rparr>))
      | None \<Rightarrow>
          (Opt QUESTION,
           advance_optind
             (if mode = LongOnly then
                (getopt_complain (W ''unrecognised option `-'' @ (c # rest) @ W [CHR 0x27]) st)\<lparr>nextchar := None, optopt := 0\<rparr>
              else getopt_complain (W ''invalid option -- '' @ [c]) st)))"

text \<open>The value of a long option is returned, or stored where its \<open>flag\<close> points.\<close>

definition long_status :: "long_option \<Rightarrow> getopt_state \<Rightarrow> getopt_result \<times> getopt_state" where
  "long_status lo st =
     (case long_flag lo of
        Some cell \<Rightarrow> (Opt 0, st\<lparr>stored := stored st @ [(cell, long_val lo)]\<rparr>)
      | None \<Rightarrow> (Opt (long_val lo), st))"

definition getopt_argerror :: "parse_mode \<Rightarrow> string \<Rightarrow> long_option \<Rightarrow> wchar \<Rightarrow> getopt_state \<Rightarrow> getopt_result \<times> getopt_state" where
  "getopt_argerror mode what lo retval st =
     (Opt retval,
      (getopt_complain (W ''option `'' @ (if mode = Long then W ''--'' else W ''-'') @ long_name lo @ W (CHR 0x27 # what)) st)
        \<lparr>optopt := long_val lo\<rparr>)"

text \<open>A long option that has been identified: \<open>optarg\<close> is what followed an equals sign.\<close>

definition getopt_resolved :: "parse_mode \<Rightarrow> nat \<Rightarrow> long_option \<Rightarrow> wstr \<Rightarrow> getopt_state \<Rightarrow> getopt_result \<times> getopt_state" where
  "getopt_resolved mode index lo optstring st =
     (let st = st\<lparr>nextchar := None, longindex := Some index, optind := argind st + 1\<rparr> in
      if optarg st \<noteq> None \<and> has_arg lo = no_argument then
        getopt_argerror mode '' doesn't accept an argument'' lo QUESTION st
      else if optarg st = None \<and> has_arg lo = required_argument then
        if optind st < length (argv st) then
          long_status lo
            (st\<lparr>optarg := Some (argv st ! optind st), argind := optind st, optind := optind st + 1\<rparr>)
        else getopt_argerror mode '' requires an argument'' lo (getopt_missing_arg optstring) st
      else long_status lo st)"

section \<open>The parser\<close>

text \<open>A long option of the text \<open>next\<close>; \<open>getoptW_long_only\<close> falls back to short options.\<close>

definition long_failure :: "string \<Rightarrow> string \<Rightarrow> getopt_state \<Rightarrow> getopt_result \<times> getopt_state" where
  "long_failure before after st =
     (Opt QUESTION,
      getopt_complain (W before @ argv st ! argind st @ W (CHR 0x27 # after))
        (st\<lparr>optopt := 0, nextchar := None, optind := argind st + 1\<rparr>))"

definition parse_long :: "parse_mode \<Rightarrow> wstr \<Rightarrow> long_option list \<Rightarrow> wstr \<Rightarrow> getopt_state \<Rightarrow> getopt_result \<times> getopt_state" where
  "parse_long mode optstring longopts next st =
     (let (search, arg) = find_long next 0 longopts None None; st = st\<lparr>optarg := arg\<rparr>;
          short = mode = LongOnly \<and> getopt_verify next optstring in
      case search of
        Found index lo \<Rightarrow> getopt_resolved mode index lo optstring st
      | Ambiguous \<Rightarrow>
          if short then short_option mode optstring (hd next) (tl next) st
          else long_failure ''option `'' '' is ambiguous'' st
      | Unmatched \<Rightarrow>
          if short then short_option mode optstring (hd next) (tl next) st
          else long_failure ''unrecognised option `'' [] st)"

text \<open>An option argument, whose text after the first dash is \<open>next\<close>.\<close>

definition parse_option :: "parse_mode \<Rightarrow> wstr \<Rightarrow> long_option list \<Rightarrow> wstr \<Rightarrow> getopt_state \<Rightarrow> getopt_result \<times> getopt_state" where
  "parse_option mode optstring longopts next st =
     (if hd next = DASH \<and> mode \<noteq> Standard then
        parse_long Long optstring longopts (tl next) (st\<lparr>nextchar := Some (tl next)\<rparr>)
      else if hd next \<noteq> DASH \<and> mode = LongOnly then parse_long LongOnly optstring longopts next st
      else short_option Standard optstring (hd next) (tl next) st)"

text \<open>
  The end marker, which is moved before the arguments that have been stepped over; the loop that makes room
  for it counts \<open>optmark\<close> down below \<open>optbase\<close>.
\<close>

definition end_of_options :: "getopt_state \<Rightarrow> getopt_result \<times> getopt_state" where
  "end_of_options st =
     (let b = optbase st; m = optmark st in
      (AllDone,
       st\<lparr>argv := (if m > b then take b (argv st) @ [argv st ! m] @ take (m - b) (drop b (argv st)) @ drop (m + 1) (argv st)
                   else argv st),
          optmark := (if m > b then b - 1 else m), optind := b + 1, optbase := b + 1\<rparr>))"

text \<open>The main loop; \<open>posix\<close> is whether \<open>POSIXLY_CORRECT\<close> is in the environment.\<close>

function getopt_scan :: "bool \<Rightarrow> parse_mode \<Rightarrow> wstr \<Rightarrow> long_option list \<Rightarrow> getopt_state \<Rightarrow> getopt_result \<times> getopt_state" where
  "getopt_scan posix mode optstring longopts st =
     (let a = argind st + 1; st = st\<lparr>argind := a\<rparr> in
      if a \<ge> length (argv st) then (AllDone, st\<lparr>optind := optbase st\<rparr>)
      else
        let arg = argv st ! a; dashed = char_at arg 0 = DASH; next = (if dashed then tl arg else arg);
            st = st\<lparr>optmark := a, nextchar := Some next\<rparr> in
        if dashed \<and> next = [DASH] then end_of_options st
        else if dashed \<and> next \<noteq> [] then parse_option mode optstring longopts next st
        else if char_at optstring 0 = DASH then
          (Ordered, st\<lparr>nextchar := None, optind := a + 1, optarg := Some arg\<rparr>)
        else if posix \<or> char_at optstring 0 = PLUS then (AllDone, st\<lparr>optind := optbase st\<rparr>)
        else getopt_scan posix mode optstring longopts st)"
  by pat_completeness auto
termination
  by (relation "measure (\<lambda>(posix, mode, optstring, longopts, st). length (argv st) - argind st)") auto

declare getopt_scan.simps [simp del]

text \<open>What a caller has done to \<open>optind\<close> and \<open>optreset\<close> is taken over first.\<close>

definition follow_optind :: "getopt_state \<Rightarrow> getopt_state" where
  "follow_optind st =
     (let reset = (optreset st \<or> optind st < 1) in
      if reset \<or> optind st < optbase st then
        let i = (if reset then 1 else optind st) in
        st\<lparr>optreset := False, optind := i, optmark := i - 1, optbase := i - 1, argind := i - 1, nextchar := None\<rparr>
      else if optind st > argind st + 1 then st\<lparr>argind := optind st - 1, nextchar := None\<rparr>
      else st)"

text \<open>The option that has been parsed last, with its value, is moved before what was stepped over.\<close>

definition permute :: "getopt_state \<Rightarrow> getopt_state" where
  "permute st =
     (let b = optbase st; m = optmark st; span = argind st - m + 1 in
      if m > b then
        st\<lparr>argv := take b (argv st) @ take span (drop m (argv st)) @ take (m - b) (drop b (argv st)) @
             drop (m + span) (argv st),
           optmark := b - 1, optbase := b + span\<rparr>
      else st\<lparr>optbase := argind st + 1\<rparr>)"

text \<open>
  A call. The recursive calls of the code for a short option, inside \<open>getopt_scan\<close>, are the first case
  here: in them \<open>follow_optind\<close> changes nothing (lemma \<open>nested_call\<close>).
\<close>

definition getoptW_parse :: "bool \<Rightarrow> parse_mode \<Rightarrow> wstr \<Rightarrow> long_option list \<Rightarrow> getopt_state \<Rightarrow> getopt_result \<times> getopt_state" where
  "getoptW_parse posix mode optstring longopts st =
     (let st = follow_optind st in
      case nextchar st of
        Some (c # rest) \<Rightarrow> short_option mode optstring c rest st
      | _ \<Rightarrow> getopt_scan posix mode optstring longopts (permute st))"

definition getoptW :: "bool \<Rightarrow> wstr \<Rightarrow> getopt_state \<Rightarrow> getopt_result \<times> getopt_state" where
  "getoptW posix optstring = getoptW_parse posix Standard optstring []"

definition getoptW_long :: "bool \<Rightarrow> wstr \<Rightarrow> long_option list \<Rightarrow> getopt_state \<Rightarrow> getopt_result \<times> getopt_state" where
  "getoptW_long posix optstring longopts = getoptW_parse posix Long optstring longopts"

definition getoptW_long_only :: "bool \<Rightarrow> wstr \<Rightarrow> long_option list \<Rightarrow> getopt_state \<Rightarrow> getopt_result \<times> getopt_state" where
  "getoptW_long_only posix optstring longopts = getoptW_parse posix LongOnly optstring longopts"

section \<open>The loop of the callers\<close>

text \<open>What a caller finds after a call: the character, and \<open>optarg\<close> and \<open>optopt\<close>.\<close>

definition result_of :: "getopt_result \<Rightarrow> getopt_state \<Rightarrow> char \<times> wstr \<times> wchar" where
  "result_of r st =
     (case r of Opt c \<Rightarrow> char_of (unat c) | _ \<Rightarrow> CHR 0x01, case optarg st of Some a \<Rightarrow> a | None \<Rightarrow> [], optopt st)"

text \<open>
  The programs call the parser until it returns -1 and handle each result by a switch, which may leave the loop
  early (\<open>Inl\<close>). The first argument bounds the calls.
\<close>

fun getopt_loop :: "(getopt_state \<Rightarrow> getopt_result \<times> getopt_state) \<Rightarrow> (char \<times> wstr \<times> wchar \<Rightarrow> 's \<Rightarrow> 'e + 's) \<Rightarrow>
    nat \<Rightarrow> getopt_state \<Rightarrow> 's \<Rightarrow> (('e + 's) \<times> getopt_state) option" where
  "getopt_loop call handle 0 st s = None"
| "getopt_loop call handle (Suc n) st s =
     (case call st of
        (AllDone, st) \<Rightarrow> Some (Inr s, st)
      | (r, st) \<Rightarrow>
          (case handle (result_of r st) s of
             Inl e \<Rightarrow> Some (Inl e, st)
           | Inr s \<Rightarrow> getopt_loop call handle n st s))"

text \<open>As many calls as the arguments have characters and terminators are enough (lemma \<open>parse_options_ends\<close>).\<close>

definition parse_options :: "(getopt_state \<Rightarrow> getopt_result \<times> getopt_state) \<Rightarrow> (char \<times> wstr \<times> wchar \<Rightarrow> 's \<Rightarrow> 'e + 's) \<Rightarrow>
    wstr list \<Rightarrow> 's \<Rightarrow> (('e + 's) \<times> getopt_state) option" where
  "parse_options call handle args =
     getopt_loop call handle (Suc (sum_list (map (\<lambda>a. length a + 1) (tl args)))) (getopt_start args)"

end
