(* ===== verification/GetoptW_Facts.thy ===== *)
theory GetoptW_Facts
  imports GetoptW "HOL-Library.Multiset"
begin

text \<open>
  What a caller may rely on: the calls come to an end and only permute the arguments, and options in
  front of the end marker are read as they are spelt, with everything behind it left alone.
\<close>

section \<open>The caller's loop\<close>

text \<open>The results of successive calls up to the -1.\<close>

fun getopt_calls :: "(getopt_state \<Rightarrow> getopt_result \<times> getopt_state) \<Rightarrow> nat \<Rightarrow> getopt_state \<Rightarrow>
    ((char \<times> wstr \<times> wchar) list \<times> getopt_state) option" where
  "getopt_calls call 0 st = None"
| "getopt_calls call (Suc n) st =
     (case call st of
        (AllDone, st) \<Rightarrow> Some ([], st)
      | (r, st) \<Rightarrow> map_option (\<lambda>(rs, st'). (result_of r st # rs, st')) (getopt_calls call n st))"

text \<open>A loop that handles the results is the fold of its switch over them.\<close>

fun handle_all :: "(char \<times> wstr \<times> wchar \<Rightarrow> 's \<Rightarrow> 'e + 's) \<Rightarrow> (char \<times> wstr \<times> wchar) list \<Rightarrow> 's \<Rightarrow> 'e + 's" where
  "handle_all handle [] s = Inr s"
| "handle_all handle (r # rs) s = bnd (handle r s) (handle_all handle rs)"

lemma getopt_loop_fold:
  "getopt_calls call n st = Some (rs, st') \<Longrightarrow>
   \<exists>st1. getopt_loop call handle n st s = Some (handle_all handle rs s, st1) \<and>
     (\<forall>s'. handle_all handle rs s = Inr s' \<longrightarrow> st1 = st')"
proof (induction n arbitrary: st s rs)
  case (Suc n)
  obtain r st1 where call: "call st = (r, st1)"
    by fastforce
  show ?case
  proof (cases "r = AllDone")
    case False
    then obtain rs1 where rs: "rs = result_of r st1 # rs1" "getopt_calls call n st1 = Some (rs1, st')"
      using Suc.prems call by (cases r) auto
    have "getopt_loop call handle (Suc n) st s =
        (case handle (result_of r st1) s of Inl e \<Rightarrow> Some (Inl e, st1) | Inr s \<Rightarrow> getopt_loop call handle n st1 s)"
      using False call by (cases r) simp_all
    with Suc.IH [OF rs(2)] show ?thesis
      by (auto simp: rs(1) split: sum.split)
  qed (use Suc.prems call in simp)
qed simp

lemma getopt_calls_more: "getopt_calls call n st = Some x \<Longrightarrow> getopt_calls call (n + k) st = Some x"
proof (induction n arbitrary: st x)
  case (Suc n)
  then show ?case
    by (fastforce split: prod.splits getopt_result.splits)
qed simp

section \<open>The invariant between calls\<close>

definition pending :: "'a getopt_state_scheme \<Rightarrow> wstr" where
  "pending st = (case nextchar st of None \<Rightarrow> [] | Some s \<Rightarrow> s)"

text \<open>\<open>optind\<close> is where the caller left it, so that a nested call starts with nothing to follow.\<close>

definition settled :: "getopt_state \<Rightarrow> bool" where
  "settled st \<longleftrightarrow> \<not> optreset st \<and> 1 \<le> optind st \<and> optbase st \<le> optind st \<and> optind st \<le> argind st + 1"

definition getopt_inv :: "getopt_state \<Rightarrow> bool" where
  "getopt_inv st \<longleftrightarrow> settled st \<and> optmark st \<le> argind st \<and> argind st < length (argv st) \<and>
     (if pending st = [] then optind st = argind st + 1 \<or> length (argv st) = argind st + 1
      else optbase st \<le> argind st \<and> 1 \<le> argind st)"

lemma nested_call: "settled st \<Longrightarrow> follow_optind st = st"
  by (simp add: settled_def follow_optind_def)

lemma getopt_start_inv: "args \<noteq> [] \<Longrightarrow> getopt_inv (getopt_start args)"
  by (simp add: getopt_inv_def settled_def getopt_start_def pending_def)

text \<open>What is left to read is the size of a state; the calls decrease it.\<close>

instantiation getopt_state_ext :: (type) size
begin

definition size_getopt_state_ext :: "'a getopt_state_ext \<Rightarrow> nat" where
  to_read_def: "size_getopt_state_ext st =
     sum_list (map (\<lambda>a. length a + 1) (drop (argind st + 1) (argv st))) + length (pending st)"

instance ..

end

text \<open>What a call may do: it permutes the arguments up to the one it has read, and reads on.\<close>

definition reads :: "getopt_state \<Rightarrow> getopt_result \<times> getopt_state \<Rightarrow> bool" where
  "reads st x \<longleftrightarrow> mset (argv (snd x)) = mset (argv st) \<and> (fst x \<noteq> AllDone \<longrightarrow> getopt_inv (snd x) \<and> size (snd x) < size st)"

lemma getopt_complain_simps [simp]:
  "argv (getopt_complain m st) = argv st" "optind (getopt_complain m st) = optind st"
  "argind (getopt_complain m st) = argind st" "optbase (getopt_complain m st) = optbase st"
  "optreset (getopt_complain m st) = optreset st" "optmark (getopt_complain m st) = optmark st" "nextchar (getopt_complain m st) = nextchar st"
  by (simp_all add: getopt_complain_def)

lemma drop_sum: "n < length xs \<Longrightarrow>
  sum_list (map (\<lambda>a. length a + 1) (drop n xs)) = length (xs ! n) + 1 + sum_list (map (\<lambda>a. length a + 1) (drop (Suc n) xs))"
  by (simp add: Cons_nth_drop_Suc [symmetric])

text \<open>The next character of an argument under way, in a direct or a nested call.\<close>

definition under_way :: "getopt_state \<Rightarrow> bool" where
  "under_way st \<longleftrightarrow> settled st \<and> optmark st \<le> argind st \<and> argind st < length (argv st) \<and>
     optbase st \<le> argind st \<and> 1 \<le> argind st"

lemma advance_reads:
  assumes "under_way st" and "length (pending st) < n"
    and "n + sum_list (map (\<lambda>a. length a + 1) (drop (argind st + 1) (argv st))) \<le> size st0" and "argv st = argv st0"
  shows "reads st0 (Opt c, advance_optind st)"
  using assms
  by (auto simp: reads_def getopt_inv_def under_way_def settled_def to_read_def pending_def advance_optind_def
      split: option.splits)

lemmas reads_defs = reads_def getopt_inv_def under_way_def settled_def to_read_def pending_def

lemma short_reads:
  assumes "under_way st" and "length rest < length (pending st)"
  shows "reads st (short_option mode optstring c rest st)"
proof (cases "getopt_match c optstring")
  case None
  then show ?thesis
    using assms
    by (simp add: short_option_def Let_def, intro conjI impI advance_reads [where n = "length (pending st)"])
      (auto simp: under_way_def settled_def to_read_def pending_def)
next
  case (Some optchar)
  show ?thesis
  proof (cases "char_at optchar 1 = COLON")
    case True
    then show ?thesis
      using assms Some drop_sum [of "argind st + 1" "argv st"]
      by (auto simp: short_option_def Let_def reads_defs)
  next
    case False
    then show ?thesis
      using assms Some
      by (simp add: short_option_def Let_def, intro advance_reads [where n = "length (pending st)"])
        (simp_all add: under_way_def settled_def to_read_def pending_def)
  qed
qed

lemma reads_mono: "reads st1 x \<Longrightarrow> mset (argv st1) = mset (argv st) \<Longrightarrow> size st1 \<le> size st \<Longrightarrow> reads st x"
  by (auto simp: reads_def)

lemmas resolved_defs = getopt_resolved_def getopt_argerror_def long_status_def Let_def

lemma resolved_reads:
  assumes "under_way st" and "pending st \<noteq> []"
  shows "reads st (getopt_resolved mode index lo optstring st)"
  using assms drop_sum [of "argind st + 1" "argv st"]
  by (auto simp: resolved_defs reads_defs split: option.splits)

lemma failure_reads:
  assumes "under_way st" and "pending st \<noteq> []"
  shows "reads st (long_failure before after st)"
  using assms by (auto simp: long_failure_def Let_def reads_defs split: option.splits)

lemma under_way_keep [simp]: "under_way (st\<lparr>optarg := a\<rparr>) = under_way st" "pending (st\<lparr>optarg := a\<rparr>) = pending st"
  "size (st\<lparr>optarg := a\<rparr>) = size st" "under_way (st\<lparr>nextchar := n\<rparr>) = under_way st"
  by (simp_all add: under_way_def settled_def pending_def to_read_def)

lemma parse_long_reads:
  assumes "under_way st" and "pending st = s" and "s \<noteq> []"
  shows "reads st (parse_long mode optstring longopts s st)"
proof -
  obtain search arg where search: "find_long s 0 longopts None None = (search, arg)"
    by (cases "find_long s 0 longopts None None")
  have "reads (st\<lparr>optarg := arg\<rparr>) (parse_long mode optstring longopts s st)"
    using assms by (cases search) (auto simp: parse_long_def Let_def search
        intro!: resolved_reads failure_reads short_reads)
  then show ?thesis
    by (rule reads_mono) simp_all
qed

lemma parse_option_reads:
  assumes "under_way st" and "pending st = s" and "s \<noteq> []" and "s \<noteq> [DASH]"
  shows "reads st (parse_option mode optstring longopts s st)"
proof -
  let ?st = "st\<lparr>nextchar := Some (tl s)\<rparr>"
  have "reads st (parse_long m optstring longopts (tl s) ?st)" if "tl s \<noteq> []" for m
  proof (rule reads_mono)
    show "reads ?st (parse_long m optstring longopts (tl s) ?st)"
      using assms(1) that by (intro parse_long_reads) (simp_all add: pending_def)
    show "size ?st \<le> size st"
      using assms(2) by (simp add: to_read_def pending_def)
  qed simp
  moreover have "tl s \<noteq> []" if "hd s = DASH"
    using that assms(3,4) by (cases s) auto
  ultimately show ?thesis
    using assms by (auto simp: parse_option_def intro!: parse_long_reads short_reads)
qed

section \<open>The arguments are only permuted\<close>

lemma rotate_mset:
  assumes "b \<le> m"
  shows "mset (take b xs @ take n (drop m xs) @ take (m - b) (drop b xs) @ drop (m + n) xs) = mset xs"
proof -
  have "drop m xs = drop (m - b) (drop b xs)"
    using assms by simp
  then have "xs = take b xs @ take (m - b) (drop b xs) @ take n (drop m xs) @ drop n (drop m xs)"
    by (metis append_take_drop_id)
  then have "mset xs = mset (take b xs @ take (m - b) (drop b xs) @ take n (drop m xs) @ drop (m + n) xs)"
    by (simp add: add.commute)
  then show ?thesis
    by (simp add: add_ac)
qed

lemma permute_argv: "mset (argv (permute st)) = mset (argv st)"
  using rotate_mset [of "optbase st" "optmark st" "argv st" "argind st - optmark st + 1"]
  by (simp add: permute_def Let_def)

lemma end_of_options_argv:
  assumes "optmark st < length (argv st)"
  shows "mset (argv (snd (end_of_options st))) = mset (argv st)"
proof -
  have "take 1 (drop (optmark st) (argv st)) = [argv st ! optmark st]"
    using assms by (simp add: take_Suc_conv_app_nth hd_drop_conv_nth take_Suc)
  then show ?thesis
    using rotate_mset [of "optbase st" "optmark st" "argv st" 1] assms
    by (simp add: end_of_options_def Let_def)
qed

text \<open>The state in which the scan looks at an argument, and what it does with it.\<close>

definition looking_at :: "nat \<Rightarrow> wstr \<Rightarrow> getopt_state \<Rightarrow> getopt_state" where
  "looking_at a arg st =
     st\<lparr>argind := a, optmark := a, nextchar := Some (if char_at arg 0 = DASH then tl arg else arg)\<rparr>"

lemma scan_unfold:
  "getopt_scan posix mode optstring longopts st =
     (let a = argind st + 1; arg = argv st ! a; st1 = looking_at a arg st in
      if length (argv st) \<le> a then (AllDone, st\<lparr>argind := a, optind := optbase st\<rparr>)
      else if char_at arg 0 = DASH \<and> tl arg = [DASH] then end_of_options st1
      else if char_at arg 0 = DASH \<and> tl arg \<noteq> [] then parse_option mode optstring longopts (tl arg) st1
      else if char_at optstring 0 = DASH then
        (Ordered, st1\<lparr>nextchar := None, optind := a + 1, optarg := Some arg\<rparr>)
      else if posix \<or> char_at optstring 0 = PLUS then (AllDone, st1\<lparr>optind := optbase st1\<rparr>)
      else getopt_scan posix mode optstring longopts st1)"
  by (subst getopt_scan.simps) (simp add: Let_def looking_at_def)

text \<open>\<open>length xs \<le> argind + 1\<close> is the state after a missing value, at the end of the arguments.\<close>

lemma scan_reads:
  "settled st \<and> optbase st \<le> argind st + 1 \<or> length (argv st) \<le> argind st + 1 \<Longrightarrow>
   reads st (getopt_scan posix mode optstring longopts st)"
proof (induction "length (argv st) - argind st" arbitrary: st rule: less_induct)
  case less
  define a where "a = argind st + 1"
  define arg where "arg = argv st ! a"
  define st1 where "st1 = looking_at a arg st"
  note unfolded = scan_unfold [of posix mode optstring longopts st, unfolded Let_def, folded a_def, folded arg_def, folded st1_def]
  show ?case
  proof (cases "length (argv st) \<le> a")
    case True
    then show ?thesis
      by (simp add: scan_unfold [of posix mode optstring longopts st] a_def reads_def)
  next
    case False
    then have "settled st" "optbase st \<le> a"
      using less.prems by (simp_all add: a_def)
    then have way: "under_way st1"
      using False by (simp add: under_way_def settled_def st1_def a_def looking_at_def)
    have read: "size st1 < size st"
      using False drop_sum [of a "argv st"] by (auto simp: to_read_def st1_def pending_def a_def arg_def looking_at_def)
    have same: "argv st1 = argv st" "argind st1 = a"
      by (simp_all add: st1_def looking_at_def)
    have "reads st (end_of_options st1)"
      using end_of_options_argv [of st1] False by (simp add: reads_def end_of_options_def st1_def looking_at_def Let_def)
    moreover have "reads st (parse_option mode optstring longopts (tl arg) st1)"
      if "char_at arg 0 = DASH" "tl arg \<noteq> [DASH]" "tl arg \<noteq> []"
      by (rule reads_mono [OF parse_option_reads [OF way]])
        (use that read in \<open>simp_all add: st1_def pending_def looking_at_def\<close>)
    moreover have "reads st (Ordered, st1\<lparr>nextchar := None, optind := a + 1, optarg := Some arg\<rparr>)"
      using way read same by (simp add: reads_defs)
    moreover have "reads st (getopt_scan posix mode optstring longopts st1)"
      by (rule reads_mono [OF less.hyps]) (use False way read same in \<open>auto simp: under_way_def a_def\<close>)
    moreover have "reads st (AllDone, st1\<lparr>optind := optbase st1\<rparr>)"
      by (simp add: reads_def same)
    ultimately show ?thesis
      unfolding unfolded using False by auto
  qed
qed

lemma permute_scannable:
  assumes "getopt_inv st" and "pending st = []"
  shows "settled (permute st) \<and> optbase (permute st) \<le> argind (permute st) + 1 \<or>
    length (argv (permute st)) \<le> argind (permute st) + 1"
  using assms arg_cong [OF permute_argv [of st], of size]
  by (auto simp: getopt_inv_def settled_def permute_def Let_def)

lemma permute_to_read:
  assumes "getopt_inv st"
  shows "size (permute st) = size st"
  using assms by (auto simp: to_read_def permute_def Let_def pending_def getopt_inv_def drop_Cons')

lemma call_reads:
  assumes "getopt_inv st"
  shows "reads st (getoptW_parse posix mode optstring longopts st)"
proof -
  have follow: "follow_optind st = st"
    using assms by (simp add: getopt_inv_def nested_call)
  show ?thesis
  proof (cases "pending st")
    case Nil
    then have "reads (permute st) (getopt_scan posix mode optstring longopts (permute st))"
      using permute_scannable [OF assms] by (intro scan_reads)
    then have "reads st (getopt_scan posix mode optstring longopts (permute st))"
      by (rule reads_mono) (simp_all add: permute_argv permute_to_read [OF assms])
    then show ?thesis
      using Nil by (auto simp: getoptW_parse_def follow pending_def split: option.splits list.splits)
  next
    case (Cons c rest)
    then have "reads st (short_option mode optstring c rest st)"
      using assms by (intro short_reads) (auto simp: getopt_inv_def under_way_def)
    then show ?thesis
      using Cons by (auto simp: getoptW_parse_def follow pending_def split: option.splits list.splits)
  qed
qed

text \<open>The calls end, whatever the state between two calls.\<close>

lemma getopt_calls_end:
  assumes "getopt_inv st" and "size st < n"
  shows "\<exists>rs st'. getopt_calls (getoptW_parse posix mode optstring longopts) n st = Some (rs, st') \<and>
    mset (argv st') = mset (argv st)"
  using assms
proof (induction n arbitrary: st)
  case (Suc n)
  obtain r st1 where call: "getoptW_parse posix mode optstring longopts st = (r, st1)"
    by fastforce
  then have r: "reads st (r, st1)"
    using call_reads [OF Suc.prems(1)] by metis
  show ?case
  proof (cases "r = AllDone")
    case True
    then show ?thesis
      using call r by (simp add: reads_def)
  next
    case False
    then have "getopt_inv st1" "size st1 < n" "mset (argv st1) = mset (argv st)"
      using r Suc.prems(2) by (simp_all add: reads_def)
    then show ?thesis
      using Suc.IH [of st1] call False by (auto split: getopt_result.split)
  qed
qed simp

lemma to_read_start: "size (getopt_start args) = sum_list (map (\<lambda>a. length a + 1) (tl args))"
  by (simp add: to_read_def getopt_start_def pending_def drop_Suc)

text \<open>C40: parsing the options ends, for any arguments, option string and table of long options, after at most as
  many calls as the arguments have characters and terminators, and what is left in \<open>argv\<close> is a
  permutation of the arguments: none is lost or made up.\<close>

theorem option_parsing_ends:
  assumes "args \<noteq> []" and "sum_list (map (\<lambda>a. length a + 1) (tl args)) < n"
  shows "\<exists>rs st. getopt_calls (getoptW_parse posix mode optstring longopts) n (getopt_start args) = Some (rs, st) \<and>
    mset (argv st) = mset args"
  using getopt_calls_end [OF getopt_start_inv [OF assms(1)], of n] assms(2)
  by (simp add: to_read_start) (simp add: getopt_start_def)

theorem option_parsing_ends_witness:
  "\<exists>rs st. getopt_calls (getoptW_parse False Standard (W ''v'') []) 100 (getopt_start [W ''a'', W ''x'', W ''-vv'']) =
     Some (rs, st) \<and> mset (argv st) = {#W ''a'', W ''x'', W ''-vv''#}"
  using option_parsing_ends [of "[W ''a'', W ''x'', W ''-vv'']" 100 False Standard "W ''v''" "[]"] by (simp add: W_Cons)

text \<open>A caller that sets \<open>optreset\<close> starts over, from whatever state, and this scan ends like the first one.\<close>

lemma follow_reset:
  assumes "optreset st" and "argv st \<noteq> []"
  shows "getopt_inv (follow_optind st)" and "argv (follow_optind st) = argv st"
    and "size (follow_optind st) = sum_list (map (\<lambda>a. length a + 1) (tl (argv st)))"
  using assms by (simp_all add: follow_optind_def Let_def getopt_inv_def settled_def pending_def to_read_def drop_Suc)

lemma reset_parsing_ends:
  assumes "optreset st" and "argv st \<noteq> []" and "sum_list (map (\<lambda>a. length a + 1) (tl (argv st))) < n"
  shows "\<exists>rs st'. getopt_calls (getoptW_parse posix mode optstring longopts) n st = Some (rs, st') \<and>
    mset (argv st') = mset (argv st)"
proof -
  have "follow_optind (follow_optind st) = follow_optind st"
    using follow_reset(1) [OF assms(1,2)] by (simp add: getopt_inv_def nested_call)
  then have "getoptW_parse posix mode optstring longopts st = getoptW_parse posix mode optstring longopts (follow_optind st)"
    by (simp add: getoptW_parse_def)
  then have "getopt_calls (getoptW_parse posix mode optstring longopts) n st =
      getopt_calls (getoptW_parse posix mode optstring longopts) n (follow_optind st)"
    by (cases n) simp_all
  then show ?thesis
    using getopt_calls_end [OF follow_reset(1) [OF assms(1,2)], of n] follow_reset [OF assms(1,2)] assms(3) by simp
qed

lemma parse_options_ends:
  assumes "args \<noteq> []"
  shows "\<exists>x. parse_options (getoptW_parse posix mode optstring longopts) handle args s = Some x"
proof -
  let ?n = "Suc (sum_list (map (\<lambda>a. length a + 1) (tl args)))"
  have "size (getopt_start args) < ?n"
    by (simp add: to_read_start)
  from getopt_calls_end [OF getopt_start_inv [OF assms] this, of posix mode optstring longopts]
  obtain rs st' where "getopt_calls (getoptW_parse posix mode optstring longopts) ?n (getopt_start args) = Some (rs, st')"
    by blast
  from getopt_loop_fold [OF this, of handle s] show ?thesis
    by (auto simp: parse_options_def simp del: getopt_loop.simps)
qed

section \<open>Options as they are spelt\<close>

text \<open>The parser stands before the argument \<open>i\<close>, with nothing stepped over so far.\<close>

definition before_arg :: "nat \<Rightarrow> getopt_state \<Rightarrow> bool" where
  "before_arg i st \<longleftrightarrow> \<not> optreset st \<and> argind st + 1 = i \<and> optind st = i \<and> optmark st \<le> optbase st \<and> optbase st \<le> i \<and> pending st = []"

text \<open>A letter after a dash, and its value as the next argument.\<close>

fun spelt :: "wchar \<times> wstr option \<Rightarrow> wstr list" where
  "spelt (c, None) = [[DASH, c]]"
| "spelt (c, Some v) = [[DASH, c], v]"

lemma char_of_W_char: "char_of (unat (W_char c)) = c"
  by (simp only: W_char_def unat_of_char16 char_of_char)

text \<open>What the caller finds of such options.\<close>

definition meant :: "wchar \<times> wstr option \<Rightarrow> char \<times> wstr" where
  "meant = (\<lambda>(c, v). (char_of (unat c), case v of Some a \<Rightarrow> a | None \<Rightarrow> []))"

text \<open>A caller that goes on with an option does so whatever \<open>optopt\<close> is.\<close>

definition ignores_optopt :: "(char \<times> wstr \<times> wchar \<Rightarrow> 's \<Rightarrow> 'e + 's) \<Rightarrow> bool" where
  "ignores_optopt handle \<longleftrightarrow> (\<forall>c v p q s s'. handle (c, v, p) s = Inr s' \<longrightarrow> handle (c, v, q) s = Inr s')"

definition results :: "(wchar \<times> wstr option) list \<Rightarrow> (char \<times> wstr \<times> wchar) list" where
  "results opts = map (\<lambda>opt. case meant opt of (c, v) \<Rightarrow> (c, v, 0)) opts"

abbreviation found :: "(char \<times> wstr \<times> wchar) list \<Rightarrow> (char \<times> wstr) list" where
  "found \<equiv> map (\<lambda>(c, v, p). (c, v))"

lemma spelt_length: "length opts \<le> sum_list (map (\<lambda>a. length a + 1) (concat (map spelt opts)))"
proof (induction opts)
  case (Cons opt opts)
  then show ?case
    by (cases opt; cases "snd opt") auto
qed simp

lemma handle_all_optopt:
  "ignores_optopt handle \<Longrightarrow> found rs = found rs' \<Longrightarrow> handle_all handle rs' s = Inr s' \<Longrightarrow> handle_all handle rs s = Inr s'"
proof (induction rs arbitrary: rs' s)
  case (Cons r rs)
  obtain c v p where r: "r = (c, v, p)"
    by (cases r)
  then obtain r' rs1 where "rs' = r' # rs1" "(case r' of (c, v, p) \<Rightarrow> (c, v)) = (c, v)" "found rs = found rs1"
    using Cons.prems(2) by (cases rs') simp_all
  then obtain q where rs: "r = (c, v, p)" "rs' = (c, v, q) # rs1" "found rs = found rs1"
    using r by (cases r') simp
  obtain s1 where "handle (c, v, q) s = Inr s1" and rest: "handle_all handle rs1 s1 = Inr s'"
    using Cons.prems(3) by (auto simp: rs bnd_eq_Inr)
  then have "handle (c, v, p) s = Inr s1"
    using Cons.prems(1) unfolding ignores_optopt_def by blast
  then show ?case
    using Cons.IH [OF Cons.prems(1) rs(3) rest] by (simp add: rs)
qed simp

lemma found_results: "found (results opts) = map meant opts"
  by (induction opts) (simp_all add: results_def split: prod.split)

lemma getopt_start_before: "before_arg 1 (getopt_start args)"
  by (simp add: before_arg_def getopt_start_def pending_def)

lemma getopt_start_simps [simp]: "argv (getopt_start args) = args" "complaints (getopt_start args) = []"
  by (simp_all add: getopt_start_def)

definition same_text :: "getopt_state \<Rightarrow> getopt_state \<Rightarrow> bool" where
  "same_text st st' \<longleftrightarrow> argv st' = argv st \<and> complaints st' = complaints st"

text \<open>The parser stops in front of these arguments, and leaves the operands to its caller.\<close>

definition stops_with :: "(getopt_state \<Rightarrow> getopt_result \<times> getopt_state) \<Rightarrow> wstr list \<Rightarrow> wstr list \<Rightarrow> bool" where
  "stops_with call rest operands \<longleftrightarrow>
     (\<forall>i st. before_arg i st \<and> drop i (argv st) = rest \<and> i \<le> length (argv st) \<longrightarrow>
        (\<exists>st'. call st = (AllDone, st') \<and> same_text st st' \<and> drop (optind st') (argv st') = operands))"

text \<open>
  The contract of a parser for its callers: a legal option is returned with its value and nothing else
  happens, and the parser stops behind the end marker, or at the end of the arguments.
\<close>

locale option_reader =
  fixes call :: "getopt_state \<Rightarrow> getopt_result \<times> getopt_state" and legal :: "wchar \<times> wstr option \<Rightarrow> bool"
  assumes reads_option: "legal (c, v) \<Longrightarrow> before_arg i st \<Longrightarrow> drop i (argv st) = spelt (c, v) @ rest \<Longrightarrow>
      \<exists>st'. call st = (Opt c, st') \<and> before_arg (i + length (spelt (c, v))) st' \<and> same_text st st' \<and> optarg st' = v"
    and stops_at_marker: "before_arg i st \<Longrightarrow> drop i (argv st) = [DASH, DASH] # rest \<Longrightarrow>
      \<exists>st'. call st = (AllDone, st') \<and> same_text st st' \<and> optind st' = i + 1"
    and stops_at_end: "before_arg i st \<Longrightarrow> length (argv st) = i \<Longrightarrow>
      \<exists>st'. call st = (AllDone, st') \<and> same_text st st' \<and> optind st' = i"
begin

text \<open>The calls that read the options, and the state in which the rest is met.\<close>

lemma options_then:
  assumes "list_all legal opts" and "before_arg i st" and "drop i (argv st) = concat (map spelt opts) @ rest"
    and "i \<le> length (argv st)"
  shows "\<exists>rs st1 j. before_arg j st1 \<and> same_text st st1 \<and> drop j (argv st1) = rest \<and> j \<le> length (argv st1) \<and>
    found rs = map meant opts \<and>
    (\<forall>n. getopt_calls call (length opts + n) st =
       map_option (\<lambda>(rs1, st'). (rs @ rs1, st')) (getopt_calls call n st1))"
  using assms
proof (induction opts arbitrary: i st)
  case Nil
  then show ?case
    by (intro exI [of _ "[]"] exI [of _ st] exI [of _ i]) (simp add: same_text_def option.map_ident)
next
  case (Cons opt opts)
  obtain c v where opt: "opt = (c, v)"
    by fastforce
  obtain st1 where st1: "call st = (Opt c, st1)" "before_arg (i + length (spelt opt)) st1" "same_text st st1" "optarg st1 = v"
    using reads_option [OF _ Cons.prems(2), of c v] Cons.prems(1,3) by (fastforce simp: opt)
  have "drop (i + length (spelt opt)) (argv st1) = drop (length (spelt opt)) (drop i (argv st))"
    using st1(3) by (simp add: same_text_def add.commute)
  then have "drop (i + length (spelt opt)) (argv st1) = concat (map spelt opts) @ rest"
    using Cons.prems(3) by simp
  moreover have "i + length (spelt opt) \<le> length (argv st1)"
    using Cons.prems(4) st1(3) length_drop [of i "argv st", unfolded Cons.prems(3)] by (simp add: same_text_def)
  ultimately obtain rs st2 j where st2: "before_arg j st2" "same_text st1 st2" "drop j (argv st2) = rest" "j \<le> length (argv st2)"
    "found rs = map meant opts"
    "\<And>n. getopt_calls call (length opts + n) st1 = map_option (\<lambda>(rs1, st'). (rs @ rs1, st')) (getopt_calls call n st2)"
    using Cons.IH [OF _ st1(2)] Cons.prems(1) by auto
  have "getopt_calls call (length (opt # opts) + n) st =
      map_option (\<lambda>(rs1, st'). ((result_of (Opt c) st1 # rs) @ rs1, st')) (getopt_calls call n st2)" for n
    by (cases "getopt_calls call n st2") (auto simp: st1(1) st2(6))
  with st2 st1 show ?case
    by (intro exI [of _ "result_of (Opt c) st1 # rs"] exI [of _ st2] exI [of _ j])
      (auto simp: opt result_of_def meant_def same_text_def)
qed

text \<open>Where the parser then stops, all results are those of the options.\<close>

lemma options_end:
  assumes "list_all legal opts" and "before_arg i st" and "drop i (argv st) = concat (map spelt opts) @ rest"
    and "i \<le> length (argv st)" and "length opts < n"
    and "stops_with call rest operands"
  shows "\<exists>rs st'. getopt_calls call n st = Some (rs, st') \<and> same_text st st' \<and>
    found rs = map meant opts \<and>
    drop (optind st') (argv st') = operands"
proof -
  obtain m where n: "n = length opts + Suc m"
    using assms(5) less_imp_Suc_add by fastforce
  obtain rs st1 j where st1: "before_arg j st1" "same_text st st1" "drop j (argv st1) = rest" "j \<le> length (argv st1)"
    "found rs = map meant opts"
    "getopt_calls call n st = map_option (\<lambda>(rs1, st'). (rs @ rs1, st')) (getopt_calls call (Suc m) st1)"
    using options_then [OF assms(1-4)] n by blast
  obtain st' where "call st1 = (AllDone, st')" "same_text st1 st'" "drop (optind st') (argv st') = operands"
    using assms(6) st1(1,3,4) by (auto simp: stops_with_def)
  with st1 show ?thesis
    by (auto simp: same_text_def)
qed

text \<open>The caller's loop then ends with what its switch makes of the options.\<close>

lemma options_parsed:
  assumes "ignores_optopt handle" and "list_all legal opts" and "handle_all handle (results opts) s = Inr s'"
    and "stops_with call rest operands"
  shows "\<exists>st'. parse_options call handle (prog # concat (map spelt opts) @ rest) s = Some (Inr s', st') \<and>
    complaints st' = [] \<and> drop (optind st') (argv st') = operands"
proof -
  let ?args = "prog # concat (map spelt opts) @ rest"
  let ?n = "Suc (sum_list (map (\<lambda>a. length a + 1) (tl ?args)))"
  have start: "drop 1 (argv (getopt_start ?args)) = concat (map spelt opts) @ rest" "1 \<le> length (argv (getopt_start ?args))"
    and n: "length opts < ?n"
    using spelt_length [of opts] by simp_all
  obtain rs st' where calls: "getopt_calls call ?n (getopt_start ?args) = Some (rs, st')"
    and same: "same_text (getopt_start ?args) st'" "drop (optind st') (argv st') = operands"
    and rs: "found rs = map meant opts"
    using options_end [OF assms(2) getopt_start_before start n assms(4)] by blast
  have "complaints st' = []"
    using same(1) by (simp add: same_text_def)
  moreover have "handle_all handle rs s = Inr s'"
    by (rule handle_all_optopt [OF assms(1) _ assms(3)]) (simp only: rs found_results)
  ultimately show ?thesis
    using getopt_loop_fold [OF calls, of handle s] same(2) unfolding parse_options_def by auto
qed

lemma marker_stops: "stops_with call ([DASH, DASH] # rest) rest"
  unfolding stops_with_def
proof (intro allI impI, elim conjE)
  fix i st
  assume at: "before_arg i st" "drop i (argv st) = [DASH, DASH] # rest"
  then have "drop (i + 1) (argv st) = rest"
    by (metis add.commute drop_drop drop_Suc_Cons drop_0 plus_1_eq_Suc One_nat_def)
  then show "\<exists>st'. call st = (AllDone, st') \<and> same_text st st' \<and> drop (optind st') (argv st') = rest"
    using stops_at_marker [OF at] by (fastforce simp: same_text_def)
qed

lemma end_stops: "stops_with call [] []"
  unfolding stops_with_def using stops_at_end by (fastforce simp: same_text_def)

lemmas parsed_to_marker = options_parsed [OF _ _ _ marker_stops]
lemmas parsed_to_end = options_parsed [OF _ _ _ end_stops, simplified]

end

text \<open>
  A parser that also stops at operands: arguments that do not begin with a dash, up to the end. (A single
  dash is one as well.)
\<close>

definition operand :: "wstr \<Rightarrow> bool" where
  "operand arg \<longleftrightarrow> char_at arg 0 \<noteq> DASH \<or> tl arg = []"

locale operand_reader = option_reader +
  assumes stops_at_operands: "before_arg i st \<Longrightarrow> list_all operand (drop i (argv st)) \<Longrightarrow> i \<le> length (argv st) \<Longrightarrow>
    \<exists>st'. call st = (AllDone, st') \<and> same_text st st' \<and> optind st' = i"
begin

lemma operands_stop: "list_all operand rest \<Longrightarrow> stops_with call rest rest"
  unfolding stops_with_def using stops_at_operands by (fastforce simp: same_text_def)

lemmas parsed_to_operands = options_parsed [OF _ _ _ operands_stop]

end

section \<open>The parsers of the programs keep the contract\<close>

definition legal_short :: "wstr \<Rightarrow> wchar \<times> wstr option \<Rightarrow> bool" where
  "legal_short optstring = (\<lambda>(c, v). c \<noteq> DASH \<and>
     (case getopt_match c optstring of
        None \<Rightarrow> False
      | Some optchar \<Rightarrow> (char_at optchar 1 = COLON) = (v \<noteq> None) \<and> (v \<noteq> None \<longrightarrow> char_at optchar 2 \<noteq> COLON)))"

lemma legal_short_any_value: "legal_short optstring (c, Some v) \<longleftrightarrow> legal_short optstring (c, Some [])"
  by (simp add: legal_short_def split: option.split)

text \<open>After a single dash \<open>getoptW_long_only\<close> prefers a long option to a short one.\<close>

definition legal_long_only :: "wstr \<Rightarrow> long_option list \<Rightarrow> wchar \<times> wstr option \<Rightarrow> bool" where
  "legal_long_only optstring longopts = (\<lambda>(c, v). c \<noteq> DASH \<and>
     (case find_long [c] 0 longopts None None of
        (Found i lo, a) \<Rightarrow> a = None \<and> long_val lo = c \<and> long_flag lo = None \<and>
          (if v = None then has_arg lo \<noteq> required_argument else has_arg lo = required_argument)
      | _ \<Rightarrow> getopt_verify [c] optstring \<and> legal_short optstring (c, v)))"

lemma call_scan:
  assumes "before_arg i st"
  shows "getoptW_parse posix mode optstring longopts st = getopt_scan posix mode optstring longopts (st\<lparr>optbase := i\<rparr>)"
proof -
  have "follow_optind st = st" "permute st = st\<lparr>optbase := i\<rparr>"
    using assms by (auto simp: before_arg_def follow_optind_def permute_def Let_def)
  then show ?thesis
    using assms by (auto simp: getoptW_parse_def before_arg_def pending_def split: option.splits)
qed

text \<open>The state in which an option argument of two characters is parsed.\<close>

lemma call_option:
  assumes "before_arg i st" and "drop i (argv st) = [DASH, c] # rest" and "c \<noteq> DASH"
  shows "getoptW_parse posix mode optstring longopts st =
    parse_option mode optstring longopts [c] (st\<lparr>optbase := i, argind := i, optmark := i, nextchar := Some [c]\<rparr>)"
proof -
  have "i < length (argv st)" "argv st ! i = [DASH, c]"
    using assms(2) by (auto simp: not_le [symmetric] nth_via_drop)
  then have "getopt_scan posix mode optstring longopts (st\<lparr>optbase := i\<rparr>) =
      parse_option mode optstring longopts [c] (looking_at i [DASH, c] (st\<lparr>optbase := i\<rparr>))"
    using assms(1,3) by (subst scan_unfold) (simp add: before_arg_def Let_def char_at_def)
  then show ?thesis
    by (simp add: call_scan [OF assms(1)] looking_at_def char_at_def)
qed

lemma call_marker:
  assumes "before_arg i st" and "drop i (argv st) = [DASH, DASH] # rest"
  shows "\<exists>st'. getoptW_parse posix mode optstring longopts st = (AllDone, st') \<and> same_text st st' \<and> optind st' = i + 1"
proof -
  have "i < length (argv st)" "argv st ! i = [DASH, DASH]"
    using assms(2) by (auto simp: not_le [symmetric] nth_via_drop)
  then have "getopt_scan posix mode optstring longopts (st\<lparr>optbase := i\<rparr>) =
      end_of_options (looking_at i [DASH, DASH] (st\<lparr>optbase := i\<rparr>))"
    using assms(1) by (subst scan_unfold) (simp add: before_arg_def Let_def char_at_def)
  then show ?thesis
    by (simp add: call_scan [OF assms(1)] looking_at_def end_of_options_def same_text_def)
qed

lemma call_end:
  assumes "before_arg i st" and "length (argv st) = i"
  shows "\<exists>st'. getoptW_parse posix mode optstring longopts st = (AllDone, st') \<and> same_text st st' \<and> optind st' = i"
  using assms scan_unfold [of posix mode optstring longopts "st\<lparr>optbase := i\<rparr>"]
  by (simp add: call_scan [OF assms(1)] before_arg_def same_text_def)

text \<open>Operands are stepped over up to the end, or stop the scan; either way \<open>optind\<close> goes back to the first one.\<close>

lemma scan_operands:
  "list_all operand (drop (argind st + 1) (argv st)) \<Longrightarrow> char_at optstring 0 \<noteq> DASH \<Longrightarrow>
   \<exists>st'. getopt_scan posix mode optstring longopts st = (AllDone, st') \<and> same_text st st' \<and> optind st' = optbase st"
proof (induction "length (argv st) - argind st" arbitrary: st rule: less_induct)
  case less
  show ?case
  proof (cases "length (argv st) \<le> argind st + 1")
    case True
    then show ?thesis
      by (simp add: scan_unfold [of posix mode optstring longopts st] same_text_def)
  next
    case False
    then have "drop (argind st + 1) (argv st) = argv st ! (argind st + 1) # drop (argind st + 2) (argv st)"
      using Cons_nth_drop_Suc [of "argind st + 1" "argv st"] by simp
    then have op: "operand (argv st ! (argind st + 1))" "list_all operand (drop (argind st + 2) (argv st))"
      using less.prems(1) by simp_all
    define st1 where "st1 = looking_at (argind st + 1) (argv st ! (argind st + 1)) st"
    have "getopt_scan posix mode optstring longopts st =
        (if posix \<or> char_at optstring 0 = PLUS then (AllDone, st1\<lparr>optind := optbase st1\<rparr>)
         else getopt_scan posix mode optstring longopts st1)"
      using op(1) False less.prems(2) scan_unfold [of posix mode optstring longopts st]
      by (auto simp: Let_def operand_def st1_def)
    moreover have "same_text st st1" "optbase st1 = optbase st" "argind st1 = argind st + 1" "argv st1 = argv st"
      by (simp_all add: st1_def looking_at_def same_text_def)
    ultimately show ?thesis
      using less.hyps [of st1] op(2) False less.prems(2) by (auto simp: same_text_def)
  qed
qed

lemma call_operands:
  assumes "before_arg i st" and "list_all operand (drop i (argv st))" and "char_at optstring 0 \<noteq> DASH"
  shows "\<exists>st'. getoptW_parse posix mode optstring longopts st = (AllDone, st') \<and> same_text st st' \<and> optind st' = i"
  using scan_operands [of "st\<lparr>optbase := i\<rparr>" optstring posix mode longopts] assms
  by (auto simp: call_scan [OF assms(1)] before_arg_def same_text_def)

lemma value_arg:
  assumes "drop i xs = x # w # rest"
  shows "Suc i < length xs \<and> xs ! Suc i = w"
proof -
  have "drop (Suc i) xs = drop 1 (drop i xs)"
    by simp
  then have "drop (Suc i) xs = w # rest"
    by (simp only: assms) simp
  moreover from this have "\<not> length xs \<le> Suc i"
    by auto
  ultimately show ?thesis
    by (simp add: nth_via_drop)
qed

text \<open>A short option, in any mode.\<close>

lemma short_option_legal:
  assumes "before_arg i st" and "legal_short optstring (c, v)" and "drop i (argv st) = spelt (c, v) @ rest"
  shows "\<exists>st'. short_option mode optstring c [] (st\<lparr>optbase := i, argind := i, optmark := i, nextchar := Some [c], optarg := a\<rparr>) =
      (Opt c, st') \<and> before_arg (i + length (spelt (c, v))) st' \<and> same_text st st' \<and> optarg st' = v"
proof (cases v)
  case None
  then show ?thesis
    using assms(1,2) by (auto simp: legal_short_def short_option_def Let_def advance_optind_def before_arg_def
        same_text_def pending_def split: option.splits)
next
  case (Some w)
  then have "drop i (argv st) = [DASH, c] # w # rest"
    using assms(3) by simp
  then have "Suc i < length (argv st) \<and> argv st ! Suc i = w"
    by (rule value_arg)
  then show ?thesis
    using assms(1,2) Some by (auto simp: legal_short_def short_option_def Let_def before_arg_def
        same_text_def pending_def split: option.splits)
qed

interpretation short: option_reader "getoptW posix optstring" "legal_short optstring" for posix optstring
proof
  fix c v i st rest
  assume legal: "legal_short optstring (c, v)" and at: "before_arg i st" "drop i (argv st) = spelt (c, v) @ rest"
  then have "c \<noteq> DASH" "\<exists>tail. drop i (argv st) = [DASH, c] # tail"
    by (cases v; simp add: legal_short_def)+
  then obtain tail where tail: "c \<noteq> DASH" "drop i (argv st) = [DASH, c] # tail"
    by blast
  show "\<exists>st'. getoptW posix optstring st = (Opt c, st') \<and> before_arg (i + length (spelt (c, v))) st' \<and>
      same_text st st' \<and> optarg st' = v"
    using short_option_legal [OF at(1) legal at(2), of Standard "optarg st"]
    by (simp add: getoptW_def call_option [OF at(1) tail(2,1)] parse_option_def tail(1))
next
  fix i st rest
  assume "before_arg i st" "drop i (argv st) = [DASH, DASH] # rest"
  then show "\<exists>st'. getoptW posix optstring st = (AllDone, st') \<and> same_text st st' \<and> optind st' = i + 1"
    unfolding getoptW_def by (rule call_marker)
next
  fix i st
  assume "before_arg i st" "length (argv st) = i"
  then show "\<exists>st'. getoptW posix optstring st = (AllDone, st') \<and> same_text st st' \<and> optind st' = i"
    unfolding getoptW_def by (rule call_end)
qed

lemma long_option_legal:
  assumes "before_arg i st" and "drop i (argv st) = spelt (c, v) @ rest" and "if v = None then has_arg lo \<noteq> required_argument else has_arg lo = required_argument"
    and "long_val lo = c" and "long_flag lo = None"
  shows "\<exists>st'. getopt_resolved LongOnly index lo optstring
        (st\<lparr>optbase := i, argind := i, optmark := i, nextchar := Some [c], optarg := None\<rparr>) = (Opt c, st') \<and>
      before_arg (i + length (spelt (c, v))) st' \<and> same_text st st' \<and> optarg st' = v"
proof (cases v)
  case None
  then show ?thesis
    using assms by (auto simp: resolved_defs before_arg_def same_text_def pending_def)
next
  case (Some w)
  then have "drop i (argv st) = [DASH, c] # w # rest"
    using assms(2) by simp
  then have "Suc i < length (argv st) \<and> argv st ! Suc i = w"
    by (rule value_arg)
  then show ?thesis
    using assms Some by (auto simp: resolved_defs before_arg_def same_text_def pending_def)
qed

interpretation long_only: option_reader "getoptW_long_only posix optstring longopts" "legal_long_only optstring longopts"
  for posix optstring longopts
proof
  fix c v i st rest
  assume legal: "legal_long_only optstring longopts (c, v)" and at: "before_arg i st" "drop i (argv st) = spelt (c, v) @ rest"
  then have "c \<noteq> DASH" "\<exists>tail. drop i (argv st) = [DASH, c] # tail"
    by (cases v; simp add: legal_long_only_def)+
  then obtain tail where tail: "c \<noteq> DASH" "drop i (argv st) = [DASH, c] # tail"
    by blast
  obtain search a where search: "find_long [c] 0 longopts None None = (search, a)"
    by fastforce
  show "\<exists>st'. getoptW_long_only posix optstring longopts st = (Opt c, st') \<and>
      before_arg (i + length (spelt (c, v))) st' \<and> same_text st st' \<and> optarg st' = v"
  proof (cases search)
    case (Found index lo)
    then show ?thesis
      using legal search long_option_legal [OF at, where lo = lo and optstring = optstring and index = index]
      by (auto simp: getoptW_long_only_def call_option [OF at(1) tail(2,1)] parse_option_def parse_long_def tail(1)
          legal_long_only_def)
  qed (use legal search short_option_legal [OF at(1) _ at(2), of optstring LongOnly a] in
      \<open>auto simp: getoptW_long_only_def call_option [OF at(1) tail(2,1)] parse_option_def parse_long_def tail(1)
          legal_long_only_def\<close>)
next
  fix i st rest
  assume "before_arg i st" "drop i (argv st) = [DASH, DASH] # rest"
  then show "\<exists>st'. getoptW_long_only posix optstring longopts st = (AllDone, st') \<and> same_text st st' \<and> optind st' = i + 1"
    unfolding getoptW_long_only_def by (rule call_marker)
next
  fix i st
  assume "before_arg i st" "length (argv st) = i"
  then show "\<exists>st'. getoptW_long_only posix optstring longopts st = (AllDone, st') \<and> same_text st st' \<and> optind st' = i"
    unfolding getoptW_long_only_def by (rule call_end)
qed

end
