(* ===== verification/Addr2line_Main.thy ===== *)
theory Addr2line_Main
  imports Addr2line_Facts GetoptW_Facts
begin

text \<open>
  addr2line from its arguments on: the loop over the options by \<open>getoptW\<close>, and what is printed for a command
  line. What the parser complains of goes to the error stream as well; it is in the state of the parser.
\<close>

definition addr2line_optstring :: wstr where
  "addr2line_optstring = W ''?CDe:fHp''"

definition addr2line_wmain :: "'a addr_os_scheme \<Rightarrow> bool \<Rightarrow> wstr list \<Rightarrow> addr_state \<Rightarrow>
    (fault + DWORD \<times> addr_state) option" where
  "addr2line_wmain os posix args st =
     map_option (\<lambda>(parsed, gs).
       case parsed of
         Inl failure \<Rightarrow> Inr failure
       | Inr (s, st) \<Rightarrow>
           (case szModule s of
              None \<Rightarrow> Inr (1, usage (hd args) st)
            | Some m \<Rightarrow> addr2line_run os s m (drop (optind gs) (argv gs)) st))
       (parse_options (getoptW posix addr2line_optstring) (\<lambda>(c, v, p). addr_option (hd args) c v p) args (addr_start, st))"

section \<open>A command line\<close>

lemma addr_option_optopt: "ignores_optopt (\<lambda>(c, v, p). addr_option argv0 c v p)"
  by (auto simp: ignores_optopt_def addr_option_def)

interpretation addr: operand_reader "getoptW posix addr2line_optstring" "legal_short addr2line_optstring" for posix
proof
  fix i st
  assume "before_arg i st" "list_all operand (drop i (argv st))" "i \<le> length (argv st)"
  then show "\<exists>st'. getoptW posix addr2line_optstring st = (AllDone, st') \<and> same_text st st' \<and> optind st' = i"
    unfolding getoptW_def by (intro call_operands) (simp_all add: addr2line_optstring_def char_at_def W_Cons)
qed

lemma addr2line_reads_options:
  assumes "list_all (legal_short addr2line_optstring) opts" and "list_all operand args"
    and "handle_all (\<lambda>(c, v, p). addr_option prog c v p) (results opts) (addr_start, st) = Inr (s, st)"
    and "szModule s = Some m"
  shows "addr2line_wmain os posix (prog # concat (map spelt opts) @ args) st = Some (addr2line_run os s m args st)"
  using addr.parsed_to_operands [OF addr_option_optopt assms(1,3,2), of posix prog] assms(4)
  by (auto simp: addr2line_wmain_def)

text \<open>C29: when the options, spelt as usual, name a module that loads and DbgHelp starts, addr2line succeeds, answers
  every address behind the options in the order given with nothing between the answers, and closes the
  session and the module.\<close>

theorem addr2line_answers:
  assumes "list_all (legal_short addr2line_optstring) opts" and "list_all operand args"
    and "handle_all (\<lambda>(c, v, p). addr_option prog c v p) (results opts) (addr_start, st) = Inr (s, st)"
    and "szModule s = Some m" and "load_module os m \<noteq> 0" and "InitializeSym os (ad_GetCurrentProcess os) False = Inr True"
  shows "\<exists>st'. addr2line_wmain os posix (prog # concat (map spelt opts) @ args) st = Some (Inr (0, st')) \<and>
    stdout st' = stdout st @
      concat (map (\<lambda>arg. answer os s (module_base (load_module os m) + parse_address arg)) args) \<and>
    sessions st' = sessions st \<and> libraries st' = libraries st"
  using addr2line_run_answers [OF assms(5,6), of s args st] addr2line_reads_options [OF assms(1-4), of os posix] by simp

definition f_settings :: "wstr \<Rightarrow> addr_options" where
  "f_settings m = \<lparr>opt_debug = False, szModule = Some m, show_functions = True, opt_demangle = False, pretty = False\<rparr>"

abbreviation f_options :: "wstr \<Rightarrow> (wchar \<times> wstr option) list" where
  "f_options m \<equiv> [(W_char (CHR ''e''), Some m), (W_char (CHR ''f''), None)]"

lemma f_options_legal: "list_all (legal_short addr2line_optstring) (f_options m)"
proof -
  have "list_all (legal_short addr2line_optstring) (f_options [])"
    by code_simp
  then show ?thesis
    by (simp add: legal_short_any_value [of _ _ m])
qed

lemma f_options_read:
  "handle_all (\<lambda>(c, v, p). addr_option prog c v p) (results (f_options m)) (addr_start, st) = Inr (f_settings m, st)"
  by (simp add: results_def meant_def char_of_W_char addr_option_def addr_start_def f_settings_def)

theorem addr2line_answers_witness:
  "\<exists>st'. addr2line_wmain sample_addr False [W ''addr2line'', W ''-e'', W ''a.exe'', W ''-f'', W (''0x'' @ fmt_x 0 (0x1004 :: DWORD64))]
      addr_state_start = Some (Inr (0, st')) \<and> stdout st' = [[102, 111, 111], [NL], W ''??:?'' @ [NL]]"
proof -
  have "list_all operand [W (''0x'' @ fmt_x 0 (0x1004 :: DWORD64))]"
    by (simp add: operand_def char_at_def W_Cons)
  moreover have "szModule (f_settings (W ''a.exe'')) = Some (W ''a.exe'')" "load_module sample_addr (W ''a.exe'') \<noteq> 0"
    by (simp_all add: f_settings_def sample_loads)
  ultimately obtain st' where "addr2line_wmain sample_addr False (W ''addr2line'' # concat (map spelt (f_options (W ''a.exe''))) @
      [W (''0x'' @ fmt_x 0 (0x1004 :: DWORD64))]) addr_state_start = Some (Inr (0, st'))"
    and "stdout st' = stdout addr_state_start @ concat (map (\<lambda>arg. answer sample_addr (f_settings (W ''a.exe''))
      (module_base (load_module sample_addr (W ''a.exe'')) + parse_address arg)) [W (''0x'' @ fmt_x 0 (0x1004 :: DWORD64))])"
    using addr2line_answers [OF f_options_legal _ f_options_read _ _ sample_loads(2)] by blast
  moreover have "concat (map spelt (f_options (W ''a.exe''))) = [W ''-e'', W ''a.exe'', W ''-f'']"
    by (simp add: W_Cons)
  moreover have "stdout addr_state_start = []"
    by (simp add: addr_state_start_def)
  ultimately show ?thesis
    by (simp only: f_settings_def sample_answer list.map concat.simps append_Nil append_Nil2 append.append_Cons) blast
qed

end
