(* ===== verification/Symbol_Source.thy ===== *)
theory Symbol_Source
  imports Mgwhelp_Facts Log_Facts
begin

text \<open>
  The interface between the log and the symbol library that answers it: the contract of a symbol query
  (\<open>symbol_source\<close>), what the log prints for a frame under that contract, and mgwhelp's entry point
  \<open>MgwSymFromAddr\<close> (src/mgwhelp/mgwhelp.cpp) as a provider of it. The programs bind the one to the other when
  they are linked.
\<close>

section \<open>The contract\<close>

text \<open>
  A query answers with a name, a C string, and a displacement; \<open>right h a name start\<close> is what the source
  promises of them: that \<open>name\<close>, which starts at \<open>start\<close>, is a right answer for the address \<open>a\<close>.
\<close>

locale symbol_source =
  fixes query :: "HANDLE \<Rightarrow> DWORD64 \<Rightarrow> (BYTE list \<times> DWORD64) option"
    and right :: "HANDLE \<Rightarrow> DWORD64 \<Rightarrow> BYTE list \<Rightarrow> DWORD64 \<Rightarrow> bool"
  assumes C_string: "query h a = Some (name, d) \<Longrightarrow> 0 \<notin> set name"
    and answers_right: "query h a = Some (name, d) \<Longrightarrow> right h a name (a - d)"
begin

text \<open>The log prints a right name, and the distance of the program counter itself from its start.\<close>

lemma frame_named:
  assumes "lo_SymGetModuleBase64 os h pc = hModule" and "hModule \<noteq> 0"
    and "lo_GetModuleFileNameExW os h hModule = Some szModule"
    and "so_SymFromAddr os h (pc + nudge) = query h (pc + nudge)" and "query h (pc + nudge) = Some (name, d)"
    and "fst (so_UnDecorateSymbolName os name 512 UNDNAME_NAME_ONLY) = 0" and "length name < 512"
    and "so_SymGetLineFromAddrW64 os h (pc + nudge) = None"
  shows "\<exists>start. right h (pc + nudge) name start \<and> frame_location os h pc nudge =
    Inr ([W ''  '' @ getBaseNameW szModule, W ''!'' @ map ucast name @ W (''+0x'' @ fmt_x 0 (ucast (pc - start) :: DWORD))],
         None)"
proof (intro exI conjI)
  show "right h (pc + nudge) name (pc + nudge - d)"
    using assms(5) by (rule answers_right)
  have "so_SymFromAddr os h (pc + nudge) = Some (name, pc + nudge - (pc + nudge - d))"
    using assms(4,5) by simp
  then show "frame_location os h pc nudge =
    Inr ([W ''  '' @ getBaseNameW szModule,
          W ''!'' @ map ucast name @ W (''+0x'' @ fmt_x 0 (ucast (pc - (pc + nudge - d)) :: DWORD))], None)"
    using assms C_string [OF assms(5)] by (intro frame_location_symbol)
qed

end

section \<open>mgwhelp as a source\<close>

text \<open>
  The answer of \<open>MgwSymFromAddr\<close> in a state of the library, read from the caller's buffer; none when the call
  fails or faults, or leaves the buffer without a NUL.
\<close>

definition mgw_query :: "nat \<Rightarrow> mg_os \<Rightarrow> mgwhelp_state \<Rightarrow> HANDLE \<Rightarrow> DWORD64 \<Rightarrow> (BYTE list \<times> DWORD64) option" where
  "mgw_query fuel os st h a =
     (case MgwSymFromAddr fuel os h a 512 st of
        Some (Inr (Some (buf, d), _)) \<Rightarrow> map_option (\<lambda>name. (name, d)) (cstr buf)
      | _ \<Rightarrow> None)"

text \<open>The name as it comes through the two code page conversions.\<close>

definition converted :: "mg_os \<Rightarrow> BYTE list \<Rightarrow> BYTE list option" where
  "converted os name =
     cstr (snd (os_WideCharToMultiByte os CP_ACP (snd (os_MultiByteToWideChar os CP_ACP name ((1024 - 88) div 2 - 1))) 512))"

text \<open>
  In a module without DWARF data that has a function symbol at or below the address, the name is that of a
  nearest one, and the start is where that symbol has been loaded.
\<close>

definition mgw_right :: "nat \<Rightarrow> mg_os \<Rightarrow> mgwhelp_state \<Rightarrow> HANDLE \<Rightarrow> DWORD64 \<Rightarrow> BYTE list \<Rightarrow> DWORD64 \<Rightarrow> bool" where
  "mgw_right fuel os st h a name start \<longleftrightarrow>
     (\<forall>m Offset st1 c t x nm.
        mgwhelp_find_module fuel os h a st = return (Some (m, Offset), st1) \<and> mod_dwarf m = None \<and>
        mod_lpFileBase m \<noteq> 0 \<and> find_prologue (os_ndebug os) (mod_img m) (mod_nFileSize m) = Inr (Some c) \<and>
        meets c 0 t \<and> candidate c Offset t x nm \<and> Offset - x < NOT 0 \<longrightarrow>
        (\<exists>u b sym. meets c 0 u \<and> candidate c Offset u b sym \<and> Offset - b \<le> Offset - x \<and>
           start = mod_Base m + (b - mod_image_base_vma m) \<and> converted os (undecorate os sym) = Some name))"

lemma mgw_query_Some:
  assumes "mgw_query fuel os st h a = Some (name, d)"
  obtains buf st' where "MgwSymFromAddr fuel os h a 512 st = return (Some (buf, d), st')" and "cstr buf = Some name"
  using assms by (auto simp: mgw_query_def split: option.splits sum.splits prod.splits)

lemma MgwSymFromAddr_wide:
  assumes "MgwSymFromAddr fuel os h a n st = return (Some (buf, d), st')"
  obtains s where "MgwSymFromAddrW fuel os h a ((1024 - 88) div 2 - 1) st = return (Some s, st')"
    and "buf = snd (os_WideCharToMultiByte os CP_ACP (si_Name s) n)" and "d = si_Displacement s"
  using assms by (auto simp: MgwSymFromAddr_def run_eq_return split: option.splits)

interpretation mgw: symbol_source "mgw_query fuel os st" "mgw_right fuel os st" for fuel os st
proof
  fix h a name d
  assume query: "mgw_query fuel os st h a = Some (name, d)"
  then show "0 \<notin> set name"
    by (rule mgw_query_Some) (rule cstr_Some_no_NUL)
  obtain buf st' where sym: "MgwSymFromAddr fuel os h a 512 st = return (Some (buf, d), st')"
    and name: "cstr buf = Some name"
    using query by (rule mgw_query_Some)
  obtain s where s: "MgwSymFromAddrW fuel os h a ((1024 - 88) div 2 - 1) st = return (Some s, st')"
    and buf: "buf = snd (os_WideCharToMultiByte os CP_ACP (si_Name s) 512)" "d = si_Displacement s"
    by (rule MgwSymFromAddr_wide [OF sym])
  show "mgw_right fuel os st h a name (a - d)"
    unfolding mgw_right_def
  proof (intro allI impI, elim conjE)
    fix m Offset st1 c t x nm
    assume find: "mgwhelp_find_module fuel os h a st = return (Some (m, Offset), st1)"
      and "mod_dwarf m = None" "mod_lpFileBase m \<noteq> 0"
        "find_prologue (os_ndebug os) (mod_img m) (mod_nFileSize m) = Inr (Some c)"
        "meets c 0 t" "candidate c Offset t x nm" "Offset - x < NOT 0"
    from coff_symbol [OF this s] obtain u b sym where u: "meets c 0 u" "candidate c Offset u b sym"
      and d: "si_Displacement s = Offset - b" "Offset - b \<le> Offset - x"
      and nm: "si_Name s = snd (os_MultiByteToWideChar os CP_ACP (undecorate os sym) ((1024 - 88) div 2 - 1))"
      by blast
    have "a - d = mod_Base m + (b - mod_image_base_vma m)"
      using find_module_found(3) [OF find] by (simp add: buf(2) d(1))
    moreover have "converted os (undecorate os sym) = Some name"
      using name by (simp add: converted_def buf(1) nm)
    ultimately show "\<exists>u b sym. meets c 0 u \<and> candidate c Offset u b sym \<and> Offset - b \<le> Offset - x \<and>
        a - d = mod_Base m + (b - mod_image_base_vma m) \<and> converted os (undecorate os sym) = Some name"
      using u d(2) by blast
  qed
qed

lemma SetSymOptions_undecorated: "\<not> flag_set (SetSymOptions fDebug opts) SYMOPT_UNDNAME"
proof -
  have "SetSymOptions fDebug opts AND SYMOPT_UNDNAME = 0"
    unfolding SetSymOptions_def Let_def
    by (cases fDebug) (simp_all add: word_ao_dist word_bw_assocs)
  then show ?thesis
    by (simp add: flag_set_def)
qed

section \<open>From the symbol table to the log\<close>

text \<open>C1: the line of the stack trace for a frame in a module without DWARF data names the function whose symbol
  in the COFF table is nearest at or below the address, and the offset it shows is the distance of the
  program counter from where that function has been loaded, although the module was moved from its
  preferred base and the look-up is nudged: the log, the symbol helper, mgwhelp and the reader of the
  symbol table together.\<close>

theorem frame_names_nearest_symbol:
  assumes "mgwhelp_find_module fuel mos h (pc + nudge) st = return (Some (m, Offset), st1)"
    and "mod_dwarf m = None" and "mod_lpFileBase m \<noteq> 0"
    and "find_prologue (os_ndebug mos) (mod_img m) (mod_nFileSize m) = Inr (Some c)"
    and "meets c 0 t" and "candidate c Offset t x nm" and "Offset - x < NOT 0"
    and "\<not> flag_set (os_SymGetOptions mos) SYMOPT_UNDNAME"
    and "\<And>s. 0 \<notin> set s \<Longrightarrow> length s < 467 \<Longrightarrow> converted mos s = Some s"
    and "so_SymFromAddr los h (pc + nudge) = mgw_query fuel mos st h (pc + nudge)"
    and "mgw_query fuel mos st h (pc + nudge) = Some (name, d)" and "length name < 512"
    and "fst (so_UnDecorateSymbolName los name 512 UNDNAME_NAME_ONLY) = 0"
    and "so_SymGetLineFromAddrW64 los h (pc + nudge) = None"
    and "lo_SymGetModuleBase64 los h pc = hModule" and "hModule \<noteq> 0"
    and "lo_GetModuleFileNameExW los h hModule = Some szModule"
  shows "\<exists>u b sym. meets c 0 u \<and> candidate c Offset u b sym \<and> Offset - b \<le> Offset - x \<and>
    (length sym < 467 \<longrightarrow> name = sym) \<and>
    frame_location los h pc nudge =
      Inr ([W ''  '' @ getBaseNameW szModule,
            W ''!'' @ map ucast name @
            W (''+0x'' @ fmt_x 0 (ucast (pc - (mod_Base m + (b - mod_image_base_vma m))) :: DWORD))], None)"
proof -
  obtain start where start: "mgw_right fuel mos st h (pc + nudge) name start"
    and frame: "frame_location los h pc nudge =
      Inr ([W ''  '' @ getBaseNameW szModule, W ''!'' @ map ucast name @ W (''+0x'' @ fmt_x 0 (ucast (pc - start) :: DWORD))],
           None)"
    using mgw.frame_named [OF assms(15-17,10,11,13,12,14)] by blast
  obtain u b sym where u: "meets c 0 u" "candidate c Offset u b sym" "Offset - b \<le> Offset - x"
    and b: "start = mod_Base m + (b - mod_image_base_vma m)" and "converted mos (undecorate mos sym) = Some name"
    using start assms(1-7) unfolding mgw_right_def by metis
  moreover have "0 \<notin> set sym"
    using u(2) by (auto simp: candidate_def dest: symbol_name_no_NUL)
  ultimately have "length sym < 467 \<longrightarrow> name = sym"
    using assms(8,9) by (auto simp: undecorate_def)
  then show ?thesis
    using u frame by (auto simp: b)
qed

definition linked_log :: "mgwhelp_state \<Rightarrow> log_os" where
  "linked_log st = sample_log\<lparr>so_SymFromAddr := mgw_query 0 sample_mg st, lo_SymGetModuleBase64 := \<lambda>_ _. 0x140000000\<rparr>"

lemma linked_log_fields:
  "so_SymFromAddr (linked_log st) = mgw_query 0 sample_mg st" "so_SymGetLineFromAddrW64 (linked_log st) h a = None"
  "fst (so_UnDecorateSymbolName (linked_log st) n k f) = 0" "lo_SymGetModuleBase64 (linked_log st) h a = 0x140000000"
  "lo_GetModuleFileNameExW (linked_log st) h b = Some (W ''a.exe'')"
  by (simp_all add: linked_log_def sample_log_def sample_sym_def sym_os.defs log_os.defs)

lemma sample_converted: "0 \<notin> set s \<Longrightarrow> converted sample_mg s = Some s"
proof -
  assume "0 \<notin> set s"
  moreover have "map ((ucast :: wchar \<Rightarrow> BYTE) \<circ> (ucast :: BYTE \<Rightarrow> wchar)) s = s"
    by (rule map_idI) (simp add: ucast_up_ucast_id is_up)
  ultimately show ?thesis
    by (simp add: converted_def sample_mg_def pe_os.defs mg_os.defs cstr_append_NUL)
qed

lemma sample_query:
  assumes "mgwhelp_find_module 0 sample_mg 1 0x140001015 st = return (Some (sample_module, 0x401015), st)"
  shows "mgw_query 0 sample_mg st 1 0x140001015 = Some ([102], 5)"
proof -
  have "symbol_from_pe sample_mg sample_module 0x401015 467 =
      return (Some \<lparr>si_Name = [102, 0], si_NameLen = 2, si_Displacement = 5\<rparr>)"
    by code_simp
  with assms have "MgwSymFromAddr 0 sample_mg 1 0x140001015 512 st = return (Some ([102, 0], 5), st)"
    by (simp add: MgwSymFromAddr_def MgwSymFromAddrW_def symbol_in_module_def symbol_from_dwarf_def sample_module_def)
      (simp add: sample_mg_def pe_os.defs mg_os.defs)
  then show ?thesis
    by (simp add: mgw_query_def)
qed

theorem frame_names_nearest_symbol_witness:
  "\<exists>st b. frame_location (linked_log st) 1 0x140001016 (- 1) =
     Inr ([W ''  '' @ getBaseNameW (W ''a.exe''),
           W ''!'' @ map ucast [102 :: BYTE] @ W (''+0x'' @ fmt_x 0 (ucast (0x140001016 - (0x140000000 + (b - 0x400000)) :: DWORD64) :: DWORD))],
          None) \<and> 0x401015 - b \<le> (5 :: DWORD64)"
proof -
  obtain st where st: "mgwhelp_find_module 0 sample_mg 1 0x140001015 st = return (Some (sample_module, 0x401015), st)"
    using sample_found by blast
  then have find: "mgwhelp_find_module 0 sample_mg 1 (0x140001016 + - 1) st = return (Some (sample_module, 0x401015), st)"
    by simp
  obtain t where t: "meets sample_ctx 0 t" "candidate sample_ctx 0x401015 t 0x401010 [byte_of (CHR ''f'')]"
    using sample_candidate by blast
  have pro: "find_prologue (os_ndebug sample_mg) (mod_img sample_module) (mod_nFileSize sample_module) = Inr (Some sample_ctx)"
    using sample_prologue by (simp add: sample_mg_def sample_module_def pe_os.defs mg_os.defs)
  have opts: "\<not> flag_set (os_SymGetOptions sample_mg) SYMOPT_UNDNAME"
    by (simp add: sample_mg_def pe_os.defs mg_os.defs flag_set_def)
  have q: "mgw_query 0 sample_mg st 1 (0x140001016 + - 1) = Some ([102], 5)"
    using sample_query [OF st] by simp
  from frame_names_nearest_symbol [OF find _ _ pro t _ opts sample_converted _ q, where los = "linked_log st" and hModule = "0x140000000" and szModule = "W ''a.exe''"]
  show ?thesis
    by (auto simp: linked_log_fields sample_module_def simp del: W_append)
qed

end
