(* ===== verification/Catchsegv_Run.thy ===== *)
theory Catchsegv_Run
  imports Catchsegv_Facts
begin

text \<open>
  catchsegv while its debuggee runs, as a state machine: the loop of the debugger on the main thread, the
  callbacks of the timer on their own thread and the console control events work on the same state. A round
  of the loop is two steps, the handling of an event and its answer, so that a callback may come while an
  event is under way; that it comes in the middle of the handling, which the code does not synchronize
  either, is left out.
\<close>

datatype seg_event = Tick | Control DWORD | Debugged DEBUG_EVENT | Continued

text \<open>The state, and the event under way with the status for its answer, the locals of \<open>DebugMainLoop\<close>.\<close>

type_synonym seg_conf = "seg_state \<times> (DEBUG_EVENT \<times> DWORD) option"

text \<open>The steps after which catchsegv is still there. A control event that is not swallowed ends it.\<close>

inductive seg_step :: "'a seg_os_scheme \<Rightarrow> DebugOptions \<Rightarrow> DWORD \<Rightarrow> seg_conf \<Rightarrow> seg_event \<Rightarrow> seg_conf \<Rightarrow> bool"
  for os opts pid where
  tick: "TimeOutCallback os opts pid st = Inr (False, st') \<Longrightarrow> seg_step os opts pid (st, w) Tick (st', w)"
| control: "consoleCtrlHandler c st = (True, st') \<Longrightarrow> seg_step os opts pid (st, w) (Control c) (st', w)"
| debugged: "\<not> fFinished (debugger st) \<Longrightarrow>
    handle_event (dbg_os.truncate os) opts ev (debugger st) = return (Some (status, d)) \<Longrightarrow>
    seg_step os opts pid (st, None) (Debugged ev) (st\<lparr>debugger := d\<rparr>, Some (ev, status))"
| continued: "seg_step os opts pid (st, Some (ev, status)) Continued
    (st\<lparr>debugger := ContinueDebugEvent ev status (debugger st)\<rparr>, None)"

inductive_cases step_cases_seg: "seg_step os opts pid c e c'"
inductive_simps tick_iff: "seg_step os opts pid (st, w) Tick c'"

inductive seg_run :: "'a seg_os_scheme \<Rightarrow> DebugOptions \<Rightarrow> DWORD \<Rightarrow> seg_conf \<Rightarrow> seg_event list \<Rightarrow> seg_conf \<Rightarrow> bool"
  for os opts pid c where
  start: "seg_run os opts pid c [] c"
| step: "seg_run os opts pid c es c1 \<Longrightarrow> seg_step os opts pid c1 e c2 \<Longrightarrow> seg_run os opts pid c (es @ [e]) c2"

text \<open>With no callback in between, the two steps are the round of the debugger's loop.\<close>

lemma undisturbed_round:
  assumes "seg_run os opts pid c es (st, None)" and "\<not> fFinished (debugger st)"
    and "dbg_step (dbg_os.truncate os) opts ev (debugger st) = return (Some d)"
  shows "seg_run os opts pid c ((es @ [Debugged ev]) @ [Continued]) (st\<lparr>debugger := d\<rparr>, None)"
proof -
  obtain status mid where h: "handle_event (dbg_os.truncate os) opts ev (debugger st) = return (Some (status, mid))"
    and d: "d = emit [Continue (dwProcessId ev) (dwThreadId ev) status] mid"
    using assms(3) by (rule step_cases)
  have "st\<lparr>debugger := d\<rparr> = (st\<lparr>debugger := mid\<rparr>)\<lparr>debugger := ContinueDebugEvent ev status (debugger (st\<lparr>debugger := mid\<rparr>))\<rparr>"
    by (simp add: d)
  then show ?thesis
    using seg_run.step [OF seg_run.step [OF assms(1) seg_step.debugged [OF assms(2) h]] seg_step.continued] by simp
qed

section \<open>The timer\<close>

lemma complain_simps [simp]: "debugger (complain t st) = debugger st" "g_TimerIgnore (complain t st) = g_TimerIgnore st"
  by (simp_all add: complain_def)

lemma act_simps [simp]: "debugger (act es st) = emit es (debugger st)" "g_TimerIgnore (act es st) = g_TimerIgnore st"
  by (simp_all add: act_def)

lemma control_simps [simp]:
  "debugger (snd (consoleCtrlHandler c st)) = debugger st"
  "g_TimerIgnore (snd (consoleCtrlHandler c st)) = g_TimerIgnore st"
  by (simp_all add: consoleCtrlHandler_def)

text \<open>A callback either leaves the debugger alone or switches the timer off.\<close>

lemma terminate_ignore: "g_TimerIgnore (snd (TerminateProcessById os pid st)) = g_TimerIgnore st"
  by (simp add: TerminateProcessById_def Let_def)

lemma check_timeout_acts:
  "debugger (snd (check_timeout os pid st)) = debugger st \<or> g_TimerIgnore (snd (check_timeout os pid st))"
  by (simp add: check_timeout_def Let_def terminate_ignore)

lemma enum_windows_acts:
  "enum_windows os opts pid ws st = Inr (exited, st') \<Longrightarrow> st' = st \<or> g_TimerIgnore st'"
proof (induction ws)
  case (Cons w ws)
  then show ?case
    by (fastforce simp: EnumWindowCallback_def Let_def bnd_eq_Inr split: if_splits)
qed simp

lemma tick_acts:
  assumes "TimeOutCallback os opts pid st = Inr (exited, st')"
  shows "debugger st' = debugger st \<or> g_TimerIgnore st'"
proof -
  have "debugger st' = debugger mid \<or> g_TimerIgnore st'" if "check_timeout os pid mid = (exited, st')" for mid
    using check_timeout_acts [of os pid mid] that by simp
  then show ?thesis
    using assms by (auto simp: TimeOutCallback_def bnd_eq_Inr split: if_splits dest!: enum_windows_acts)
qed

lemma tick_ignored: "g_TimerIgnore st \<Longrightarrow> TimeOutCallback os opts pid st = Inr (False, st)"
  by (simp add: TimeOutCallback_def)

lemma step_keeps_ignore:
  "seg_step os opts pid c e c' \<Longrightarrow> g_TimerIgnore (fst c) \<Longrightarrow> g_TimerIgnore (fst c')"
  by (erule step_cases_seg) (auto simp: tick_ignored dest: arg_cong [where f = "\<lambda>x. g_TimerIgnore (snd x)"])

lemma run_keeps_ignore: "seg_run os opts pid c es c' \<Longrightarrow> g_TimerIgnore (fst c) \<Longrightarrow> g_TimerIgnore (fst c')"
  by (induction rule: seg_run.induct) (blast intro: step_keeps_ignore)+

text \<open>C28: the timer intervenes once: after a callback that has done anything to the debuggee (terminated it at
  the time-out, or trapped or terminated it at a modal dialog), no later callback does anything at all,
  whatever debugging and control events come in between.\<close>

theorem timer_intervenes_once:
  assumes "seg_step os opts pid c Tick c1" and "debugger (fst c1) \<noteq> debugger (fst c)"
    and "seg_run os opts pid c1 es c2"
  shows "TimeOutCallback os opts pid (fst c2) = Inr (False, fst c2)"
proof -
  have "g_TimerIgnore (fst c1)"
    using assms(1,2) by (cases c) (auto simp: tick_iff dest!: tick_acts)
  then show ?thesis
    using run_keeps_ignore [OF assms(3)] tick_ignored by blast
qed

lemma sample_tick:
  "\<exists>st1. seg_step sample_seg sample_opts 7 (seg_start\<lparr>g_TimeOut := 1\<rparr>, None) Tick (st1, None) \<and>
     debugger st1 = emit [Terminate 6 3, Close 6] (debugger seg_start)"
proof -
  have "no_dialog sample_seg 7"
    by (simp add: no_dialog_def sample_seg_defs)
  then show ?thesis
    by (simp add: tick_iff callback_quiet check_timeout_def seg_start_def Let_def TerminateProcessById_def
        act_def complain_def sample_seg_defs)
qed

theorem timer_intervenes_once_witness:
  "\<exists>st1. seg_step sample_seg sample_opts 7 (seg_start\<lparr>g_TimeOut := 1\<rparr>, None) Tick (st1, None) \<and>
     TimeOutCallback sample_seg sample_opts 7 st1 = Inr (False, st1)"
proof -
  obtain st1 where st1: "seg_step sample_seg sample_opts 7 (seg_start\<lparr>g_TimeOut := 1\<rparr>, None) Tick (st1, None)"
    and "debugger st1 = emit [Terminate 6 3, Close 6] (debugger seg_start)"
    using sample_tick by blast
  then have "debugger (fst (st1, None)) \<noteq> debugger (fst (seg_start\<lparr>g_TimeOut := 1\<rparr>, None))"
    by (simp add: seg_start_def emit_def)
  from timer_intervenes_once [OF st1 this seg_run.start] show ?thesis
    using st1 by auto
qed

section \<open>Debugging events\<close>

text \<open>The answers among the effects: for each, the process and the thread.\<close>

fun answered :: "effect list \<Rightarrow> (DWORD \<times> DWORD) list" where
  "answered [] = []"
| "answered (Continue p t s # es) = (p, t) # answered es"
| "answered (e # es) = answered es"

fun debugged :: "seg_event list \<Rightarrow> DEBUG_EVENT list" where
  "debugged [] = []"
| "debugged (Debugged ev # es) = ev # debugged es"
| "debugged (e # es) = debugged es"

lemma answered_append [simp]: "answered (es @ fs) = answered es @ answered fs"
  by (induction es rule: answered.induct) simp_all

lemma answered_none: "filter is_continue es = [] \<Longrightarrow> answered es = []"
  by (induction es rule: answered.induct) simp_all

lemma debugged_append [simp]: "debugged (es @ fs) = debugged es @ debugged fs"
  by (induction es rule: debugged.induct) simp_all

text \<open>What a step has answered, and that the tables stay well formed.\<close>

definition answers :: "(DWORD \<times> DWORD) list \<Rightarrow> dbg_state \<Rightarrow> dbg_state \<Rightarrow> bool" where
  "answers as d d' \<longleftrightarrow>
     answered (effects d') = answered (effects d) @ as \<and> (good_table (g_Processes d) \<longrightarrow> good_table (g_Processes d'))"

lemma answers_refl [simp]: "answers [] d d"
  by (simp add: answers_def)

lemma answers_trans: "answers as d d1 \<Longrightarrow> answers bs d1 d2 \<Longrightarrow> answers (as @ bs) d d2"
  by (simp add: answers_def)

lemma progress_answers: "progress pid d d' \<Longrightarrow> answers [] d d'"
  by (auto simp: progress_def answers_def answered_none)

lemma trap_progress:
  assumes "TrapThread os opts pid tid d = Inr (r, d')"
  shows "progress pid d d'"
proof -
  have touch: "progress pid d (emit [Suspend h] (touch_thread pid tid (touch_process pid d)))" for h
    by (intro progress_trans [OF progress_touch progress_trans [OF progress_touch_thread progress_emit]]) simp_all
  have "leads (progress pid) (emit [Suspend h] (touch_thread pid tid (touch_process pid d))) snd
      (bnd (dump_thread os hP hT (emit [Suspend h] (touch_thread pid tid (touch_process pid d)))) (\<lambda>(_, st).
       bnd (writeDump os opts pid None st) (\<lambda>st. Inr (Exited, st))))" for h hP hT
  proof (rule prog.leads_bnd [OF prog.leads_dump_thread])
    fix x
    show "leads (progress pid) (snd x) snd (case x of (_, st) \<Rightarrow> bnd (writeDump os opts pid None st) (\<lambda>st. Inr (Exited, st)))"
      by (cases x) (auto intro!: prog.leads_bnd [OF prog.leads_writeDump] prog.leads_Inr)
  qed
  moreover have "progress pid st (emit [Terminate h 3] st)" for h st
    by (rule progress_emit) simp_all
  ultimately show ?thesis
    using assms progress_trans [OF touch]
    by (fastforce simp: TrapThread_def Let_def leads_def split: if_splits)
qed

lemma enum_windows_answers:
  "enum_windows os opts pid ws st = Inr (exited, st') \<Longrightarrow> answers [] (debugger st) (debugger st')"
proof (induction ws)
  case (Cons w ws)
  from Cons.prems show ?case
    using Cons.IH
    by (auto simp: EnumWindowCallback_def Let_def bnd_eq_Inr split: if_splits dest!: trap_progress intro: progress_answers)
qed simp

lemma emit_answers: "filter is_continue es = [] \<Longrightarrow> answers [] d (emit es d)"
  by (simp add: answers_def answered_none)

lemma check_timeout_answers: "answers [] (debugger st) (debugger (snd (check_timeout os pid st)))"
  by (simp add: check_timeout_def Let_def TerminateProcessById_def emit_answers)

lemma tick_answers:
  assumes "TimeOutCallback os opts pid st = Inr (exited, st')"
  shows "answers [] (debugger st) (debugger st')"
proof -
  have "answers [] (debugger st) (debugger st')"
    if "check_timeout os pid mid = (exited, st')" "answers [] (debugger st) (debugger mid)" for mid
    using check_timeout_answers [of mid os pid] that answers_trans [of "[]" _ _ "[]"] by fastforce
  then show ?thesis
    using assms by (auto simp: TimeOutCallback_def bnd_eq_Inr split: if_splits dest!: enum_windows_answers)
qed

lemma handled_answers:
  assumes "handle_event os opts ev d = return (Some (status, d'))"
  shows "answers [] d d'"
  using handle_event_extends [OF assms] handle_event_others [OF assms]
  by (auto simp: answers_def extends_def others_def answered_none)

text \<open>The event under way, which is still to be answered.\<close>

definition event_ids :: "DEBUG_EVENT \<Rightarrow> DWORD \<times> DWORD" where
  "event_ids ev = (dwProcessId ev, dwThreadId ev)"

definition to_answer :: "seg_conf \<Rightarrow> (DWORD \<times> DWORD) list" where
  "to_answer c = (case snd c of None \<Rightarrow> [] | Some (ev, _) \<Rightarrow> [event_ids ev])"

lemma step_answers:
  assumes "seg_step os opts pid c e c'"
  shows "\<exists>as. answers as (debugger (fst c)) (debugger (fst c')) \<and>
    as @ to_answer c' = to_answer c @ map event_ids (debugged [e])"
  using assms
proof cases
  case (tick st st' w)
  then show ?thesis
    using tick_answers by (intro exI [of _ "[]"]) (auto simp: to_answer_def)
next
  case (control c st st' w)
  then show ?thesis
    using control_simps(1) [of c st] by (intro exI [of _ "[]"]) (simp add: to_answer_def del: control_simps)
next
  case (debugged st ev status d)
  then show ?thesis
    using handled_answers by (intro exI [of _ "[]"]) (auto simp: to_answer_def)
next
  case (continued st ev status)
  then show ?thesis
    by (intro exI [of _ "[event_ids ev]"]) (simp add: to_answer_def answers_def event_ids_def)
qed

text \<open>C22: the timer and the console leave the debugging alone: however their callbacks are interleaved with the
  debugger's loop between its calls, that is, between two rounds or after an event has been handled and
  before it is answered, every debugging event is answered once, in the order in which the events came, with nothing
  answered in between, at most the last one is still to be answered, and the tables of processes stay well formed;
  and a round of the loop (\<open>dbg_step\<close>) with no callback in between is these two steps, from any state reached.
  Callbacks in the middle of the handling of an event, which the code does not synchronize with it, are not covered.\<close>

theorem interleaved_events_answered:
  assumes "seg_run os opts pid (st, None) es (st', w)"
  shows "answered (effects (debugger st')) @ (case w of None \<Rightarrow> [] | Some (ev, _) \<Rightarrow> [event_ids ev]) =
      answered (effects (debugger st)) @ map event_ids (debugged es) \<and>
    (good_table (g_Processes (debugger st)) \<longrightarrow> good_table (g_Processes (debugger st'))) \<and>
    (\<forall>ev d. w = None \<longrightarrow> \<not> fFinished (debugger st') \<longrightarrow>
       dbg_step (dbg_os.truncate os) opts ev (debugger st') = return (Some d) \<longrightarrow>
       seg_run os opts pid (st, None) ((es @ [Debugged ev]) @ [Continued]) (st'\<lparr>debugger := d\<rparr>, None))"
proof -
  have "seg_run os opts pid (st, None) ((es @ [Debugged ev]) @ [Continued]) (st'\<lparr>debugger := d\<rparr>, None)"
    if "w = None" "\<not> fFinished (debugger st')" "dbg_step (dbg_os.truncate os) opts ev (debugger st') = return (Some d)" for ev d
    using undisturbed_round [OF assms [unfolded that(1)] that(2,3)] .
  moreover have "\<exists>as. answers as (debugger (fst c)) (debugger (fst c')) \<and> as @ to_answer c' = to_answer c @ map event_ids (debugged es)"
    if "seg_run os opts pid c es c'" for c c'
    using that
  proof (induction rule: seg_run.induct)
    case start
    then show ?case by (intro exI [of _ "[]"]) simp
  next
    case (step es c1 e c2)
    then obtain as bs where "answers as (debugger (fst c)) (debugger (fst c1))"
      and "as @ to_answer c1 = to_answer c @ map event_ids (debugged es)"
      and "answers bs (debugger (fst c1)) (debugger (fst c2))" and "bs @ to_answer c2 = to_answer c1 @ map event_ids (debugged [e])"
      using step_answers by blast
    moreover from this have "(as @ bs) @ to_answer c2 = to_answer c @ map event_ids (debugged (es @ [e]))"
      using append.assoc by (metis debugged_append map_append)
    ultimately show ?case
      using answers_trans by blast
  qed
  from this [OF assms] have "answered (effects (debugger st')) @ (case w of None \<Rightarrow> [] | Some (ev, _) \<Rightarrow> [event_ids ev]) =
      answered (effects (debugger st)) @ map event_ids (debugged es) \<and>
    (good_table (g_Processes (debugger st)) \<longrightarrow> good_table (g_Processes (debugger st')))"
    by (auto simp: answers_def to_answer_def)
  ultimately show ?thesis
    by blast
qed

definition sample_unloaded :: DEBUG_EVENT where
  "sample_unloaded = \<lparr>dwProcessId = 7, dwThreadId = 9, event = UNLOAD_DLL_DEBUG_EVENT 5\<rparr>"

lemma sample_interleaving:
  "\<exists>st'. seg_run sample_seg sample_opts 7 (seg_start\<lparr>debugger := sample_state\<rparr>, None)
     ((([] @ [Debugged sample_unloaded]) @ [Control CTRL_C_EVENT]) @ [Continued]) (st', None)"
proof -
  let ?st = "seg_start\<lparr>debugger := sample_state\<rparr>" and ?d = "emit [UnloadSymbols 1 5] sample_state"
  have "handle_event (dbg_os.truncate sample_seg) sample_opts sample_unloaded (debugger ?st) =
      return (Some (DBG_CONTINUE, ?d))"
    by code_simp
  then have "seg_step sample_seg sample_opts 7 (?st, None) (Debugged sample_unloaded)
      (?st\<lparr>debugger := ?d\<rparr>, Some (sample_unloaded, DBG_CONTINUE))"
    by (intro seg_step.debugged) (simp_all add: sample_state_def)
  note one = seg_run.step [OF seg_run.start this]
  obtain st' where "consoleCtrlHandler CTRL_C_EVENT (?st\<lparr>debugger := ?d\<rparr>) = (True, st')"
    by (simp add: consoleCtrlHandler_def seg_start_def complain_def)
  note two = seg_run.step [OF one seg_step.control [OF this]]
  show ?thesis
    by (rule exI, rule seg_run.step [OF two seg_step.continued])
qed

theorem interleaved_events_answered_witness:
  "\<exists>st'. seg_run sample_seg sample_opts 7 (seg_start\<lparr>debugger := sample_state\<rparr>, None)
     ((([] @ [Debugged sample_unloaded]) @ [Control CTRL_C_EVENT]) @ [Continued]) (st', None) \<and>
     answered (effects (debugger st')) = [(7, 9)]"
proof -
  obtain st' where run: "seg_run sample_seg sample_opts 7 (seg_start\<lparr>debugger := sample_state\<rparr>, None)
     ((([] @ [Debugged sample_unloaded]) @ [Control CTRL_C_EVENT]) @ [Continued]) (st', None)"
    using sample_interleaving by blast
  then show ?thesis
    using interleaved_events_answered [OF run, THEN conjunct1]
    by (intro exI [of _ st'] conjI) (simp_all add: sample_state_def sample_unloaded_def event_ids_def)
qed

end
