(* ===== verification/Startup.thy ===== *)
theory Startup
  imports GetoptW_Facts Catchsegv_Facts Drmingw_Facts
begin

text \<open>
  How the programs start: their option strings and tables for the parser (theory \<open>GetoptW\<close>), what catchsegv
  hands to its debuggee, and how the command that drmingw registers leads back to the crashed process.
\<close>

section \<open>catchsegv\<close>

definition catchsegv_optstring :: wstr where
  "catchsegv_optstring = W ''?1dhHmt:zZ:vq''"

definition seg_options_start :: seg_options where
  "seg_options_start = \<lparr>o_debug = plain_options, o_heap = False, o_state = seg_start\<rparr>"

text \<open>
  The switch of the loop over the options: help, and an option without a case of its own, which ends the loop; what
  is left of the arguments then begins at \<open>optind\<close>.
\<close>

definition seg_switch :: "char \<times> wstr \<times> wchar \<Rightarrow> seg_options \<Rightarrow> seg_parse + seg_options" where
  "seg_switch = (\<lambda>(c, v, p) s.
     if c = CHR ''h'' \<or> c = CHR ''?'' \<and> p = W_char (CHR ''?'') then Inl SegUsage
     else (case seg_option c v s of None \<Rightarrow> Inl (SegRun s) | Some s \<Rightarrow> Inr s))"

definition catchsegv_wmain :: "'a seg_os_scheme \<Rightarrow> bool \<Rightarrow> wstr list \<Rightarrow> (fault + DWORD \<times> seg_state) option" where
  "catchsegv_wmain os posix args =
     (case parse_options (getoptW posix catchsegv_optstring) seg_switch args seg_options_start of
        None \<Rightarrow> None
      | Some (Inl SegUsage, st) \<Rightarrow> return (0, Usage seg_start)
      | Some (Inl (SegRun s), st) \<Rightarrow> run_command os s (drop (optind st) (argv st))
      | Some (Inr s, st) \<Rightarrow> run_command os s (drop (optind st) (argv st)))"

lemma seg_switch_optopt: "ignores_optopt seg_switch"
  by (auto simp: ignores_optopt_def seg_switch_def seg_option_def split: option.splits if_splits)

text \<open>The options before the end marker, and the command behind it.\<close>

lemma catchsegv_reads_options:
  assumes "list_all (legal_short catchsegv_optstring) opts" and "handle_all seg_switch (results opts) seg_options_start = Inr s"
  shows "catchsegv_wmain os posix (prog # concat (map spelt opts) @ W ''--'' # rest) = run_command os s rest"
  using short.parsed_to_marker [OF seg_switch_optopt assms, of posix prog rest]
  by (auto simp: catchsegv_wmain_def W_Cons)

text \<open>C11: catchsegv runs the command behind the end marker with the options before it: whatever legal options
  stand there, it takes exactly their settings; when the name of the program and its arguments are ones that the
  quoting preserves (\<open>prog_ok\<close> and \<open>arg_ok\<close>: not those that are empty, or end in a backslash
  and need quotes, for example, see \<open>command_line_exact\<close>), the program that is created is given exactly this
  command, through the option parser, the quoting and the rules of the run-time; and when the
  debugging has come to its end, catchsegv exits with the exit code of that program and has closed its handles.\<close>

theorem catchsegv_runs_command:
  assumes "list_all (legal_short catchsegv_optstring) opts" and "handle_all seg_switch (results opts) seg_options_start = Inr s"
    and "rest = name # arguments" and "name \<noteq> []" and "prog_ok name" and "list_all arg_ok arguments"
    and "start_debuggee os (o_heap s) (command_line rest) (o_state s) = Inr (hP, hT, st)"
    and "DebugMainLoop (set_sym_options (debug_flag (o_debug s)) (dbg_os.truncate os)) (o_debug s) [] = return (Returned True, d)"
    and "sg_GetExitCodeProcess os (effects d) hP = Some code"
  shows "parse_command_line (command_line rest) = rest \<and>
    (\<exists>st'. catchsegv_wmain os posix (prog # concat (map spelt opts) @ W ''--'' # rest) = return (code, st') \<and>
      effects (debugger st') = effects d @ [Close hP, Close hT])"
proof -
  have parsed: "parse_command_line (command_line rest) = rest"
    using assms(3,5,6) command_line_survives by simp
  have "command_line rest \<noteq> []"
    using assms(3) arg_text_starts [OF assms(4)] by (auto simp: command_line_split)
  then have "\<exists>st'. run_command os s rest = return (code, st') \<and> effects (debugger st') = effects d @ [Close hP, Close hT]"
    using assms(7-9) by (simp add: run_command_def act_def emit_def)
  then show ?thesis
    using parsed by (simp only: catchsegv_reads_options [OF assms(1,2)])
qed

text \<open>The sample: a time-out, and a program that is unloaded a module and exits.\<close>

definition sample_settings :: seg_options where
  "sample_settings = seg_options_start\<lparr>o_state := seg_start\<lparr>g_TimeOut := 60\<rparr>\<rparr>"

lemma legal_sample: "list_all (legal_short catchsegv_optstring) [(W_char (CHR ''t''), Some (W ''60''))]"
  by code_simp

lemma sample_read:
  "handle_all seg_switch (results [(W_char (CHR ''t''), Some (W ''60''))]) seg_options_start = Inr sample_settings"
proof -
  have "num_str False 10 60 = ''60''"
    by code_simp
  then have "wcstoul (W ''60'') 0 = 60"
    using wcstoul_num [of 60 False] by simp
  then show ?thesis
    by (simp add: results_def meant_def char_of_W_char seg_switch_def seg_option_def sample_settings_def
        seg_options_start_def seg_start_def plain_options_def)
qed

definition sample_dbg_set :: dbg_os where
  "sample_dbg_set = set_sym_options False sample_dbg"

lemma sample_first_round:
  "dbg_step sample_dbg_set plain_options (sample_events ! 0) (loop_start []) =
   return (Some \<lparr>g_Processes = [(7, empty_process)], fFinished = False, fTerminating = False,
     effects = [UnloadSymbols 0 5, Continue 7 9 DBG_CONTINUE]\<rparr>)"
  by code_simp

lemma sample_last_round:
  "dbg_step sample_dbg_set plain_options (sample_events ! 1)
     \<lparr>g_Processes = [(7, empty_process)], fFinished = False, fTerminating = False,
       effects = [UnloadSymbols 0 5, Continue 7 9 DBG_CONTINUE]\<rparr> =
   return (Some \<lparr>g_Processes = [], fFinished = True, fTerminating = False,
     effects = [UnloadSymbols 0 5, Continue 7 9 DBG_CONTINUE, SymClean 0, Continue 7 9 DBG_CONTINUE]\<rparr>)"
  by code_simp

lemma sample_debugged:
  "DebugMainLoop sample_dbg_set plain_options [] =
   return (Returned True, \<lparr>g_Processes = [], fFinished = True, fTerminating = False,
     effects = [UnloadSymbols 0 5, Continue 7 9 DBG_CONTINUE, SymClean 0, Continue 7 9 DBG_CONTINUE]\<rparr>)"
proof -
  have wait: "db_WaitForDebugEvent sample_dbg_set [] = Some (sample_events ! 0)"
    "db_WaitForDebugEvent sample_dbg_set (e # es) = Some (sample_events ! 1)" for e es
    by (simp_all add: sample_dbg_set_def set_sym_options_def sample_dbg_def sample_events_def file_os.defs dbg_os.defs)
  have "\<not> fFinished (loop_start [])" "effects (loop_start []) = []"
    by (simp_all add: loop_start_def)
  then show ?thesis
    using sample_first_round sample_last_round
    by (simp add: main_loop_start debug_loop.simps wait)
qed

theorem catchsegv_runs_command_witness:
  "\<exists>st'. catchsegv_wmain sample_seg False [W ''catchsegv'', W ''-t'', W ''60'', W ''--'', W ''a.exe'', W ''-v'', W ''x y''] =
      return (0, st') \<and>
    parse_command_line (command_line [W ''a.exe'', W ''-v'', W ''x y'']) = [W ''a.exe'', W ''-v'', W ''x y'']"
proof -
  have ok: "prog_ok (W ''a.exe'')" "list_all arg_ok [W ''-v'', W ''x y'']" "W ''a.exe'' \<noteq> []"
    by (simp_all add: prog_ok_def arg_ok_def needsQuote_exposed [symmetric] W_Cons)
  have "\<exists>st. start_debuggee sample_seg False (command_line [W ''a.exe'', W ''-v'', W ''x y'']) (o_state sample_settings) =
      Inr (1, 4, st)"
    by (simp add: start_debuggee_def sample_seg_defs)
  then obtain st where start: "start_debuggee sample_seg (o_heap sample_settings)
      (command_line [W ''a.exe'', W ''-v'', W ''x y'']) (o_state sample_settings) = Inr (1, 4, st)"
    by (auto simp: sample_settings_def seg_options_start_def)
  have "dbg_os.truncate sample_seg = sample_dbg"
    by (simp add: sample_seg_def dbg_os.defs sample_dbg_def)
  then have "set_sym_options (debug_flag (o_debug sample_settings)) (dbg_os.truncate sample_seg) = sample_dbg_set"
    by (simp add: sample_settings_def seg_options_start_def plain_options_def sample_dbg_set_def)
  moreover have "o_debug sample_settings = plain_options"
    by (simp add: sample_settings_def seg_options_start_def)
  ultimately have debugged: "DebugMainLoop (set_sym_options (debug_flag (o_debug sample_settings)) (dbg_os.truncate sample_seg))
      (o_debug sample_settings) [] = return (Returned True, \<lparr>g_Processes = [], fFinished = True, fTerminating = False,
        effects = [UnloadSymbols 0 5, Continue 7 9 DBG_CONTINUE, SymClean 0, Continue 7 9 DBG_CONTINUE]\<rparr>)"
    using sample_debugged by simp
  have code: "sg_GetExitCodeProcess sample_seg es 1 = Some 0" for es
    by (simp add: sample_seg_defs)
  show ?thesis
    using catchsegv_runs_command [OF legal_sample sample_read refl ok(3,1,2) start debugged code, of False "W ''catchsegv''"]
    by (auto simp: W_Cons)
qed

section \<open>drmingw\<close>

definition drm_optstring :: wstr where
  "drm_optstring = W ''?hViup:e:t:vbd''"

definition drm_long_options :: "long_option list" where
  "drm_long_options = map (\<lambda>(name, arg, c). \<lparr>long_name = W name, has_arg = arg, long_flag = None, long_val = W_char c\<rparr>)
     [(''help'', no_argument, CHR ''h''), (''version'', no_argument, CHR ''V''), (''install'', no_argument, CHR ''i''),
      (''uninstall'', no_argument, CHR ''u''), (''process-id'', required_argument, CHR ''p''),
      (''event'', required_argument, CHR ''e''), (''tid'', required_argument, CHR ''t''),
      (''breakpoint'', no_argument, CHR ''b''), (''verbose'', no_argument, CHR ''v''), (''debug'', no_argument, CHR ''d'')]"

text \<open>The options with which the registered command starts drmingw.\<close>

definition attach_args :: "int \<Rightarrow> int \<Rightarrow> DebugOptions \<Rightarrow> (wchar \<times> wstr option) list" where
  "attach_args p e opts = [(W_char (CHR ''p''), Some (decimal p)), (W_char (CHR ''e''), Some (decimal e))] @
     (if verbose_flag opts then [(W_char (CHR ''v''), None)] else []) @
     (if breakpoint_flag opts then [(W_char (CHR ''b''), None)] else []) @
     (if debug_flag opts then [(W_char (CHR ''d''), None)] else [])"

lemma attach_args_spelt:
  "concat (map spelt (attach_args p e opts)) = [W ''-p'', decimal p, W ''-e'', decimal e] @ flag_args opts"
  by (simp add: attach_args_def flag_args_def W_Cons)

lemma legal_flags: "list_all (\<lambda>c. legal_long_only drm_optstring drm_long_options (c, None))
    [W_char (CHR ''v''), W_char (CHR ''b''), W_char (CHR ''d'')]"
  by code_simp

lemma legal_values: "list_all (\<lambda>c. legal_long_only drm_optstring drm_long_options (c, Some []))
    [W_char (CHR ''p''), W_char (CHR ''e'')]"
  by code_simp

lemma legal_any_value:
  "legal_long_only optstring longopts (c, Some []) \<Longrightarrow> legal_long_only optstring longopts (c, Some v)"
  by (auto simp: legal_long_only_def legal_short_def split: prod.splits long_search.splits option.splits)

lemma attach_args_legal: "list_all (legal_long_only drm_optstring drm_long_options) (attach_args p e opts)"
  using legal_flags legal_values by (simp add: attach_args_def legal_any_value)

lemma attach_args_results:
  "results (attach_args p e opts) =
   [(CHR ''p'', decimal p, 0), (CHR ''e'', decimal e, 0)] @ (if verbose_flag opts then [(CHR ''v'', [], 0)] else []) @
   (if breakpoint_flag opts then [(CHR ''b'', [], 0)] else []) @ (if debug_flag opts then [(CHR ''d'', [], 0)] else [])"
  by (simp add: attach_args_def results_def meant_def char_of_W_char)

lemma attach_options:
  assumes "0 < p" and "p < 2 ^ 31" and "- (2 ^ 31) \<le> e" and "e < 2 ^ 31"
  shows "handle_all (drm_option os) (results (attach_args p e opts)) drm_start =
    Inr (drm_start\<lparr>process_id_given := True, drm_pid := word_of_int p,
      drm_debug := drm_debug drm_start\<lparr>hEvent := word_of_int e, verbose_flag := verbose_flag opts,
        breakpoint_flag := breakpoint_flag opts, debug_flag := debug_flag opts\<rparr>\<rparr>)"
  using process_option_decimal [OF assms(1,2), of drm_start os] event_option_decimal [OF assms(3,4)]
  by (simp add: attach_args_results drm_option_def drm_start_def)

lemma drm_option_optopt: "ignores_optopt (drm_option os)"
  by (auto simp: ignores_optopt_def drm_option_def)

text \<open>The program from its arguments on.\<close>

definition drmingw_wmain :: "'a drm_os_scheme \<Rightarrow> bool \<Rightarrow> wstr list \<Rightarrow> registry \<Rightarrow>
    ((drm_end \<times> shown list \<times> registry) \<times> (DebugOptions \<times> DWORD) option) option" where
  "drmingw_wmain os posix args rg =
     map_option (\<lambda>(parsed, st).
       case parsed of
         Inl (code, box) \<Rightarrow> ((ExitCode code, [box], rg), None)
       | Inr s \<Rightarrow> drm_run_options os s rg)
       (parse_options (getoptW_long_only posix drm_optstring drm_long_options) (drm_option os) args drm_start)"

text \<open>C13: a successful installation makes Windows start drmingw on the process that crashed: in both views of the
  registry the value is a command that, completed with the numbers of the process and of the event, is
  taken apart again, by the run-time's rules for the command line and by the option parser with its
  abbreviated long options, so that drmingw opens its window and starts its debugger on exactly that process,
  with that event and the options of the installation.\<close>

theorem installed_command_attaches:
  assumes "both_views (install os opts) rg = (ERROR_SUCCESS, rg')" and "dr_GetModuleFileNameW os = Some path"
    and "dquote \<notin> set path" and "W_char (CHR ''%'') \<notin> set path"
    and "0 < p" and "p < 2 ^ 31" and "- (2 ^ 31) \<le> e" and "e < 2 ^ 31"
    and "createDialog (dr_dialog os) no_window = Inr w"
  shows "\<exists>command boxes. aedebug rg' 0 ''Debugger'' = Some command \<and>
    aedebug rg' KEY_WOW64_32KEY ''Debugger'' = Some command \<and>
    drmingw_wmain os posix (parse_command_line (complete command [decimal p, decimal e])) rg' =
      Some ((run_window os, boxes, rg'),
        Some ((drm_debug drm_start)\<lparr>hEvent := word_of_int e, verbose_flag := verbose_flag opts,
          breakpoint_flag := breakpoint_flag opts, debug_flag := debug_flag opts\<rparr>, word_of_int p))"
proof -
  obtain rg1 where "install os opts 0 rg = (ERROR_SUCCESS, rg1)" "install os opts KEY_WOW64_32KEY rg1 = (ERROR_SUCCESS, rg')"
    using assms(1) by (auto simp: both_views_def split: prod.splits if_splits)
  then have entries: "aedebug rg' 0 ''Debugger'' = Some (debugger_command opts path)"
    "aedebug rg' KEY_WOW64_32KEY ''Debugger'' = Some (debugger_command opts path)"
    by (auto dest!: install_values [OF _ assms(2)])
  have args: "parse_command_line (complete (debugger_command opts path) [decimal p, decimal e]) =
      path # concat (map spelt (attach_args p e opts))"
    by (simp add: parsed_command [OF assms(3,4)] attach_args_spelt)
  let ?debug = "(drm_debug drm_start)\<lparr>hEvent := word_of_int e, verbose_flag := verbose_flag opts,
    breakpoint_flag := breakpoint_flag opts, debug_flag := debug_flag opts\<rparr>"
  let ?s = "drm_start\<lparr>process_id_given := True, drm_pid := word_of_int p, drm_debug := ?debug\<rparr>"
  obtain st where parsed: "parse_options (getoptW_long_only posix drm_optstring drm_long_options) (drm_option os)
      (path # concat (map spelt (attach_args p e opts))) drm_start = Some (Inr ?s, st)"
    using long_only.parsed_to_end [OF drm_option_optopt attach_args_legal attach_options [OF assms(5-8)]] by blast
  obtain boxes where run: "drm_run_options os ?s rg' = ((run_window os, boxes, rg'), Some (?debug, word_of_int p))"
    using assms(9) by (simp add: drm_run_options_def drm_start_def Let_def)
  have "drmingw_wmain os posix (parse_command_line (complete (debugger_command opts path) [decimal p, decimal e])) rg' =
      Some ((run_window os, boxes, rg'), Some (?debug, word_of_int p))"
    by (simp only: drmingw_wmain_def args parsed option.map prod.case sum.case run)
  then show ?thesis
    using entries by (intro exI [of _ "debugger_command opts path"] exI [of _ boxes]) (simp only: simp_thms)
qed

definition empty_registry :: registry where
  "empty_registry = \<lparr>aedebug = (\<lambda>_ _. None), open_keys = 0\<rparr>"

lemma sample_installs: "\<exists>rg'. both_views (install sample_drm sample_opts) empty_registry = (ERROR_SUCCESS, rg')"
  by (simp add: both_views_def install_def regSetStr_def sample_drm_defs)

theorem installed_command_attaches_witness:
  "\<exists>rg' command boxes opts. both_views (install sample_drm sample_opts) empty_registry = (ERROR_SUCCESS, rg') \<and>
     aedebug rg' KEY_WOW64_32KEY ''Debugger'' = Some command \<and>
     drmingw_wmain sample_drm False (parse_command_line (complete command [decimal 1234, decimal (- 4)])) rg' =
       Some ((run_window sample_drm, boxes, rg'), Some (opts, 1234)) \<and> hEvent opts = - 4"
proof -
  obtain rg' where rg': "both_views (install sample_drm sample_opts) empty_registry = (ERROR_SUCCESS, rg')"
    using sample_installs by blast
  have path: "dr_GetModuleFileNameW sample_drm = Some (W ''C:/a b/drmingw.exe'')"
    and dialog: "dr_dialog sample_drm = sample_dialog"
    by (simp_all add: sample_drm_defs)
  have chars: "dquote \<notin> set (W ''C:/a b/drmingw.exe'')" "W_char (CHR ''%'') \<notin> set (W ''C:/a b/drmingw.exe'')"
    by (simp_all add: W_Cons)
  obtain w where w: "createDialog (dr_dialog sample_drm) no_window = Inr w"
    using sample_created dialog by auto
  let ?opts = "(drm_debug drm_start)\<lparr>hEvent := word_of_int (- 4), verbose_flag := verbose_flag sample_opts,
    breakpoint_flag := breakpoint_flag sample_opts, debug_flag := debug_flag sample_opts\<rparr>"
  obtain command boxes where "aedebug rg' KEY_WOW64_32KEY ''Debugger'' = Some command"
    "drmingw_wmain sample_drm False (parse_command_line (complete command [decimal 1234, decimal (- 4)])) rg' =
      Some ((run_window sample_drm, boxes, rg'), Some (?opts, word_of_int 1234))"
    using installed_command_attaches [OF rg' path chars _ _ _ _ w, of 1234 "- 4" False] by auto
  moreover have "hEvent ?opts = - 4" "(word_of_int 1234 :: DWORD) = 1234"
    by simp_all
  ultimately show ?thesis
    using rg' by (intro exI [of _ rg'] exI [of _ command] exI [of _ boxes] exI [of _ ?opts]) (simp only: simp_thms)
qed

end
