(* ===== verification/Spec2Isabelle.thy ===== *)
theory Spec2Isabelle
  imports StdMap Paths Format CmdLine OutDbg Mgwhelp_Cache Register_Dump Debugger_Props Exchndl_Report Catchsegv_Facts
    Dialog_Facts Crash_Report Addr2line_Main Symbol_Source Catchsegv_Run Startup
begin

text \<open>
  A model of drmingw (src/src), the just-in-time debugger for programs built with MinGW, for its x86_64 build
  (of the log also the ARM64 build), and the theorems that make it correct.

  \<^bold>\<open>The program and its parts.\<close> Three programs and two libraries share a debugger and a log.
  \<^item> drmingw (\<open>drmingw/main.cpp\<close>) registers itself as the debugger of crashed processes, is
    started by Windows on such a process, attaches to it and shows the log in a window
    (\<open>drmingw/dialog.cpp\<close>).
  \<^item> catchsegv (\<open>catchsegv/catchsegv.cpp\<close>) starts a program, runs the same debugger on it,
    ends it after a time-out or at a modal dialog, and prints the log.
  \<^item> exchndl (\<open>exchndl/exchndl.cpp\<close>) is a DLL that a program loads into itself; its filter
    for unhandled exceptions writes the log to a report file.
  \<^item> The debugger (\<open>common/debugger.cpp\<close>) answers the debugging events of Windows; the log
    (\<open>common/log.cpp\<close>) prints registers, stack, exception and modules; both ask for symbols through
    \<open>common/symbols.cpp\<close>.
  \<^item> mgwhelp (\<open>mgwhelp/*.cpp\<close>) is the DbgHelp replacement behind these questions: it answers
    from DWARF data or from the COFF symbol table of the file, and passes on to DbgHelp what it cannot answer.
  \<^item> addr2line (\<open>addr2line/addr2line.cpp\<close>) asks mgwhelp for the functions and lines of given
    addresses.

  \<^bold>\<open>Theories, in the order of their imports.\<close>
  \<^item> \<open>Prelude\<close>: machine integers, strings, faults and the monads \<open>bnd\<close> (a result
    or a fault) and \<open>run\<close> (which may also not return). \<open>Resources\<close>: traces of what is
    acquired and released. \<open>Format\<close>, \<open>Strtoul\<close>: the conversions and the number parsers
    of the C run-time. \<open>StdMap\<close>: \<open>std::map\<close> as a sorted list, with the locale
    \<open>ordered_map\<close> for its contract.
  \<^item> \<open>Paths\<close>: \<open>paths.h\<close>; the locale \<open>path_splitter\<close> is proved once
    for the narrow and the wide variant.
  \<^item> \<open>PE_Image\<close>, \<open>Dwarf_PE\<close>, \<open>Dwarf_Find\<close>, \<open>Mgwhelp\<close>,
    \<open>Mgwhelp_Facts\<close>, \<open>Mgwhelp_Cache\<close>: mgwhelp. A file image is a byte list and every
    read may fault; \<open>mgwhelp_state\<close> has the list of processes with their modules, and the trace;
    \<open>module_cache\<close> is the abstract session that it implements. \<open>OutDbg\<close>: what
    \<open>OutputDebug\<close> (\<open>outdbg.h\<close>) makes of the texts in the trace, in its buffer of 512
    bytes.
  \<^item> \<open>Symbols\<close>, \<open>Log\<close>, \<open>Log_Facts\<close>: an operation of the log is the
    list of the texts it prints, each one passed through \<open>lprintf\<close> with its buffer of 1024
    characters. \<open>Log_Client\<close>: the registered callback, and the locale \<open>log_client\<close> for
    the programs that it serves. \<open>Log_ARM64\<close>: the registers and the choice of the machine in the
    ARM64 build, which shares the rest. \<open>Register_Dump\<close>: a reader of the registers in the log,
    for the three kinds of context. \<open>Symbol_Source\<close>: the locale \<open>symbol_source\<close> is
    the contract between the log and the library that answers its symbol queries; mgwhelp provides it.
  \<^item> \<open>FileName\<close>, \<open>Privilege\<close>, \<open>Debugger\<close>,
    \<open>Debugger_Facts\<close>, \<open>Debugger_Props\<close>: the debugger. \<open>dbg_state\<close> has the
    tables of processes and threads (\<open>g_Processes\<close>), the two local flags of the loop and the
    effects so far; there is one function per debugging event, and \<open>dbg_step\<close> is a round of the
    loop, its answer (\<open>ContinueDebugEvent\<close>) last. The locale \<open>handler_steps\<close> lifts a
    relation from the parts of the handlers to a whole round, its extension \<open>terminating_steps\<close> when the
    relation allows a termination too.
  \<^item> \<open>Exchndl\<close>, \<open>Catchsegv\<close>, \<open>CmdLine\<close>, \<open>Drmingw\<close>,
    \<open>Dialog\<close>, \<open>Addr2line\<close>, each with what is proved of it in the theory of the same
    name and \<open>_Facts\<close> where there is one: the programs and the DLL, each with the state that its
    static variables hold. \<open>CmdLine\<close> has beside the quoting of catchsegv the documented rules by which the
    started program splits its command line, those for its own name among them; \<open>Dialog\<close> keeps the
    queue of messages, the exit code that WM_QUIT carries and the copies of texts that are not freed yet. \<open>Catchsegv_Run\<close>: a state machine (\<open>seg_run\<close>) whose steps
    are the handling of an event by the debugger, its answer, the callbacks of the timer and the console control
    events, as they may interleave. \<open>Drmingw_Run\<close>: a state machine (\<open>drm_run\<close>) whose
    steps are the rounds of the debugger's thread, its calls of \<open>appendText\<close>, the acts of the user
    and the messages of the window, in any order. \<open>Crash_Report\<close>: the debugger, the log and this
    window together. \<open>Exchndl_Report\<close>: the report of a crash from the filter to the bytes of the
    file.
  \<^item> \<open>GetoptW\<close>, \<open>GetoptW_Facts\<close>: the option parser that the repository carries
    (src/thirdparty/getoptW), with the loop of its callers (\<open>parse_options\<close>), the locale
    \<open>option_reader\<close> for what they rely on and its extension \<open>operand_reader\<close>.
    \<open>Startup\<close>, \<open>Addr2line_Main\<close>: the programs from their arguments,
    \<open>catchsegv_wmain\<close> to the exit code of the debuggee, \<open>drmingw_wmain\<close> to the window,
    \<open>addr2line_wmain\<close> to the answers.

  \<^bold>\<open>What the theorems show.\<close> Of the debugger: the tables implement an abstract table of live
  processes and threads; each event is answered exactly once with the right status; a second-chance exception is
  reported with the exception, the registers and the stack of its thread, and then ends its process and no other;
  at most one dump is written of a process; the loop returns exactly when the last debuggee has gone. Of mgwhelp:
  what is acquired is released but for the mappings of modules; the lists of processes and modules implement a
  cache for each process; the nearest symbol is found and every read of a checked file is in bounds. Of the log:
  its texts fit the buffer, the registers can be read back from it, the frames of the walk come out in order, and offsets are those of the return
  addresses. Of the log and mgwhelp together: a frame is named after the nearest symbol of the file. Of exchndl:
  a crash leaves the whole report in the file named, byte for byte, the filter is transparent and keeps the
  error mode, and unloading restores the process, each report file that was opened closed once, by its handle. Of catchsegv: it runs the command behind its options with
  these options and returns its exit code, the name and the arguments of the debuggee survive under conditions
  that are stated exactly, the time-out fires once, and neither the timer nor the console, between the calls of
  the debugger, disturbs the debugging. Of drmingw: the registered
  command leads back to the crashed process, the window shows the log complete and in order, every copy of a text
  freed, whatever the threads and the user do meanwhile, the report of a crash among it, and its loop returns exactly when it has been
  closed. Of addr2line: every address on its command line is answered; an offset that the log prints may be
  given to it as it stands, a theorem of this theory.

  \<^bold>\<open>Defects the model shows.\<close> A text of 1024 characters or more overruns the buffer of
  \<open>lprintf\<close>, and so does a source path that fills its buffer; \<open>OutputDebug\<close> overruns
  its own at 512 bytes, and the name of a debug link can be that long; a debug link to its own file, or any cycle of links,
  recurses for ever; the mapping of every module leaks; a failed line query returns an earlier answer; the 64-bit base of a
  module is cut to 32 bits; the report of a program whose path has no dot is opened over the program; the
  time-out wraps at 4294968 seconds; some arguments do not survive the quoting.

  \<^bold>\<open>Parameters.\<close> Windows, DbgHelp, libdwarf, dwarfstack and the demangler are not part of
  src/src: they are fields of the records \<open>..._os\<close>, functions whose answers may depend on all
  effects so far where that matters. Theorems that need something of them name it as a hypothesis (for example
  that \<open>GetModuleFileNameW\<close> fills its buffer as documented), and each has an instance.

  \<^bold>\<open>Bounds and termination.\<close> Integers have their width and wrap. Loops are recursive
  functions with a termination proof where they end (the walk of the stack by its growing address, the search of
  the symbol table by its counter, which needs a file below 72 GB, the source window by the rest of the file).
  The recursion over debug links carries fuel: on a finite disk the number of its files is enough when no file
  comes twice in the chain of links from the image, and none suffices when one does. The calls of
  the option parser are counted, and as many as the arguments have characters and terminators are enough. The
  debugger loop runs over a list of events and \<open>main_loop_returns\<close> says when it returns; the buffer
  of \<open>GetModuleFileNameW\<close> doubles in a loop that may not return, so that the result is an option.

  \<^bold>\<open>Not modelled.\<close> The vendored libraries under src/thirdparty, apart from the option
  parser; the branches of the sources for 32-bit hosts, and for ARM64 outside the log; what Windows draws; a
  timer callback in the middle of the handling of an event (they are steps of their own, the code does not
  synchronize them); the C++ exceptions of an allocation that fails; samples, tests, resource scripts and build
  files.
\<close>

section \<open>From the log to addr2line\<close>

lemma offset_operand: "operand (W (''0x'' @ t))"
  by (simp add: operand_def char_at_def W_Cons)

text \<open>C19: a log leads back to the source: the offset that the stack trace logs for a frame without a symbol may be
  given to addr2line as it stands, together with the module; addr2line then succeeds, and answers for exactly
  the address at that distance from where it has the module.\<close>

theorem log_offset_resolves:
  assumes "GetSymFromAddr los h (pc + nudge) 512 = None"
    and "load_module os m \<noteq> 0" and "InitializeSym os (ad_GetCurrentProcess os) False = Inr True"
  shows "\<exists>offset st'. frame_symbol los h hModule pc nudge = Inr ([W ''!'' @ offset], None) \<and>
    addr2line_wmain os posix [prog, W ''-e'', m, W ''-f'', offset] st = Some (Inr (0, st')) \<and>
    stdout st' = stdout st @ answer os (f_settings m) (module_base (load_module os m) + (pc - hModule))"
proof -
  let ?offset = "W (''0x'' @ fmt_x 0 (pc - hModule))"
  have "szModule (f_settings m) = Some m"
    by (simp add: f_settings_def)
  moreover have "list_all operand [?offset]"
    by (simp only: list.pred_inject offset_operand simp_thms)
  ultimately have "addr2line_wmain os posix (prog # concat (map spelt (f_options m)) @ [?offset]) st =
      Some (addr2line_run os (f_settings m) m [?offset] st)"
    by (intro addr2line_reads_options f_options_legal f_options_read)
  moreover obtain st' where "addr2line_run os (f_settings m) m [?offset] st = Inr (0, st')"
    and "stdout st' = stdout st @ concat (map (\<lambda>arg. answer os (f_settings m)
      (module_base (load_module os m) + parse_address arg)) [?offset])"
    using addr2line_run_answers [OF assms(2,3)] by blast
  moreover have "frame_symbol los h hModule pc nudge = Inr ([W ''!'' @ ?offset], None)"
    using assms(1) by (simp add: frame_symbol_def W_def)
  moreover have "prog # concat (map spelt (f_options m)) @ [?offset] = [prog, W ''-e'', m, W ''-f'', ?offset]"
    by (simp add: W_Cons del: W_append)
  ultimately show ?thesis
    by (intro exI [of _ ?offset] exI [of _ st']) (simp only: list.map concat.simps append_Nil2 address_fmt_x)
qed

definition no_symbols :: log_os where
  "no_symbols = sample_log\<lparr>so_SymFromAddr := \<lambda>_ _. None\<rparr>"

theorem log_offset_resolves_witness:
  "\<exists>offset st'. frame_symbol no_symbols 1 0x400000 0x401234 (- 1) = Inr ([W ''!'' @ offset], None) \<and>
     addr2line_wmain sample_addr False [W ''addr2line'', W ''-e'', W ''a.exe'', W ''-f'', offset] addr_state_start =
       Some (Inr (0, st')) \<and> stdout st' = [[102, 111, 111], [NL], W ''??:?'' @ [NL]]"
proof -
  have none: "GetSymFromAddr no_symbols 1 (0x401234 + - 1) 512 = None" and start: "stdout addr_state_start = []"
    by (simp_all add: GetSymFromAddr_def no_symbols_def addr_state_start_def)
  have "load_module sample_addr (W ''a.exe'') \<noteq> 0"
    by (simp add: sample_loads)
  from log_offset_resolves [OF none this sample_loads(2), of "0x400000" False "W ''addr2line''" addr_state_start]
  show ?thesis
    by (simp only: start f_settings_def sample_answer append_Nil)
qed

end
